(* ===== verification/Prelude.thy ===== *)
theory Prelude
  imports Main "HOL-Library.AList" "HOL-Library.Multiset" "HOL-Library.List_Lexorder" "HOL-Library.Char_ord"
begin

text \<open>
  What every theory of the development shares: the collections of simplification rules, Go's
  decimal formatting, prefix tests on strings, and lemmas on association lists (the model of
  a Go map whose entries are read back in an arbitrary order) and on permutations of keys.
\<close>

named_theorems go_defs \<open>definitions of the small Go helpers, unfolded by the proofs that run code\<close>
named_theorems io_rules \<open>how each kind of effect behaves under the relations of theory Effects\<close>
named_theorems phase_consts \<open>the status phases, as the strings of the source\<close>
named_theorems trace_simps \<open>projections of event traces\<close>

subsection \<open>Decimal formatting (fmt's verb d)\<close>

definition digit_char :: "nat \<Rightarrow> char" where
  "digit_char n = char_of (48 + n mod 10)"

fun nat_text :: "nat \<Rightarrow> string" where
  "nat_text n = (if n < 10 then [digit_char n] else nat_text (n div 10) @ [digit_char (n mod 10)])"

declare nat_text.simps [simp del]

definition int_text :: "int \<Rightarrow> string" where
  "int_text i = (if i < 0 then ''-'' @ nat_text (nat (- i)) else nat_text (nat i))"

lemma nat_text_small [simp]: "n < 10 \<Longrightarrow> nat_text n = [digit_char n]"
  by (subst nat_text.simps) simp

lemma nat_text_step: "10 \<le> n \<Longrightarrow> nat_text n = nat_text (n div 10) @ [digit_char (n mod 10)]"
  by (subst nat_text.simps) simp

lemma nat_text_nonempty [simp]: "nat_text n \<noteq> []"
  by (subst nat_text.simps) simp

subsection \<open>Lists\<close>

fun starts_with :: "'a list \<Rightarrow> 'a list \<Rightarrow> bool" where
  "starts_with [] ys = True"
| "starts_with (x # xs) [] = False"
| "starts_with (x # xs) (y # ys) = (x = y \<and> starts_with xs ys)"

lemma starts_with_iff: "starts_with xs ys \<longleftrightarrow> (\<exists>zs. ys = xs @ zs)"
  by (induction xs ys rule: starts_with.induct) auto

lemma starts_with_append [simp, intro]: "starts_with xs (xs @ ys)"
  by (auto simp: starts_with_iff)

lemma starts_with_trans: "starts_with xs ys \<Longrightarrow> starts_with ys zs \<Longrightarrow> starts_with xs zs"
  by (auto simp: starts_with_iff)

lemma list_all_append_iff [simp]:
  "list_all P (xs @ ys) \<longleftrightarrow> list_all P xs \<and> list_all P ys"
  by (induction xs) auto

subsection \<open>Go maps as association lists\<close>

text \<open>
  A Go map is an association list without duplicate keys. A store replaces the value of a key
  in place or adds the key, which is \<^theory_text>\<open>AList.update\<close>; a read is \<^theory_text>\<open>map_of\<close>. The order
  of the list carries no meaning: every loop over a map asks the environment for an order.
\<close>

lemma keys_update: "fst ` set (AList.update k v m) = insert k (fst ` set m)"
  by (induction m) auto

lemma distinct_update [simp]:
  "distinct (map fst m) \<Longrightarrow> distinct (map fst (AList.update k v m))"
  by (rule distinct_update)

lemma map_of_update [simp]: "map_of (AList.update k v m) x = (if x = k then Some v else map_of m x)"
  by (simp add: update_conv')

lemma map_of_in_keys: "(\<exists>v. map_of m k = Some v) \<longleftrightarrow> k \<in> fst ` set m"
  by (metis domIff dom_map_of_conv_image_fst not_Some_eq)

end
