(* ===== verification/GoError.thy ===== *)
theory GoError
  imports Prelude
begin

text \<open>
  Go's error values, as the operator makes and inspects them. A function of the source that
  returns a value and an error is a function into \<^theory_text>\<open>'a result\<close>: the left injection is
  a non-nil error, the right one the value with a nil error. A function that only returns an
  error is a function into \<^theory_text>\<open>unit result\<close>.
\<close>

datatype error =
    StatusError (reason: string) (message: string)
  | ErrorString string
  | WithMessage string error

type_synonym 'a result = "error + 'a"

text \<open>
  The method Error: a status error of the API server prints its message, errors.New and
  fmt.Errorf make a plain string, errors.Wrap and errors.Wrapf put a message in front of the
  cause.
\<close>

primrec error_text :: "error \<Rightarrow> string" where
  "error_text (StatusError r m) = m"
| "error_text (ErrorString s) = s"
| "error_text (WithMessage m e) = m @ '': '' @ error_text e"

text \<open>
  k8serrors.IsNotFound looks at the reason of a status error and at nothing else: a wrapped or
  formatted error is never "not found".
\<close>

fun IsNotFound :: "error \<Rightarrow> bool" where
  "IsNotFound (StatusError r m) = (r = ''NotFound'')"
| "IsNotFound _ = False"

definition NewNotFound :: "string \<Rightarrow> error" where
  "NewNotFound name = StatusError ''NotFound'' (name @ '' not found'')"

lemma IsNotFound_NewNotFound [simp]: "IsNotFound (NewNotFound n)"
  by (simp add: NewNotFound_def)

definition nil_error :: "unit result" where
  [simp]: "nil_error = Inr ()"

end
