(* ===== verification/ApiTypes.thy ===== *)
theory ApiTypes
  imports GoError
begin

text \<open>
  The custom resources of pkg/apis/rhpam/v1alpha1 and the parts of the Kubernetes object model
  the operator reads or writes. A Go struct is a record with the fields of the struct, each
  prefixed by a short name of the struct; a slice of pointers is a list of options, so that a
  nil element is a value of the model.
\<close>

subsection \<open>Kubernetes metadata\<close>

record TypeMeta =
  tm_Kind :: string
  tm_APIVersion :: string

record OwnerReference =
  or_APIVersion :: string
  or_Kind :: string
  or_Name :: string
  or_UID :: string
  or_Controller :: "bool option"
  or_BlockOwnerDeletion :: "bool option"

record ObjectMeta =
  om_Name :: string
  om_Namespace :: string
  om_UID :: string
  om_ResourceVersion :: string
  om_Labels :: "(string \<times> string) list"
  om_Finalizers :: "string list"
  om_OwnerReferences :: "OwnerReference list"
  om_DeletionTimestamp :: "string option"

record NamespacedName =
  nn_Namespace :: string
  nn_Name :: string

definition empty_ObjectMeta :: ObjectMeta where
  "empty_ObjectMeta = \<lparr>om_Name = '''', om_Namespace = '''', om_UID = '''', om_ResourceVersion = '''',
     om_Labels = [], om_Finalizers = [], om_OwnerReferences = [], om_DeletionTimestamp = None\<rparr>"

subsection \<open>types.go: the phases\<close>

type_synonym StatusPhase = string

definition RhpamFinalizer :: string where
  "RhpamFinalizer = ''finalizer.rhpam''"

definition NoPhase :: StatusPhase where
  [phase_consts]: "NoPhase = ''''"
definition PhaseInitialized :: StatusPhase where
  [phase_consts]: "PhaseInitialized = ''initialized''"
definition PhaseAccepted :: StatusPhase where
  [phase_consts]: "PhaseAccepted = ''accepted''"
definition PhaseRealmProvisioning :: StatusPhase where
  [phase_consts]: "PhaseRealmProvisioning = ''realm provisioning''"
definition PhaseRealmProvisioned :: StatusPhase where
  [phase_consts]: "PhaseRealmProvisioned = ''realm provisioned''"
definition PhasePrepare :: StatusPhase where
  [phase_consts]: "PhasePrepare = ''prepare provisioning''"
definition PhasePrepared :: StatusPhase where
  [phase_consts]: "PhasePrepared = ''prepared''"
definition PhaseDatabaseInstalled :: StatusPhase where
  [phase_consts]: "PhaseDatabaseInstalled = ''database installed''"
definition PhaseBusinessCentralInstalled :: StatusPhase where
  [phase_consts]: "PhaseBusinessCentralInstalled = ''business central installed''"
definition PhaseDatabaseReady :: StatusPhase where
  [phase_consts]: "PhaseDatabaseReady = ''database ready''"
definition PhaseKieServerInstalled :: StatusPhase where
  [phase_consts]: "PhaseKieServerInstalled = ''kie server installed''"
definition PhaseReconcile :: StatusPhase where
  [phase_consts]: "PhaseReconcile = ''reconcile''"
definition PhaseComplete :: StatusPhase where
  [phase_consts]: "PhaseComplete = ''complete''"
definition PhaseDeprovisioned :: StatusPhase where
  [phase_consts]: "PhaseDeprovisioned = ''deprovisioned''"
definition PhaseDeprovisionFailed :: StatusPhase where
  [phase_consts]: "PhaseDeprovisionFailed = ''deprovision failed''"

text \<open>The fifteen phases are pairwise different, so a switch on them has one matching case.\<close>

definition all_phases :: "StatusPhase list" where
  "all_phases = [NoPhase, PhaseInitialized, PhaseAccepted, PhaseRealmProvisioning,
     PhaseRealmProvisioned, PhasePrepare, PhasePrepared, PhaseDatabaseInstalled,
     PhaseBusinessCentralInstalled, PhaseDatabaseReady, PhaseKieServerInstalled,
     PhaseReconcile, PhaseComplete, PhaseDeprovisioned, PhaseDeprovisionFailed]"

lemma distinct_all_phases: "distinct all_phases"
  by (simp add: all_phases_def phase_consts)

subsection \<open>rhpamdev\_types.go\<close>

record RhpamDatabaseConfig =
  dbc_PersistentVolumeCapacity :: string
  dbc_MaxConnections :: string
  dbc_SharedBuffers :: string
  dbc_MaxPreparedTransactions :: string
  dbc_MemoryLimit :: string

record RhpamBusinessCentralConfig =
  bcc_PersistentVolumeCapacity :: string
  bcc_CpuRequest :: string
  bcc_CpuLimit :: string
  bcc_MemoryRequest :: string
  bcc_MemoryLimit :: string
  bcc_GcMaxMetaSize :: string
  bcc_KieMBeans :: string
  bcc_JavaOptsAppend :: string

record RhpamKieServerConfig =
  ksc_CpuRequest :: string
  ksc_CpuLimit :: string
  ksc_MemoryRequest :: string
  ksc_MemoryLimit :: string
  ksc_GcMaxMetaSize :: string
  ksc_KieMBeans :: string
  ksc_KieServerId :: string
  ksc_DroolsFilterClasses :: string
  ksc_BypassAuthUser :: string

record RhpamConfig =
  cfg_DatabaseConfig :: RhpamDatabaseConfig
  cfg_BusinessCentralConfig :: RhpamBusinessCentralConfig
  cfg_KieServerConfig :: RhpamKieServerConfig

record RhpamDevSpec =
  ds_Domain :: string
  ds_Config :: RhpamConfig

record RhpamDevStatus =
  dst_Phase :: StatusPhase
  dst_Version :: string
  dst_Realm :: string

record RhpamDev =
  dev_TypeMeta :: TypeMeta
  dev_ObjectMeta :: ObjectMeta
  dev_Spec :: RhpamDevSpec
  dev_Status :: RhpamDevStatus

text \<open>Both methods of RhpamDev are stubs: no default is filled in and nothing is rejected.\<close>

definition Defaults :: "RhpamDev \<Rightarrow> RhpamDev" where
  [go_defs]: "Defaults r = r"

definition Validate :: "RhpamDev \<Rightarrow> unit result" where
  [go_defs]: "Validate r = Inr ()"

subsection \<open>rhpamuser\_types.go\<close>

record Role =
  role_Name :: string

record User =
  user_Username :: string
  user_Password :: string
  user_Roles :: "string list"

record RhpamUserSpec =
  us_Roles :: "Role option list"
  us_Users :: "User option list"

record RhpamUserStatus =
  ust_Phase :: StatusPhase
  ust_Realm :: string

record RhpamUser =
  ru_TypeMeta :: TypeMeta
  ru_ObjectMeta :: ObjectMeta
  ru_Spec :: RhpamUserSpec
  ru_Status :: RhpamUserStatus

text \<open>Readings and writings of nested fields, as the source's selector expressions.\<close>

abbreviation dev_Name :: "RhpamDev \<Rightarrow> string" where
  "dev_Name d \<equiv> om_Name (dev_ObjectMeta d)"
abbreviation dev_Namespace :: "RhpamDev \<Rightarrow> string" where
  "dev_Namespace d \<equiv> om_Namespace (dev_ObjectMeta d)"
abbreviation dev_Phase :: "RhpamDev \<Rightarrow> StatusPhase" where
  "dev_Phase d \<equiv> dst_Phase (dev_Status d)"
abbreviation dev_Realm :: "RhpamDev \<Rightarrow> string" where
  "dev_Realm d \<equiv> dst_Realm (dev_Status d)"
abbreviation ru_Namespace :: "RhpamUser \<Rightarrow> string" where
  "ru_Namespace u \<equiv> om_Namespace (ru_ObjectMeta u)"
abbreviation ru_Phase :: "RhpamUser \<Rightarrow> StatusPhase" where
  "ru_Phase u \<equiv> ust_Phase (ru_Status u)"
abbreviation ru_Realm :: "RhpamUser \<Rightarrow> string" where
  "ru_Realm u \<equiv> ust_Realm (ru_Status u)"

definition set_dev_phase :: "StatusPhase \<Rightarrow> RhpamDev \<Rightarrow> RhpamDev" where
  "set_dev_phase p d = d\<lparr>dev_Status := (dev_Status d)\<lparr>dst_Phase := p\<rparr>\<rparr>"
definition set_dev_version :: "string \<Rightarrow> RhpamDev \<Rightarrow> RhpamDev" where
  "set_dev_version v d = d\<lparr>dev_Status := (dev_Status d)\<lparr>dst_Version := v\<rparr>\<rparr>"
definition set_dev_realm :: "string \<Rightarrow> RhpamDev \<Rightarrow> RhpamDev" where
  "set_dev_realm v d = d\<lparr>dev_Status := (dev_Status d)\<lparr>dst_Realm := v\<rparr>\<rparr>"
definition set_dev_finalizers :: "string list \<Rightarrow> RhpamDev \<Rightarrow> RhpamDev" where
  "set_dev_finalizers fs d = d\<lparr>dev_ObjectMeta := (dev_ObjectMeta d)\<lparr>om_Finalizers := fs\<rparr>\<rparr>"
definition set_user_phase :: "StatusPhase \<Rightarrow> RhpamUser \<Rightarrow> RhpamUser" where
  "set_user_phase p u = u\<lparr>ru_Status := (ru_Status u)\<lparr>ust_Phase := p\<rparr>\<rparr>"
definition set_user_realm :: "string \<Rightarrow> RhpamUser \<Rightarrow> RhpamUser" where
  "set_user_realm v u = u\<lparr>ru_Status := (ru_Status u)\<lparr>ust_Realm := v\<rparr>\<rparr>"
definition set_user_finalizers :: "string list \<Rightarrow> RhpamUser \<Rightarrow> RhpamUser" where
  "set_user_finalizers fs u = u\<lparr>ru_ObjectMeta := (ru_ObjectMeta u)\<lparr>om_Finalizers := fs\<rparr>\<rparr>"

lemmas setter_defs = set_dev_phase_def set_dev_version_def set_dev_realm_def
  set_dev_finalizers_def set_user_phase_def set_user_realm_def set_user_finalizers_def

lemma set_dev_phase_simps [simp]:
  "dev_Status (set_dev_phase p d) = (dev_Status d)\<lparr>dst_Phase := p\<rparr>"
  "dev_ObjectMeta (set_dev_phase p d) = dev_ObjectMeta d"
  "dev_Spec (set_dev_phase p d) = dev_Spec d"
  "dev_TypeMeta (set_dev_phase p d) = dev_TypeMeta d"
  by (simp_all add: setter_defs)

lemma set_dev_version_simps [simp]:
  "dev_Status (set_dev_version p d) = (dev_Status d)\<lparr>dst_Version := p\<rparr>"
  "dev_ObjectMeta (set_dev_version p d) = dev_ObjectMeta d"
  "dev_Spec (set_dev_version p d) = dev_Spec d"
  "dev_TypeMeta (set_dev_version p d) = dev_TypeMeta d"
  by (simp_all add: setter_defs)

lemma set_dev_realm_simps [simp]:
  "dev_Status (set_dev_realm p d) = (dev_Status d)\<lparr>dst_Realm := p\<rparr>"
  "dev_ObjectMeta (set_dev_realm p d) = dev_ObjectMeta d"
  "dev_Spec (set_dev_realm p d) = dev_Spec d"
  "dev_TypeMeta (set_dev_realm p d) = dev_TypeMeta d"
  by (simp_all add: setter_defs)

lemma set_dev_finalizers_simps [simp]:
  "dev_Status (set_dev_finalizers fs d) = dev_Status d"
  "dev_ObjectMeta (set_dev_finalizers fs d) = (dev_ObjectMeta d)\<lparr>om_Finalizers := fs\<rparr>"
  "dev_Spec (set_dev_finalizers fs d) = dev_Spec d"
  "dev_TypeMeta (set_dev_finalizers fs d) = dev_TypeMeta d"
  by (simp_all add: setter_defs)

lemma set_user_phase_simps [simp]:
  "ru_Status (set_user_phase p u) = (ru_Status u)\<lparr>ust_Phase := p\<rparr>"
  "ru_ObjectMeta (set_user_phase p u) = ru_ObjectMeta u"
  "ru_Spec (set_user_phase p u) = ru_Spec u"
  "ru_TypeMeta (set_user_phase p u) = ru_TypeMeta u"
  by (simp_all add: setter_defs)

lemma set_user_realm_simps [simp]:
  "ru_Status (set_user_realm p u) = (ru_Status u)\<lparr>ust_Realm := p\<rparr>"
  "ru_ObjectMeta (set_user_realm p u) = ru_ObjectMeta u"
  "ru_Spec (set_user_realm p u) = ru_Spec u"
  "ru_TypeMeta (set_user_realm p u) = ru_TypeMeta u"
  by (simp_all add: setter_defs)

lemma set_user_finalizers_simps [simp]:
  "ru_Status (set_user_finalizers fs u) = ru_Status u"
  "ru_ObjectMeta (set_user_finalizers fs u) = (ru_ObjectMeta u)\<lparr>om_Finalizers := fs\<rparr>"
  "ru_Spec (set_user_finalizers fs u) = ru_Spec u"
  "ru_TypeMeta (set_user_finalizers fs u) = ru_TypeMeta u"
  by (simp_all add: setter_defs)

subsection \<open>The other objects the operator touches\<close>

text \<open>
  Secrets, config maps, deployment configs and the objects made from the YAML templates. The
  metadata is common; the payload is what the operator writes (the data of a secret or of a
  config map), reads (the number of ready replicas of a deployment config, the data of the
  SSO secret) or passes through (everything else, as one opaque text).
\<close>

datatype payload =
    SecretData "(string \<times> string) list" string
  | ConfigMapData "(string \<times> string) list"
  | DeploymentConfigStatus int
  | Unstructured string

record Object =
  ob_TypeMeta :: TypeMeta
  ob_ObjectMeta :: ObjectMeta
  ob_Payload :: payload

definition object_key :: "Object \<Rightarrow> NamespacedName" where
  "object_key ob = \<lparr>nn_Namespace = om_Namespace (ob_ObjectMeta ob), nn_Name = om_Name (ob_ObjectMeta ob)\<rparr>"

text \<open>A key missing from the data of a secret reads as the nil byte slice, the empty string.\<close>

fun secret_data :: "payload \<Rightarrow> string \<Rightarrow> string" where
  "secret_data (SecretData d t) k = (case map_of d k of None \<Rightarrow> '''' | Some v \<Rightarrow> v)"
| "secret_data _ k = ''''"

text \<open>A deployment config without a status reads as the zero value.\<close>

fun ready_replicas :: "payload \<Rightarrow> int" where
  "ready_replicas (DeploymentConfigStatus n) = n"
| "ready_replicas _ = 0"

end
