(* ===== verification/Effects.thy ===== *)
theory Effects
  imports ApiTypes
begin

text \<open>
  The interactions of the operator with everything that is not its own code, and what it
  means to run code that interacts.

  A function of the source that reads the process environment, a file, the clock or the random
  source, ranges over a Go map, sends an HTTP request or calls the Kubernetes client is a
  value of the type \<^theory_text>\<open>'a io\<close>: a tree whose inner nodes are calls, with one subtree for
  every answer, and whose leaves are results. The tree is the code; what answers the calls is
  not part of it. Two readings of a tree are defined here:
  \<^item> \<^theory_text>\<open>runs\<close>: the relation between the code, a finite trace of calls with their answers,
    and the outcome. It says what the code can do against any environment whatever
    (another controller acting in between, a failing server, a conflicting write), so a
    theorem over all runs needs no assumption on the environment;
  \<^item> \<^theory_text>\<open>exec\<close>: the code run against one environment, a record of state transformers over
    a world type. It is used where the environment's documented behaviour matters, and to
    evaluate examples.
  Two effects carry a law of the Go runtime: rand.Intn n answers below n, and a loop over a map
  visits each key once, in an order the runtime chooses.
\<close>

subsection \<open>HTTP requests and responses\<close>

record Request =
  rq_Method :: string
  rq_URL :: string
  rq_Header :: "(string \<times> string) list"
  rq_Body :: "string option"

record Response =
  rs_StatusCode :: int
  rs_Status :: string

subsection \<open>Trees of effects\<close>

datatype 'a io =
    Return 'a
  | Panic string
  | LookupEnv string "string option \<Rightarrow> 'a io"
  | ReadFile string "string result \<Rightarrow> 'a io"
  | TimeNow "int \<Rightarrow> 'a io"
  | RandSeed int "'a io"
  | RandIntn nat "nat \<Rightarrow> 'a io"
  | RangeOrder "string list" "string list \<Rightarrow> 'a io"
  | NewRequest string string "unit result \<Rightarrow> 'a io"
  | HttpDo Request "Response result \<Rightarrow> 'a io"
  | ReadBody "string result \<Rightarrow> 'a io"
  | CloseBody "'a io"
  | YamlUnmarshal string "Object result \<Rightarrow> 'a io"
  | GetRhpamDev NamespacedName "RhpamDev result \<Rightarrow> 'a io"
  | GetRhpamUser NamespacedName "RhpamUser result \<Rightarrow> 'a io"
  | GetObject TypeMeta NamespacedName "Object result \<Rightarrow> 'a io"
  | ListRhpamDev string "RhpamDev list result \<Rightarrow> 'a io"
  | ListRhpamUser string "RhpamUser list result \<Rightarrow> 'a io"
  | UpdateRhpamDev RhpamDev "RhpamDev result \<Rightarrow> 'a io"
  | UpdateRhpamUser RhpamUser "RhpamUser result \<Rightarrow> 'a io"
  | CreateObject Object "Object result \<Rightarrow> 'a io"
  | DeleteObject TypeMeta NamespacedName "unit result \<Rightarrow> 'a io"

text \<open>A call with its answer.\<close>

datatype event =
    ELookupEnv string "string option"
  | EReadFile string "string result"
  | ETimeNow int
  | ERandSeed int
  | ERandIntn nat nat
  | ERangeOrder "string list" "string list"
  | ENewRequest string string "unit result"
  | EHttpDo Request "Response result"
  | EReadBody "string result"
  | ECloseBody
  | EYamlUnmarshal string "Object result"
  | EGetRhpamDev NamespacedName "RhpamDev result"
  | EGetRhpamUser NamespacedName "RhpamUser result"
  | EGetObject TypeMeta NamespacedName "Object result"
  | EListRhpamDev string "RhpamDev list result"
  | EListRhpamUser string "RhpamUser list result"
  | EUpdateRhpamDev RhpamDev "RhpamDev result"
  | EUpdateRhpamUser RhpamUser "RhpamUser result"
  | ECreateObject Object "Object result"
  | EDeleteObject TypeMeta NamespacedName "unit result"

text \<open>
  What a run ends in: a value, or a Go panic (a nil dereference or a failed type assertion).
\<close>

datatype 'a outcome = Done 'a | Panicked string

subsection \<open>Sequencing\<close>

primrec bind :: "'a io \<Rightarrow> ('a \<Rightarrow> 'b io) \<Rightarrow> 'b io" where
  "bind (Return a) g = g a"
| "bind (Panic s) g = Panic s"

| "bind (LookupEnv x f) g = LookupEnv x (\<lambda>r. bind (f r) g)"
| "bind (ReadFile x f) g = ReadFile x (\<lambda>r. bind (f r) g)"
| "bind (TimeNow f) g = TimeNow (\<lambda>r. bind (f r) g)"
| "bind (RandSeed x m) g = RandSeed x (bind m g)"
| "bind (RandIntn x f) g = RandIntn x (\<lambda>r. bind (f r) g)"
| "bind (RangeOrder x f) g = RangeOrder x (\<lambda>r. bind (f r) g)"
| "bind (NewRequest x y f) g = NewRequest x y (\<lambda>r. bind (f r) g)"
| "bind (HttpDo x f) g = HttpDo x (\<lambda>r. bind (f r) g)"
| "bind (ReadBody f) g = ReadBody (\<lambda>r. bind (f r) g)"
| "bind (CloseBody m) g = CloseBody (bind m g)"
| "bind (YamlUnmarshal x f) g = YamlUnmarshal x (\<lambda>r. bind (f r) g)"
| "bind (GetRhpamDev x f) g = GetRhpamDev x (\<lambda>r. bind (f r) g)"
| "bind (GetRhpamUser x f) g = GetRhpamUser x (\<lambda>r. bind (f r) g)"
| "bind (GetObject x y f) g = GetObject x y (\<lambda>r. bind (f r) g)"
| "bind (ListRhpamDev x f) g = ListRhpamDev x (\<lambda>r. bind (f r) g)"
| "bind (ListRhpamUser x f) g = ListRhpamUser x (\<lambda>r. bind (f r) g)"
| "bind (UpdateRhpamDev x f) g = UpdateRhpamDev x (\<lambda>r. bind (f r) g)"
| "bind (UpdateRhpamUser x f) g = UpdateRhpamUser x (\<lambda>r. bind (f r) g)"
| "bind (CreateObject x f) g = CreateObject x (\<lambda>r. bind (f r) g)"
| "bind (DeleteObject x y f) g = DeleteObject x y (\<lambda>r. bind (f r) g)"

lemma bind_Return [simp]: "bind m Return = m"
  by (induction m) auto

lemma bind_assoc [simp]: "bind (bind m f) g = bind m (\<lambda>a. bind (f a) g)"
  by (induction m) auto

text \<open>
  The two idioms of error handling of the source. \<^theory_text>\<open>check m k\<close> is
  \<^verbatim>\<open>x, err := m; if err != nil { return ..., err }; k\<close>, and
  \<^theory_text>\<open>check_err h m k\<close> returns \<^theory_text>\<open>h err\<close> instead, for the branches that
  wrap or reformat the error.
\<close>

definition check_err :: "(error \<Rightarrow> error) \<Rightarrow> 'a result io \<Rightarrow> ('a \<Rightarrow> 'b result io) \<Rightarrow> 'b result io" where
  "check_err h m k = bind m (\<lambda>r. case r of Inl e \<Rightarrow> Return (Inl (h e)) | Inr x \<Rightarrow> k x)"

abbreviation check :: "'a result io \<Rightarrow> ('a \<Rightarrow> 'b result io) \<Rightarrow> 'b result io" where
  "check \<equiv> check_err (\<lambda>e. e)"

text \<open>A loop whose body may return an error: the first error ends the loop.\<close>

primrec for_each :: "'a list \<Rightarrow> ('a \<Rightarrow> unit result io) \<Rightarrow> unit result io" where
  "for_each [] f = Return (Inr ())"
| "for_each (x # xs) f = check (f x) (\<lambda>_. for_each xs f)"

text \<open>The selector of a pointer: a nil pointer panics.\<close>

definition deref :: "'a option \<Rightarrow> ('a \<Rightarrow> 'b io) \<Rightarrow> 'b io" where
  "deref p k = (case p of None \<Rightarrow> Panic ''invalid memory address or nil pointer dereference'' | Some x \<Rightarrow> k x)"

lemma deref_simps [simp]:
  "deref None k = Panic ''invalid memory address or nil pointer dereference''"
  "deref (Some x) k = k x"
  by (simp_all add: deref_def)

text \<open>os.Getenv reads an unset variable as the empty string.\<close>

definition Getenv :: "string \<Rightarrow> (string \<Rightarrow> 'a io) \<Rightarrow> 'a io" where
  "Getenv x k = LookupEnv x (\<lambda>v. k (case v of None \<Rightarrow> '''' | Some s \<Rightarrow> s))"

subsection \<open>All runs\<close>

inductive runs :: "'a io \<Rightarrow> event list \<Rightarrow> 'a outcome \<Rightarrow> bool" where
  runs_Return: "runs (Return a) [] (Done a)"
| runs_Panic: "runs (Panic s) [] (Panicked s)"

| runs_LookupEnv: "runs (f r) tr out \<Longrightarrow> runs (LookupEnv x f) (ELookupEnv x r # tr) out"
| runs_ReadFile: "runs (f r) tr out \<Longrightarrow> runs (ReadFile x f) (EReadFile x r # tr) out"
| runs_TimeNow: "runs (f r) tr out \<Longrightarrow> runs (TimeNow f) (ETimeNow r # tr) out"
| runs_RandSeed: "runs m tr out \<Longrightarrow> runs (RandSeed x m) ((ERandSeed x) # tr) out"
| runs_RandIntn: "(0 < x \<longrightarrow> r < x) \<Longrightarrow> runs (f r) tr out \<Longrightarrow> runs (RandIntn x f) (ERandIntn x r # tr) out"
| runs_RangeOrder: "mset r = mset x \<Longrightarrow> runs (f r) tr out \<Longrightarrow> runs (RangeOrder x f) (ERangeOrder x r # tr) out"
| runs_NewRequest: "runs (f r) tr out \<Longrightarrow> runs (NewRequest x y f) (ENewRequest x y r # tr) out"
| runs_HttpDo: "runs (f r) tr out \<Longrightarrow> runs (HttpDo x f) (EHttpDo x r # tr) out"
| runs_ReadBody: "runs (f r) tr out \<Longrightarrow> runs (ReadBody f) (EReadBody r # tr) out"
| runs_CloseBody: "runs m tr out \<Longrightarrow> runs (CloseBody m) ((ECloseBody) # tr) out"
| runs_YamlUnmarshal: "runs (f r) tr out \<Longrightarrow> runs (YamlUnmarshal x f) (EYamlUnmarshal x r # tr) out"
| runs_GetRhpamDev: "runs (f r) tr out \<Longrightarrow> runs (GetRhpamDev x f) (EGetRhpamDev x r # tr) out"
| runs_GetRhpamUser: "runs (f r) tr out \<Longrightarrow> runs (GetRhpamUser x f) (EGetRhpamUser x r # tr) out"
| runs_GetObject: "runs (f r) tr out \<Longrightarrow> runs (GetObject x y f) (EGetObject x y r # tr) out"
| runs_ListRhpamDev: "runs (f r) tr out \<Longrightarrow> runs (ListRhpamDev x f) (EListRhpamDev x r # tr) out"
| runs_ListRhpamUser: "runs (f r) tr out \<Longrightarrow> runs (ListRhpamUser x f) (EListRhpamUser x r # tr) out"
| runs_UpdateRhpamDev: "runs (f r) tr out \<Longrightarrow> runs (UpdateRhpamDev x f) (EUpdateRhpamDev x r # tr) out"
| runs_UpdateRhpamUser: "runs (f r) tr out \<Longrightarrow> runs (UpdateRhpamUser x f) (EUpdateRhpamUser x r # tr) out"
| runs_CreateObject: "runs (f r) tr out \<Longrightarrow> runs (CreateObject x f) (ECreateObject x r # tr) out"
| runs_DeleteObject: "runs (f r) tr out \<Longrightarrow> runs (DeleteObject x y f) (EDeleteObject x y r # tr) out"

inductive_simps runs_Return_iff [simp, io_rules]: "runs (Return a) tr out"
inductive_simps runs_Panic_iff [simp, io_rules]: "runs (Panic s) tr out"
inductive_simps runs_LookupEnv_iff [simp, io_rules]: "runs (LookupEnv x f) tr out"
inductive_simps runs_ReadFile_iff [simp, io_rules]: "runs (ReadFile x f) tr out"
inductive_simps runs_TimeNow_iff [simp, io_rules]: "runs (TimeNow f) tr out"
inductive_simps runs_RandSeed_iff [simp, io_rules]: "runs (RandSeed x m) tr out"
inductive_simps runs_RandIntn_iff [simp, io_rules]: "runs (RandIntn x f) tr out"
inductive_simps runs_RangeOrder_iff [simp, io_rules]: "runs (RangeOrder x f) tr out"
inductive_simps runs_NewRequest_iff [simp, io_rules]: "runs (NewRequest x y f) tr out"
inductive_simps runs_HttpDo_iff [simp, io_rules]: "runs (HttpDo x f) tr out"
inductive_simps runs_ReadBody_iff [simp, io_rules]: "runs (ReadBody f) tr out"
inductive_simps runs_CloseBody_iff [simp, io_rules]: "runs (CloseBody m) tr out"
inductive_simps runs_YamlUnmarshal_iff [simp, io_rules]: "runs (YamlUnmarshal x f) tr out"
inductive_simps runs_GetRhpamDev_iff [simp, io_rules]: "runs (GetRhpamDev x f) tr out"
inductive_simps runs_GetRhpamUser_iff [simp, io_rules]: "runs (GetRhpamUser x f) tr out"
inductive_simps runs_GetObject_iff [simp, io_rules]: "runs (GetObject x y f) tr out"
inductive_simps runs_ListRhpamDev_iff [simp, io_rules]: "runs (ListRhpamDev x f) tr out"
inductive_simps runs_ListRhpamUser_iff [simp, io_rules]: "runs (ListRhpamUser x f) tr out"
inductive_simps runs_UpdateRhpamDev_iff [simp, io_rules]: "runs (UpdateRhpamDev x f) tr out"
inductive_simps runs_UpdateRhpamUser_iff [simp, io_rules]: "runs (UpdateRhpamUser x f) tr out"
inductive_simps runs_CreateObject_iff [simp, io_rules]: "runs (CreateObject x f) tr out"
inductive_simps runs_DeleteObject_iff [simp, io_rules]: "runs (DeleteObject x y f) tr out"

lemma runs_bindI:
  "runs m tr1 (Done a) \<Longrightarrow> runs (g a) tr2 out \<Longrightarrow> runs (bind m g) (tr1 @ tr2) out"
proof (induction m arbitrary: tr1)
qed auto

lemma runs_bind_panicI: "runs m tr (Panicked s) \<Longrightarrow> runs (bind m g) tr (Panicked s)"
proof (induction m arbitrary: tr)
qed auto

definition bind_split :: "'a io \<Rightarrow> ('a \<Rightarrow> 'b io) \<Rightarrow> event list \<Rightarrow> 'b outcome \<Rightarrow> bool" where
  "bind_split m g tr out \<longleftrightarrow>
     (\<exists>a tr1 tr2. runs m tr1 (Done a) \<and> runs (g a) tr2 out \<and> tr = tr1 @ tr2) \<or>
     (\<exists>s. runs m tr (Panicked s) \<and> out = Panicked s)"

lemma bind_split_Cons:
  assumes "bind_split m g tr out" and "\<And>tr1 o1. runs m tr1 o1 \<Longrightarrow> runs m' (ev # tr1) o1"
  shows "bind_split m' g (ev # tr) out"
  using assms unfolding bind_split_def by (metis append_Cons)

lemma runs_bindD: "runs (bind m g) tr out \<Longrightarrow> bind_split m g tr out"
proof (induction m arbitrary: tr)
  case (Return a)
  then show ?case by (auto simp: bind_split_def)
next
  case (Panic s)
  then show ?case by (auto simp: bind_split_def)
qed (auto, (rule bind_split_Cons, blast, simp)+)

lemma runs_bind_iff:
  "runs (bind m g) tr out \<longleftrightarrow>
     (\<exists>a tr1 tr2. runs m tr1 (Done a) \<and> runs (g a) tr2 out \<and> tr = tr1 @ tr2) \<or>
     (\<exists>s. runs m tr (Panicked s) \<and> out = Panicked s)"
  by (auto intro: runs_bindI runs_bind_panicI dest!: runs_bindD [unfolded bind_split_def])


lemma runs_check_err_iff:
  "runs (check_err h m k) tr out \<longleftrightarrow>
     (\<exists>x tr1 tr2. runs m tr1 (Done (Inr x)) \<and> runs (k x) tr2 out \<and> tr = tr1 @ tr2) \<or>
     (\<exists>e. runs m tr (Done (Inl e)) \<and> out = Done (Inl (h e))) \<or>
     (\<exists>s. runs m tr (Panicked s) \<and> out = Panicked s)"
  unfolding check_err_def runs_bind_iff
  by (auto split: sum.splits; metis append_Nil2 sum.exhaust)

lemma runs_bind_state_iff:
  "runs (bind m (\<lambda>(r, h). case r of Inl e \<Rightarrow> f e h | Inr x \<Rightarrow> g x h)) tr out \<longleftrightarrow>
     (\<exists>s. runs m tr (Panicked s) \<and> out = Panicked s) \<or>
     (\<exists>e h t1 t2. runs m t1 (Done (Inl e, h)) \<and> runs (f e h) t2 out \<and> tr = t1 @ t2) \<or>
     (\<exists>x h t1 t2. runs m t1 (Done (Inr x, h)) \<and> runs (g x h) t2 out \<and> tr = t1 @ t2)"
  unfolding runs_bind_iff by (auto; metis sum.exhaust sum.case)

text \<open>A run that succeeds went through every part.\<close>

lemma runs_bind_done_iff:
  "runs (bind m g) tr (Done b) \<longleftrightarrow>
     (\<exists>a t1 t2. runs m t1 (Done a) \<and> runs (g a) t2 (Done b) \<and> tr = t1 @ t2)"
  by (simp add: runs_bind_iff)

lemma runs_check_done_iff:
  "runs (check_err h m k) tr (Done (Inr y)) \<longleftrightarrow>
     (\<exists>x t1 t2. runs m t1 (Done (Inr x)) \<and> runs (k x) t2 (Done (Inr y)) \<and> tr = t1 @ t2)"
  by (simp add: runs_check_err_iff)

text \<open>A branch of the code, as the alternatives its runs have.\<close>

lemma runs_branch_iff:
  "runs (case r of Inl e \<Rightarrow> f e | Inr x \<Rightarrow> g x) tr out \<longleftrightarrow>
     (\<exists>e. r = Inl e \<and> runs (f e) tr out) \<or> (\<exists>x. r = Inr x \<and> runs (g x) tr out)"
  "runs (case p of None \<Rightarrow> m | Some y \<Rightarrow> h y) tr out \<longleftrightarrow>
     p = None \<and> runs m tr out \<or> (\<exists>y. p = Some y \<and> runs (h y) tr out)"
  "runs (if b then m else m') tr out \<longleftrightarrow> b \<and> runs m tr out \<or> \<not> b \<and> runs m' tr out"
  by (auto split: sum.splits option.splits)

subsection \<open>A logic of runs\<close>

text \<open>
  \<^theory_text>\<open>guarantees P m Q\<close>: in every run of \<^theory_text>\<open>m\<close>, every call with its answer satisfies
  \<^theory_text>\<open>P\<close>, and a value returned satisfies \<^theory_text>\<open>Q\<close>. The rules follow the shape of the
  code, so a property of every call of a handler is proved by going through its text.
\<close>

definition guarantees :: "(event \<Rightarrow> bool) \<Rightarrow> 'a io \<Rightarrow> ('a \<Rightarrow> bool) \<Rightarrow> bool" where
  "guarantees P m Q \<longleftrightarrow> (\<forall>tr out. runs m tr out \<longrightarrow> list_all P tr \<and> (\<forall>a. out = Done a \<longrightarrow> Q a))"

lemma guarantees_Return [simp]: "guarantees P (Return a) Q \<longleftrightarrow> Q a"
  by (auto simp: guarantees_def)

lemma guarantees_Panic [simp]: "guarantees P (Panic s) Q"
  by (auto simp: guarantees_def)

lemma guarantees_LookupEnv [intro!]:
  "(\<And>r. P (ELookupEnv x r) \<and> guarantees P (f r) Q) \<Longrightarrow> guarantees P (LookupEnv x f) Q"
  by (auto simp: guarantees_def)
lemma guarantees_ReadFile [intro!]:
  "(\<And>r. P (EReadFile x r) \<and> guarantees P (f r) Q) \<Longrightarrow> guarantees P (ReadFile x f) Q"
  by (auto simp: guarantees_def)
lemma guarantees_TimeNow [intro!]:
  "(\<And>r. P (ETimeNow r) \<and> guarantees P (f r) Q) \<Longrightarrow> guarantees P (TimeNow f) Q"
  by (auto simp: guarantees_def)
lemma guarantees_RandSeed [intro!]:
  "P (ERandSeed x) \<and> guarantees P m Q \<Longrightarrow> guarantees P (RandSeed x m) Q"
  by (auto simp: guarantees_def)
lemma guarantees_RandIntn [intro!]:
  "(\<And>r. (0 < x \<longrightarrow> r < x) \<Longrightarrow> P (ERandIntn x r) \<and> guarantees P (f r) Q) \<Longrightarrow> guarantees P (RandIntn x f) Q"
  by (auto simp: guarantees_def)
lemma guarantees_RangeOrder [intro!]:
  "(\<And>r. mset r = mset x \<Longrightarrow> P (ERangeOrder x r) \<and> guarantees P (f r) Q) \<Longrightarrow> guarantees P (RangeOrder x f) Q"
  by (auto simp: guarantees_def)
lemma guarantees_NewRequest [intro!]:
  "(\<And>r. P (ENewRequest x y r) \<and> guarantees P (f r) Q) \<Longrightarrow> guarantees P (NewRequest x y f) Q"
  by (auto simp: guarantees_def)
lemma guarantees_HttpDo [intro!]:
  "(\<And>r. P (EHttpDo x r) \<and> guarantees P (f r) Q) \<Longrightarrow> guarantees P (HttpDo x f) Q"
  by (auto simp: guarantees_def)
lemma guarantees_ReadBody [intro!]:
  "(\<And>r. P (EReadBody r) \<and> guarantees P (f r) Q) \<Longrightarrow> guarantees P (ReadBody f) Q"
  by (auto simp: guarantees_def)
lemma guarantees_CloseBody [intro!]:
  "P (ECloseBody) \<and> guarantees P m Q \<Longrightarrow> guarantees P (CloseBody m) Q"
  by (auto simp: guarantees_def)
lemma guarantees_YamlUnmarshal [intro!]:
  "(\<And>r. P (EYamlUnmarshal x r) \<and> guarantees P (f r) Q) \<Longrightarrow> guarantees P (YamlUnmarshal x f) Q"
  by (auto simp: guarantees_def)
lemma guarantees_GetRhpamDev [intro!]:
  "(\<And>r. P (EGetRhpamDev x r) \<and> guarantees P (f r) Q) \<Longrightarrow> guarantees P (GetRhpamDev x f) Q"
  by (auto simp: guarantees_def)
lemma guarantees_GetRhpamUser [intro!]:
  "(\<And>r. P (EGetRhpamUser x r) \<and> guarantees P (f r) Q) \<Longrightarrow> guarantees P (GetRhpamUser x f) Q"
  by (auto simp: guarantees_def)
lemma guarantees_GetObject [intro!]:
  "(\<And>r. P (EGetObject x y r) \<and> guarantees P (f r) Q) \<Longrightarrow> guarantees P (GetObject x y f) Q"
  by (auto simp: guarantees_def)
lemma guarantees_ListRhpamDev [intro!]:
  "(\<And>r. P (EListRhpamDev x r) \<and> guarantees P (f r) Q) \<Longrightarrow> guarantees P (ListRhpamDev x f) Q"
  by (auto simp: guarantees_def)
lemma guarantees_ListRhpamUser [intro!]:
  "(\<And>r. P (EListRhpamUser x r) \<and> guarantees P (f r) Q) \<Longrightarrow> guarantees P (ListRhpamUser x f) Q"
  by (auto simp: guarantees_def)
lemma guarantees_UpdateRhpamDev [intro!]:
  "(\<And>r. P (EUpdateRhpamDev x r) \<and> guarantees P (f r) Q) \<Longrightarrow> guarantees P (UpdateRhpamDev x f) Q"
  by (auto simp: guarantees_def)
lemma guarantees_UpdateRhpamUser [intro!]:
  "(\<And>r. P (EUpdateRhpamUser x r) \<and> guarantees P (f r) Q) \<Longrightarrow> guarantees P (UpdateRhpamUser x f) Q"
  by (auto simp: guarantees_def)
lemma guarantees_CreateObject [intro!]:
  "(\<And>r. P (ECreateObject x r) \<and> guarantees P (f r) Q) \<Longrightarrow> guarantees P (CreateObject x f) Q"
  by (auto simp: guarantees_def)
lemma guarantees_DeleteObject [intro!]:
  "(\<And>r. P (EDeleteObject x y r) \<and> guarantees P (f r) Q) \<Longrightarrow> guarantees P (DeleteObject x y f) Q"
  by (auto simp: guarantees_def)

lemma guarantees_bind:
  assumes "guarantees P m R" and "\<And>a. R a \<Longrightarrow> guarantees P (g a) Q"
  shows "guarantees P (bind m g) Q"
  using assms unfolding guarantees_def runs_bind_iff by fastforce

lemma guarantees_check_err:
  assumes "guarantees P m R"
    and "\<And>x. R (Inr x) \<Longrightarrow> guarantees P (k x) Q"
    and "\<And>e. R (Inl e) \<Longrightarrow> Q (Inl (h e))"
  shows "guarantees P (check_err h m k) Q"
  unfolding check_err_def
  by (rule guarantees_bind [OF assms(1)]) (auto split: sum.splits intro: assms)

lemma guarantees_deref [intro!]:
  "(\<And>x. p = Some x \<Longrightarrow> guarantees P (k x) Q) \<Longrightarrow> guarantees P (deref p k) Q"
  by (cases p) auto

lemma guarantees_mono:
  assumes "guarantees P m Q" and "\<And>ev. P ev \<Longrightarrow> P' ev" and "\<And>a. Q a \<Longrightarrow> Q' a"
  shows "guarantees P' m Q'"
  using assms unfolding guarantees_def by (metis list.pred_mono_strong)

lemma guarantees_for_each:
  assumes "\<And>x. x \<in> set xs \<Longrightarrow> guarantees P (f x) (\<lambda>_. True)"
  shows "guarantees P (for_each xs f) (\<lambda>_. True)"
  using assms by (induction xs) (auto intro!: guarantees_check_err)

lemma guaranteesD:
  "guarantees P m Q \<Longrightarrow> runs m tr out \<Longrightarrow> list_all P tr \<and> (\<forall>a. out = Done a \<longrightarrow> Q a)"
  by (simp add: guarantees_def)

subsection \<open>One environment\<close>

text \<open>
  An environment answers each call from the state of the world and moves the world on. The
  order of a loop over a map is the answer when it is a permutation of the keys, and the
  answer of the random source is reduced below its bound, so every environment keeps the two
  laws of the runtime.
\<close>

record 'w env =
  env_LookupEnv :: "string \<Rightarrow> 'w \<Rightarrow> (string option) \<times> 'w"
  env_ReadFile :: "string \<Rightarrow> 'w \<Rightarrow> (string result) \<times> 'w"
  env_TimeNow :: "'w \<Rightarrow> (int) \<times> 'w"
  env_RandSeed :: "int \<Rightarrow> 'w \<Rightarrow> 'w"
  env_RandIntn :: "nat \<Rightarrow> 'w \<Rightarrow> (nat) \<times> 'w"
  env_RangeOrder :: "(string list) \<Rightarrow> 'w \<Rightarrow> (string list) \<times> 'w"
  env_NewRequest :: "string \<Rightarrow> string \<Rightarrow> 'w \<Rightarrow> (unit result) \<times> 'w"
  env_HttpDo :: "Request \<Rightarrow> 'w \<Rightarrow> (Response result) \<times> 'w"
  env_ReadBody :: "'w \<Rightarrow> (string result) \<times> 'w"
  env_CloseBody :: "'w \<Rightarrow> 'w"
  env_YamlUnmarshal :: "string \<Rightarrow> 'w \<Rightarrow> (Object result) \<times> 'w"
  env_GetRhpamDev :: "NamespacedName \<Rightarrow> 'w \<Rightarrow> (RhpamDev result) \<times> 'w"
  env_GetRhpamUser :: "NamespacedName \<Rightarrow> 'w \<Rightarrow> (RhpamUser result) \<times> 'w"
  env_GetObject :: "TypeMeta \<Rightarrow> NamespacedName \<Rightarrow> 'w \<Rightarrow> (Object result) \<times> 'w"
  env_ListRhpamDev :: "string \<Rightarrow> 'w \<Rightarrow> (RhpamDev list result) \<times> 'w"
  env_ListRhpamUser :: "string \<Rightarrow> 'w \<Rightarrow> (RhpamUser list result) \<times> 'w"
  env_UpdateRhpamDev :: "RhpamDev \<Rightarrow> 'w \<Rightarrow> (RhpamDev result) \<times> 'w"
  env_UpdateRhpamUser :: "RhpamUser \<Rightarrow> 'w \<Rightarrow> (RhpamUser result) \<times> 'w"
  env_CreateObject :: "Object \<Rightarrow> 'w \<Rightarrow> (Object result) \<times> 'w"
  env_DeleteObject :: "TypeMeta \<Rightarrow> NamespacedName \<Rightarrow> 'w \<Rightarrow> (unit result) \<times> 'w"

primrec exec :: "'w env \<Rightarrow> 'a io \<Rightarrow> 'w \<Rightarrow> 'a outcome \<times> 'w" where
  "exec E (Return a) w = (Done a, w)"
| "exec E (Panic s) w = (Panicked s, w)"

| "exec E (LookupEnv x f) w = (case env_LookupEnv E x w of (r, w') \<Rightarrow> exec E (f r) w')"
| "exec E (ReadFile x f) w = (case env_ReadFile E x w of (r, w') \<Rightarrow> exec E (f r) w')"
| "exec E (TimeNow f) w = (case env_TimeNow E w of (r, w') \<Rightarrow> exec E (f r) w')"
| "exec E (RandSeed x m) w = exec E m (env_RandSeed E x w)"
| "exec E (RandIntn x f) w = (case env_RandIntn E x w of (r, w') \<Rightarrow> exec E (f (r mod x)) w')"
| "exec E (RangeOrder x f) w = (case env_RangeOrder E x w of (r, w') \<Rightarrow> exec E (f (if mset r = mset x then r else x)) w')"
| "exec E (NewRequest x y f) w = (case env_NewRequest E x y w of (r, w') \<Rightarrow> exec E (f r) w')"
| "exec E (HttpDo x f) w = (case env_HttpDo E x w of (r, w') \<Rightarrow> exec E (f r) w')"
| "exec E (ReadBody f) w = (case env_ReadBody E w of (r, w') \<Rightarrow> exec E (f r) w')"
| "exec E (CloseBody m) w = exec E m (env_CloseBody E w)"
| "exec E (YamlUnmarshal x f) w = (case env_YamlUnmarshal E x w of (r, w') \<Rightarrow> exec E (f r) w')"
| "exec E (GetRhpamDev x f) w = (case env_GetRhpamDev E x w of (r, w') \<Rightarrow> exec E (f r) w')"
| "exec E (GetRhpamUser x f) w = (case env_GetRhpamUser E x w of (r, w') \<Rightarrow> exec E (f r) w')"
| "exec E (GetObject x y f) w = (case env_GetObject E x y w of (r, w') \<Rightarrow> exec E (f r) w')"
| "exec E (ListRhpamDev x f) w = (case env_ListRhpamDev E x w of (r, w') \<Rightarrow> exec E (f r) w')"
| "exec E (ListRhpamUser x f) w = (case env_ListRhpamUser E x w of (r, w') \<Rightarrow> exec E (f r) w')"
| "exec E (UpdateRhpamDev x f) w = (case env_UpdateRhpamDev E x w of (r, w') \<Rightarrow> exec E (f r) w')"
| "exec E (UpdateRhpamUser x f) w = (case env_UpdateRhpamUser E x w of (r, w') \<Rightarrow> exec E (f r) w')"
| "exec E (CreateObject x f) w = (case env_CreateObject E x w of (r, w') \<Rightarrow> exec E (f r) w')"
| "exec E (DeleteObject x y f) w = (case env_DeleteObject E x y w of (r, w') \<Rightarrow> exec E (f r) w')"

text \<open>The calls made on the way, in order, with their answers.\<close>

primrec trace_of :: "'w env \<Rightarrow> 'a io \<Rightarrow> 'w \<Rightarrow> event list" where
  "trace_of E (Return a) w = []"
| "trace_of E (Panic s) w = []"

| "trace_of E (LookupEnv x f) w = (case env_LookupEnv E x w of (r, w') \<Rightarrow> ELookupEnv x r # trace_of E (f r) w')"
| "trace_of E (ReadFile x f) w = (case env_ReadFile E x w of (r, w') \<Rightarrow> EReadFile x r # trace_of E (f r) w')"
| "trace_of E (TimeNow f) w = (case env_TimeNow E w of (r, w') \<Rightarrow> ETimeNow r # trace_of E (f r) w')"
| "trace_of E (RandSeed x m) w = ERandSeed x # trace_of E m (env_RandSeed E x w)"
| "trace_of E (RandIntn x f) w = (case env_RandIntn E x w of (r, w') \<Rightarrow> ERandIntn x (r mod x) # trace_of E (f (r mod x)) w')"
| "trace_of E (RangeOrder x f) w = (case env_RangeOrder E x w of (r, w') \<Rightarrow> ERangeOrder x (if mset r = mset x then r else x) # trace_of E (f (if mset r = mset x then r else x)) w')"
| "trace_of E (NewRequest x y f) w = (case env_NewRequest E x y w of (r, w') \<Rightarrow> ENewRequest x y r # trace_of E (f r) w')"
| "trace_of E (HttpDo x f) w = (case env_HttpDo E x w of (r, w') \<Rightarrow> EHttpDo x r # trace_of E (f r) w')"
| "trace_of E (ReadBody f) w = (case env_ReadBody E w of (r, w') \<Rightarrow> EReadBody r # trace_of E (f r) w')"
| "trace_of E (CloseBody m) w = ECloseBody # trace_of E m (env_CloseBody E w)"
| "trace_of E (YamlUnmarshal x f) w = (case env_YamlUnmarshal E x w of (r, w') \<Rightarrow> EYamlUnmarshal x r # trace_of E (f r) w')"
| "trace_of E (GetRhpamDev x f) w = (case env_GetRhpamDev E x w of (r, w') \<Rightarrow> EGetRhpamDev x r # trace_of E (f r) w')"
| "trace_of E (GetRhpamUser x f) w = (case env_GetRhpamUser E x w of (r, w') \<Rightarrow> EGetRhpamUser x r # trace_of E (f r) w')"
| "trace_of E (GetObject x y f) w = (case env_GetObject E x y w of (r, w') \<Rightarrow> EGetObject x y r # trace_of E (f r) w')"
| "trace_of E (ListRhpamDev x f) w = (case env_ListRhpamDev E x w of (r, w') \<Rightarrow> EListRhpamDev x r # trace_of E (f r) w')"
| "trace_of E (ListRhpamUser x f) w = (case env_ListRhpamUser E x w of (r, w') \<Rightarrow> EListRhpamUser x r # trace_of E (f r) w')"
| "trace_of E (UpdateRhpamDev x f) w = (case env_UpdateRhpamDev E x w of (r, w') \<Rightarrow> EUpdateRhpamDev x r # trace_of E (f r) w')"
| "trace_of E (UpdateRhpamUser x f) w = (case env_UpdateRhpamUser E x w of (r, w') \<Rightarrow> EUpdateRhpamUser x r # trace_of E (f r) w')"
| "trace_of E (CreateObject x f) w = (case env_CreateObject E x w of (r, w') \<Rightarrow> ECreateObject x r # trace_of E (f r) w')"
| "trace_of E (DeleteObject x y f) w = (case env_DeleteObject E x y w of (r, w') \<Rightarrow> EDeleteObject x y r # trace_of E (f r) w')"

lemma exec_runs: "runs m (trace_of E m w) (fst (exec E m w))"
proof (induction m arbitrary: w)
qed (auto split: prod.splits)

lemma exec_bind:
  "exec E (bind m g) w =
     (case exec E m w of (Done a, w') \<Rightarrow> exec E (g a) w' | (Panicked s, w') \<Rightarrow> (Panicked s, w'))"
proof (induction m arbitrary: w)
qed (auto split: prod.splits)

lemma exec_check_err:
  "exec E (check_err h m k) w =
     (case exec E m w of
        (Done (Inr x), w') \<Rightarrow> exec E (k x) w'
      | (Done (Inl e), w') \<Rightarrow> (Done (Inl (h e)), w')
      | (Panicked s, w') \<Rightarrow> (Panicked s, w'))"
  by (auto simp: check_err_def exec_bind split: prod.splits outcome.splits sum.splits)

lemma trace_of_bind:
  "trace_of E (bind m g) w =
     trace_of E m w @ (case exec E m w of (Done a, w') \<Rightarrow> trace_of E (g a) w' | (Panicked s, w') \<Rightarrow> [])"
proof (induction m arbitrary: w)
qed (auto split: prod.splits)

lemma trace_of_check_err:
  "trace_of E (check_err h m k) w =
     trace_of E m w @ (case exec E m w of
        (Done (Inr x), w') \<Rightarrow> trace_of E (k x) w' | _ \<Rightarrow> [])"
  by (auto simp: check_err_def trace_of_bind split: prod.splits outcome.splits sum.splits)

end
