(* ===== verification/Common.thy ===== *)
theory Common
  imports Effects
begin

text \<open>
  pkg/controller/common/utils.go, and the three library functions the handlers call on plain
  data: the watch namespace of the operator SDK, the sorted list of a string set, and the
  controller reference that makes the garbage collector remove what a custom resource owns.
\<close>

subsection \<open>Kinds of the typed objects\<close>

definition gvk_Secret :: TypeMeta where
  "gvk_Secret = \<lparr>tm_Kind = ''Secret'', tm_APIVersion = ''v1''\<rparr>"
definition gvk_ConfigMap :: TypeMeta where
  "gvk_ConfigMap = \<lparr>tm_Kind = ''ConfigMap'', tm_APIVersion = ''v1''\<rparr>"
definition gvk_Service :: TypeMeta where
  "gvk_Service = \<lparr>tm_Kind = ''Service'', tm_APIVersion = ''v1''\<rparr>"
definition gvk_ServiceAccount :: TypeMeta where
  "gvk_ServiceAccount = \<lparr>tm_Kind = ''ServiceAccount'', tm_APIVersion = ''v1''\<rparr>"
definition gvk_PersistentVolumeClaim :: TypeMeta where
  "gvk_PersistentVolumeClaim = \<lparr>tm_Kind = ''PersistentVolumeClaim'', tm_APIVersion = ''v1''\<rparr>"
definition gvk_Route :: TypeMeta where
  "gvk_Route = \<lparr>tm_Kind = ''Route'', tm_APIVersion = ''route.openshift.io/v1''\<rparr>"
definition gvk_DeploymentConfig :: TypeMeta where
  "gvk_DeploymentConfig = \<lparr>tm_Kind = ''DeploymentConfig'', tm_APIVersion = ''apps.openshift.io/v1''\<rparr>"

lemmas gvk_defs = gvk_Secret_def gvk_ConfigMap_def gvk_Service_def gvk_ServiceAccount_def
  gvk_PersistentVolumeClaim_def gvk_Route_def gvk_DeploymentConfig_def

definition key_of :: "string \<Rightarrow> string \<Rightarrow> NamespacedName" where
  "key_of ns name = \<lparr>nn_Namespace = ns, nn_Name = name\<rparr>"

lemma key_of_inject [simp]: "key_of a b = key_of c d \<longleftrightarrow> a = c \<and> b = d"
  by (simp add: key_of_def)

subsection \<open>The SSO secret\<close>

definition ReadSSOSecret :: "Object result io" where
  "ReadSSOSecret =
     Getenv ''SSO_NAMESPACE'' (\<lambda>ssoNamespace.
       if ssoNamespace = ''''
       then Return (Inl (ErrorString ''Environment variable SSO_NAMESPACE is not set.''))
       else Getenv ''SSO_ADMIN_CREDENTIALS_SECRET'' (\<lambda>ssoAdminCredentialsSecret.
         if ssoAdminCredentialsSecret = ''''
         then Return (Inl (ErrorString ''Environment variable SSO_ADMIN_CREDENTIALS_SECRET is not set.''))
         else GetObject gvk_Secret (key_of ssoNamespace ssoAdminCredentialsSecret) (\<lambda>r. case r of
           Inl err \<Rightarrow>
             if IsNotFound err
             then Return (Inl (ErrorString (''Secret '' @ ssoAdminCredentialsSecret @ '' in namespace ''
                    @ ssoNamespace @ '' not found: '' @ error_text err)))
             else Return (Inl (ErrorString (''Error retrieving secret '' @ ssoAdminCredentialsSecret
                    @ '' in namespace '' @ ssoNamespace @ '': '' @ error_text err)))
         | Inr secret \<Rightarrow> Return (Inr secret))))"

subsection \<open>Finalizers\<close>

text \<open>sets.NewString, Insert and List: the members once each, in increasing order.\<close>

definition sets_List :: "string list \<Rightarrow> string list" where
  "sets_List xs = sort (remdups xs)"

lemma sets_List_simps [simp]:
  "set (sets_List xs) = set xs" "sorted (sets_List xs)" "distinct (sets_List xs)"
  by (simp_all add: sets_List_def)

text \<open>Both custom resources carry an ObjectMeta, so the accessor never fails.\<close>

definition AddFinalizer :: "ObjectMeta \<Rightarrow> string \<Rightarrow> ObjectMeta result" where
  "AddFinalizer om value = Inr (om\<lparr>om_Finalizers := sets_List (om_Finalizers om @ [value])\<rparr>)"

lemma AddFinalizer_idem:
  assumes "AddFinalizer om v = Inr om1"
  shows "AddFinalizer om1 v = Inr om1"
proof -
  let ?fs = "om_Finalizers om"
  have "sets_List (sets_List (?fs @ [v]) @ [v]) = sets_List (?fs @ [v])"
  proof (rule sorted_distinct_set_unique)
    show "set (sets_List (sets_List (?fs @ [v]) @ [v])) = set (sets_List (?fs @ [v]))"
      by auto
  qed simp_all
  with assms show ?thesis by (auto simp: AddFinalizer_def)
qed

subsection \<open>The watch namespace (operator-sdk/pkg/k8sutil)\<close>

definition GetWatchNamespace :: "string result io" where
  "GetWatchNamespace =
     LookupEnv ''WATCH_NAMESPACE'' (\<lambda>v. case v of
       None \<Rightarrow> Return (Inl (ErrorString ''WATCH_NAMESPACE must be set''))
     | Some ns \<Rightarrow> Return (Inr ns))"

subsection \<open>Controller references (controller-runtime, apimachinery)\<close>

type_synonym Scheme = "string \<Rightarrow> TypeMeta result"

definition count_char :: "char \<Rightarrow> string \<Rightarrow> nat" where
  "count_char c s = length (filter (\<lambda>x. x = c) s)"

definition ParseGroupVersion :: "string \<Rightarrow> (string \<times> string) option" where
  "ParseGroupVersion gv =
     (if gv = '''' \<or> gv = ''/'' then Some ('''', '''')
      else if count_char (CHR ''/'') gv = 0 then Some ('''', gv)
      else if count_char (CHR ''/'') gv = 1
      then Some (takeWhile (\<lambda>c. c \<noteq> CHR ''/'') gv, tl (dropWhile (\<lambda>c. c \<noteq> CHR ''/'') gv))
      else None)"

definition referSameObject :: "OwnerReference \<Rightarrow> OwnerReference \<Rightarrow> bool" where
  "referSameObject a b =
     (case ParseGroupVersion (or_APIVersion a) of None \<Rightarrow> False
      | Some aGV \<Rightarrow> (case ParseGroupVersion (or_APIVersion b) of None \<Rightarrow> False
         | Some bGV \<Rightarrow> aGV = bGV \<and> or_Kind a = or_Kind b \<and> or_Name a = or_Name b))"

definition NewControllerRef :: "ObjectMeta \<Rightarrow> TypeMeta \<Rightarrow> OwnerReference" where
  "NewControllerRef owner gvk =
     \<lparr>or_APIVersion = tm_APIVersion gvk, or_Kind = tm_Kind gvk, or_Name = om_Name owner,
      or_UID = om_UID owner, or_Controller = Some True, or_BlockOwnerDeletion = Some True\<rparr>"

text \<open>
  The loop over the existing references: the index of the last one that names the owner, or the
  reference of another controller, which is an error.
\<close>

fun scan_refs :: "OwnerReference \<Rightarrow> nat \<Rightarrow> nat option \<Rightarrow> OwnerReference list \<Rightarrow> OwnerReference + nat option" where
  "scan_refs ref i fi [] = Inr fi"
| "scan_refs ref i fi (r # rs) =
     (if referSameObject ref r then scan_refs ref (Suc i) (Some i) rs
      else if or_Controller r = Some True then Inl r
      else scan_refs ref (Suc i) fi rs)"

definition SetControllerReference :: "RhpamDev \<Rightarrow> Object \<Rightarrow> Scheme \<Rightarrow> Object result" where
  "SetControllerReference owner ob scheme =
     (case scheme ''RhpamDev'' of
        Inl err \<Rightarrow> Inl err
      | Inr gvk \<Rightarrow>
          (let ref = NewControllerRef (dev_ObjectMeta owner) gvk;
               existing = om_OwnerReferences (ob_ObjectMeta ob) in
           case scan_refs ref 0 None existing of
             Inl r \<Rightarrow> Inl (ErrorString (''Object '' @ om_Namespace (ob_ObjectMeta ob) @ ''/''
                       @ om_Name (ob_ObjectMeta ob) @ '' is already owned by another ''
                       @ or_Kind r @ '' controller '' @ or_Name r))
           | Inr fi \<Rightarrow>
               Inr (ob\<lparr>ob_ObjectMeta := (ob_ObjectMeta ob)\<lparr>om_OwnerReferences :=
                 (case fi of None \<Rightarrow> existing @ [ref] | Some i \<Rightarrow> existing[i := ref])\<rparr>\<rparr>)))"

lemma scan_refs_bound:
  "scan_refs ref i fi rs = Inr (Some k) \<Longrightarrow> (\<forall>j. fi = Some j \<longrightarrow> j < i) \<Longrightarrow> k < i + length rs"
proof (induction ref i fi rs rule: scan_refs.induct)
  case (2 ref i fi r rs)
  then show ?case by (fastforce split: if_splits)
qed auto

text \<open>
  Success puts the owner's controller reference among the object's references and changes
  nothing else of the object.
\<close>

lemma SetControllerReference_ok:
  assumes "SetControllerReference owner ob scheme = Inr ob'"
  obtains gvk refs where "scheme ''RhpamDev'' = Inr gvk"
    and "NewControllerRef (dev_ObjectMeta owner) gvk \<in> set refs"
    and "ob' = ob\<lparr>ob_ObjectMeta := (ob_ObjectMeta ob)\<lparr>om_OwnerReferences := refs\<rparr>\<rparr>"
proof -
  obtain gvk where gvk: "scheme ''RhpamDev'' = Inr gvk"
    using assms by (auto simp: SetControllerReference_def split: sum.splits)
  let ?ref = "NewControllerRef (dev_ObjectMeta owner) gvk"
  let ?ex = "om_OwnerReferences (ob_ObjectMeta ob)"
  obtain fi where fi: "scan_refs ?ref 0 None ?ex = Inr fi"
    and ob': "ob' = ob\<lparr>ob_ObjectMeta := (ob_ObjectMeta ob)\<lparr>om_OwnerReferences :=
                 (case fi of None \<Rightarrow> ?ex @ [?ref] | Some i \<Rightarrow> ?ex[i := ?ref])\<rparr>\<rparr>"
    using assms gvk by (auto simp: SetControllerReference_def Let_def split: sum.splits)
  have mem: "?ref \<in> set (case fi of None \<Rightarrow> ?ex @ [?ref] | Some i \<Rightarrow> ?ex[i := ?ref])"
  proof (cases fi)
    case (Some i)
    with fi have "i < length ?ex" using scan_refs_bound by fastforce
    with Some show ?thesis by (simp add: set_update_memI)
  qed simp
  show thesis by (rule that [OF gvk mem ob'])
qed

end
