(* ===== verification/GoJson.thy ===== *)
theory GoJson
  imports GoError
begin

text \<open>
  encoding/json as the Keycloak client uses it: a JSON text is scanned into tokens, the tokens
  into a value, and a value is stored into a struct field by field.

  The scanner and the parser are step functions over one character or one token with an
  explicit state, so both are structural recursions over their input. The rules of Go's
  decoder that the client depends on are kept: null leaves a value as it is (and empties a
  slice, map or pointer), an unknown key is skipped, a key matches a field exactly or else up
  to the case of ASCII letters, a value of the wrong kind is an error, a repeated key stores
  again. The text of the decoder's error messages is not kept, and a string is a byte string:
  the decoder's replacement of ill-formed UTF-8 is not modelled.
\<close>

datatype json =
    JNull
  | JBool bool
  | JNum string
  | JStr string
  | JArr "json list"
  | JObj "(string \<times> json) list"

datatype token =
    TLBrace | TRBrace | TLBrack | TRBrack | TColon | TComma
  | TStr string | TNum string | TTrue | TFalse | TNull

subsection \<open>Characters\<close>

definition char_code :: "char \<Rightarrow> int" where
  "char_code c = of_char c"

definition is_digit :: "char \<Rightarrow> bool" where
  "is_digit c \<longleftrightarrow> 48 \<le> char_code c \<and> char_code c \<le> 57"

definition is_space :: "char \<Rightarrow> bool" where
  "is_space c \<longleftrightarrow> c = CHR '' '' \<or> c = CHR 0x09 \<or> c = CHR 0x0A \<or> c = CHR 0x0D"

definition hex_value :: "char \<Rightarrow> int option" where
  "hex_value c =
     (let n = char_code c in
      if 48 \<le> n \<and> n \<le> 57 then Some (n - 48)
      else if 97 \<le> n \<and> n \<le> 102 then Some (n - 87)
      else if 65 \<le> n \<and> n \<le> 70 then Some (n - 55)
      else None)"

text \<open>The UTF-8 bytes of a code point.\<close>

definition utf8 :: "int \<Rightarrow> string" where
  "utf8 n =
     (if n < 0x80 then [char_of n]
      else if n < 0x800 then [char_of (0xC0 + n div 64), char_of (0x80 + n mod 64)]
      else if n < 0x10000 then
        [char_of (0xE0 + n div 4096), char_of (0x80 + n div 64 mod 64), char_of (0x80 + n mod 64)]
      else [char_of (0xF0 + n div 262144), char_of (0x80 + n div 4096 mod 64),
            char_of (0x80 + n div 64 mod 64), char_of (0x80 + n mod 64)])"

subsection \<open>Scanning\<close>

text \<open>
  The modes: between tokens; inside a string (with the characters so far, reversed, and a high
  surrogate waiting for its low half); after a backslash; inside a four-digit escape; inside a
  number; inside a literal word.
\<close>

datatype lmode =
    LDef
  | LStr "int option" string
  | LEsc "int option" string
  | LHex "int list" "int option" string
  | LNum string
  | LWord string

definition flush_surrogate :: "int option \<Rightarrow> string \<Rightarrow> string" where
  "flush_surrogate p acc = (case p of None \<Rightarrow> acc | Some h \<Rightarrow> rev (utf8 0xFFFD) @ acc)"

definition word_token :: "string \<Rightarrow> token option" where
  "word_token w =
     (if w = ''true'' then Some TTrue else if w = ''false'' then Some TFalse
      else if w = ''null'' then Some TNull else None)"

text \<open>A number of JSON: a sign, digits without a leading zero, a fraction, an exponent.\<close>

fun skip_digits :: "string \<Rightarrow> string" where
  "skip_digits [] = []"
| "skip_digits (c # cs) = (if is_digit c then skip_digits cs else c # cs)"

definition digits1 :: "string \<Rightarrow> string option" where
  "digits1 cs = (case cs of [] \<Rightarrow> None | c # r \<Rightarrow> if is_digit c then Some (skip_digits r) else None)"

definition num_exp :: "string \<Rightarrow> bool" where
  "num_exp cs =
     (case cs of [] \<Rightarrow> True
      | c # r \<Rightarrow>
          (c = CHR ''e'' \<or> c = CHR ''E'') \<and>
          (case r of d # r' \<Rightarrow>
             (if d = CHR ''+'' \<or> d = CHR ''-'' then digits1 r' = Some [] else digits1 r = Some [])
           | [] \<Rightarrow> False))"

definition num_frac :: "string \<Rightarrow> bool" where
  "num_frac cs =
     (case cs of c # r \<Rightarrow>
        (if c = CHR ''.'' then (case digits1 r of None \<Rightarrow> False | Some r' \<Rightarrow> num_exp r') else num_exp cs)
      | [] \<Rightarrow> True)"

definition valid_number :: "string \<Rightarrow> bool" where
  "valid_number s =
     (let cs = (case s of c # r \<Rightarrow> if c = CHR ''-'' then r else s | [] \<Rightarrow> s) in
      case cs of [] \<Rightarrow> False
      | c # r \<Rightarrow> if c = CHR ''0'' then num_frac r
                 else is_digit c \<and> num_frac (skip_digits r))"

definition lex_start :: "char \<Rightarrow> (token list \<times> lmode) option" where
  "lex_start c =
     (if is_space c then Some ([], LDef)
      else if c = CHR ''{'' then Some ([TLBrace], LDef)
      else if c = CHR ''}'' then Some ([TRBrace], LDef)
      else if c = CHR ''['' then Some ([TLBrack], LDef)
      else if c = CHR '']'' then Some ([TRBrack], LDef)
      else if c = CHR '':'' then Some ([TColon], LDef)
      else if c = CHR '','' then Some ([TComma], LDef)
      else if c = CHR 0x22 then Some ([], LStr None [])
      else if c = CHR ''-'' \<or> is_digit c then Some ([], LNum [c])
      else if 97 \<le> char_code c \<and> char_code c \<le> 122 then Some ([], LWord [c])
      else None)"

definition escape_char :: "char \<Rightarrow> char option" where
  "escape_char c =
     (if c = CHR 0x22 \<or> c = CHR 0x5C \<or> c = CHR ''/'' then Some c
      else if c = CHR ''b'' then Some (CHR 0x08)
      else if c = CHR ''f'' then Some (CHR 0x0C)
      else if c = CHR ''n'' then Some (CHR 0x0A)
      else if c = CHR ''r'' then Some (CHR 0x0D)
      else if c = CHR ''t'' then Some (CHR 0x09)
      else None)"

text \<open>
  A complete four-digit escape: a low surrogate joins a waiting high one; a high one waits; a
  surrogate without its partner becomes the replacement character.
\<close>

definition code_unit :: "int \<Rightarrow> int option \<Rightarrow> string \<Rightarrow> lmode" where
  "code_unit u p acc =
     (if 0xDC00 \<le> u \<and> u < 0xE000 then
        (case p of
           Some h \<Rightarrow> LStr None (rev (utf8 (0x10000 + (h - 0xD800) * 1024 + (u - 0xDC00))) @ acc)
         | None \<Rightarrow> LStr None (rev (utf8 0xFFFD) @ acc))
      else if 0xD800 \<le> u \<and> u < 0xDC00 then LStr (Some u) (flush_surrogate p acc)
      else LStr None (rev (utf8 u) @ flush_surrogate p acc))"

fun lex_step :: "lmode \<Rightarrow> char \<Rightarrow> (token list \<times> lmode) option" where
  "lex_step LDef c = lex_start c"
| "lex_step (LStr p acc) c =
     (if c = CHR 0x22 then Some ([TStr (rev (flush_surrogate p acc))], LDef)
      else if c = CHR 0x5C then Some ([], LEsc p acc)
      else if char_code c < 32 then None
      else Some ([], LStr None (c # flush_surrogate p acc)))"
| "lex_step (LEsc p acc) c =
     (if c = CHR ''u'' then Some ([], LHex [] p acc)
      else (case escape_char c of None \<Rightarrow> None | Some d \<Rightarrow> Some ([], LStr None (d # flush_surrogate p acc))))"
| "lex_step (LHex ds p acc) c =
     (case hex_value c of None \<Rightarrow> None
      | Some d \<Rightarrow>
          if length ds < 3 then Some ([], LHex (ds @ [d]) p acc)
          else Some ([], code_unit (foldl (\<lambda>n x. 16 * n + x) 0 (ds @ [d])) p acc))"
| "lex_step (LNum acc) c =
     (if is_digit c \<or> c \<in> set ''+-.eE'' then Some ([], LNum (c # acc))
      else if valid_number (rev acc)
      then map_option (\<lambda>(ts, m). (TNum (rev acc) # ts, m)) (lex_start c)
      else None)"
| "lex_step (LWord acc) c =
     (if 97 \<le> char_code c \<and> char_code c \<le> 122 then Some ([], LWord (c # acc))
      else (case word_token (rev acc) of None \<Rightarrow> None
            | Some t \<Rightarrow> map_option (\<lambda>(ts, m). (t # ts, m)) (lex_start c)))"

fun lex_end :: "lmode \<Rightarrow> token list option" where
  "lex_end LDef = Some []"
| "lex_end (LNum acc) = (if valid_number (rev acc) then Some [TNum (rev acc)] else None)"
| "lex_end (LWord acc) = map_option (\<lambda>t. [t]) (word_token (rev acc))"
| "lex_end _ = None"

fun json_lex :: "lmode \<Rightarrow> string \<Rightarrow> token list option" where
  "json_lex m [] = lex_end m"
| "json_lex m (c # cs) =
     (case lex_step m c of None \<Rightarrow> None
      | Some (ts, m') \<Rightarrow> map_option (\<lambda>us. ts @ us) (json_lex m' cs))"

subsection \<open>Parsing\<close>

datatype frame =
    FArr "json list"
  | FObj "(string \<times> json) list" "string option"

datatype pstate =
    WantValue | WantValueOrEnd | WantKeyOrEnd | WantKey | WantColon | WantSep | Finished json

text \<open>A completed value goes into the innermost open array or object, or is the result.\<close>

fun complete_value :: "json \<Rightarrow> frame list \<Rightarrow> (frame list \<times> pstate) option" where
  "complete_value v [] = Some ([], Finished v)"
| "complete_value v (FArr xs # st) = Some (FArr (v # xs) # st, WantSep)"
| "complete_value v (FObj kvs (Some k) # st) = Some (FObj ((k, v) # kvs) None # st, WantSep)"
| "complete_value v (FObj kvs None # st) = None"

fun close_frame :: "token \<Rightarrow> frame list \<Rightarrow> (frame list \<times> pstate) option" where
  "close_frame TRBrack (FArr xs # st) = complete_value (JArr (rev xs)) st"
| "close_frame TRBrace (FObj kvs None # st) = complete_value (JObj (rev kvs)) st"
| "close_frame _ _ = None"

fun set_key :: "string \<Rightarrow> frame list \<Rightarrow> (frame list \<times> pstate) option" where
  "set_key k (FObj kvs None # st) = Some (FObj kvs (Some k) # st, WantColon)"
| "set_key k _ = None"

fun begin_value :: "token \<Rightarrow> frame list \<Rightarrow> (frame list \<times> pstate) option" where
  "begin_value TLBrace st = Some (FObj [] None # st, WantKeyOrEnd)"
| "begin_value TLBrack st = Some (FArr [] # st, WantValueOrEnd)"
| "begin_value (TStr s) st = complete_value (JStr s) st"
| "begin_value (TNum s) st = complete_value (JNum s) st"
| "begin_value TTrue st = complete_value (JBool True) st"
| "begin_value TFalse st = complete_value (JBool False) st"
| "begin_value TNull st = complete_value JNull st"
| "begin_value _ st = None"

fun after_comma :: "frame list \<Rightarrow> (frame list \<times> pstate) option" where
  "after_comma (FArr xs # st) = Some (FArr xs # st, WantValue)"
| "after_comma (FObj kvs k # st) = Some (FObj kvs k # st, WantKey)"
| "after_comma [] = None"

definition tok_step :: "frame list \<times> pstate \<Rightarrow> token \<Rightarrow> (frame list \<times> pstate) option" where
  "tok_step s t =
     (case s of (st, p) \<Rightarrow>
       (case p of
          WantValue \<Rightarrow> begin_value t st
        | WantValueOrEnd \<Rightarrow> (if t = TRBrack then close_frame t st else begin_value t st)
        | WantKeyOrEnd \<Rightarrow> (if t = TRBrace then close_frame t st else (case t of TStr k \<Rightarrow> set_key k st | _ \<Rightarrow> None))
        | WantKey \<Rightarrow> (case t of TStr k \<Rightarrow> set_key k st | _ \<Rightarrow> None)
        | WantColon \<Rightarrow> (if t = TColon then Some (st, WantValue) else None)
        | WantSep \<Rightarrow> (if t = TComma then after_comma st else close_frame t st)
        | Finished v \<Rightarrow> None))"

fun parse_tokens :: "frame list \<times> pstate \<Rightarrow> token list \<Rightarrow> json option" where
  "parse_tokens s [] = (case s of ([], Finished v) \<Rightarrow> Some v | _ \<Rightarrow> None)"
| "parse_tokens s (t # ts) = (case tok_step s t of None \<Rightarrow> None | Some s' \<Rightarrow> parse_tokens s' ts)"

definition json_parse :: "string \<Rightarrow> json option" where
  "json_parse s = (case json_lex LDef s of None \<Rightarrow> None | Some ts \<Rightarrow> parse_tokens ([], WantValue) ts)"

subsection \<open>Storing a value into a struct\<close>

definition type_error :: error where
  "type_error = ErrorString ''json: cannot unmarshal value into Go value''"

definition syntax_error :: error where
  "syntax_error = ErrorString ''invalid character in JSON input''"

definition lower_char :: "char \<Rightarrow> char" where
  "lower_char c = (if 65 \<le> char_code c \<and> char_code c \<le> 90 then char_of (char_code c + 32) else c)"

definition equal_fold :: "string \<Rightarrow> string \<Rightarrow> bool" where
  "equal_fold s t \<longleftrightarrow> map lower_char s = map lower_char t"

type_synonym 'r field = "string \<times> (json \<Rightarrow> 'r \<Rightarrow> 'r result)"

definition find_field :: "'r field list \<Rightarrow> string \<Rightarrow> (json \<Rightarrow> 'r \<Rightarrow> 'r result) option" where
  "find_field fs k =
     (case map_of fs k of Some f \<Rightarrow> Some f
      | None \<Rightarrow> map_option snd (find (\<lambda>(n, f). equal_fold n k) fs))"

fun store_members :: "'r field list \<Rightarrow> (string \<times> json) list \<Rightarrow> 'r \<Rightarrow> 'r result" where
  "store_members fs [] r = Inr r"
| "store_members fs ((k, v) # kvs) r =
     (case find_field fs k of
        None \<Rightarrow> store_members fs kvs r
      | Some f \<Rightarrow> (case f v r of Inl e \<Rightarrow> Inl e | Inr r' \<Rightarrow> store_members fs kvs r'))"

definition store_struct :: "'r field list \<Rightarrow> json \<Rightarrow> 'r \<Rightarrow> 'r result" where
  "store_struct fs j r =
     (case j of JObj kvs \<Rightarrow> store_members fs kvs r | JNull \<Rightarrow> Inr r | _ \<Rightarrow> Inl type_error)"

definition store_string :: "(string \<Rightarrow> 'r \<Rightarrow> 'r) \<Rightarrow> json \<Rightarrow> 'r \<Rightarrow> 'r result" where
  "store_string upd j r = (case j of JStr s \<Rightarrow> Inr (upd s r) | JNull \<Rightarrow> Inr r | _ \<Rightarrow> Inl type_error)"

definition store_bool :: "(bool \<Rightarrow> 'r \<Rightarrow> 'r) \<Rightarrow> json \<Rightarrow> 'r \<Rightarrow> 'r result" where
  "store_bool upd j r = (case j of JBool b \<Rightarrow> Inr (upd b r) | JNull \<Rightarrow> Inr r | _ \<Rightarrow> Inl type_error)"

text \<open>An integer field takes a number literal without fraction or exponent that fits 64 bits.\<close>

fun digits_value :: "int \<Rightarrow> string \<Rightarrow> int option" where
  "digits_value n [] = Some n"
| "digits_value n (c # cs) = (if is_digit c then digits_value (10 * n + (char_code c - 48)) cs else None)"

definition int_value :: "string \<Rightarrow> int option" where
  "int_value s =
     (case (case s of c # r \<Rightarrow> if c = CHR ''-'' then map_option (\<lambda>n. - n) (digits_value 0 r)
                               else digits_value 0 s
            | [] \<Rightarrow> None) of
        None \<Rightarrow> None
      | Some i \<Rightarrow> if - (2 ^ 63) \<le> i \<and> i < 2 ^ 63 then Some i else None)"

definition store_int :: "(int \<Rightarrow> 'r \<Rightarrow> 'r) \<Rightarrow> json \<Rightarrow> 'r \<Rightarrow> 'r result" where
  "store_int upd j r =
     (case j of JNum s \<Rightarrow> (case int_value s of None \<Rightarrow> Inl type_error | Some i \<Rightarrow> Inr (upd i r))
      | JNull \<Rightarrow> Inr r | _ \<Rightarrow> Inl type_error)"

definition store_string_ptr :: "(string option \<Rightarrow> 'r \<Rightarrow> 'r) \<Rightarrow> json \<Rightarrow> 'r \<Rightarrow> 'r result" where
  "store_string_ptr upd j r =
     (case j of JStr s \<Rightarrow> Inr (upd (Some s) r) | JNull \<Rightarrow> Inr (upd None r) | _ \<Rightarrow> Inl type_error)"

text \<open>Elements of a slice or a map start from the zero value of their type.\<close>

fun decode_all :: "(json \<Rightarrow> 'a result) \<Rightarrow> json list \<Rightarrow> 'a list result" where
  "decode_all f [] = Inr []"
| "decode_all f (j # js) =
     (case f j of Inl e \<Rightarrow> Inl e
      | Inr x \<Rightarrow> (case decode_all f js of Inl e \<Rightarrow> Inl e | Inr xs \<Rightarrow> Inr (x # xs)))"

definition decode_slice :: "(json \<Rightarrow> 'a result) \<Rightarrow> json \<Rightarrow> 'a list result" where
  "decode_slice f j = (case j of JArr js \<Rightarrow> decode_all f js | JNull \<Rightarrow> Inr [] | _ \<Rightarrow> Inl type_error)"

definition store_slice :: "(json \<Rightarrow> 'a result) \<Rightarrow> ('a list \<Rightarrow> 'r \<Rightarrow> 'r) \<Rightarrow> json \<Rightarrow> 'r \<Rightarrow> 'r result" where
  "store_slice f upd j r = (case decode_slice f j of Inl e \<Rightarrow> Inl e | Inr xs \<Rightarrow> Inr (upd xs r))"

fun decode_members :: "(json \<Rightarrow> 'a result) \<Rightarrow> (string \<times> json) list \<Rightarrow> (string \<times> 'a) list \<Rightarrow> (string \<times> 'a) list result" where
  "decode_members f [] m = Inr m"
| "decode_members f ((k, v) # kvs) m =
     (case f v of Inl e \<Rightarrow> Inl e | Inr x \<Rightarrow> decode_members f kvs (AList.update k x m))"

text \<open>A member of a struct that is a map keeps the entries it has: a repeated key adds to it.\<close>

definition store_map ::
  "(json \<Rightarrow> 'a result) \<Rightarrow> ('r \<Rightarrow> (string \<times> 'a) list) \<Rightarrow> ((string \<times> 'a) list \<Rightarrow> 'r \<Rightarrow> 'r) \<Rightarrow> json \<Rightarrow> 'r \<Rightarrow> 'r result" where
  "store_map f sel upd j r =
     (case j of JObj kvs \<Rightarrow> (case decode_members f kvs (sel r) of Inl e \<Rightarrow> Inl e | Inr m \<Rightarrow> Inr (upd m r))
      | JNull \<Rightarrow> Inr (upd [] r) | _ \<Rightarrow> Inl type_error)"

definition decode_string :: "json \<Rightarrow> string result" where
  "decode_string j = (case j of JStr s \<Rightarrow> Inr s | JNull \<Rightarrow> Inr '''' | _ \<Rightarrow> Inl type_error)"

definition decode_bool :: "json \<Rightarrow> bool result" where
  "decode_bool j = (case j of JBool b \<Rightarrow> Inr b | JNull \<Rightarrow> Inr False | _ \<Rightarrow> Inl type_error)"

text \<open>A pointer element: null is the nil pointer, anything else is stored into a new struct.\<close>

definition decode_ptr :: "(json \<Rightarrow> 'a result) \<Rightarrow> json \<Rightarrow> 'a option result" where
  "decode_ptr f j = (case j of JNull \<Rightarrow> Inr None | _ \<Rightarrow> (case f j of Inl e \<Rightarrow> Inl e | Inr x \<Rightarrow> Inr (Some x)))"

definition Unmarshal :: "(json \<Rightarrow> 'a result) \<Rightarrow> string \<Rightarrow> 'a result" where
  "Unmarshal f body = (case json_parse body of None \<Rightarrow> Inl syntax_error | Some j \<Rightarrow> f j)"

subsection \<open>Scanning string literals\<close>

text \<open>
  A character that may stand for itself inside a string literal. A string made of such
  characters, put between quotes, is scanned back as itself; this is what the JSON templates
  of the operator rely on, because text/template does not escape what it inserts.
\<close>

definition plain_char :: "char \<Rightarrow> bool" where
  "plain_char c \<longleftrightarrow> c \<noteq> CHR 0x22 \<and> c \<noteq> CHR 0x5C \<and> 32 \<le> char_code c"

lemma map_option_append_simps [simp]:
  "map_option ((@) []) x = x" "map_option ((@) [t]) x = map_option ((#) t) x"
  by (cases x; simp)+

lemma lex_plain:
  "list_all plain_char s \<Longrightarrow> json_lex (LStr None acc) (s @ cs) = json_lex (LStr None (rev s @ acc)) cs"
proof (induction s arbitrary: acc)
  case Nil
  then show ?case by simp
next
  case (Cons c s)
  then have "lex_step (LStr None acc) c = Some ([], LStr None (c # acc))"
    by (simp add: plain_char_def flush_surrogate_def)
  with Cons show ?case by simp
qed

lemma lex_string_literal:
  assumes "list_all plain_char s"
  shows "json_lex (LStr None []) (s @ CHR 0x22 # cs) = map_option (\<lambda>ts. TStr s # ts) (json_lex LDef cs)"
  using lex_plain [OF assms, of "[]" "CHR 0x22 # cs"] by (simp add: flush_surrogate_def)

end
