(* ===== verification/KeycloakTypes.thy ===== *)
theory KeycloakTypes
  imports GoJson
begin

text \<open>
  types.go: the Keycloak representations, each with its zero value and the table of its JSON
  keys. An embedded pointer (the API user inside KeycloakUser, the API client inside
  KeycloakClient) is an option: the decoder allocates it at the first key that belongs to it,
  so a representation with no such key leaves it nil, and reading a field through it panics.
\<close>

subsection \<open>Protocol mappers and clients\<close>

record KeycloakProtocolMapper =
  kpm_ID :: string
  kpm_Name :: string
  kpm_Protocol :: string
  kpm_ProtocolMapper :: string
  kpm_ConsentRequired :: bool
  kpm_ConsentText :: string
  kpm_Config :: "(string \<times> string) list"

definition zero_KeycloakProtocolMapper :: KeycloakProtocolMapper where
  "zero_KeycloakProtocolMapper = \<lparr>kpm_ID = '''', kpm_Name = '''', kpm_Protocol = '''', kpm_ProtocolMapper = '''', kpm_ConsentRequired = False, kpm_ConsentText = '''', kpm_Config = []\<rparr>"

definition KeycloakProtocolMapper_fields :: "KeycloakProtocolMapper field list" where
  "KeycloakProtocolMapper_fields = [
    (''id'', store_string (\<lambda>v r. r\<lparr>kpm_ID := v\<rparr>)),
    (''name'', store_string (\<lambda>v r. r\<lparr>kpm_Name := v\<rparr>)),
    (''protocol'', store_string (\<lambda>v r. r\<lparr>kpm_Protocol := v\<rparr>)),
    (''protocolMapper'', store_string (\<lambda>v r. r\<lparr>kpm_ProtocolMapper := v\<rparr>)),
    (''consentRequired'', store_bool (\<lambda>v r. r\<lparr>kpm_ConsentRequired := v\<rparr>)),
    (''consentText'', store_string (\<lambda>v r. r\<lparr>kpm_ConsentText := v\<rparr>)),
    (''config'', store_map decode_string kpm_Config (\<lambda>v r. r\<lparr>kpm_Config := v\<rparr>))]"

record KeycloakApiClient =
  kac_ID :: string
  kac_ClientID :: string
  kac_Secret :: string
  kac_Name :: string
  kac_BaseURL :: string
  kac_AdminURL :: string
  kac_RootURL :: string
  kac_Description :: string
  kac_SurrogateAuthRequired :: bool
  kac_Enabled :: bool
  kac_ClientAuthenticatorType :: string
  kac_DefaultRoles :: "string list"
  kac_RedirectUris :: "string list"
  kac_WebOrigins :: "string list"
  kac_NotBefore :: int
  kac_BearerOnly :: bool
  kac_ConsentRequired :: bool
  kac_StandardFlowEnabled :: bool
  kac_ImplicitFlowEnabled :: bool
  kac_DirectAccessGrantsEnabled :: bool
  kac_ServiceAccountsEnabled :: bool
  kac_PublicClient :: bool
  kac_FrontchannelLogout :: bool
  kac_Protocol :: string
  kac_Attributes :: "(string \<times> string) list"
  kac_FullScopeAllowed :: bool
  kac_NodeReRegistrationTimeout :: int
  kac_ProtocolMappers :: "KeycloakProtocolMapper list"
  kac_UseTemplateConfig :: bool
  kac_UseTemplateScope :: bool
  kac_UseTemplateMappers :: bool
  kac_Access :: "(string \<times> bool) list"

definition zero_KeycloakApiClient :: KeycloakApiClient where
  "zero_KeycloakApiClient = \<lparr>kac_ID = '''', kac_ClientID = '''', kac_Secret = '''', kac_Name = '''', kac_BaseURL = '''', kac_AdminURL = '''', kac_RootURL = '''', kac_Description = '''', kac_SurrogateAuthRequired = False, kac_Enabled = False, kac_ClientAuthenticatorType = '''', kac_DefaultRoles = [], kac_RedirectUris = [], kac_WebOrigins = [], kac_NotBefore = 0, kac_BearerOnly = False, kac_ConsentRequired = False, kac_StandardFlowEnabled = False, kac_ImplicitFlowEnabled = False, kac_DirectAccessGrantsEnabled = False, kac_ServiceAccountsEnabled = False, kac_PublicClient = False, kac_FrontchannelLogout = False, kac_Protocol = '''', kac_Attributes = [], kac_FullScopeAllowed = False, kac_NodeReRegistrationTimeout = 0, kac_ProtocolMappers = [], kac_UseTemplateConfig = False, kac_UseTemplateScope = False, kac_UseTemplateMappers = False, kac_Access = []\<rparr>"

definition KeycloakApiClient_fields :: "KeycloakApiClient field list" where
  "KeycloakApiClient_fields = [
    (''id'', store_string (\<lambda>v r. r\<lparr>kac_ID := v\<rparr>)),
    (''clientId'', store_string (\<lambda>v r. r\<lparr>kac_ClientID := v\<rparr>)),
    (''secret'', store_string (\<lambda>v r. r\<lparr>kac_Secret := v\<rparr>)),
    (''name'', store_string (\<lambda>v r. r\<lparr>kac_Name := v\<rparr>)),
    (''baseUrl'', store_string (\<lambda>v r. r\<lparr>kac_BaseURL := v\<rparr>)),
    (''adminUrl'', store_string (\<lambda>v r. r\<lparr>kac_AdminURL := v\<rparr>)),
    (''rootUrl'', store_string (\<lambda>v r. r\<lparr>kac_RootURL := v\<rparr>)),
    (''description'', store_string (\<lambda>v r. r\<lparr>kac_Description := v\<rparr>)),
    (''surrogateAuthRequired'', store_bool (\<lambda>v r. r\<lparr>kac_SurrogateAuthRequired := v\<rparr>)),
    (''enabled'', store_bool (\<lambda>v r. r\<lparr>kac_Enabled := v\<rparr>)),
    (''clientAuthenticatorType'', store_string (\<lambda>v r. r\<lparr>kac_ClientAuthenticatorType := v\<rparr>)),
    (''defaultRoles'', store_slice decode_string (\<lambda>v r. r\<lparr>kac_DefaultRoles := v\<rparr>)),
    (''redirectUris'', store_slice decode_string (\<lambda>v r. r\<lparr>kac_RedirectUris := v\<rparr>)),
    (''webOrigins'', store_slice decode_string (\<lambda>v r. r\<lparr>kac_WebOrigins := v\<rparr>)),
    (''notBefore'', store_int (\<lambda>v r. r\<lparr>kac_NotBefore := v\<rparr>)),
    (''bearerOnly'', store_bool (\<lambda>v r. r\<lparr>kac_BearerOnly := v\<rparr>)),
    (''consentRequired'', store_bool (\<lambda>v r. r\<lparr>kac_ConsentRequired := v\<rparr>)),
    (''standardFlowEnabled'', store_bool (\<lambda>v r. r\<lparr>kac_StandardFlowEnabled := v\<rparr>)),
    (''implicitFlowEnabled'', store_bool (\<lambda>v r. r\<lparr>kac_ImplicitFlowEnabled := v\<rparr>)),
    (''directAccessGrantsEnabled'', store_bool (\<lambda>v r. r\<lparr>kac_DirectAccessGrantsEnabled := v\<rparr>)),
    (''serviceAccountsEnabled'', store_bool (\<lambda>v r. r\<lparr>kac_ServiceAccountsEnabled := v\<rparr>)),
    (''publicClient'', store_bool (\<lambda>v r. r\<lparr>kac_PublicClient := v\<rparr>)),
    (''frontchannelLogout'', store_bool (\<lambda>v r. r\<lparr>kac_FrontchannelLogout := v\<rparr>)),
    (''protocol'', store_string (\<lambda>v r. r\<lparr>kac_Protocol := v\<rparr>)),
    (''attributes'', store_map decode_string kac_Attributes (\<lambda>v r. r\<lparr>kac_Attributes := v\<rparr>)),
    (''fullScopeAllowed'', store_bool (\<lambda>v r. r\<lparr>kac_FullScopeAllowed := v\<rparr>)),
    (''nodeReRegistrationTimeout'', store_int (\<lambda>v r. r\<lparr>kac_NodeReRegistrationTimeout := v\<rparr>)),
    (''protocolMappers'', store_slice (\<lambda>j. store_struct KeycloakProtocolMapper_fields j zero_KeycloakProtocolMapper) (\<lambda>v r. r\<lparr>kac_ProtocolMappers := v\<rparr>)),
    (''useTemplateConfig'', store_bool (\<lambda>v r. r\<lparr>kac_UseTemplateConfig := v\<rparr>)),
    (''useTemplateScope'', store_bool (\<lambda>v r. r\<lparr>kac_UseTemplateScope := v\<rparr>)),
    (''useTemplateMappers'', store_bool (\<lambda>v r. r\<lparr>kac_UseTemplateMappers := v\<rparr>)),
    (''access'', store_map decode_bool kac_Access (\<lambda>v r. r\<lparr>kac_Access := v\<rparr>))]"

text \<open>
  A key of an embedded struct is promoted: it is stored through the pointer, which is allocated
  when it is nil.
\<close>

definition promote :: "'a \<Rightarrow> ('r \<Rightarrow> 'a option) \<Rightarrow> ('a option \<Rightarrow> 'r \<Rightarrow> 'r) \<Rightarrow> 'a field \<Rightarrow> 'r field" where
  "promote z sel upd f =
     (fst f, \<lambda>j r. (case snd f j (case sel r of None \<Rightarrow> z | Some a \<Rightarrow> a) of
                      Inl e \<Rightarrow> Inl e | Inr a \<Rightarrow> Inr (upd (Some a) r)))"

record KeycloakClient =
  kcl_KeycloakApiClient :: "KeycloakApiClient option"
  kcl_OutputSecret :: "string option"

definition zero_KeycloakClient :: KeycloakClient where
  "zero_KeycloakClient = \<lparr>kcl_KeycloakApiClient = None, kcl_OutputSecret = None\<rparr>"

definition KeycloakClient_fields :: "KeycloakClient field list" where
  "KeycloakClient_fields =
     map (promote zero_KeycloakApiClient kcl_KeycloakApiClient (\<lambda>v r. r\<lparr>kcl_KeycloakApiClient := v\<rparr>)) KeycloakApiClient_fields
     @ [(''outputSecret'', store_string_ptr (\<lambda>v r. r\<lparr>kcl_OutputSecret := v\<rparr>))]"

subsection \<open>Users\<close>

record KeycloakApiUser =
  kau_ID :: string
  kau_UserName :: string
  kau_FirstName :: string
  kau_LastName :: string
  kau_Email :: string
  kau_EmailVerified :: bool
  kau_Enabled :: bool
  kau_RealmRoles :: "string list"
  kau_ClientRoles :: "(string \<times> string list) list"
  kau_RequiredActions :: "string list"
  kau_Groups :: "string list"

definition zero_KeycloakApiUser :: KeycloakApiUser where
  "zero_KeycloakApiUser = \<lparr>kau_ID = '''', kau_UserName = '''', kau_FirstName = '''', kau_LastName = '''', kau_Email = '''', kau_EmailVerified = False, kau_Enabled = False, kau_RealmRoles = [], kau_ClientRoles = [], kau_RequiredActions = [], kau_Groups = []\<rparr>"

definition KeycloakApiUser_fields :: "KeycloakApiUser field list" where
  "KeycloakApiUser_fields = [
    (''id'', store_string (\<lambda>v r. r\<lparr>kau_ID := v\<rparr>)),
    (''username'', store_string (\<lambda>v r. r\<lparr>kau_UserName := v\<rparr>)),
    (''firstName'', store_string (\<lambda>v r. r\<lparr>kau_FirstName := v\<rparr>)),
    (''lastName'', store_string (\<lambda>v r. r\<lparr>kau_LastName := v\<rparr>)),
    (''email'', store_string (\<lambda>v r. r\<lparr>kau_Email := v\<rparr>)),
    (''emailVerified'', store_bool (\<lambda>v r. r\<lparr>kau_EmailVerified := v\<rparr>)),
    (''enabled'', store_bool (\<lambda>v r. r\<lparr>kau_Enabled := v\<rparr>)),
    (''realmRoles'', store_slice decode_string (\<lambda>v r. r\<lparr>kau_RealmRoles := v\<rparr>)),
    (''clientRoles'', store_map (decode_slice decode_string) kau_ClientRoles (\<lambda>v r. r\<lparr>kau_ClientRoles := v\<rparr>)),
    (''requiredActions'', store_slice decode_string (\<lambda>v r. r\<lparr>kau_RequiredActions := v\<rparr>)),
    (''groups'', store_slice decode_string (\<lambda>v r. r\<lparr>kau_Groups := v\<rparr>))]"

record KeycloakUser =
  ku_KeycloakApiUser :: "KeycloakApiUser option"
  ku_OutputSecret :: "string option"
  ku_Password :: "string option"

definition zero_KeycloakUser :: KeycloakUser where
  "zero_KeycloakUser = \<lparr>ku_KeycloakApiUser = None, ku_OutputSecret = None, ku_Password = None\<rparr>"

definition KeycloakUser_fields :: "KeycloakUser field list" where
  "KeycloakUser_fields =
     map (promote zero_KeycloakApiUser ku_KeycloakApiUser (\<lambda>v r. r\<lparr>ku_KeycloakApiUser := v\<rparr>)) KeycloakApiUser_fields
     @ [(''outputSecret'', store_string_ptr (\<lambda>v r. r\<lparr>ku_OutputSecret := v\<rparr>)),
        (''password'', store_string_ptr (\<lambda>v r. r\<lparr>ku_Password := v\<rparr>))]"

subsection \<open>Roles\<close>

record KeycloakRole =
  kr_ID :: string
  kr_Name :: string
  kr_ScopeParamRequired :: bool
  kr_Composite :: bool
  kr_ClientRole :: bool
  kr_ContainerID :: string

definition zero_KeycloakRole :: KeycloakRole where
  "zero_KeycloakRole = \<lparr>kr_ID = '''', kr_Name = '''', kr_ScopeParamRequired = False, kr_Composite = False, kr_ClientRole = False, kr_ContainerID = ''''\<rparr>"

definition KeycloakRole_fields :: "KeycloakRole field list" where
  "KeycloakRole_fields = [
    (''id'', store_string (\<lambda>v r. r\<lparr>kr_ID := v\<rparr>)),
    (''name'', store_string (\<lambda>v r. r\<lparr>kr_Name := v\<rparr>)),
    (''scopeParamRequired'', store_bool (\<lambda>v r. r\<lparr>kr_ScopeParamRequired := v\<rparr>)),
    (''composite'', store_bool (\<lambda>v r. r\<lparr>kr_Composite := v\<rparr>)),
    (''clientRole'', store_bool (\<lambda>v r. r\<lparr>kr_ClientRole := v\<rparr>)),
    (''containerId'', store_string (\<lambda>v r. r\<lparr>kr_ContainerID := v\<rparr>))]"

subsection \<open>The pairs of the reconciliation\<close>

record KeycloakUserPair =
  kup_KcUser :: "KeycloakUser option"
  kup_SpecUser :: "KeycloakUser option"

record KeycloakRolePair =
  krp_KcRole :: string
  krp_SpecRole :: string

subsection \<open>The values the client decodes\<close>

definition decode_KeycloakClient :: "json \<Rightarrow> KeycloakClient result" where
  "decode_KeycloakClient j = store_struct KeycloakClient_fields j zero_KeycloakClient"

definition decode_KeycloakApiUser :: "json \<Rightarrow> KeycloakApiUser result" where
  "decode_KeycloakApiUser j = store_struct KeycloakApiUser_fields j zero_KeycloakApiUser"

definition decode_KeycloakUser :: "json \<Rightarrow> KeycloakUser result" where
  "decode_KeycloakUser j = store_struct KeycloakUser_fields j zero_KeycloakUser"

definition decode_KeycloakRole :: "json \<Rightarrow> KeycloakRole result" where
  "decode_KeycloakRole j = store_struct KeycloakRole_fields j zero_KeycloakRole"

end
