(* ===== verification/GoTemplate.thy ===== *)
theory GoTemplate
  imports GoError
begin

text \<open>
  text/template as the operator uses it: every action of the templates under templates/ is the
  name of a field of the data, a struct of strings, between double braces. A template text is
  split into literal parts and field actions by a step function over its characters, and
  executing it concatenates the literals with the values of the fields as they are: nothing is
  escaped. Pipelines, control structures, comments, trim markers and the like do not occur in
  the templates of the repository; the model answers them with an error.
\<close>

datatype item = Text string | Field string

datatype tmode = InText string | SeenLeft string | InAction string | SeenRight string

definition is_alnum :: "char \<Rightarrow> bool" where
  "is_alnum c \<longleftrightarrow>
     (let n = (of_char c :: int) in
      (48 \<le> n \<and> n \<le> 57) \<or> (65 \<le> n \<and> n \<le> 90) \<or> (97 \<le> n \<and> n \<le> 122) \<or> n = 95)"

definition is_blank :: "char \<Rightarrow> bool" where
  "is_blank c \<longleftrightarrow> c = CHR '' '' \<or> c = CHR 0x09"

definition parse_action :: "string \<Rightarrow> string option" where
  "parse_action s =
     (case rev (dropWhile is_blank (rev (dropWhile is_blank s))) of
        [] \<Rightarrow> None
      | c # name \<Rightarrow> if c = CHR ''.'' \<and> name \<noteq> [] \<and> list_all is_alnum name then Some name else None)"

definition text_item :: "string \<Rightarrow> item list" where
  "text_item acc = (if acc = [] then [] else [Text (rev acc)])"

fun template_step :: "tmode \<Rightarrow> char \<Rightarrow> (item list \<times> tmode) option" where
  "template_step (InText acc) c =
     (if c = CHR ''{'' then Some ([], SeenLeft acc) else Some ([], InText (c # acc)))"
| "template_step (SeenLeft acc) c =
     (if c = CHR ''{'' then Some (text_item acc, InAction [])
      else Some ([], InText (c # CHR ''{'' # acc)))"
| "template_step (InAction acc) c =
     (if c = CHR ''}'' then Some ([], SeenRight acc) else Some ([], InAction (c # acc)))"
| "template_step (SeenRight acc) c =
     (if c = CHR ''}'' then map_option (\<lambda>n. ([Field n], InText [])) (parse_action (rev acc))
      else Some ([], InAction (c # CHR ''}'' # acc)))"

fun template_end :: "tmode \<Rightarrow> item list option" where
  "template_end (InText acc) = Some (text_item acc)"
| "template_end (SeenLeft acc) = Some (text_item (CHR ''{'' # acc))"
| "template_end _ = None"

fun template_scan :: "tmode \<Rightarrow> string \<Rightarrow> item list option" where
  "template_scan m [] = template_end m"
| "template_scan m (c # cs) =
     (case template_step m c of None \<Rightarrow> None
      | Some (xs, m') \<Rightarrow> map_option (\<lambda>ys. xs @ ys) (template_scan m' cs))"

definition template_Parse :: "string \<Rightarrow> item list result" where
  "template_Parse s =
     (case template_scan (InText []) s of None \<Rightarrow> Inl (ErrorString ''template: cannot parse'') | Some xs \<Rightarrow> Inr xs)"

text \<open>The fields of the data struct with their values.\<close>

type_synonym struct_fields = "(string \<times> string) list"

fun template_Execute :: "item list \<Rightarrow> struct_fields \<Rightarrow> string result" where
  "template_Execute [] d = Inr []"
| "template_Execute (Text s # xs) d =
     (case template_Execute xs d of Inl e \<Rightarrow> Inl e | Inr t \<Rightarrow> Inr (s @ t))"
| "template_Execute (Field n # xs) d =
     (case map_of d n of
        None \<Rightarrow> Inl (ErrorString (''template: can't evaluate field '' @ n))
      | Some v \<Rightarrow> (case template_Execute xs d of Inl e \<Rightarrow> Inl e | Inr t \<Rightarrow> Inr (v @ t)))"

definition render :: "string \<Rightarrow> struct_fields \<Rightarrow> string result" where
  "render tpl d = (case template_Parse tpl of Inl e \<Rightarrow> Inl e | Inr xs \<Rightarrow> template_Execute xs d)"

subsection \<open>What rendering does\<close>

text \<open>The value an item stands for, and the fields a template asks for.\<close>

fun item_value :: "struct_fields \<Rightarrow> item \<Rightarrow> string" where
  "item_value d (Text s) = s"
| "item_value d (Field n) = (case map_of d n of None \<Rightarrow> [] | Some v \<Rightarrow> v)"

fun item_fields :: "item list \<Rightarrow> string list" where
  "item_fields [] = []"
| "item_fields (Text s # xs) = item_fields xs"
| "item_fields (Field n # xs) = n # item_fields xs"

lemma Execute_ok_iff:
  "(\<exists>t. template_Execute xs d = Inr t) \<longleftrightarrow> set (item_fields xs) \<subseteq> fst ` set d"
proof (induction xs d rule: template_Execute.induct)
  case (3 n xs d)
  show ?case
  proof (cases "map_of d n")
    case None
    then have "n \<notin> fst ` set d" by (simp add: map_of_eq_None_iff)
    with None show ?thesis by simp
  next
    case (Some v)
    then have "n \<in> fst ` set d" by (metis map_of_in_keys)
    with 3 [OF Some] Some show ?thesis by (auto split: sum.splits)
  qed
qed (auto split: sum.splits)

lemma Execute_value:
  "template_Execute xs d = Inr t \<Longrightarrow> t = concat (map (item_value d) xs)"
  by (induction xs d arbitrary: t rule: template_Execute.induct)
     (auto split: option.splits sum.splits)

text \<open>A text without braces is its own rendering.\<close>

lemma template_scan_text:
  "CHR ''{'' \<notin> set s \<Longrightarrow> template_scan (InText acc) s = Some (text_item (rev s @ acc))"
  by (induction s arbitrary: acc) auto

lemma render_plain_text: "CHR ''{'' \<notin> set s \<Longrightarrow> render s d = Inr s"
  by (auto simp: render_def template_Parse_def template_scan_text text_item_def)

end
