(* ===== verification/KeycloakTemplates.thy ===== *)
theory KeycloakTemplates
  imports GoTemplate Effects
begin

text \<open>
  pkg/keycloak/templateHelper.go and the helpers of realms, clients, roles, users and user
  roles: where the JSON templates are, and how one is loaded and filled in.
\<close>

definition templatePath :: "string io" where
  "templatePath =
     Getenv ''TEMPLATE_PATH'' (\<lambda>path.
       Return (if path = '''' then ''./templates/rhsso'' else path))"

definition loadTemplate :: "string \<Rightarrow> string \<Rightarrow> struct_fields \<Rightarrow> string result io" where
  "loadTemplate name path data =
     ReadFile (path @ ''/'' @ name @ ''.json'') (\<lambda>r. case r of
       Inl err \<Rightarrow> Return (Inl err)
     | Inr tpl \<Rightarrow> (case template_Parse tpl of
         Inl err \<Rightarrow> Return (Inl err)
       | Inr parsed \<Rightarrow> (case template_Execute parsed data of
           Inl err \<Rightarrow> Return (Inl err)
         | Inr buffer \<Rightarrow> Return (Inr buffer))))"

lemma loadTemplate_render:
  "loadTemplate name path data =
     ReadFile (path @ ''/'' @ name @ ''.json'') (\<lambda>r. Return (case r of Inl e \<Rightarrow> Inl e | Inr tpl \<Rightarrow> render tpl data))"
  unfolding loadTemplate_def render_def
  by (auto intro!: arg_cong2 [where f = ReadFile] ext split: sum.splits)

subsection \<open>Realms and clients (realmHelper.go)\<close>

record RealmHelper =
  realmTemplatePath :: string

record RealmParameters =
  rp_RealmId :: string

record RealmClientParameters =
  rcp_ClientId :: string
  rcp_RootUrl :: string
  rcp_AdminUrl :: string
  rcp_RedirectUris :: string
  rcp_WebOrigin :: string
  rcp_BearerOnly :: string
  rcp_ImplicitFlowEnabled :: string
  rcp_DirectAcessGrantEnabled :: string
  rcp_PublicClient :: string

definition RealmParameters_fields :: "RealmParameters \<Rightarrow> struct_fields" where
  "RealmParameters_fields p = [(''RealmId'', rp_RealmId p)]"

definition RealmClientParameters_fields :: "RealmClientParameters \<Rightarrow> struct_fields" where
  "RealmClientParameters_fields p =
     [(''ClientId'', rcp_ClientId p), (''RootUrl'', rcp_RootUrl p), (''AdminUrl'', rcp_AdminUrl p),
      (''RedirectUris'', rcp_RedirectUris p), (''WebOrigin'', rcp_WebOrigin p),
      (''BearerOnly'', rcp_BearerOnly p), (''ImplicitFlowEnabled'', rcp_ImplicitFlowEnabled p),
      (''DirectAcessGrantEnabled'', rcp_DirectAcessGrantEnabled p), (''PublicClient'', rcp_PublicClient p)]"

definition NewRealmHelper :: "RealmHelper io" where
  "NewRealmHelper = bind templatePath (\<lambda>p. Return \<lparr>realmTemplatePath = p\<rparr>)"

definition LoadRealmTemplate :: "RealmHelper \<Rightarrow> RealmParameters \<Rightarrow> string result io" where
  "LoadRealmTemplate r params = loadTemplate ''realm'' (realmTemplatePath r) (RealmParameters_fields params)"

definition LoadRealmClientTemplate :: "RealmHelper \<Rightarrow> RealmClientParameters \<Rightarrow> string result io" where
  "LoadRealmClientTemplate r params =
     loadTemplate ''realm-client'' (realmTemplatePath r) (RealmClientParameters_fields params)"

subsection \<open>Roles (roleHelper.go)\<close>

record RoleHelper =
  roleTemplatePath :: string

record RoleParameters =
  rop_RoleName :: string

definition RoleParameters_fields :: "RoleParameters \<Rightarrow> struct_fields" where
  "RoleParameters_fields p = [(''RoleName'', rop_RoleName p)]"

definition NewRoleHelper :: "RoleHelper io" where
  "NewRoleHelper = bind templatePath (\<lambda>p. Return \<lparr>roleTemplatePath = p\<rparr>)"

definition LoadRoleTemplate :: "RoleHelper \<Rightarrow> RoleParameters \<Rightarrow> string result io" where
  "LoadRoleTemplate r params = loadTemplate ''role'' (roleTemplatePath r) (RoleParameters_fields params)"

subsection \<open>Users (userHelper.go)\<close>

record UserHelper =
  userTemplatePath :: string

record UserParameters =
  up_Username :: string
  up_Password :: string

definition UserParameters_fields :: "UserParameters \<Rightarrow> struct_fields" where
  "UserParameters_fields p = [(''Username'', up_Username p), (''Password'', up_Password p)]"

definition NewUserHelper :: "UserHelper io" where
  "NewUserHelper = bind templatePath (\<lambda>p. Return \<lparr>userTemplatePath = p\<rparr>)"

definition LoadUserTemplate :: "UserHelper \<Rightarrow> UserParameters \<Rightarrow> string result io" where
  "LoadUserTemplate r params = loadTemplate ''user'' (userTemplatePath r) (UserParameters_fields params)"

subsection \<open>Role mappings of a user (userRoleHelper.go)\<close>

record UserRoleHelper =
  userRoleTemplatePath :: string

record UserRoleParameters =
  urp_RoleName :: string
  urp_RoleId :: string

definition UserRoleParameters_fields :: "UserRoleParameters \<Rightarrow> struct_fields" where
  "UserRoleParameters_fields p = [(''RoleName'', urp_RoleName p), (''RoleId'', urp_RoleId p)]"

definition NewUserRoleHelper :: "UserRoleHelper io" where
  "NewUserRoleHelper = bind templatePath (\<lambda>p. Return \<lparr>userRoleTemplatePath = p\<rparr>)"

definition LoadUserRoleTemplate :: "UserRoleHelper \<Rightarrow> UserRoleParameters \<Rightarrow> string result io" where
  "LoadUserRoleTemplate r params =
     loadTemplate ''user-role'' (userRoleTemplatePath r) (UserRoleParameters_fields params)"

lemmas template_helper_defs [go_defs] =
  templatePath_def Getenv_def NewRealmHelper_def NewRoleHelper_def NewUserHelper_def NewUserRoleHelper_def
  LoadRealmTemplate_def LoadRealmClientTemplate_def LoadRoleTemplate_def LoadUserTemplate_def
  LoadUserRoleTemplate_def

text \<open>Loading a template reads one file and the process environment, and calls nothing else.\<close>

definition local_event :: "event \<Rightarrow> bool" where
  "local_event ev = (case ev of ELookupEnv x r \<Rightarrow> True | EReadFile x r \<Rightarrow> True | _ \<Rightarrow> False)"

lemma local_event_simps [simp]:
  "local_event (ELookupEnv x v)" "local_event (EReadFile x c)"
  by (simp_all add: local_event_def)

lemma loadTemplate_local: "guarantees local_event (loadTemplate name path data) (\<lambda>_. True)"
  unfolding loadTemplate_render by auto

end
