(* ===== verification/KeycloakClient.thy ===== *)
theory KeycloakClient
  imports KeycloakTypes KeycloakTemplates
begin

text \<open>
  pkg/keycloak/keycloakclient.go: the REST client. Each method builds one request, sends it,
  checks the status code and decodes the body. The URL is concatenated from the base URL and
  the arguments as they are; whether net/http accepts it is an answer of the environment
  (theory Effects, \<^theory_text>\<open>NewRequest\<close>), and so are the response, the result of reading its
  body, and the reply of the server to a request.

  The interface KeycloakInterface is a record of methods: the handlers are given one and do not
  see which implementation it is. \<^theory_text>\<open>client_interface\<close> is the method table of a Client.
\<close>

record Client =
  cl_URL :: string
  cl_token :: string

record KeycloakFactory =
  kf_AdminUser :: string
  kf_AdminPassword :: string
  kf_AdminUrl :: string

definition NewKeycloakFactory :: KeycloakFactory where
  "NewKeycloakFactory = \<lparr>kf_AdminUser = '''', kf_AdminPassword = '''', kf_AdminUrl = ''''\<rparr>"

definition authUrl :: string where
  "authUrl = ''auth/realms/master/protocol/openid-connect/token''"

definition admin_url :: "Client \<Rightarrow> string \<Rightarrow> string" where
  "admin_url c resourcePath = cl_URL c @ ''/auth/admin/'' @ resourcePath"

definition bearer :: "Client \<Rightarrow> string \<times> string" where
  "bearer c = (''Authorization'', ''Bearer '' @ cl_token c)"

definition status_error :: "string \<Rightarrow> string \<Rightarrow> Response \<Rightarrow> error" where
  "status_error what resourceName res =
     ErrorString (what @ '' '' @ resourceName @ '': ('' @ int_text (rs_StatusCode res) @ '') '' @ rs_Status res)"

subsection \<open>The generic requests\<close>

definition create :: "Client \<Rightarrow> string \<Rightarrow> string \<Rightarrow> string \<Rightarrow> int \<Rightarrow> unit result io" where
  "create c obj resourcePath resourceName statuscode =
     NewRequest ''POST'' (admin_url c resourcePath) (\<lambda>r. case r of
       Inl err \<Rightarrow> Return (Inl (WithMessage (''error creating POST '' @ resourceName @ '' request'') err))
     | Inr _ \<Rightarrow>
         HttpDo \<lparr>rq_Method = ''POST'', rq_URL = admin_url c resourcePath,
                 rq_Header = [(''Content-Type'', ''application/json''), bearer c],
                 rq_Body = Some obj\<rparr> (\<lambda>r. case r of
           Inl err \<Rightarrow> Return (Inl (WithMessage (''error performing POST '' @ resourceName @ '' request'') err))
         | Inr res \<Rightarrow> CloseBody (Return
             (if rs_StatusCode res \<noteq> statuscode
              then Inl (status_error ''failed to create'' resourceName res) else Inr ()))))"

definition get :: "Client \<Rightarrow> string \<Rightarrow> string \<Rightarrow> (string \<Rightarrow> 'a result) \<Rightarrow> 'a result io" where
  "get c resourcePath resourceName unMarshalFunc =
     NewRequest ''GET'' (admin_url c resourcePath) (\<lambda>r. case r of
       Inl err \<Rightarrow> Return (Inl (WithMessage (''error creating GET '' @ resourceName @ '' request'') err))
     | Inr _ \<Rightarrow>
         HttpDo \<lparr>rq_Method = ''GET'', rq_URL = admin_url c resourcePath,
                 rq_Header = [bearer c], rq_Body = None\<rparr> (\<lambda>r. case r of
           Inl err \<Rightarrow> Return (Inl (WithMessage (''error performing GET '' @ resourceName @ '' request'') err))
         | Inr res \<Rightarrow>
             if rs_StatusCode res \<noteq> 200 then Return (Inl (status_error ''failed to GET'' resourceName res))
             else ReadBody (\<lambda>r. CloseBody (Return (case r of
                 Inl err \<Rightarrow> Inl (WithMessage (''error reading '' @ resourceName @ '' GET response'') err)
               | Inr body \<Rightarrow> unMarshalFunc body)))))"

definition delete :: "Client \<Rightarrow> string \<Rightarrow> string \<Rightarrow> unit result io" where
  "delete c resourcePath resourceName =
     NewRequest ''DELETE'' (admin_url c resourcePath) (\<lambda>r. case r of
       Inl err \<Rightarrow> Return (Inl (WithMessage (''error creating DELETE '' @ resourceName @ '' request'') err))
     | Inr _ \<Rightarrow>
         HttpDo \<lparr>rq_Method = ''DELETE'', rq_URL = admin_url c resourcePath,
                 rq_Header = [bearer c], rq_Body = None\<rparr> (\<lambda>r. case r of
           Inl err \<Rightarrow> Return (Inl (WithMessage (''error performing DELETE '' @ resourceName @ '' request'') err))
         | Inr res \<Rightarrow> CloseBody (Return
             (if rs_StatusCode res \<noteq> 204
              then Inl (status_error ''failed to DELETE'' resourceName res) else Inr ()))))"

definition deleteWithBody :: "Client \<Rightarrow> string \<Rightarrow> string \<Rightarrow> string \<Rightarrow> unit result io" where
  "deleteWithBody c obj resourcePath resourceName =
     NewRequest ''DELETE'' (admin_url c resourcePath) (\<lambda>r. case r of
       Inl err \<Rightarrow> Return (Inl (WithMessage (''error creating DELETE '' @ resourceName @ '' request'') err))
     | Inr _ \<Rightarrow>
         HttpDo \<lparr>rq_Method = ''DELETE'', rq_URL = admin_url c resourcePath,
                 rq_Header = [(''Content-Type'', ''application/json''), bearer c],
                 rq_Body = Some obj\<rparr> (\<lambda>r. case r of
           Inl err \<Rightarrow> Return (Inl (WithMessage (''error performing DELETE '' @ resourceName @ '' request'') err))
         | Inr res \<Rightarrow> CloseBody (Return
             (if rs_StatusCode res \<noteq> 204
              then Inl (status_error ''failed to delete'' resourceName res) else Inr ()))))"

text \<open>The list request accepts any status of the 200 family.\<close>

definition list_all_of :: "Client \<Rightarrow> string \<Rightarrow> string \<Rightarrow> (string \<Rightarrow> 'a result) \<Rightarrow> 'a result io" where
  "list_all_of c resourcePath resourceName unMarshalListFunc =
     NewRequest ''GET'' (admin_url c resourcePath) (\<lambda>r. case r of
       Inl err \<Rightarrow> Return (Inl (WithMessage (''error creating LIST '' @ resourceName @ '' request'') err))
     | Inr _ \<Rightarrow>
         HttpDo \<lparr>rq_Method = ''GET'', rq_URL = admin_url c resourcePath,
                 rq_Header = [bearer c], rq_Body = None\<rparr> (\<lambda>r. case r of
           Inl err \<Rightarrow> Return (Inl (WithMessage (''error performing LIST '' @ resourceName @ '' request'') err))
         | Inr res \<Rightarrow>
             if rs_StatusCode res < 200 \<or> rs_StatusCode res > 299
             then CloseBody (Return (Inl (status_error ''failed to LIST'' resourceName res)))
             else ReadBody (\<lambda>r. CloseBody (Return (case r of
                 Inl err \<Rightarrow> Inl (WithMessage (''error reading '' @ resourceName @ '' LIST response'') err)
               | Inr body \<Rightarrow> unMarshalListFunc body)))))"

subsection \<open>Realms and clients\<close>

definition Client_CreateRealm :: "Client \<Rightarrow> string \<Rightarrow> unit result io" where
  "Client_CreateRealm c json = create c json ''realms'' ''realm'' 201"

definition Client_DeleteRealm :: "Client \<Rightarrow> string \<Rightarrow> unit result io" where
  "Client_DeleteRealm c realm = delete c (''realms/'' @ realm) ''realm''"

definition Client_CreateClient :: "Client \<Rightarrow> string \<Rightarrow> string \<Rightarrow> unit result io" where
  "Client_CreateClient c json realm = create c json (''realms/'' @ realm @ ''/clients'') ''client'' 201"

definition decode_string_map :: "json \<Rightarrow> (string \<times> string) list result" where
  "decode_string_map j =
     (case j of JObj kvs \<Rightarrow> decode_members decode_string kvs [] | JNull \<Rightarrow> Inr [] | _ \<Rightarrow> Inl type_error)"

definition client_secret_path :: "string \<Rightarrow> string \<Rightarrow> string" where
  "client_secret_path clientId realmName = ''realms/'' @ realmName @ ''/clients/'' @ clientId @ ''/client-secret''"

definition Client_GetClientSecret :: "Client \<Rightarrow> string \<Rightarrow> string \<Rightarrow> string result io" where
  "Client_GetClientSecret c clientId realmName =
     check_err (WithMessage (''failed to get: '' @ client_secret_path clientId realmName))
       (get c (client_secret_path clientId realmName) ''client-secret''
         (\<lambda>body. case Unmarshal decode_string_map body of
            Inl err \<Rightarrow> Inl err
          | Inr res \<Rightarrow> Inr (case map_of res ''value'' of None \<Rightarrow> '''' | Some v \<Rightarrow> v)))
       (\<lambda>result. Return (Inr result))"

definition Client_ListClients :: "Client \<Rightarrow> string \<Rightarrow> KeycloakClient option list result io" where
  "Client_ListClients c realm =
     list_all_of c (''realms/'' @ realm @ ''/clients'') ''clients''
       (Unmarshal (decode_slice (decode_ptr decode_KeycloakClient)))"

subsection \<open>Users\<close>

definition Client_CreateUser :: "Client \<Rightarrow> string \<Rightarrow> string \<Rightarrow> unit result io" where
  "Client_CreateUser c json realm = create c json (''realms/'' @ realm @ ''/users'') ''user'' 201"

text \<open>
  The server is asked for the users matching the name, and the first one is taken: an empty
  list or an empty identifier is an error, and a nil first element panics.
\<close>

definition Client_FindUserByUsername :: "Client \<Rightarrow> string \<Rightarrow> string \<Rightarrow> KeycloakApiUser result io" where
  "Client_FindUserByUsername c name realm =
     check_err (\<lambda>err. err)
       (get c (''realms/'' @ realm @ ''/users?username='' @ name) ''user''
         (\<lambda>body. case Unmarshal (decode_slice (decode_ptr decode_KeycloakApiUser)) body of
            Inl err \<Rightarrow> Inl err
          | Inr users \<Rightarrow> (case users of [] \<Rightarrow> Inr (Some zero_KeycloakApiUser) | u # us \<Rightarrow> Inr u)))
       (\<lambda>result. deref result (\<lambda>user.
          Return (if kau_ID user = '''' then Inl (ErrorString ''Not Found'') else Inr user)))"

text \<open>
  The result of the request is asserted to be a user before the error is looked at: when the
  request fails the result is nil and the assertion panics.
\<close>

definition Client_GetUser :: "Client \<Rightarrow> string \<Rightarrow> string \<Rightarrow> KeycloakUser result io" where
  "Client_GetUser c userID realmName =
     bind (get c (''realms/'' @ realmName @ ''/users/'' @ userID) ''user'' (Unmarshal decode_KeycloakApiUser))
       (\<lambda>r. case r of
          Inl err \<Rightarrow> Panic ''interface conversion: interface is nil, not KeycloakApiUser''
        | Inr user \<Rightarrow> Return (Inr (zero_KeycloakUser\<lparr>ku_KeycloakApiUser := Some user\<rparr>)))"

definition Client_ListUsers :: "Client \<Rightarrow> string \<Rightarrow> KeycloakUser option list result io" where
  "Client_ListUsers c realm =
     list_all_of c (''realms/'' @ realm @ ''/users'') ''users''
       (Unmarshal (decode_slice (decode_ptr decode_KeycloakUser)))"

definition Client_DeleteUser :: "Client \<Rightarrow> string \<Rightarrow> string \<Rightarrow> unit result io" where
  "Client_DeleteUser c userID realm = delete c (''realms/'' @ realm @ ''/users/'' @ userID) ''user''"

subsection \<open>Roles and role mappings\<close>

definition Client_CreateRole :: "Client \<Rightarrow> string \<Rightarrow> string \<Rightarrow> unit result io" where
  "Client_CreateRole c json realm = create c json (''realms/'' @ realm @ ''/roles'') ''role'' 201"

definition Client_GetRole :: "Client \<Rightarrow> string \<Rightarrow> string \<Rightarrow> KeycloakRole result io" where
  "Client_GetRole c roleName realmName =
     check_err (WithMessage (''failed to get: '' @ ''realms/'' @ realmName @ ''/roles/'' @ roleName))
       (get c (''realms/'' @ realmName @ ''/roles/'' @ roleName) ''role'' (Unmarshal decode_KeycloakRole))
       (\<lambda>result. Return (Inr result))"

definition Client_ListRoles :: "Client \<Rightarrow> string \<Rightarrow> KeycloakRole option list result io" where
  "Client_ListRoles c realm =
     list_all_of c (''realms/'' @ realm @ ''/roles'') ''roles''
       (Unmarshal (decode_slice (decode_ptr decode_KeycloakRole)))"

definition Client_DeleteRole :: "Client \<Rightarrow> string \<Rightarrow> string \<Rightarrow> unit result io" where
  "Client_DeleteRole c role realm = delete c (''realms/'' @ realm @ ''/roles/'' @ role) ''role''"

definition role_mapping_path :: "string \<Rightarrow> string \<Rightarrow> string" where
  "role_mapping_path user realm = ''realms/'' @ realm @ ''/users/'' @ user @ ''/role-mappings/realm''"

definition Client_GetRealmRoleMappings :: "Client \<Rightarrow> string \<Rightarrow> string \<Rightarrow> KeycloakRole option list result io" where
  "Client_GetRealmRoleMappings c user realm =
     get c (role_mapping_path user realm) ''role-mapping''
       (Unmarshal (decode_slice (decode_ptr decode_KeycloakRole)))"

definition Client_CreateUserRealmRole :: "Client \<Rightarrow> string \<Rightarrow> string \<Rightarrow> string \<Rightarrow> unit result io" where
  "Client_CreateUserRealmRole c json user realm = create c json (role_mapping_path user realm) ''user-role'' 204"

definition Client_DeleteUserRealmRole :: "Client \<Rightarrow> string \<Rightarrow> string \<Rightarrow> string \<Rightarrow> unit result io" where
  "Client_DeleteUserRealmRole c json user realm = deleteWithBody c json (role_mapping_path user realm) ''user-role''"

subsection \<open>The interface\<close>

record KeycloakInterface =
  kc_CreateRealm :: "string \<Rightarrow> unit result io"
  kc_DeleteRealm :: "string \<Rightarrow> unit result io"
  kc_CreateClient :: "string \<Rightarrow> string \<Rightarrow> unit result io"
  kc_GetClientSecret :: "string \<Rightarrow> string \<Rightarrow> string result io"
  kc_ListClients :: "string \<Rightarrow> KeycloakClient option list result io"
  kc_CreateUser :: "string \<Rightarrow> string \<Rightarrow> unit result io"
  kc_FindUserByUsername :: "string \<Rightarrow> string \<Rightarrow> KeycloakApiUser result io"
  kc_GetUser :: "string \<Rightarrow> string \<Rightarrow> KeycloakUser result io"
  kc_ListUsers :: "string \<Rightarrow> KeycloakUser option list result io"
  kc_DeleteUser :: "string \<Rightarrow> string \<Rightarrow> unit result io"
  kc_CreateRole :: "string \<Rightarrow> string \<Rightarrow> unit result io"
  kc_GetRole :: "string \<Rightarrow> string \<Rightarrow> KeycloakRole result io"
  kc_ListRoles :: "string \<Rightarrow> KeycloakRole option list result io"
  kc_DeleteRole :: "string \<Rightarrow> string \<Rightarrow> unit result io"
  kc_GetRealmRoleMappings :: "string \<Rightarrow> string \<Rightarrow> KeycloakRole option list result io"
  kc_CreateUserRealmRole :: "string \<Rightarrow> string \<Rightarrow> string \<Rightarrow> unit result io"
  kc_DeleteUserRealmRole :: "string \<Rightarrow> string \<Rightarrow> string \<Rightarrow> unit result io"

definition client_interface :: "Client \<Rightarrow> KeycloakInterface" where
  "client_interface c =
     \<lparr>kc_CreateRealm = Client_CreateRealm c, kc_DeleteRealm = Client_DeleteRealm c,
      kc_CreateClient = Client_CreateClient c, kc_GetClientSecret = Client_GetClientSecret c,
      kc_ListClients = Client_ListClients c, kc_CreateUser = Client_CreateUser c,
      kc_FindUserByUsername = Client_FindUserByUsername c, kc_GetUser = Client_GetUser c,
      kc_ListUsers = Client_ListUsers c, kc_DeleteUser = Client_DeleteUser c,
      kc_CreateRole = Client_CreateRole c, kc_GetRole = Client_GetRole c,
      kc_ListRoles = Client_ListRoles c, kc_DeleteRole = Client_DeleteRole c,
      kc_GetRealmRoleMappings = Client_GetRealmRoleMappings c,
      kc_CreateUserRealmRole = Client_CreateUserRealmRole c,
      kc_DeleteUserRealmRole = Client_DeleteUserRealmRole c\<rparr>"

lemma client_interface_simps [simp]:
  "kc_CreateRealm (client_interface c) = Client_CreateRealm c"
  "kc_DeleteRealm (client_interface c) = Client_DeleteRealm c"
  "kc_CreateClient (client_interface c) = Client_CreateClient c"
  "kc_GetClientSecret (client_interface c) = Client_GetClientSecret c"
  "kc_ListClients (client_interface c) = Client_ListClients c"
  "kc_CreateUser (client_interface c) = Client_CreateUser c"
  "kc_FindUserByUsername (client_interface c) = Client_FindUserByUsername c"
  "kc_GetUser (client_interface c) = Client_GetUser c"
  "kc_ListUsers (client_interface c) = Client_ListUsers c"
  "kc_DeleteUser (client_interface c) = Client_DeleteUser c"
  "kc_CreateRole (client_interface c) = Client_CreateRole c"
  "kc_GetRole (client_interface c) = Client_GetRole c"
  "kc_ListRoles (client_interface c) = Client_ListRoles c"
  "kc_DeleteRole (client_interface c) = Client_DeleteRole c"
  "kc_GetRealmRoleMappings (client_interface c) = Client_GetRealmRoleMappings c"
  "kc_CreateUserRealmRole (client_interface c) = Client_CreateUserRealmRole c"
  "kc_DeleteUserRealmRole (client_interface c) = Client_DeleteUserRealmRole c"
  by (simp_all add: client_interface_def)

subsection \<open>Logging in\<close>

record TokenResponse =
  tr_AccessToken :: string
  tr_ExpiresIn :: int
  tr_RefreshExpiresIn :: int
  tr_RefreshToken :: string
  tr_TokenType :: string
  tr_NotBeforePolicy :: int
  tr_SessionState :: string
  tr_Error :: string
  tr_ErrorDescription :: string

definition zero_TokenResponse :: TokenResponse where
  "zero_TokenResponse = \<lparr>tr_AccessToken = '''', tr_ExpiresIn = 0, tr_RefreshExpiresIn = 0,
     tr_RefreshToken = '''', tr_TokenType = '''', tr_NotBeforePolicy = 0, tr_SessionState = '''',
     tr_Error = '''', tr_ErrorDescription = ''''\<rparr>"

definition TokenResponse_fields :: "TokenResponse field list" where
  "TokenResponse_fields = [
     (''access_token'', store_string (\<lambda>v r. r\<lparr>tr_AccessToken := v\<rparr>)),
     (''expires_in'', store_int (\<lambda>v r. r\<lparr>tr_ExpiresIn := v\<rparr>)),
     (''refresh_expires_in'', store_int (\<lambda>v r. r\<lparr>tr_RefreshExpiresIn := v\<rparr>)),
     (''refresh_token'', store_string (\<lambda>v r. r\<lparr>tr_RefreshToken := v\<rparr>)),
     (''token_type'', store_string (\<lambda>v r. r\<lparr>tr_TokenType := v\<rparr>)),
     (''not-before-policy'', store_int (\<lambda>v r. r\<lparr>tr_NotBeforePolicy := v\<rparr>)),
     (''session_state'', store_string (\<lambda>v r. r\<lparr>tr_SessionState := v\<rparr>)),
     (''error'', store_string (\<lambda>v r. r\<lparr>tr_Error := v\<rparr>)),
     (''error_description'', store_string (\<lambda>v r. r\<lparr>tr_ErrorDescription := v\<rparr>))]"

definition decode_TokenResponse :: "json \<Rightarrow> TokenResponse result" where
  "decode_TokenResponse j = store_struct TokenResponse_fields j zero_TokenResponse"

text \<open>url.Values.Encode: the values sorted by key, both sides escaped for a query.\<close>

definition hex_digit :: "int \<Rightarrow> char" where
  "hex_digit n = (if n < 10 then char_of (48 + n) else char_of (55 + n))"

definition query_escape_char :: "char \<Rightarrow> string" where
  "query_escape_char c =
     (if (48 \<le> char_code c \<and> char_code c \<le> 57) \<or> (65 \<le> char_code c \<and> char_code c \<le> 90)
         \<or> (97 \<le> char_code c \<and> char_code c \<le> 122) \<or> c \<in> set ''-_.~''
      then [c]
      else if c = CHR '' '' then ''+''
      else [CHR 0x25, hex_digit (char_code c div 16), hex_digit (char_code c mod 16)])"

definition QueryEscape :: "string \<Rightarrow> string" where
  "QueryEscape s = concat (map query_escape_char s)"

fun join_pairs :: "(string \<times> string) list \<Rightarrow> string" where
  "join_pairs [] = []"
| "join_pairs [(k, v)] = QueryEscape k @ ''='' @ QueryEscape v"
| "join_pairs ((k, v) # kvs) = QueryEscape k @ ''='' @ QueryEscape v @ ''&'' @ join_pairs kvs"

definition form_Encode :: "(string \<times> string) list \<Rightarrow> string" where
  "form_Encode kvs = join_pairs (sort_key fst kvs)"

text \<open>
  The token is stored in the client, which is returned; the status code of the response is not
  looked at, only its body.
\<close>

definition login :: "Client \<Rightarrow> string \<Rightarrow> string \<Rightarrow> Client result io" where
  "login c user pass =
     (let form = [(''username'', user), (''password'', pass), (''client_id'', ''admin-cli''),
                  (''grant_type'', ''password'')];
          url = cl_URL c @ ''/'' @ authUrl in
      NewRequest ''POST'' url (\<lambda>r. case r of
        Inl err \<Rightarrow> Return (Inl (WithMessage ''error creating login request'' err))
      | Inr _ \<Rightarrow>
          HttpDo \<lparr>rq_Method = ''POST'', rq_URL = url,
                  rq_Header = [(''Content-Type'', ''application/x-www-form-urlencoded'')],
                  rq_Body = Some (form_Encode form)\<rparr> (\<lambda>r. case r of
            Inl err \<Rightarrow> Return (Inl (WithMessage ''error performing token request'' err))
          | Inr res \<Rightarrow> ReadBody (\<lambda>r. CloseBody (Return (case r of
                Inl err \<Rightarrow> Inl (WithMessage ''error reading token response'' err)
              | Inr body \<Rightarrow> (case Unmarshal decode_TokenResponse body of
                  Inl err \<Rightarrow> Inl (WithMessage ''error parsing token response'' err)
                | Inr tokenRes \<Rightarrow>
                    if tr_Error tokenRes \<noteq> '''' then Inl (ErrorString (tr_ErrorDescription tokenRes))
                    else Inr (c\<lparr>cl_token := tr_AccessToken tokenRes\<rparr>))))))))"

definition AuthenticatedClient :: "KeycloakFactory \<Rightarrow> KeycloakInterface result io" where
  "AuthenticatedClient kf =
     check (login \<lparr>cl_URL = kf_AdminUrl kf, cl_token = ''''\<rparr> (kf_AdminUser kf) (kf_AdminPassword kf))
       (\<lambda>client. Return (Inr (client_interface client)))"

lemmas client_method_defs =
  Client_CreateRealm_def Client_DeleteRealm_def Client_CreateClient_def Client_GetClientSecret_def
  Client_ListClients_def Client_CreateUser_def Client_FindUserByUsername_def Client_GetUser_def
  Client_ListUsers_def Client_DeleteUser_def Client_CreateRole_def Client_GetRole_def
  Client_ListRoles_def Client_DeleteRole_def Client_GetRealmRoleMappings_def
  Client_CreateUserRealmRole_def Client_DeleteUserRealmRole_def

lemmas request_defs = create_def get_def delete_def deleteWithBody_def list_all_of_def

end
