(* ===== verification/SsoLogin.thy ===== *)
theory SsoLogin
  imports Common KeycloakClient
begin

text \<open>
  How both controllers get an authenticated Keycloak client: the SSO secret is read, its three
  entries are stored in the Keycloak factory of the phase handler, and the factory logs in. The
  factory is state of the handler and survives the call, so it is returned with the result, on
  the error paths too. The two packages repeat this code; their handlers lift the functions
  here to their own record.
\<close>

definition factory_of_secret :: "Object \<Rightarrow> KeycloakFactory" where
  "factory_of_secret secret =
     \<lparr>kf_AdminUser = secret_data (ob_Payload secret) ''SSO_ADMIN_USERNAME'',
      kf_AdminPassword = secret_data (ob_Payload secret) ''SSO_ADMIN_PASSWORD'',
      kf_AdminUrl = secret_data (ob_Payload secret) ''SSO_ADMIN_URL''\<rparr>"

definition readSSOSecret :: "KeycloakFactory \<Rightarrow> (unit result \<times> KeycloakFactory) io" where
  "readSSOSecret kf =
     bind ReadSSOSecret (\<lambda>r. case r of
       Inl err \<Rightarrow> Return (Inl err, kf)
     | Inr secret \<Rightarrow> Return (Inr (), factory_of_secret secret))"

definition authenticatedClient :: "KeycloakFactory \<Rightarrow> (KeycloakInterface result \<times> KeycloakFactory) io" where
  "authenticatedClient kf =
     bind (readSSOSecret kf) (\<lambda>(r, kf'). case r of
       Inl err \<Rightarrow> Return (Inl err, kf')
     | Inr _ \<Rightarrow> bind (AuthenticatedClient kf') (\<lambda>c. case c of
         Inl err \<Rightarrow> Return (Inl err, kf')
       | Inr ssoClient \<Rightarrow> Return (Inr ssoClient, kf')))"

end
