(* ===== verification/RhpamdevConfig.thy ===== *)
theory RhpamdevConfig
  imports Common GoTemplate
begin

text \<open>
  What the RhpamDev controller is configured with: the constants of rhpamdev\_controller.go, the
  resources and templates of resourceHelper.go, the template parameters of templateHelper.go
  with their defaults, the files of initConfigmapResources.go, and the three helpers that turn
  them into objects and data.
\<close>

subsection \<open>Constants (rhpamdev\_controller.go)\<close>

definition RhpamVersion :: string where "RhpamVersion = ''7.2.1.GA''"
definition ApplicationName :: string where "ApplicationName = ''rhpam''"
definition ServiceAccount :: string where "ServiceAccount = ''rhpam''"
definition DatabaseCredentialsSecret :: string where "DatabaseCredentialsSecret = ''rhpam-postgresql''"
definition DatabaseName :: string where "DatabaseName = ''rhpam''"
definition DatabasePvc :: string where "DatabasePvc = ''rhpam-postgresql''"
definition DatabaseService :: string where "DatabaseService = ''rhpam-postgresql''"
definition DatabaseDeployment :: string where "DatabaseDeployment = ''rhpam-postgresql''"
definition DatabaseVolumeCapacity :: string where "DatabaseVolumeCapacity = ''1Gi''"
definition DatabaseImage :: string where "DatabaseImage = ''registry.redhat.io/rhscl/postgresql-96-rhel7:latest''"
definition DatabaseMaxConnections :: string where "DatabaseMaxConnections = ''100''"
definition DatabaseMaxPreparedTransactions :: string where "DatabaseMaxPreparedTransactions = ''100''"
definition DatabaseSharedBuffers :: string where "DatabaseSharedBuffers = ''32MB''"
definition DatabaseMemoryLimit :: string where "DatabaseMemoryLimit = ''512Mi''"
definition DatabaseInitConfigmap :: string where "DatabaseInitConfigmap = ''rhpam-postgresql-init''"
definition BusinessCentralService :: string where "BusinessCentralService = ''rhpam-bc''"
definition BusinessCentralPvc :: string where "BusinessCentralPvc = ''rhpam-bc''"
definition BusinessCentralRoute :: string where "BusinessCentralRoute = ''rhpam-bc''"
definition BusinessCentralDeployment :: string where "BusinessCentralDeployment = ''rhpam-bc''"
definition BusinessCentralVolumeCapacity :: string where "BusinessCentralVolumeCapacity = ''1Gi''"
definition BusinessCentralImageStreamNamespace :: string where "BusinessCentralImageStreamNamespace = ''openshift''"
definition BusinessCentralImage :: string where "BusinessCentralImage = ''rhpam72-businesscentral-openshift''"
definition BusinessCentralImageTag :: string where "BusinessCentralImageTag = ''1.1''"
definition BusinessCentralCpuRequest :: string where "BusinessCentralCpuRequest = ''200m''"
definition BusinessCentralCpuLimit :: string where "BusinessCentralCpuLimit = ''2000m''"
definition BusinessCentralMemoryRequest :: string where "BusinessCentralMemoryRequest = ''1Gi''"
definition BusinessCentralMemoryLimit :: string where "BusinessCentralMemoryLimit = ''3Gi''"
definition KieAdminUser :: string where "KieAdminUser = ''adminuser''"
definition KieAdminPassword :: string where "KieAdminPassword = ''admin1!''"
definition BusinessCentralGcMaxMetaSize :: string where "BusinessCentralGcMaxMetaSize = ''500''"
definition BusinessCentralKieMBeans :: string where "BusinessCentralKieMBeans = ''enabled''"
definition KieServerControllerUser :: string where "KieServerControllerUser = ''controllerUser''"
definition KieServerControllerPassword :: string where "KieServerControllerPassword = ''controller1!''"
definition KieServerUser :: string where "KieServerUser = ''executionuser''"
definition KieServerPassword :: string where "KieServerPassword = ''execution1!''"
definition KieMavenUser :: string where "KieMavenUser = ''mavenuser''"
definition KieMavenPassword :: string where "KieMavenPassword = ''maven1!''"
definition EapAdminUserName :: string where "EapAdminUserName = ''eapadmin''"
definition EapAdminPassword :: string where "EapAdminPassword = ''eapadmin1!''"
definition BusinessCentralJavaOptsAppend :: string where "BusinessCentralJavaOptsAppend = ''-Dorg.uberfire.nio.git.ssh.algorithm=RSA''"
definition BusinessCentralRealmSecret :: string where "BusinessCentralRealmSecret = ''rhpam-bc-sso''"
definition KieServerRoute :: string where "KieServerRoute = ''rhpam-kieserver''"
definition KieServerService :: string where "KieServerService = ''rhpam-kieserver''"
definition KieServerDeployment :: string where "KieServerDeployment = ''rhpam-kieserver''"
definition KieServerImageStreamNamespace :: string where "KieServerImageStreamNamespace = ''openshift''"
definition KieServerImage :: string where "KieServerImage = ''rhpam72-kieserver-openshift''"
definition KieServerImageTag :: string where "KieServerImageTag = ''1.1''"
definition KieServerCpuRequest :: string where "KieServerCpuRequest = ''200m''"
definition KieServerCpuLimit :: string where "KieServerCpuLimit = ''1000m''"
definition KieServerMemoryRequest :: string where "KieServerMemoryRequest = ''1Gi''"
definition KieServerMemoryLimit :: string where "KieServerMemoryLimit = ''3Gi''"
definition KieServerGcMaxMetaSize :: string where "KieServerGcMaxMetaSize = ''500''"
definition KieServerDroolsFilterClasses :: string where "KieServerDroolsFilterClasses = ''true''"
definition KieServerBypassAuthUser :: string where "KieServerBypassAuthUser = ''false''"
definition KieServerControllerProtocol :: string where "KieServerControllerProtocol = ''ws''"
definition KieServerId :: string where "KieServerId = ''kieserver-dev''"
definition KieServerKieMBeans :: string where "KieServerKieMBeans = ''enabled''"
definition KieServerRealmSecret :: string where "KieServerRealmSecret = ''rhpam-ks-sso''"

lemmas constants =
  RhpamVersion_def ApplicationName_def ServiceAccount_def DatabaseCredentialsSecret_def
  DatabaseName_def DatabasePvc_def DatabaseService_def DatabaseDeployment_def
  DatabaseVolumeCapacity_def DatabaseImage_def DatabaseMaxConnections_def DatabaseMaxPreparedTransactions_def
  DatabaseSharedBuffers_def DatabaseMemoryLimit_def DatabaseInitConfigmap_def BusinessCentralService_def
  BusinessCentralPvc_def BusinessCentralRoute_def BusinessCentralDeployment_def BusinessCentralVolumeCapacity_def
  BusinessCentralImageStreamNamespace_def BusinessCentralImage_def BusinessCentralImageTag_def BusinessCentralCpuRequest_def
  BusinessCentralCpuLimit_def BusinessCentralMemoryRequest_def BusinessCentralMemoryLimit_def KieAdminUser_def
  KieAdminPassword_def BusinessCentralGcMaxMetaSize_def BusinessCentralKieMBeans_def KieServerControllerUser_def
  KieServerControllerPassword_def KieServerUser_def KieServerPassword_def KieMavenUser_def
  KieMavenPassword_def EapAdminUserName_def EapAdminPassword_def BusinessCentralJavaOptsAppend_def
  BusinessCentralRealmSecret_def KieServerRoute_def KieServerService_def KieServerDeployment_def
  KieServerImageStreamNamespace_def KieServerImage_def KieServerImageTag_def KieServerCpuRequest_def
  KieServerCpuLimit_def KieServerMemoryRequest_def KieServerMemoryLimit_def KieServerGcMaxMetaSize_def
  KieServerDroolsFilterClasses_def KieServerBypassAuthUser_def KieServerControllerProtocol_def KieServerId_def
  KieServerKieMBeans_def KieServerRealmSecret_def

subsection \<open>Templates and resources (resourceHelper.go)\<close>

definition ServiceAccountTemplate :: string where "ServiceAccountTemplate = ''rhpamdev-service-account''"
definition DatabasePvcTemplate :: string where "DatabasePvcTemplate = ''rhpamdev-postgresql-pvc''"
definition DatabaseServiceTemplate :: string where "DatabaseServiceTemplate = ''rhpamdev-postgresql-service''"
definition DatabaseDeploymentTemplate :: string where "DatabaseDeploymentTemplate = ''rhpamdev-postgresql-dc''"
definition BusinessCentralRouteTemplate :: string where "BusinessCentralRouteTemplate = ''rhpamdev-bc-route''"
definition BusinessCentralServiceTemplate :: string where "BusinessCentralServiceTemplate = ''rhpamdev-bc-service''"
definition BusinessCentralPvcTemplate :: string where "BusinessCentralPvcTemplate = ''rhpamdev-bc-pvc''"
definition BusinessCentralDeploymentTemplate :: string where "BusinessCentralDeploymentTemplate = ''rhpamdev-bc-dc''"
definition KieServerRouteTemplate :: string where "KieServerRouteTemplate = ''rhpamdev-ks-route''"
definition KieServerServiceTemplate :: string where "KieServerServiceTemplate = ''rhpamdev-ks-service''"
definition KieServerDeploymentTemplate :: string where "KieServerDeploymentTemplate = ''rhpamdev-ks-dc''"

record Resource =
  res_name :: string
  res_template :: string

definition ServiceAccountResource :: Resource where "ServiceAccountResource = \<lparr>res_name = ServiceAccount, res_template = ServiceAccountTemplate\<rparr>"
definition DatabasePvcResource :: Resource where "DatabasePvcResource = \<lparr>res_name = DatabasePvc, res_template = DatabasePvcTemplate\<rparr>"
definition DatabaseServiceResource :: Resource where "DatabaseServiceResource = \<lparr>res_name = DatabaseService, res_template = DatabaseServiceTemplate\<rparr>"
definition DatabaseDeploymentConfigResource :: Resource where "DatabaseDeploymentConfigResource = \<lparr>res_name = DatabaseDeployment, res_template = DatabaseDeploymentTemplate\<rparr>"
definition BusinessCentralDeploymentResource :: Resource where "BusinessCentralDeploymentResource = \<lparr>res_name = BusinessCentralDeployment, res_template = BusinessCentralDeploymentTemplate\<rparr>"
definition BusinessCentralServiceResource :: Resource where "BusinessCentralServiceResource = \<lparr>res_name = BusinessCentralService, res_template = BusinessCentralServiceTemplate\<rparr>"
definition BusinessCentralRouteResource :: Resource where "BusinessCentralRouteResource = \<lparr>res_name = BusinessCentralRoute, res_template = BusinessCentralRouteTemplate\<rparr>"
definition BusinessCentralPvcResource :: Resource where "BusinessCentralPvcResource = \<lparr>res_name = BusinessCentralPvc, res_template = BusinessCentralPvcTemplate\<rparr>"
definition KieServerRouteResource :: Resource where "KieServerRouteResource = \<lparr>res_name = KieServerRoute, res_template = KieServerRouteTemplate\<rparr>"
definition KieServerServiceResource :: Resource where "KieServerServiceResource = \<lparr>res_name = KieServerService, res_template = KieServerServiceTemplate\<rparr>"
definition KieServerDeploymentResource :: Resource where "KieServerDeploymentResource = \<lparr>res_name = KieServerDeployment, res_template = KieServerDeploymentTemplate\<rparr>"

lemmas resource_defs =
  ServiceAccountResource_def DatabasePvcResource_def DatabaseServiceResource_def
  DatabaseDeploymentConfigResource_def BusinessCentralDeploymentResource_def BusinessCentralServiceResource_def
  BusinessCentralRouteResource_def BusinessCentralPvcResource_def KieServerRouteResource_def
  KieServerServiceResource_def KieServerDeploymentResource_def

subsection \<open>Template parameters (templateHelper.go)\<close>

record RhpamdevParameters =
  p_ServiceAccount :: string
  p_ApplicationName :: string
  p_ApplicationNamespace :: string
  p_PostgresqlPvc :: string
  p_PostgresqlPvcCapacity :: string
  p_PostgresqlService :: string
  p_PostgresqlDeployment :: string
  p_PostgresqlImage :: string
  p_PostgresqlSecret :: string
  p_PostgresqlMaxConnections :: string
  p_PostgresqlSharedBuffers :: string
  p_PostgresqlMaxPreparedTransactions :: string
  p_PostgresqlMemoryLimit :: string
  p_PostgresqlInitConfigmap :: string
  p_BusinessCentralService :: string
  p_BusinessCentralPvc :: string
  p_BusinessCentralRoute :: string
  p_BusinessCentralDeployment :: string
  p_BusinessCentralVolumeCapacity :: string
  p_BusinessCentralImageStreamNamespace :: string
  p_BusinessCentralImage :: string
  p_BusinessCentralImageTag :: string
  p_BusinessCentralCpuRequest :: string
  p_BusinessCentralCpuLimit :: string
  p_BusinessCentralMemoryRequest :: string
  p_BusinessCentralMemoryLimit :: string
  p_BusinessCentralGcMaxMetaSize :: string
  p_BusinessCentralKieMBeans :: string
  p_BusinessCentralJavaOptsAppend :: string
  p_BusinessCentralRealmSecret :: string
  p_KieServerRoute :: string
  p_KieServerService :: string
  p_KieServerDeployment :: string
  p_KieServerImageStreamNamespace :: string
  p_KieServerImage :: string
  p_KieServerImageTag :: string
  p_KieServerCpuRequest :: string
  p_KieServerCpuLimit :: string
  p_KieServerMemoryRequest :: string
  p_KieServerMemoryLimit :: string
  p_KieServerGcMaxMetaSize :: string
  p_KieServerDroolsFilterClasses :: string
  p_KieServerBypassAuthUser :: string
  p_KieServerControllerProtocol :: string
  p_KieServerControllerUser :: string
  p_KieServerControllerPassword :: string
  p_KieServerId :: string
  p_KieAdminUser :: string
  p_KieAdminPassword :: string
  p_KieMavenUser :: string
  p_KieMavenPassword :: string
  p_KieServerKieMBeans :: string
  p_KieServerRealmSecret :: string

record TemplateHelper =
  th_parameters :: RhpamdevParameters
  th_templatePath :: string

definition valueOrDefault :: "string \<Rightarrow> string \<Rightarrow> string" where
  "valueOrDefault value defaultValue = (if value = '''' then defaultValue else value)"

definition template_params :: "RhpamDev \<Rightarrow> RhpamdevParameters" where
  "template_params rhpam = \<lparr>
     p_ServiceAccount = ServiceAccount,
     p_ApplicationName = ApplicationName,
     p_ApplicationNamespace = dev_Namespace rhpam,
     p_PostgresqlPvc = DatabasePvc,
     p_PostgresqlPvcCapacity = valueOrDefault (dbc_PersistentVolumeCapacity (cfg_DatabaseConfig (ds_Config (dev_Spec rhpam)))) DatabaseVolumeCapacity,
     p_PostgresqlService = DatabaseService,
     p_PostgresqlDeployment = DatabaseDeployment,
     p_PostgresqlImage = DatabaseImage,
     p_PostgresqlSecret = DatabaseCredentialsSecret,
     p_PostgresqlMaxConnections = valueOrDefault (dbc_MaxConnections (cfg_DatabaseConfig (ds_Config (dev_Spec rhpam)))) DatabaseMaxConnections,
     p_PostgresqlSharedBuffers = valueOrDefault (dbc_SharedBuffers (cfg_DatabaseConfig (ds_Config (dev_Spec rhpam)))) DatabaseSharedBuffers,
     p_PostgresqlMaxPreparedTransactions = valueOrDefault (dbc_MaxPreparedTransactions (cfg_DatabaseConfig (ds_Config (dev_Spec rhpam)))) DatabaseMaxPreparedTransactions,
     p_PostgresqlMemoryLimit = valueOrDefault (dbc_MemoryLimit (cfg_DatabaseConfig (ds_Config (dev_Spec rhpam)))) DatabaseMemoryLimit,
     p_PostgresqlInitConfigmap = DatabaseInitConfigmap,
     p_BusinessCentralService = BusinessCentralService,
     p_BusinessCentralPvc = BusinessCentralPvc,
     p_BusinessCentralRoute = BusinessCentralRoute,
     p_BusinessCentralDeployment = BusinessCentralDeployment,
     p_BusinessCentralVolumeCapacity = valueOrDefault (bcc_PersistentVolumeCapacity (cfg_BusinessCentralConfig (ds_Config (dev_Spec rhpam)))) BusinessCentralVolumeCapacity,
     p_BusinessCentralImageStreamNamespace = BusinessCentralImageStreamNamespace,
     p_BusinessCentralImage = BusinessCentralImage,
     p_BusinessCentralImageTag = BusinessCentralImageTag,
     p_BusinessCentralCpuRequest = valueOrDefault (bcc_CpuRequest (cfg_BusinessCentralConfig (ds_Config (dev_Spec rhpam)))) BusinessCentralCpuRequest,
     p_BusinessCentralCpuLimit = valueOrDefault (bcc_CpuLimit (cfg_BusinessCentralConfig (ds_Config (dev_Spec rhpam)))) BusinessCentralCpuLimit,
     p_BusinessCentralMemoryRequest = valueOrDefault (bcc_MemoryRequest (cfg_BusinessCentralConfig (ds_Config (dev_Spec rhpam)))) BusinessCentralMemoryRequest,
     p_BusinessCentralMemoryLimit = valueOrDefault (bcc_MemoryLimit (cfg_BusinessCentralConfig (ds_Config (dev_Spec rhpam)))) BusinessCentralMemoryLimit,
     p_BusinessCentralGcMaxMetaSize = valueOrDefault (bcc_GcMaxMetaSize (cfg_BusinessCentralConfig (ds_Config (dev_Spec rhpam)))) BusinessCentralGcMaxMetaSize,
     p_BusinessCentralKieMBeans = valueOrDefault (bcc_KieMBeans (cfg_BusinessCentralConfig (ds_Config (dev_Spec rhpam)))) BusinessCentralKieMBeans,
     p_BusinessCentralJavaOptsAppend = valueOrDefault (bcc_JavaOptsAppend (cfg_BusinessCentralConfig (ds_Config (dev_Spec rhpam)))) BusinessCentralJavaOptsAppend,
     p_BusinessCentralRealmSecret = BusinessCentralRealmSecret,
     p_KieServerRoute = KieServerRoute,
     p_KieServerService = KieServerService,
     p_KieServerDeployment = KieServerDeployment,
     p_KieServerImageStreamNamespace = KieServerImageStreamNamespace,
     p_KieServerImage = KieServerImage,
     p_KieServerImageTag = KieServerImageTag,
     p_KieServerCpuRequest = valueOrDefault (ksc_CpuRequest (cfg_KieServerConfig (ds_Config (dev_Spec rhpam)))) KieServerCpuRequest,
     p_KieServerCpuLimit = valueOrDefault (ksc_CpuLimit (cfg_KieServerConfig (ds_Config (dev_Spec rhpam)))) KieServerCpuLimit,
     p_KieServerMemoryRequest = valueOrDefault (ksc_MemoryRequest (cfg_KieServerConfig (ds_Config (dev_Spec rhpam)))) KieServerMemoryRequest,
     p_KieServerMemoryLimit = valueOrDefault (ksc_MemoryLimit (cfg_KieServerConfig (ds_Config (dev_Spec rhpam)))) KieServerMemoryLimit,
     p_KieServerGcMaxMetaSize = valueOrDefault (ksc_GcMaxMetaSize (cfg_KieServerConfig (ds_Config (dev_Spec rhpam)))) KieServerGcMaxMetaSize,
     p_KieServerDroolsFilterClasses = valueOrDefault (ksc_DroolsFilterClasses (cfg_KieServerConfig (ds_Config (dev_Spec rhpam)))) KieServerDroolsFilterClasses,
     p_KieServerBypassAuthUser = valueOrDefault (ksc_BypassAuthUser (cfg_KieServerConfig (ds_Config (dev_Spec rhpam)))) KieServerBypassAuthUser,
     p_KieServerControllerProtocol = KieServerControllerProtocol,
     p_KieServerControllerUser = KieServerControllerUser,
     p_KieServerControllerPassword = KieServerControllerPassword,
     p_KieServerId = KieServerId,
     p_KieAdminUser = KieAdminUser,
     p_KieAdminPassword = KieAdminPassword,
     p_KieMavenUser = KieMavenUser,
     p_KieMavenPassword = KieMavenPassword,
     p_KieServerKieMBeans = valueOrDefault (ksc_KieMBeans (cfg_KieServerConfig (ds_Config (dev_Spec rhpam)))) KieServerKieMBeans,
     p_KieServerRealmSecret = KieServerRealmSecret\<rparr>"

text \<open>The parameters as the fields a template sees.\<close>

definition RhpamdevParameters_fields :: "RhpamdevParameters \<Rightarrow> struct_fields" where
  "RhpamdevParameters_fields p = [
     (''ServiceAccount'', p_ServiceAccount p),
     (''ApplicationName'', p_ApplicationName p),
     (''ApplicationNamespace'', p_ApplicationNamespace p),
     (''PostgresqlPvc'', p_PostgresqlPvc p),
     (''PostgresqlPvcCapacity'', p_PostgresqlPvcCapacity p),
     (''PostgresqlService'', p_PostgresqlService p),
     (''PostgresqlDeployment'', p_PostgresqlDeployment p),
     (''PostgresqlImage'', p_PostgresqlImage p),
     (''PostgresqlSecret'', p_PostgresqlSecret p),
     (''PostgresqlMaxConnections'', p_PostgresqlMaxConnections p),
     (''PostgresqlSharedBuffers'', p_PostgresqlSharedBuffers p),
     (''PostgresqlMaxPreparedTransactions'', p_PostgresqlMaxPreparedTransactions p),
     (''PostgresqlMemoryLimit'', p_PostgresqlMemoryLimit p),
     (''PostgresqlInitConfigmap'', p_PostgresqlInitConfigmap p),
     (''BusinessCentralService'', p_BusinessCentralService p),
     (''BusinessCentralPvc'', p_BusinessCentralPvc p),
     (''BusinessCentralRoute'', p_BusinessCentralRoute p),
     (''BusinessCentralDeployment'', p_BusinessCentralDeployment p),
     (''BusinessCentralVolumeCapacity'', p_BusinessCentralVolumeCapacity p),
     (''BusinessCentralImageStreamNamespace'', p_BusinessCentralImageStreamNamespace p),
     (''BusinessCentralImage'', p_BusinessCentralImage p),
     (''BusinessCentralImageTag'', p_BusinessCentralImageTag p),
     (''BusinessCentralCpuRequest'', p_BusinessCentralCpuRequest p),
     (''BusinessCentralCpuLimit'', p_BusinessCentralCpuLimit p),
     (''BusinessCentralMemoryRequest'', p_BusinessCentralMemoryRequest p),
     (''BusinessCentralMemoryLimit'', p_BusinessCentralMemoryLimit p),
     (''BusinessCentralGcMaxMetaSize'', p_BusinessCentralGcMaxMetaSize p),
     (''BusinessCentralKieMBeans'', p_BusinessCentralKieMBeans p),
     (''BusinessCentralJavaOptsAppend'', p_BusinessCentralJavaOptsAppend p),
     (''BusinessCentralRealmSecret'', p_BusinessCentralRealmSecret p),
     (''KieServerRoute'', p_KieServerRoute p),
     (''KieServerService'', p_KieServerService p),
     (''KieServerDeployment'', p_KieServerDeployment p),
     (''KieServerImageStreamNamespace'', p_KieServerImageStreamNamespace p),
     (''KieServerImage'', p_KieServerImage p),
     (''KieServerImageTag'', p_KieServerImageTag p),
     (''KieServerCpuRequest'', p_KieServerCpuRequest p),
     (''KieServerCpuLimit'', p_KieServerCpuLimit p),
     (''KieServerMemoryRequest'', p_KieServerMemoryRequest p),
     (''KieServerMemoryLimit'', p_KieServerMemoryLimit p),
     (''KieServerGcMaxMetaSize'', p_KieServerGcMaxMetaSize p),
     (''KieServerDroolsFilterClasses'', p_KieServerDroolsFilterClasses p),
     (''KieServerBypassAuthUser'', p_KieServerBypassAuthUser p),
     (''KieServerControllerProtocol'', p_KieServerControllerProtocol p),
     (''KieServerControllerUser'', p_KieServerControllerUser p),
     (''KieServerControllerPassword'', p_KieServerControllerPassword p),
     (''KieServerId'', p_KieServerId p),
     (''KieAdminUser'', p_KieAdminUser p),
     (''KieAdminPassword'', p_KieAdminPassword p),
     (''KieMavenUser'', p_KieMavenUser p),
     (''KieMavenPassword'', p_KieMavenPassword p),
     (''KieServerKieMBeans'', p_KieServerKieMBeans p),
     (''KieServerRealmSecret'', p_KieServerRealmSecret p)]"

definition newTemplateHelper :: "RhpamDev \<Rightarrow> TemplateHelper io" where
  "newTemplateHelper rhpam =
     Getenv ''TEMPLATE_PATH'' (\<lambda>path.
       Return \<lparr>th_parameters = template_params rhpam,
               th_templatePath = (if path = '''' then ''./templates'' else path)\<rparr>)"

definition loadYamlTemplate :: "TemplateHelper \<Rightarrow> string \<Rightarrow> string result io" where
  "loadYamlTemplate h name =
     ReadFile (th_templatePath h @ ''/'' @ name @ ''.yaml'') (\<lambda>r. case r of
       Inl err \<Rightarrow> Return (Inl err)
     | Inr tpl \<Rightarrow> (case template_Parse tpl of
         Inl err \<Rightarrow> Return (Inl err)
       | Inr parsed \<Rightarrow> (case template_Execute parsed (RhpamdevParameters_fields (th_parameters h)) of
           Inl err \<Rightarrow> Return (Inl err)
         | Inr buffer \<Rightarrow> Return (Inr buffer))))"

lemma loadYamlTemplate_render:
  "loadYamlTemplate h name =
     ReadFile (th_templatePath h @ ''/'' @ name @ ''.yaml'')
       (\<lambda>r. Return (case r of Inl e \<Rightarrow> Inl e
                    | Inr tpl \<Rightarrow> render tpl (RhpamdevParameters_fields (th_parameters h))))"
  unfolding loadYamlTemplate_def render_def
  by (auto intro!: arg_cong2 [where f = ReadFile] ext split: sum.splits)

subsection \<open>Making an object from a template (resourceHelper.go)\<close>

record ResourceHelper =
  rh_cr :: RhpamDev
  rh_templateHelper :: TemplateHelper

definition newResourceHelper :: "RhpamDev \<Rightarrow> ResourceHelper io" where
  "newResourceHelper cr =
     bind (newTemplateHelper cr) (\<lambda>th. Return \<lparr>rh_cr = cr, rh_templateHelper = th\<rparr>)"

definition ResourceHelper_createResource :: "ResourceHelper \<Rightarrow> Resource \<Rightarrow> Object result io" where
  "ResourceHelper_createResource r res =
     check (loadYamlTemplate (rh_templateHelper r) (res_template res)) (\<lambda>tpl.
       YamlUnmarshal tpl (\<lambda>u. case u of
         Inl err \<Rightarrow> Return (Inl err)
       | Inr resource \<Rightarrow> Return (Inr resource)))"

subsection \<open>The files of the init config map (configmapHelper.go, initConfigmapResources.go)\<close>

definition PostgresqlJbpmSchema :: string where "PostgresqlJbpmSchema = ''postgresql-jbpm-schema.sql''"
definition PostgresqlJbpmLoTriggerClob :: string where "PostgresqlJbpmLoTriggerClob = ''postgresql-jbpm-lo-trigger-clob.sql''"
definition QuartzTablesPostgresql :: string where "QuartzTablesPostgresql = ''quartz_tables_postgres.sql''"
definition ScriptCreateDatabase :: string where "ScriptCreateDatabase = ''create_rhpam_database.sh''"
definition ScriptWaitForPostgresql :: string where "ScriptWaitForPostgresql = ''wait_for_postgresql.sh''"

definition initConfigmapResources :: "string list" where
  "initConfigmapResources =
     [PostgresqlJbpmSchema, PostgresqlJbpmLoTriggerClob, QuartzTablesPostgresql, ScriptCreateDatabase, ScriptWaitForPostgresql]"

record ConfigmapHelper =
  ch_resourcePath :: string

definition newConfigmapHelper :: "ConfigmapHelper io" where
  "newConfigmapHelper =
     Getenv ''RESOURCE_PATH'' (\<lambda>path.
       Return \<lparr>ch_resourcePath = (if path = '''' then ''./resources'' else path)\<rparr>)"

definition loadFile :: "ConfigmapHelper \<Rightarrow> string \<Rightarrow> string result io" where
  "loadFile c name =
     ReadFile (ch_resourcePath c @ ''/'' @ name) (\<lambda>r. case r of
       Inl err \<Rightarrow> Return (Inl err) | Inr res \<Rightarrow> Return (Inr res))"

primrec data_loop :: "ConfigmapHelper \<Rightarrow> string list \<Rightarrow> (string \<times> string) list \<Rightarrow> (string \<times> string) list result io" where
  "data_loop c [] acc = Return (Inr acc)"
| "data_loop c (resourceName # resources) acc =
     check_err (\<lambda>err. ErrorString (''Error reading resource '' @ resourceName @ '': '' @ error_text err))
       (loadFile c resourceName) (\<lambda>s. data_loop c resources (AList.update resourceName s acc))"

definition ConfigmapHelper_data :: "ConfigmapHelper \<Rightarrow> string list \<Rightarrow> (string \<times> string) list result io" where
  "ConfigmapHelper_data c resources = data_loop c resources []"

end
