(* ===== verification/RhpamdevHandler.thy ===== *)
theory RhpamdevHandler
  imports SsoLogin RhpamdevConfig
begin

text \<open>
  pkg/controller/rhpamdev/phaseHandler.go: the phases of an RhpamDev resource. The client of the
  handler is the environment; its scheme and its Keycloak factory are the state of the handler.
  A method that can change the factory returns the handler with its result. The custom
  resource is passed by pointer in the source and changed in place; here the changed resource
  is returned, and a write to the API server whose error is dropped continues with what the
  server answered, or with the resource as it was.
\<close>

record DevPhaseHandler =
  dph_scheme :: Scheme
  dph_keycloakFactory :: KeycloakFactory

definition Dev_NewPhaseHandler :: "Scheme \<Rightarrow> DevPhaseHandler" where
  "Dev_NewPhaseHandler s = \<lparr>dph_scheme = s, dph_keycloakFactory = NewKeycloakFactory\<rparr>"

definition letterRunes :: string where
  "letterRunes = ''abcdefghijklmnopqrstuvwxyzABCDEFGHIJKLMNOPQRSTUVWXYZ0123456789''"

subsection \<open>Tokens\<close>

primrec random_runes :: "nat \<Rightarrow> string io" where
  "random_runes 0 = Return []"
| "random_runes (Suc n) =
     RandIntn (length letterRunes) (\<lambda>i. bind (random_runes n) (\<lambda>b. Return (letterRunes ! i # b)))"

text \<open>Every token seeds the global generator with the clock, in whole seconds.\<close>

definition generateToken :: "nat \<Rightarrow> string io" where
  "generateToken n = TimeNow (\<lambda>t. RandSeed t (random_runes n))"

subsection \<open>Creating secrets, config maps and templated resources\<close>

definition labelled_meta :: "RhpamDev \<Rightarrow> string \<Rightarrow> ObjectMeta" where
  "labelled_meta cr name =
     empty_ObjectMeta\<lparr>om_Labels := [(''app'', ApplicationName)], om_Name := name, om_Namespace := dev_Namespace cr\<rparr>"

text \<open>SetControllerReference whose error is dropped leaves the object as it was.\<close>

definition own_if_possible :: "RhpamDev \<Rightarrow> Object \<Rightarrow> Scheme \<Rightarrow> Object" where
  "own_if_possible cr ob scheme = (case SetControllerReference cr ob scheme of Inl _ \<Rightarrow> ob | Inr ob' \<Rightarrow> ob')"

definition createSecret :: "DevPhaseHandler \<Rightarrow> RhpamDev \<Rightarrow> string \<Rightarrow> (string \<times> string) list \<Rightarrow> unit result io" where
  "createSecret ph cr name data =
     (let secret = \<lparr>ob_TypeMeta = gvk_Secret, ob_ObjectMeta = labelled_meta cr name,
                    ob_Payload = SecretData data ''Opaque''\<rparr> in
      GetObject gvk_Secret (key_of (dev_Namespace cr) name) (\<lambda>r. case r of
        Inr _ \<Rightarrow> Return (Inr ())
      | Inl _ \<Rightarrow> CreateObject (own_if_possible cr secret (dph_scheme ph)) (\<lambda>r. case r of
          Inl err \<Rightarrow> Return (Inl err) | Inr _ \<Rightarrow> Return (Inr ()))))"

definition createConfigmap :: "DevPhaseHandler \<Rightarrow> RhpamDev \<Rightarrow> string \<Rightarrow> (string \<times> string) list \<Rightarrow> unit result io" where
  "createConfigmap ph cr name data =
     (let configmap = \<lparr>ob_TypeMeta = gvk_ConfigMap, ob_ObjectMeta = labelled_meta cr name,
                       ob_Payload = ConfigMapData data\<rparr> in
      GetObject gvk_ConfigMap (key_of (dev_Namespace cr) name) (\<lambda>r. case r of
        Inr _ \<Rightarrow> Return (Inr ())
      | Inl _ \<Rightarrow> CreateObject (own_if_possible cr configmap (dph_scheme ph)) (\<lambda>r. case r of
          Inl err \<Rightarrow> Return (Inl err) | Inr _ \<Rightarrow> Return (Inr ()))))"

definition createResource :: "DevPhaseHandler \<Rightarrow> RhpamDev \<Rightarrow> Resource \<Rightarrow> unit result io" where
  "createResource ph cr res =
     bind (newResourceHelper cr) (\<lambda>resourceHelper.
     check_err (\<lambda>err. ErrorString (''Error parsing templates: '' @ error_text err))
       (ResourceHelper_createResource resourceHelper res) (\<lambda>resource.
     GetObject (ob_TypeMeta resource) (key_of (dev_Namespace cr) (res_name res)) (\<lambda>r. case r of
       Inr _ \<Rightarrow> Return (Inr ())
     | Inl err \<Rightarrow>
         if \<not> IsNotFound err
         then Return (Inl (ErrorString (''Error reading resource '' @ [CHR 0x27] @ res_name res @ [CHR 0x27] @ '': '' @ error_text err)))
         else (case SetControllerReference cr resource (dph_scheme ph) of
           Inl err \<Rightarrow> Return (Inl (ErrorString (''Error setting the custom resource as owner: '' @ error_text err)))
         | Inr resource' \<Rightarrow> CreateObject resource' (\<lambda>r. case r of
             Inl err \<Rightarrow> Return (Inl (ErrorString (''Error creating resource: '' @ error_text err)))
           | Inr _ \<Rightarrow> Return (Inr ()))))))"

definition createResources :: "DevPhaseHandler \<Rightarrow> RhpamDev \<Rightarrow> Resource list \<Rightarrow> unit result io" where
  "createResources ph cr resources = for_each resources (createResource ph cr)"

definition createRealmSecret ::
  "DevPhaseHandler \<Rightarrow> RhpamDev \<Rightarrow> string \<Rightarrow> string \<Rightarrow> string \<Rightarrow> string \<Rightarrow> string \<Rightarrow> unit result io" where
  "createRealmSecret ph rhpam secret url realmId client clientSecret =
     createSecret ph rhpam secret
       [(''sso-url'', url), (''realm'', realmId), (''client'', client), (''client-secret'', clientSecret)]"

subsection \<open>Keycloak\<close>

definition Dev_readSSOSecret :: "DevPhaseHandler \<Rightarrow> (unit result \<times> DevPhaseHandler) io" where
  "Dev_readSSOSecret ph =
     bind (readSSOSecret (dph_keycloakFactory ph)) (\<lambda>(r, kf). Return (r, ph\<lparr>dph_keycloakFactory := kf\<rparr>))"

definition Dev_authenticatedClient :: "DevPhaseHandler \<Rightarrow> (KeycloakInterface result \<times> DevPhaseHandler) io" where
  "Dev_authenticatedClient ph =
     bind (authenticatedClient (dph_keycloakFactory ph)) (\<lambda>(r, kf). Return (r, ph\<lparr>dph_keycloakFactory := kf\<rparr>))"

primrec find_client_id :: "KeycloakClient option list \<Rightarrow> string \<Rightarrow> string io" where
  "find_client_id [] clientId = Return ''''"
| "find_client_id (c # cs) clientId =
     deref c (\<lambda>c. deref (kcl_KeycloakApiClient c) (\<lambda>a.
       if kac_ClientID a = clientId then Return (kac_ID a) else find_client_id cs clientId))"

definition getClientSecret :: "KeycloakInterface \<Rightarrow> string \<Rightarrow> string \<Rightarrow> string result io" where
  "getClientSecret ssoClient realmId clientId =
     check (kc_ListClients ssoClient realmId) (\<lambda>clients.
     bind (find_client_id clients clientId) (\<lambda>ident.
     check (kc_GetClientSecret ssoClient ident realmId) (\<lambda>clientSecret.
     Return (Inr clientSecret))))"

subsection \<open>The phases\<close>

definition Dev_Initialize :: "RhpamDev \<Rightarrow> RhpamDev result" where
  "Dev_Initialize rhpam =
     (case AddFinalizer (dev_ObjectMeta rhpam) RhpamFinalizer of
        Inl err \<Rightarrow> Inl err
      | Inr om \<Rightarrow>
          (let rhpam1 = Defaults (rhpam\<lparr>dev_ObjectMeta := om\<rparr>) in
           case Validate rhpam1 of
             Inl err \<Rightarrow> Inl err
           | Inr _ \<Rightarrow> Inr (set_dev_version RhpamVersion (set_dev_phase PhaseAccepted rhpam1))))"

definition client_root_url :: "RhpamDev \<Rightarrow> string \<Rightarrow> string" where
  "client_root_url rhpam deployment =
     ''https://'' @ deployment @ ''-'' @ dev_Namespace rhpam @ ''.'' @ ds_Domain (dev_Spec rhpam)"

definition realm_client_params ::
  "RhpamDev \<Rightarrow> string \<Rightarrow> string \<Rightarrow> string \<Rightarrow> string \<Rightarrow> RealmClientParameters" where
  "realm_client_params rhpam clientId deployment bearerOnly publicClient =
     (let url = client_root_url rhpam deployment in
      \<lparr>rcp_ClientId = clientId, rcp_RootUrl = url, rcp_AdminUrl = url,
       rcp_RedirectUris = [CHR 0x22] @ url @ ''/*'' @ [CHR 0x22],
       rcp_WebOrigin = [CHR 0x22] @ url @ [CHR 0x22],
       rcp_BearerOnly = bearerOnly, rcp_ImplicitFlowEnabled = ''false'',
       rcp_DirectAcessGrantEnabled = ''true'', rcp_PublicClient = publicClient\<rparr>)"

definition createRealmClient :: "KeycloakInterface \<Rightarrow> RealmHelper \<Rightarrow> string \<Rightarrow> RealmClientParameters \<Rightarrow> unit result io" where
  "createRealmClient ssoClient realmHelper realmId params =
     check (LoadRealmClientTemplate realmHelper params) (\<lambda>json.
     check_err (WithMessage ''Error creating realm in rhsso'') (kc_CreateClient ssoClient json realmId) (\<lambda>_.
     Return (Inr ())))"

definition provision_with :: "DevPhaseHandler \<Rightarrow> KeycloakInterface \<Rightarrow> RhpamDev \<Rightarrow> RhpamDev result io" where
  "provision_with ph ssoClient rhpam =
     bind NewRealmHelper (\<lambda>realmHelper.
     bind (generateToken 6) (\<lambda>token.
     let realmId = dev_Name rhpam @ ''-'' @ token;
         bcClient = ''rhpambc'';
         ksClient = ''rhpamks'';
         url = kf_AdminUrl (dph_keycloakFactory ph) @ ''/auth'' in
     check (LoadRealmTemplate realmHelper \<lparr>rp_RealmId = realmId\<rparr>) (\<lambda>json.
     check_err (WithMessage ''Error creating realm in rhsso'') (kc_CreateRealm ssoClient json) (\<lambda>_.
     check (createRealmClient ssoClient realmHelper realmId
             (realm_client_params rhpam bcClient BusinessCentralDeployment ''false'' ''false'')) (\<lambda>_.
     check (createRealmClient ssoClient realmHelper realmId
             (realm_client_params rhpam ksClient KieServerDeployment ''true'' ''false'')) (\<lambda>_.
     check (createRealmClient ssoClient realmHelper realmId
             (realm_client_params rhpam ''rhpamks-direct'' KieServerDeployment ''false'' ''true'')) (\<lambda>_.
     check (getClientSecret ssoClient realmId bcClient) (\<lambda>bcSecret.
     check (createRealmSecret ph rhpam BusinessCentralRealmSecret url realmId bcClient bcSecret) (\<lambda>_.
     check (getClientSecret ssoClient realmId ksClient) (\<lambda>ksSecret.
     check (createRealmSecret ph rhpam KieServerRealmSecret url realmId ksClient ksSecret) (\<lambda>_.
     Return (Inr (set_dev_version RhpamVersion (set_dev_realm realmId (set_dev_phase PhaseRealmProvisioned rhpam))))
     )))))))))))"

text \<open>A write of the custom resource whose error is dropped.\<close>

definition update_dropping_error :: "RhpamDev \<Rightarrow> (RhpamDev \<Rightarrow> 'a io) \<Rightarrow> 'a io" where
  "update_dropping_error rhpam k =
     UpdateRhpamDev rhpam (\<lambda>r. k (case r of Inl _ \<Rightarrow> rhpam | Inr rhpam' \<Rightarrow> rhpam'))"

definition ProvisionRealm :: "DevPhaseHandler \<Rightarrow> RhpamDev \<Rightarrow> (RhpamDev result \<times> DevPhaseHandler) io" where
  "ProvisionRealm ph rhpam =
     update_dropping_error (set_dev_phase PhaseRealmProvisioning rhpam) (\<lambda>rhpam.
     bind (Dev_authenticatedClient ph) (\<lambda>(r, ph). case r of
       Inl err \<Rightarrow> Return (Inl err, ph)
     | Inr ssoClient \<Rightarrow> bind (provision_with ph ssoClient rhpam) (\<lambda>res. Return (res, ph))))"

definition Dev_Prepare :: "DevPhaseHandler \<Rightarrow> RhpamDev \<Rightarrow> RhpamDev result io" where
  "Dev_Prepare ph rhpam =
     check (createResources ph rhpam [ServiceAccountResource]) (\<lambda>_.
     Return (Inr (set_dev_version RhpamVersion (set_dev_phase PhasePrepared rhpam))))"

definition InstallDatabase :: "DevPhaseHandler \<Rightarrow> RhpamDev \<Rightarrow> RhpamDev result io" where
  "InstallDatabase ph rhpam =
     bind (generateToken 4) (\<lambda>userToken.
     bind (generateToken 10) (\<lambda>dbPassword.
     let dbUser = ''user'' @ userToken in
     check (createSecret ph rhpam DatabaseCredentialsSecret
             [(''database-user'', dbUser), (''database-password'', dbPassword), (''database-name'', DatabaseName)]) (\<lambda>_.
     bind newConfigmapHelper (\<lambda>configmapHelper.
     check (ConfigmapHelper_data configmapHelper initConfigmapResources) (\<lambda>configmapData.
     check (createConfigmap ph rhpam DatabaseInitConfigmap configmapData) (\<lambda>_.
     check (createResources ph rhpam
             [DatabasePvcResource, DatabaseServiceResource, DatabaseDeploymentConfigResource]) (\<lambda>_.
     Return (Inr (set_dev_version RhpamVersion (set_dev_phase PhaseDatabaseInstalled rhpam))))))))))"

definition InstallBusinessCentral :: "DevPhaseHandler \<Rightarrow> RhpamDev \<Rightarrow> RhpamDev result io" where
  "InstallBusinessCentral ph rhpam =
     check (createResources ph rhpam
             [BusinessCentralPvcResource, BusinessCentralServiceResource,
              BusinessCentralRouteResource, BusinessCentralDeploymentResource]) (\<lambda>_.
     Return (Inr (set_dev_version RhpamVersion (set_dev_phase PhaseBusinessCentralInstalled rhpam))))"

definition isDatabaseReady :: "RhpamDev \<Rightarrow> bool result io" where
  "isDatabaseReady cr =
     GetObject gvk_DeploymentConfig (key_of (dev_Namespace cr) DatabaseDeployment) (\<lambda>r. case r of
       Inl err \<Rightarrow> Return (Inl err)
     | Inr resource \<Rightarrow> Return (Inr (ready_replicas (ob_Payload resource) = 1)))"

definition WaitForDatabase :: "RhpamDev \<Rightarrow> (bool \<times> RhpamDev) result io" where
  "WaitForDatabase rhpam =
     check_err (\<lambda>err. ErrorString (''Error checking for database : '' @ error_text err)) (isDatabaseReady rhpam) (\<lambda>ready.
     Return (Inr (ready,
       if ready then set_dev_version RhpamVersion (set_dev_phase PhaseDatabaseReady rhpam) else rhpam)))"

definition InstallKieServer :: "DevPhaseHandler \<Rightarrow> RhpamDev \<Rightarrow> RhpamDev result io" where
  "InstallKieServer ph rhpam =
     check (createResources ph rhpam
             [KieServerServiceResource, KieServerRouteResource, KieServerDeploymentResource]) (\<lambda>_.
     Return (Inr (set_dev_version RhpamVersion (set_dev_phase PhaseComplete rhpam))))"

subsection \<open>Deprovisioning\<close>

primrec retire_users :: "string \<Rightarrow> RhpamUser list \<Rightarrow> 'a io \<Rightarrow> 'a io" where
  "retire_users realm [] k = k"
| "retire_users realm (rhpamuser # rest) k =
     (if realm = ru_Realm rhpamuser
      then UpdateRhpamUser (set_user_phase PhaseDeprovisioned rhpamuser) (\<lambda>_. retire_users realm rest k)
      else retire_users realm rest k)"

text \<open>
  The assets, in the order of the calls. The first one is written with the name of the Business
  Central service, which the fourth call deletes again.
\<close>

definition deprovision_assets :: "(TypeMeta \<times> string) list" where
  "deprovision_assets =
     [(gvk_Service, BusinessCentralService),
      (gvk_Route, KieServerRoute),
      (gvk_DeploymentConfig, KieServerDeployment),
      (gvk_Service, BusinessCentralService),
      (gvk_Route, BusinessCentralRoute),
      (gvk_DeploymentConfig, BusinessCentralDeployment),
      (gvk_PersistentVolumeClaim, BusinessCentralPvc),
      (gvk_Service, DatabaseService),
      (gvk_DeploymentConfig, DatabaseDeployment),
      (gvk_PersistentVolumeClaim, DatabasePvc),
      (gvk_ConfigMap, DatabaseInitConfigmap),
      (gvk_Secret, DatabaseCredentialsSecret),
      (gvk_Secret, KieServerRealmSecret),
      (gvk_Secret, BusinessCentralRealmSecret),
      (gvk_ServiceAccount, ServiceAccount)]"

primrec delete_assets :: "string \<Rightarrow> (TypeMeta \<times> string) list \<Rightarrow> 'a io \<Rightarrow> 'a io" where
  "delete_assets ns [] k = k"
| "delete_assets ns (a # rest) k =
     DeleteObject (fst a) (key_of ns (snd a)) (\<lambda>_. delete_assets ns rest k)"

definition deprovision_with :: "KeycloakInterface \<Rightarrow> RhpamDev \<Rightarrow> RhpamDev result io" where
  "deprovision_with ssoClient rhpam =
     check_err (WithMessage ''Error deleting realm in rhsso'') (kc_DeleteRealm ssoClient (dev_Realm rhpam)) (\<lambda>_.
     ListRhpamUser (dev_Namespace rhpam) (\<lambda>r. case r of
       Inl err \<Rightarrow> Return (Inl err)
     | Inr items \<Rightarrow>
         retire_users (dev_Realm rhpam) items
           (delete_assets (dev_Namespace rhpam) deprovision_assets
             (Return (Inr (set_dev_phase PhaseDeprovisioned rhpam))))))"

definition Dev_Deprovision :: "DevPhaseHandler \<Rightarrow> RhpamDev \<Rightarrow> (RhpamDev result \<times> DevPhaseHandler) io" where
  "Dev_Deprovision ph rhpam =
     bind (Dev_authenticatedClient ph) (\<lambda>(r, ph). case r of
       Inl err \<Rightarrow> Return (Inl err, ph)
     | Inr ssoClient \<Rightarrow> bind (deprovision_with ssoClient rhpam) (\<lambda>res. Return (res, ph)))"

end
