(* ===== verification/RhpamdevController.thy ===== *)
theory RhpamdevController
  imports RhpamdevHandler
begin

text \<open>
  pkg/controller/rhpamdev/rhpamdev\_controller.go: one reconciliation of an RhpamDev resource.
  Reconcile returns whether to requeue and an error or nil, and the reconciler, whose phase
  handler may have a new Keycloak factory. The deep copy of the fetched resource is the
  resource itself: values are not shared here.
\<close>

record ReconcileResult =
  rr_Requeue :: bool

type_synonym reconcile_return = "ReconcileResult \<times> error option"

record ReconcileRhpamDev =
  rd_phaseHandler :: DevPhaseHandler

definition Dev_newReconciler :: "Scheme \<Rightarrow> ReconcileRhpamDev" where
  "Dev_newReconciler scheme = \<lparr>rd_phaseHandler = Dev_NewPhaseHandler scheme\<rparr>"

definition Dev_handleResult :: "RhpamDev result \<Rightarrow> reconcile_return io" where
  "Dev_handleResult r =
     (case r of
        Inl err \<Rightarrow> Return (\<lparr>rr_Requeue = False\<rparr>, Some err)
      | Inr rhpam \<Rightarrow> UpdateRhpamDev rhpam (\<lambda>u.
          Return (\<lparr>rr_Requeue = True\<rparr>, case u of Inl err \<Rightarrow> Some err | Inr _ \<Rightarrow> None)))"

text \<open>The deletion branch: the finalizers are emptied when deprovisioning succeeded.\<close>

definition Dev_reconcile_deletion :: "DevPhaseHandler \<Rightarrow> RhpamDev \<Rightarrow> (reconcile_return \<times> DevPhaseHandler) io" where
  "Dev_reconcile_deletion ph rhpamCopy =
     bind (Dev_Deprovision ph rhpamCopy) (\<lambda>(r, ph).
     bind (Dev_handleResult (case r of Inl err \<Rightarrow> Inl err | Inr rhpamState \<Rightarrow> Inr (set_dev_finalizers [] rhpamState)))
       (\<lambda>res. Return (res, ph)))"

text \<open>The switch over the phase.\<close>

definition Dev_reconcile_phase :: "DevPhaseHandler \<Rightarrow> RhpamDev \<Rightarrow> (reconcile_return \<times> DevPhaseHandler) io" where
  "Dev_reconcile_phase ph rhpamCopy =
     (let phase = dev_Phase rhpamCopy;
          handle = (\<lambda>m. bind m (\<lambda>r. bind (Dev_handleResult r) (\<lambda>res. Return (res, ph)))) in
      if phase = NoPhase then handle (Return (Dev_Initialize rhpamCopy))
      else if phase = PhaseAccepted then
        bind (ProvisionRealm ph rhpamCopy) (\<lambda>(r, ph). bind (Dev_handleResult r) (\<lambda>res. Return (res, ph)))
      else if phase = PhasePrepare then handle (Dev_Prepare ph rhpamCopy)
      else if phase = PhasePrepared then handle (InstallDatabase ph rhpamCopy)
      else if phase = PhaseDatabaseInstalled then handle (InstallBusinessCentral ph rhpamCopy)
      else if phase = PhaseBusinessCentralInstalled then
        bind (WaitForDatabase rhpamCopy) (\<lambda>r. case r of
          Inr (False, rhpamState) \<Rightarrow> Return ((\<lparr>rr_Requeue = True\<rparr>, None), ph)
        | Inr (True, rhpamState) \<Rightarrow> bind (Dev_handleResult (Inr rhpamState)) (\<lambda>res. Return (res, ph))
        | Inl err \<Rightarrow> bind (Dev_handleResult (Inl err)) (\<lambda>res. Return (res, ph)))
      else if phase = PhaseDatabaseReady then handle (InstallKieServer ph rhpamCopy)
      else Return ((\<lparr>rr_Requeue = False\<rparr>, None), ph))"

definition Dev_Reconcile :: "ReconcileRhpamDev \<Rightarrow> NamespacedName \<Rightarrow> (reconcile_return \<times> ReconcileRhpamDev) io" where
  "Dev_Reconcile r request =
     bind GetWatchNamespace (\<lambda>ns. case ns of
       Inl err \<Rightarrow> Return ((\<lparr>rr_Requeue = False\<rparr>, None), r)
     | Inr namespace \<Rightarrow>
         if namespace \<noteq> nn_Namespace request then Return ((\<lparr>rr_Requeue = False\<rparr>, None), r)
         else GetRhpamDev request (\<lambda>g. case g of
           Inl err1 \<Rightarrow>
             if IsNotFound err1 then Return ((\<lparr>rr_Requeue = False\<rparr>, None), r)
             else Return ((\<lparr>rr_Requeue = False\<rparr>, Some err1), r)
         | Inr rhpam \<Rightarrow>
             bind (if om_DeletionTimestamp (dev_ObjectMeta rhpam) \<noteq> None
                   then Dev_reconcile_deletion (rd_phaseHandler r) rhpam
                   else Dev_reconcile_phase (rd_phaseHandler r) rhpam)
               (\<lambda>(res, ph). Return (res, r\<lparr>rd_phaseHandler := ph\<rparr>))))"

end
