(* ===== verification/Traces.thy ===== *)
theory Traces
  imports Effects
begin

text \<open>
  What a trace of calls wrote: the custom resources sent to the API server, the objects created
  and deleted, the HTTP requests sent. Each projection distributes over the concatenation of
  traces, so a fact about a handler follows from the facts about its parts.
\<close>

primrec dev_writes :: "event list \<Rightarrow> RhpamDev list" where
  "dev_writes [] = []"
| "dev_writes (ev # tr) = (case ev of EUpdateRhpamDev d r \<Rightarrow> d # dev_writes tr | _ \<Rightarrow> dev_writes tr)"

primrec user_writes :: "event list \<Rightarrow> RhpamUser list" where
  "user_writes [] = []"
| "user_writes (ev # tr) = (case ev of EUpdateRhpamUser d r \<Rightarrow> d # user_writes tr | _ \<Rightarrow> user_writes tr)"

primrec created :: "event list \<Rightarrow> Object list" where
  "created [] = []"
| "created (ev # tr) = (case ev of ECreateObject d r \<Rightarrow> d # created tr | _ \<Rightarrow> created tr)"

primrec deleted :: "event list \<Rightarrow> (TypeMeta \<times> NamespacedName) list" where
  "deleted [] = []"
| "deleted (ev # tr) = (case ev of EDeleteObject g k r \<Rightarrow> (g, k) # deleted tr | _ \<Rightarrow> deleted tr)"

primrec requests :: "event list \<Rightarrow> Request list" where
  "requests [] = []"
| "requests (ev # tr) = (case ev of EHttpDo q r \<Rightarrow> q # requests tr | _ \<Rightarrow> requests tr)"

lemma trace_append [simp, trace_simps]:
  "dev_writes (t @ u) = dev_writes t @ dev_writes u"
  "user_writes (t @ u) = user_writes t @ user_writes u"
  "created (t @ u) = created t @ created u"
  "deleted (t @ u) = deleted t @ deleted u"
  "requests (t @ u) = requests t @ requests u"
  by (induction t; simp split: event.splits)+

subsection \<open>Classes of calls\<close>

text \<open>Calls that leave the cluster as it is: reads, and everything outside the cluster.\<close>

definition quiet :: "event \<Rightarrow> bool" where
  "quiet ev = (case ev of
      EUpdateRhpamDev d r \<Rightarrow> False | EUpdateRhpamUser u r \<Rightarrow> False
    | ECreateObject ob r \<Rightarrow> False | EDeleteObject g k r \<Rightarrow> False | _ \<Rightarrow> True)"

text \<open>Calls that write no custom resource and delete nothing.\<close>

definition keeps_resources :: "event \<Rightarrow> bool" where
  "keeps_resources ev = (case ev of
      EUpdateRhpamDev d r \<Rightarrow> False | EUpdateRhpamUser u r \<Rightarrow> False | EDeleteObject g k r \<Rightarrow> False | _ \<Rightarrow> True)"

text \<open>Calls of the process itself: its variables, its files, its clock and random source.\<close>

definition internal :: "event \<Rightarrow> bool" where
  "internal ev = (case ev of
      ELookupEnv x r \<Rightarrow> True | EReadFile x r \<Rightarrow> True | ETimeNow t \<Rightarrow> True | ERandSeed s \<Rightarrow> True
    | ERandIntn n r \<Rightarrow> True | ERangeOrder x r \<Rightarrow> True | EYamlUnmarshal x r \<Rightarrow> True | _ \<Rightarrow> False)"

text \<open>
  Calls of the process itself and of HTTP requests, every request among those that \<^theory_text>\<open>S\<close>
  allows of its method and URL.
\<close>

definition sends :: "(string \<Rightarrow> string \<Rightarrow> bool) \<Rightarrow> event \<Rightarrow> bool" where
  "sends S ev = (case ev of
      ENewRequest m u r \<Rightarrow> S m u
    | EHttpDo q r \<Rightarrow> S (rq_Method q) (rq_URL q)
    | EReadBody r \<Rightarrow> True | ECloseBody \<Rightarrow> True | _ \<Rightarrow> internal ev)"

abbreviation only :: "string \<Rightarrow> string \<Rightarrow> string \<Rightarrow> string \<Rightarrow> bool" where
  "only meth url \<equiv> (\<lambda>m u. m = meth \<and> u = url)"

lemma class_simps [simp]:
  "quiet (ELookupEnv a b1)" "quiet (EReadFile a b2)" "quiet (ETimeNow t)" "quiet (ERandSeed t)"
  "quiet (ERandIntn n i)" "quiet (ERangeOrder o1 o2)" "quiet (ENewRequest a a' b3)" "quiet (EHttpDo q b4)"
  "quiet (EReadBody b5)" "quiet ECloseBody" "quiet (EYamlUnmarshal a b6)" "quiet (EGetRhpamDev k b7)"
  "quiet (EGetRhpamUser k b8)" "quiet (EGetObject g k b9)" "quiet (EListRhpamDev a b10)"
  "quiet (EListRhpamUser a b11)" "\<not> quiet (EUpdateRhpamDev d b12)" "\<not> quiet (EUpdateRhpamUser u b13)"
  "\<not> quiet (ECreateObject ob b14)" "\<not> quiet (EDeleteObject g k b15)"
  by (simp_all add: quiet_def)

lemma keeps_resources_simps [simp]:
  "quiet ev \<Longrightarrow> keeps_resources ev" "keeps_resources (ECreateObject ob b)"
  "\<not> keeps_resources (EUpdateRhpamDev d b12)" "\<not> keeps_resources (EUpdateRhpamUser u b13)"
  "\<not> keeps_resources (EDeleteObject g k b15)"
  by (auto simp: keeps_resources_def quiet_def split: event.splits)

lemma internal_simps [simp]:
  "internal (ELookupEnv a b1)" "internal (EReadFile a b2)" "internal (ETimeNow t)" "internal (ERandSeed t)"
  "internal (ERandIntn n i)" "internal (ERangeOrder o1 o2)" "internal (EYamlUnmarshal a b6)"
  "\<not> internal (ENewRequest a a' b3)" "\<not> internal (EHttpDo q b4)"
  by (simp_all add: internal_def)

lemma sends_simps [simp]:
  "sends S (ENewRequest m u r) \<longleftrightarrow> S m u"
  "sends S (EHttpDo q r') \<longleftrightarrow> S (rq_Method q) (rq_URL q)"
  "sends S (EReadBody b)" "sends S ECloseBody"
  "\<not> sends S (EGetObject g k b9)" "\<not> sends S (EUpdateRhpamDev d b12)" "\<not> sends S (EUpdateRhpamUser u' b13)"
  "\<not> sends S (ECreateObject ob b14)" "\<not> sends S (EDeleteObject g k b15)"
  by (auto simp: sends_def internal_def)

lemma internal_sends [simp]: "internal ev \<Longrightarrow> sends S ev"
  by (auto simp: sends_def internal_def split: event.splits)

lemma internal_quiet: "internal ev \<Longrightarrow> quiet ev"
  by (auto simp: internal_def quiet_def split: event.splits)

lemma sends_quiet: "sends S ev \<Longrightarrow> quiet ev"
  by (auto simp: sends_def internal_def quiet_def split: event.splits)

lemma sends_mono: "sends S ev \<Longrightarrow> (\<And>m u. S m u \<Longrightarrow> T m u) \<Longrightarrow> sends T ev"
  by (auto simp: sends_def split: event.splits)

text \<open>A trace of one class writes nothing of the others.\<close>

lemma quiet_writes [simp]:
  assumes "list_all quiet tr"
  shows "dev_writes tr = []" "user_writes tr = []" "created tr = []" "deleted tr = []"
  using assms by (induction tr; simp add: quiet_def split: event.splits)+

lemma keeps_writes [simp]:
  assumes "list_all keeps_resources tr"
  shows "dev_writes tr = []" "user_writes tr = []" "deleted tr = []"
  using assms by (induction tr; simp add: keeps_resources_def split: event.splits)+

lemma internal_list_quiet: "list_all internal tr \<Longrightarrow> list_all quiet tr"
  by (auto simp: list_all_iff internal_quiet)

lemma internal_writes [simp]:
  assumes "list_all internal tr"
  shows "dev_writes tr = []" "user_writes tr = []" "created tr = []" "deleted tr = []"
  using quiet_writes [OF internal_list_quiet [OF assms]] by auto

lemma internal_requests [simp]: "list_all internal tr \<Longrightarrow> requests tr = []"
  by (induction tr) (auto simp: internal_def split: event.splits)

lemma sends_requests: "list_all (sends S) tr \<Longrightarrow> q \<in> set (requests tr) \<Longrightarrow> S (rq_Method q) (rq_URL q)"
  by (induction tr) (auto split: event.splits)

lemma dev_writes_iff: "d \<in> set (dev_writes tr) \<longleftrightarrow> (\<exists>r. EUpdateRhpamDev d r \<in> set tr)"
  by (induction tr) (auto split: event.splits)

lemma created_iff: "ob \<in> set (created tr) \<longleftrightarrow> (\<exists>r. ECreateObject ob r \<in> set tr)"
  by (induction tr) (auto split: event.splits)

lemma requests_iff: "q \<in> set (requests tr) \<longleftrightarrow> (\<exists>r. EHttpDo q r \<in> set tr)"
  by (induction tr) (auto split: event.splits)

lemma user_writes_iff: "u \<in> set (user_writes tr) \<longleftrightarrow> (\<exists>r. EUpdateRhpamUser u r \<in> set tr)"
  by (induction tr) (auto split: event.splits)

lemma deleted_iff: "(g, k) \<in> set (deleted tr) \<longleftrightarrow> (\<exists>r. EDeleteObject g k r \<in> set tr)"
  by (induction tr) (auto split: event.splits)

text \<open>A guarantee of a smaller class is one of a larger class.\<close>

lemma internal_quietD: "guarantees internal m Q \<Longrightarrow> guarantees quiet m Q"
  by (erule guarantees_mono) (auto simp: internal_quiet)

lemma sends_quietD: "guarantees (sends S) m Q \<Longrightarrow> guarantees quiet m Q"
  by (erule guarantees_mono) (auto simp: sends_quiet)

lemma quiet_keepsD: "guarantees quiet m Q \<Longrightarrow> guarantees keeps_resources m Q"
  by (erule guarantees_mono) auto

lemmas internal_keepsD = quiet_keepsD [OF internal_quietD]

lemma sends_monoD:
  "guarantees (sends S) m Q \<Longrightarrow> (\<And>meth u. S meth u \<Longrightarrow> T meth u) \<Longrightarrow> guarantees (sends T) m Q"
  by (erule guarantees_mono) (auto elim: sends_mono)

lemma internal_sendsD: "guarantees internal m Q \<Longrightarrow> guarantees (sends S) m Q"
  by (erule guarantees_mono) auto

text \<open>Facts about every run of a piece of code, read off its guarantee.\<close>

lemma runs_list_all: "guarantees P m Q \<Longrightarrow> runs m tr out \<Longrightarrow> list_all P tr"
  by (simp add: guarantees_def)

lemma runs_result: "guarantees P m Q \<Longrightarrow> runs m tr (Done a) \<Longrightarrow> Q a"
  by (auto simp: guarantees_def)

end
