(* ===== verification/KeycloakContract.thy ===== *)
theory KeycloakContract
  imports SsoLogin Traces
begin

text \<open>
  What the handlers may rely on when they call a Keycloak client: the interface
  KeycloakInterface as a locale, with one law for each of its seventeen methods. A call sends
  its own request and no other, to the address made of its arguments, and touches nothing of
  the cluster; the calls that delete succeed on status 204 only. The methods of the Client
  satisfy the laws, whatever the server answers, so every client the factory hands out does.
\<close>

subsection \<open>Addresses\<close>

definition realm_path :: "string \<Rightarrow> string" where
  "realm_path realm = ''/auth/admin/realms/'' @ realm"

definition deleted_by :: "string \<Rightarrow> event list \<Rightarrow> bool" where
  "deleted_by url tr \<longleftrightarrow>
     (\<exists>q res. EHttpDo q (Inr res) \<in> set tr \<and> rq_Method q = ''DELETE'' \<and> rq_URL q = url
        \<and> rs_StatusCode res = 204)"

lemma deleted_by_append [simp]: "deleted_by url (t @ u) \<longleftrightarrow> deleted_by url t \<or> deleted_by url u"
  by (auto simp: deleted_by_def)

text \<open>
  A call that sends at most one request, of this method to this address, and that succeeds only
  when it did send it and was answered with a status of the 200 family.
\<close>

definition calls :: "string \<Rightarrow> string \<Rightarrow> 'a result io \<Rightarrow> bool" where
  "calls meth url m \<longleftrightarrow> guarantees (sends (only meth url)) m (\<lambda>_. True) \<and>
     (\<forall>tr out. runs m tr out \<longrightarrow> length (requests tr) \<le> 1) \<and>
     (\<forall>tr x. runs m tr (Done (Inr x)) \<longrightarrow>
        (\<exists>q res. EHttpDo q (Inr res) \<in> set tr \<and> 200 \<le> rs_StatusCode res \<and> rs_StatusCode res \<le> 299))"

definition sent :: "event list \<Rightarrow> (string \<times> string) list" where
  "sent tr = map (\<lambda>q. (rq_Method q, rq_URL q)) (requests tr)"

lemma sent_append [simp]: "sent (t @ u) = sent t @ sent u"
  by (simp add: sent_def)

lemma calls_sends: "calls meth url m \<Longrightarrow> guarantees (sends (only meth url)) m (\<lambda>_. True)"
  by (simp add: calls_def)

lemmas calls_quiet = sends_quietD [OF calls_sends]

lemma calls_sent:
  assumes "calls meth url m" and "runs m tr (Done (Inr x))"
  shows "sent tr = [(meth, url)]"
proof -
  have len: "length (requests tr) \<le> 1" using assms by (auto simp: calls_def)
  obtain q res where "EHttpDo q (Inr res) \<in> set tr" using assms unfolding calls_def by blast
  then have q: "q \<in> set (requests tr)" by (auto simp: requests_iff)
  with len have "requests tr = [q]" by (cases "requests tr") auto
  moreover have "list_all (sends (only meth url)) tr" by (rule runs_list_all [OF calls_sends [OF assms(1)] assms(2)])
  then have "rq_Method q = meth \<and> rq_URL q = url" using q by (rule sends_requests)
  ultimately show ?thesis by (simp add: sent_def)
qed

lemma calls_ok:
  assumes "calls meth url m" and "runs m tr (Done (Inr x))"
  shows "sent tr = [(meth, url)] \<and> list_all quiet tr"
  using calls_sent [OF assms] runs_list_all [OF calls_quiet [OF assms(1)] assms(2)] by simp

subsection \<open>The contract\<close>

locale keycloak_rest =
  fixes kc :: KeycloakInterface and base :: string
  assumes CreateRealm_calls:
      "calls ''POST'' (base @ ''/auth/admin/realms'') (kc_CreateRealm kc json)"
    and DeleteRealm_calls:
      "calls ''DELETE'' (base @ realm_path realm) (kc_DeleteRealm kc realm)"
    and CreateClient_calls:
      "calls ''POST'' (base @ realm_path realm @ ''/clients'') (kc_CreateClient kc json realm)"
    and GetClientSecret_calls:
      "calls ''GET'' (base @ realm_path realm @ ''/clients/'' @ ident @ ''/client-secret'') (kc_GetClientSecret kc ident realm)"
    and ListClients_calls:
      "calls ''GET'' (base @ realm_path realm @ ''/clients'') (kc_ListClients kc realm)"
    and CreateUser_calls:
      "calls ''POST'' (base @ realm_path realm @ ''/users'') (kc_CreateUser kc json realm)"
    and FindUserByUsername_calls:
      "calls ''GET'' (base @ realm_path realm @ ''/users?username='' @ name) (kc_FindUserByUsername kc name realm)"
    and GetUser_calls:
      "calls ''GET'' (base @ realm_path realm @ ''/users/'' @ ident) (kc_GetUser kc ident realm)"
    and ListUsers_calls:
      "calls ''GET'' (base @ realm_path realm @ ''/users'') (kc_ListUsers kc realm)"
    and DeleteUser_calls:
      "calls ''DELETE'' (base @ realm_path realm @ ''/users/'' @ ident) (kc_DeleteUser kc ident realm)"
    and CreateRole_calls:
      "calls ''POST'' (base @ realm_path realm @ ''/roles'') (kc_CreateRole kc json realm)"
    and GetRole_calls:
      "calls ''GET'' (base @ realm_path realm @ ''/roles/'' @ role) (kc_GetRole kc role realm)"
    and ListRoles_calls:
      "calls ''GET'' (base @ realm_path realm @ ''/roles'') (kc_ListRoles kc realm)"
    and DeleteRole_calls:
      "calls ''DELETE'' (base @ realm_path realm @ ''/roles/'' @ role) (kc_DeleteRole kc role realm)"
    and GetRealmRoleMappings_calls:
      "calls ''GET'' (base @ realm_path realm @ ''/users/'' @ ident @ ''/role-mappings/realm'') (kc_GetRealmRoleMappings kc ident realm)"
    and CreateUserRealmRole_calls:
      "calls ''POST'' (base @ realm_path realm @ ''/users/'' @ ident @ ''/role-mappings/realm'') (kc_CreateUserRealmRole kc json ident realm)"
    and DeleteUserRealmRole_calls:
      "calls ''DELETE'' (base @ realm_path realm @ ''/users/'' @ ident @ ''/role-mappings/realm'') (kc_DeleteUserRealmRole kc json ident realm)"
    and DeleteRealm_ok:
      "runs (kc_DeleteRealm kc realm) tr (Done (Inr x)) \<Longrightarrow> deleted_by (base @ realm_path realm) tr"
    and DeleteUser_ok:
      "runs (kc_DeleteUser kc ident realm) tr (Done (Inr x)) \<Longrightarrow> deleted_by (base @ realm_path realm @ ''/users/'' @ ident) tr"
    and DeleteRole_ok:
      "runs (kc_DeleteRole kc role realm) tr (Done (Inr x)) \<Longrightarrow> deleted_by (base @ realm_path realm @ ''/roles/'' @ role) tr"
begin

text \<open>Whatever a method is asked, the cluster is left alone.\<close>

lemmas method_calls =
  CreateRealm_calls DeleteRealm_calls CreateClient_calls GetClientSecret_calls ListClients_calls
  CreateUser_calls FindUserByUsername_calls GetUser_calls ListUsers_calls DeleteUser_calls
  CreateRole_calls GetRole_calls ListRoles_calls DeleteRole_calls GetRealmRoleMappings_calls
  CreateUserRealmRole_calls DeleteUserRealmRole_calls

lemmas method_quiet =
  method_calls [THEN calls_quiet]

end

subsection \<open>The client satisfies the contract\<close>

lemma generic_sends:
  "guarantees (sends (only ''POST'' (admin_url c p))) (create c obj p n st) (\<lambda>_. True)"
  "guarantees (sends (only ''GET'' (admin_url c p))) (get c p n f) (\<lambda>_. True)"
  "guarantees (sends (only ''GET'' (admin_url c p))) (list_all_of c p n f) (\<lambda>_. True)"
  "guarantees (sends (only ''DELETE'' (admin_url c p))) (delete c p n) (\<lambda>_. True)"
  "guarantees (sends (only ''DELETE'' (admin_url c p))) (deleteWithBody c obj p n) (\<lambda>_. True)"
  by (auto simp: request_defs split: sum.splits)

lemma generic_once:
  "runs (create c obj p n st) tr out \<Longrightarrow> length (requests tr) \<le> 1"
  "runs (get c p n f) tr1 out1 \<Longrightarrow> length (requests tr1) \<le> 1"
  "runs (list_all_of c p n f) tr1 out1 \<Longrightarrow> length (requests tr1) \<le> 1"
  "runs (delete c p n) tr out \<Longrightarrow> length (requests tr) \<le> 1"
  "runs (deleteWithBody c obj p n) tr out \<Longrightarrow> length (requests tr) \<le> 1"
  by (auto simp: request_defs runs_branch_iff)

lemma create_calls: "200 \<le> st \<Longrightarrow> st \<le> 299 \<Longrightarrow> calls ''POST'' (admin_url c p) (create c obj p n st)"
  unfolding calls_def
  by (intro conjI allI impI) (rule generic_sends, erule generic_once, auto simp: create_def runs_branch_iff split: if_split_asm)

lemma get_calls: "calls ''GET'' (admin_url c p) (get c p n f)"
  unfolding calls_def
  by (intro conjI allI impI) (rule generic_sends, erule generic_once, auto simp: get_def runs_branch_iff)

lemma list_calls: "calls ''GET'' (admin_url c p) (list_all_of c p n f)"
  unfolding calls_def
  by (intro conjI allI impI) (rule generic_sends, erule generic_once, auto simp: list_all_of_def runs_branch_iff)

lemma delete_calls: "calls ''DELETE'' (admin_url c p) (delete c p n)"
  unfolding calls_def
  by (intro conjI allI impI) (rule generic_sends, erule generic_once, auto simp: delete_def runs_branch_iff split: if_split_asm)

lemma deleteWithBody_calls: "calls ''DELETE'' (admin_url c p) (deleteWithBody c obj p n)"
  unfolding calls_def
  by (intro conjI allI impI) (rule generic_sends, erule generic_once, auto simp: deleteWithBody_def runs_branch_iff split: if_split_asm)

text \<open>Working on the result of a call, without calling again, is still one call.\<close>

definition ends :: "'a result io \<Rightarrow> bool" where
  "ends m \<longleftrightarrow> (\<exists>r. m = Return r) \<or> (\<exists>s. m = Panic s)"

lemma ends_simps [simp]:
  "ends (Return r)" "ends (Panic s)" "ends (deref p (\<lambda>x. Return (f x)))"
  by (auto simp: ends_def deref_def split: option.splits)

lemma calls_bind:
  assumes "calls meth url m" and "\<And>r. ends (k r)" and "\<And>e x. k (Inl e) \<noteq> Return (Inr x)"
  shows "calls meth url (bind m k)"
  unfolding calls_def
proof (intro conjI allI impI)
  have "guarantees P (k r) (\<lambda>_. True)" for P r using assms(2) [of r] by (auto simp: ends_def)
  then show "guarantees (sends (only meth url)) (bind m k) (\<lambda>_. True)"
    by (rule guarantees_bind [OF calls_sends [OF assms(1)]])
next
  have k: "runs (k r) tr out \<Longrightarrow> tr = []" for r tr out using assms(2) [of r] by (auto simp: ends_def)
  fix tr out assume "runs (bind m k) tr out"
  with k have "\<exists>out'. runs m tr out'" by (fastforce simp: runs_bind_iff)
  with assms(1) show "length (requests tr) \<le> 1" by (auto simp: calls_def)
next
  have k: "runs (k r) tr (Done (Inr x)) \<Longrightarrow> tr = [] \<and> (\<exists>y. r = Inr y)" for r tr x
    using assms(2) [of r] assms(3) by (cases r) (auto simp: ends_def)
  fix tr x assume "runs (bind m k) tr (Done (Inr x))"
  with k have "\<exists>y. runs m tr (Done (Inr y))" by (fastforce simp: runs_bind_iff)
  with assms(1) show "\<exists>q res. EHttpDo q (Inr res) \<in> set tr \<and> 200 \<le> rs_StatusCode res \<and> rs_StatusCode res \<le> 299"
    by (auto simp: calls_def)
qed

lemma calls_check_err:
  "calls meth url m \<Longrightarrow> (\<And>x. ends (k x)) \<Longrightarrow> calls meth url (check_err h m k)"
  unfolding check_err_def by (rule calls_bind) (auto split: sum.splits)

text \<open>A deletion succeeds exactly on a 204 answer.\<close>

lemma delete_ok_iff:
  "runs (delete c p n) tr (Done (Inr x)) \<longleftrightarrow>
     (\<exists>res. rs_StatusCode res = 204 \<and>
        tr = [ENewRequest ''DELETE'' (admin_url c p) (Inr ()),
              EHttpDo \<lparr>rq_Method = ''DELETE'', rq_URL = admin_url c p, rq_Header = [bearer c], rq_Body = None\<rparr> (Inr res),
              ECloseBody])"
  by (auto simp: delete_def runs_branch_iff split: if_split_asm)

lemma delete_ok_deletes: "runs (delete c p n) tr (Done (Inr x)) \<Longrightarrow> deleted_by (admin_url c p) tr"
  by (auto simp: delete_ok_iff deleted_by_def)

interpretation client: keycloak_rest "client_interface c" "cl_URL c" for c
proof
  fix realm ident json role name :: string and tr and x :: unit
  show "calls ''POST'' (cl_URL c @ ''/auth/admin/realms'') (kc_CreateRealm (client_interface c) json)"
    using create_calls [of _ c "''realms''" json] by (simp add: Client_CreateRealm_def admin_url_def)
  show "calls ''DELETE'' (cl_URL c @ realm_path realm) (kc_DeleteRealm (client_interface c) realm)"
    using delete_calls [of c "''realms/'' @ realm"] by (simp add: Client_DeleteRealm_def admin_url_def realm_path_def)
  show "calls ''POST'' (cl_URL c @ realm_path realm @ ''/clients'') (kc_CreateClient (client_interface c) json realm)"
    using create_calls [of _ c "''realms/'' @ realm @ ''/clients''" json] by (simp add: Client_CreateClient_def admin_url_def realm_path_def)
  show "calls ''GET'' (cl_URL c @ realm_path realm @ ''/clients/'' @ ident @ ''/client-secret'') (kc_GetClientSecret (client_interface c) ident realm)"
    using get_calls [of c "''realms/'' @ realm @ ''/clients/'' @ ident @ ''/client-secret''"]
    by (auto simp: Client_GetClientSecret_def client_secret_path_def admin_url_def realm_path_def intro!: calls_check_err)
  show "calls ''GET'' (cl_URL c @ realm_path realm @ ''/clients'') (kc_ListClients (client_interface c) realm)"
    using list_calls [of c "''realms/'' @ realm @ ''/clients''"] by (simp add: Client_ListClients_def admin_url_def realm_path_def)
  show "calls ''POST'' (cl_URL c @ realm_path realm @ ''/users'') (kc_CreateUser (client_interface c) json realm)"
    using create_calls [of _ c "''realms/'' @ realm @ ''/users''" json] by (simp add: Client_CreateUser_def admin_url_def realm_path_def)
  show "calls ''GET'' (cl_URL c @ realm_path realm @ ''/users?username='' @ name) (kc_FindUserByUsername (client_interface c) name realm)"
    using get_calls [of c "''realms/'' @ realm @ ''/users?username='' @ name"]
    by (auto simp: Client_FindUserByUsername_def admin_url_def realm_path_def intro!: calls_check_err)
  show "calls ''GET'' (cl_URL c @ realm_path realm @ ''/users/'' @ ident) (kc_GetUser (client_interface c) ident realm)"
    using get_calls [of c "''realms/'' @ realm @ ''/users/'' @ ident"]
    by (auto simp: Client_GetUser_def admin_url_def realm_path_def intro!: calls_bind split: sum.splits)
  show "calls ''GET'' (cl_URL c @ realm_path realm @ ''/users'') (kc_ListUsers (client_interface c) realm)"
    using list_calls [of c "''realms/'' @ realm @ ''/users''"] by (simp add: Client_ListUsers_def admin_url_def realm_path_def)
  show "calls ''DELETE'' (cl_URL c @ realm_path realm @ ''/users/'' @ ident) (kc_DeleteUser (client_interface c) ident realm)"
    using delete_calls [of c "''realms/'' @ realm @ ''/users/'' @ ident"] by (simp add: Client_DeleteUser_def admin_url_def realm_path_def)
  show "calls ''POST'' (cl_URL c @ realm_path realm @ ''/roles'') (kc_CreateRole (client_interface c) json realm)"
    using create_calls [of _ c "''realms/'' @ realm @ ''/roles''" json] by (simp add: Client_CreateRole_def admin_url_def realm_path_def)
  show "calls ''GET'' (cl_URL c @ realm_path realm @ ''/roles/'' @ role) (kc_GetRole (client_interface c) role realm)"
    using get_calls [of c "''realms/'' @ realm @ ''/roles/'' @ role"]
    by (auto simp: Client_GetRole_def admin_url_def realm_path_def intro!: calls_check_err)
  show "calls ''GET'' (cl_URL c @ realm_path realm @ ''/roles'') (kc_ListRoles (client_interface c) realm)"
    using list_calls [of c "''realms/'' @ realm @ ''/roles''"] by (simp add: Client_ListRoles_def admin_url_def realm_path_def)
  show "calls ''DELETE'' (cl_URL c @ realm_path realm @ ''/roles/'' @ role) (kc_DeleteRole (client_interface c) role realm)"
    using delete_calls [of c "''realms/'' @ realm @ ''/roles/'' @ role"] by (simp add: Client_DeleteRole_def admin_url_def realm_path_def)
  show "calls ''GET'' (cl_URL c @ realm_path realm @ ''/users/'' @ ident @ ''/role-mappings/realm'') (kc_GetRealmRoleMappings (client_interface c) ident realm)"
    using get_calls [of c "role_mapping_path ident realm"]
    by (simp add: Client_GetRealmRoleMappings_def role_mapping_path_def admin_url_def realm_path_def)
  show "calls ''POST'' (cl_URL c @ realm_path realm @ ''/users/'' @ ident @ ''/role-mappings/realm'') (kc_CreateUserRealmRole (client_interface c) json ident realm)"
    using create_calls [of _ c "role_mapping_path ident realm" json]
    by (simp add: Client_CreateUserRealmRole_def role_mapping_path_def admin_url_def realm_path_def)
  show "calls ''DELETE'' (cl_URL c @ realm_path realm @ ''/users/'' @ ident @ ''/role-mappings/realm'') (kc_DeleteUserRealmRole (client_interface c) json ident realm)"
    using deleteWithBody_calls [of c "role_mapping_path ident realm" json]
    by (simp add: Client_DeleteUserRealmRole_def role_mapping_path_def admin_url_def realm_path_def)
  show "runs (kc_DeleteRealm (client_interface c) realm) tr (Done (Inr x)) \<Longrightarrow> deleted_by (cl_URL c @ realm_path realm) tr"
    using delete_ok_deletes [of c "''realms/'' @ realm"] by (simp add: Client_DeleteRealm_def admin_url_def realm_path_def)
  show "runs (kc_DeleteUser (client_interface c) ident realm) tr (Done (Inr x)) \<Longrightarrow>
          deleted_by (cl_URL c @ realm_path realm @ ''/users/'' @ ident) tr"
    using delete_ok_deletes [of c "''realms/'' @ realm @ ''/users/'' @ ident"] by (simp add: Client_DeleteUser_def admin_url_def realm_path_def)
  show "runs (kc_DeleteRole (client_interface c) role realm) tr (Done (Inr x)) \<Longrightarrow>
          deleted_by (cl_URL c @ realm_path realm @ ''/roles/'' @ role) tr"
    using delete_ok_deletes [of c "''realms/'' @ realm @ ''/roles/'' @ role"] by (simp add: Client_DeleteRole_def admin_url_def realm_path_def)
qed

subsection \<open>Logging in\<close>

lemma ReadSSOSecret_quiet: "guarantees quiet ReadSSOSecret (\<lambda>_. True)"
  by (auto simp: ReadSSOSecret_def Getenv_def split: sum.splits)

lemma readSSOSecret_quiet: "guarantees quiet (readSSOSecret kf) (\<lambda>_. True)"
  unfolding readSSOSecret_def
  by (rule guarantees_bind [OF ReadSSOSecret_quiet]) (auto split: sum.splits)

lemma login_quiet:
  "guarantees quiet (login c user pass) (\<lambda>r. \<forall>c'. r = Inr c' \<longrightarrow> cl_URL c' = cl_URL c)"
  by (auto simp: login_def Let_def split: sum.splits)

lemma AuthenticatedClient_quiet:
  "guarantees quiet (AuthenticatedClient kf) (\<lambda>r. \<forall>kc. r = Inr kc \<longrightarrow> keycloak_rest kc (kf_AdminUrl kf))"
  unfolding AuthenticatedClient_def
proof (rule guarantees_check_err [OF login_quiet])
  fix c assume "\<forall>c'. Inr c = (Inr c' :: Client result) \<longrightarrow> cl_URL c' = cl_URL \<lparr>cl_URL = kf_AdminUrl kf, cl_token = ''''\<rparr>"
  then have "cl_URL c = kf_AdminUrl kf" by simp
  then show "guarantees quiet (Return (Inr (client_interface c)))
               (\<lambda>r. \<forall>kc. r = Inr kc \<longrightarrow> keycloak_rest kc (kf_AdminUrl kf))"
    using client.keycloak_rest_axioms [of c] by simp
qed simp

text \<open>
  Logging in leaves the cluster alone, and a client that comes out of it satisfies the contract
  at the address the factory has by then.
\<close>

lemma authenticatedClient_quiet:
  "guarantees quiet (authenticatedClient kf) (\<lambda>(r, kf'). \<forall>kc. r = Inr kc \<longrightarrow> keycloak_rest kc (kf_AdminUrl kf'))"
  unfolding authenticatedClient_def
  by (rule guarantees_bind [OF readSSOSecret_quiet])
     (auto split: sum.splits intro!: guarantees_bind [OF AuthenticatedClient_quiet])

end
