(* ===== verification/RhpamdevCalls.thy ===== *)
theory RhpamdevCalls
  imports RhpamdevController KeycloakContract
begin

text \<open>
  What each operation of the RhpamDev phase handler calls and returns, against any environment:
  the helper lemmas that the properties of the controller rest on. Installing writes no custom
  resource and deletes nothing; each phase function, when it succeeds, returns its resource
  with the next phase and otherwise unchanged.
\<close>

subsection \<open>Tokens\<close>

lemma random_runes_internal:
  "guarantees internal (random_runes n) (\<lambda>s. length s = n \<and> set s \<subseteq> set letterRunes)"
proof (induction n)
  case (Suc n)
  have "0 < length letterRunes" by (simp add: letterRunes_def)
  then show ?case
    by (auto intro!: guarantees_bind [OF Suc])
qed simp

lemma generateToken_internal:
  "guarantees internal (generateToken n) (\<lambda>s. length s = n \<and> set s \<subseteq> set letterRunes)"
  unfolding generateToken_def by (auto intro: random_runes_internal)

subsection \<open>Installing\<close>

lemma createSecret_keeps: "guarantees keeps_resources (createSecret ph cr name data) (\<lambda>_. True)"
  by (auto simp: createSecret_def Let_def split: sum.splits)

lemma createConfigmap_keeps: "guarantees keeps_resources (createConfigmap ph cr name data) (\<lambda>_. True)"
  by (auto simp: createConfigmap_def Let_def split: sum.splits)

lemma newTemplateHelper_internal:
  "guarantees internal (newTemplateHelper cr) (\<lambda>h. th_parameters h = template_params cr)"
  by (auto simp: newTemplateHelper_def Getenv_def)

lemma newResourceHelper_internal:
  "guarantees internal (newResourceHelper cr)
     (\<lambda>h. rh_cr h = cr \<and> th_parameters (rh_templateHelper h) = template_params cr)"
  unfolding newResourceHelper_def by (rule guarantees_bind [OF newTemplateHelper_internal]) auto

lemma ResourceHelper_createResource_internal:
  "guarantees internal (ResourceHelper_createResource h res) (\<lambda>_. True)"
  unfolding ResourceHelper_createResource_def loadYamlTemplate_render
  by (rule guarantees_check_err [where R = "\<lambda>_. True"]) (auto split: sum.splits)

lemma createResource_keeps: "guarantees keeps_resources (createResource ph cr res) (\<lambda>_. True)"
  unfolding createResource_def
  by (rule guarantees_bind [OF internal_keepsD [OF newResourceHelper_internal]],
      rule guarantees_check_err [OF internal_keepsD [OF ResourceHelper_createResource_internal]])
     (auto split: sum.splits)

lemma createResources_keeps: "guarantees keeps_resources (createResources ph cr ress) (\<lambda>_. True)"
  unfolding createResources_def by (rule guarantees_for_each, rule createResource_keeps)

lemma data_loop_internal: "guarantees internal (data_loop c names acc) (\<lambda>_. True)"
proof (induction names arbitrary: acc)
  case (Cons n names)
  have "guarantees internal (loadFile c n) (\<lambda>_. True)"
    by (auto simp: loadFile_def split: sum.splits)
  then show ?case by (auto intro: guarantees_check_err Cons)
qed simp

text \<open>The pieces that the phase functions are put together from, in one bundle.\<close>

lemma installing_keeps:
  "guarantees keeps_resources (generateToken n) (\<lambda>_. True)"
  "guarantees keeps_resources newConfigmapHelper (\<lambda>_. True)"
  "guarantees keeps_resources (ConfigmapHelper_data c names) (\<lambda>_. True)"
  "guarantees keeps_resources (createSecret ph cr name data) (\<lambda>_. True)"
  "guarantees keeps_resources (createConfigmap ph cr name data) (\<lambda>_. True)"
  "guarantees keeps_resources (createResources ph cr ress) (\<lambda>_. True)"
  by (auto simp: newConfigmapHelper_def Getenv_def ConfigmapHelper_data_def
        intro: internal_keepsD generateToken_internal data_loop_internal
          createSecret_keeps createConfigmap_keeps createResources_keeps
          guarantees_mono [OF internal_keepsD [OF generateToken_internal]])

subsection \<open>The phase functions\<close>

definition moved :: "StatusPhase \<Rightarrow> RhpamDev \<Rightarrow> RhpamDev" where
  "moved p d = set_dev_version RhpamVersion (set_dev_phase p d)"

lemma moved_simps [simp]:
  "dev_Phase (moved p d) = p" "dev_ObjectMeta (moved p d) = dev_ObjectMeta d"
  "dev_Spec (moved p d) = dev_Spec d" "dev_Realm (moved p d) = dev_Realm d"
  by (simp_all add: moved_def)

lemma moved_realm:
  "set_dev_version RhpamVersion (set_dev_realm r (set_dev_phase p d)) = moved p (set_dev_realm r d)"
  by (simp add: moved_def setter_defs)

lemma Dev_Prepare_keeps:
  "guarantees keeps_resources (Dev_Prepare ph d) (\<lambda>r. \<forall>d'. r = Inr d' \<longrightarrow> d' = moved PhasePrepared d)"
  unfolding Dev_Prepare_def by (auto intro!: guarantees_check_err [OF installing_keeps(6)] simp: moved_def)

lemma InstallDatabase_keeps:
  "guarantees keeps_resources (InstallDatabase ph d) (\<lambda>r. \<forall>d'. r = Inr d' \<longrightarrow> d' = moved PhaseDatabaseInstalled d)"
  unfolding InstallDatabase_def Let_def
  by (intro guarantees_bind [OF installing_keeps(1)] guarantees_bind [OF installing_keeps(2)]
        guarantees_check_err [OF installing_keeps(3)] guarantees_check_err [OF installing_keeps(4)]
        guarantees_check_err [OF installing_keeps(5)] guarantees_check_err [OF installing_keeps(6)])
     (auto simp: moved_def)

lemma InstallBusinessCentral_keeps:
  "guarantees keeps_resources (InstallBusinessCentral ph d)
     (\<lambda>r. \<forall>d'. r = Inr d' \<longrightarrow> d' = moved PhaseBusinessCentralInstalled d)"
  unfolding InstallBusinessCentral_def by (auto intro!: guarantees_check_err [OF installing_keeps(6)] simp: moved_def)

lemma InstallKieServer_keeps:
  "guarantees keeps_resources (InstallKieServer ph d) (\<lambda>r. \<forall>d'. r = Inr d' \<longrightarrow> d' = moved PhaseComplete d)"
  unfolding InstallKieServer_def by (auto intro!: guarantees_check_err [OF installing_keeps(6)] simp: moved_def)

lemma WaitForDatabase_quiet:
  "guarantees quiet (WaitForDatabase d)
     (\<lambda>r. \<forall>b d'. r = Inr (b, d') \<longrightarrow> d' = (if b then moved PhaseDatabaseReady d else d))"
  unfolding WaitForDatabase_def
  by (rule guarantees_check_err [where R = "\<lambda>_. True"])
     (auto simp: isDatabaseReady_def moved_def split: sum.splits)

lemma Dev_Initialize_ok:
  "Dev_Initialize d =
     Inr (moved PhaseAccepted (set_dev_finalizers (sets_List (om_Finalizers (dev_ObjectMeta d) @ [RhpamFinalizer])) d))"
  by (simp add: Dev_Initialize_def AddFinalizer_def Defaults_def Validate_def moved_def set_dev_finalizers_def)

subsection \<open>Provisioning the realm\<close>

lemma templatePath_internal: "guarantees internal templatePath (\<lambda>_. True)"
  by (auto simp: templatePath_def Getenv_def)

lemma NewRealmHelper_quiet: "guarantees quiet NewRealmHelper (\<lambda>_. True)"
  unfolding NewRealmHelper_def
  by (rule guarantees_bind [OF internal_quietD [OF templatePath_internal]]) auto

lemma loadTemplate_quiet: "guarantees quiet (loadTemplate name path data) (\<lambda>_. True)"
  unfolding loadTemplate_render by auto

lemma find_client_id_quiet: "guarantees quiet (find_client_id cs i) (\<lambda>_. True)"
  by (induction cs) auto

context keycloak_rest
begin

lemma getClientSecret_quiet: "guarantees quiet (getClientSecret kc realm i) (\<lambda>_. True)"
  unfolding getClientSecret_def
  by (intro guarantees_check_err [OF method_quiet(5)] guarantees_bind [OF find_client_id_quiet]
        guarantees_check_err [OF method_quiet(4)]) auto

lemma createRealmClient_quiet: "guarantees quiet (createRealmClient kc h realm ps) (\<lambda>_. True)"
  unfolding createRealmClient_def LoadRealmClientTemplate_def
  by (intro guarantees_check_err [OF loadTemplate_quiet] guarantees_check_err [OF method_quiet(3)]) auto

text \<open>The result of provisioning names the realm after the resource and the token.\<close>

lemma provision_with_keeps:
  "guarantees keeps_resources (provision_with ph kc d)
     (\<lambda>r. \<forall>d'. r = Inr d' \<longrightarrow> (\<exists>token. length token = 6 \<and> set token \<subseteq> set letterRunes
        \<and> d' = moved PhaseRealmProvisioned (set_dev_realm (dev_Name d @ ''-'' @ token) d)))"
  unfolding provision_with_def Let_def LoadRealmTemplate_def createRealmSecret_def
  by (rule guarantees_bind [OF quiet_keepsD [OF NewRealmHelper_quiet]],
      rule guarantees_bind [OF internal_keepsD [OF generateToken_internal]],
      intro guarantees_check_err [OF quiet_keepsD [OF loadTemplate_quiet]]
        guarantees_check_err [OF quiet_keepsD [OF method_quiet(1)]]
        guarantees_check_err [OF quiet_keepsD [OF createRealmClient_quiet]]
        guarantees_check_err [OF quiet_keepsD [OF getClientSecret_quiet]]
        guarantees_check_err [OF createSecret_keeps])
     (simp_all add: moved_realm, blast)

end

lemma Dev_authenticatedClient_quiet:
  "guarantees quiet (Dev_authenticatedClient ph)
     (\<lambda>(r, ph'). dph_scheme ph' = dph_scheme ph \<and> (\<forall>kc. r = Inr kc \<longrightarrow> keycloak_rest kc (kf_AdminUrl (dph_keycloakFactory ph'))))"
  unfolding Dev_authenticatedClient_def
  by (rule guarantees_bind [OF authenticatedClient_quiet]) auto

end
