(* ===== verification/RhpamdevPhases.thy ===== *)
theory RhpamdevPhases
  imports RhpamdevCalls
begin

text \<open>
  The phases of an RhpamDev resource as a state machine, and the proof that one reconciliation
  takes the resource along it, whatever happens in between: the phases it writes are a prefix
  of the path that starts at the phase it found, it writes the whole path when it reports no
  error, and nothing it writes ever leaves the path.
\<close>

subsection \<open>The abstract machine\<close>

text \<open>
  The phases written in one reconciliation of a resource found in the given phase. Only the
  provisioning of the realm writes twice. A phase without an entry is not handled.
\<close>

definition dev_path :: "StatusPhase \<Rightarrow> StatusPhase list" where
  "dev_path p =
     (if p = NoPhase then [PhaseAccepted]
      else if p = PhaseAccepted then [PhaseRealmProvisioning, PhaseRealmProvisioned]
      else if p = PhasePrepare then [PhasePrepared]
      else if p = PhasePrepared then [PhaseDatabaseInstalled]
      else if p = PhaseDatabaseInstalled then [PhaseBusinessCentralInstalled]
      else if p = PhaseBusinessCentralInstalled then [PhaseDatabaseReady]
      else if p = PhaseDatabaseReady then [PhaseComplete]
      else [])"

lemma dev_path_simps [simp]:
  "dev_path NoPhase = [PhaseAccepted]"
  "dev_path PhaseAccepted = [PhaseRealmProvisioning, PhaseRealmProvisioned]"
  "dev_path PhasePrepare = [PhasePrepared]"
  "dev_path PhasePrepared = [PhaseDatabaseInstalled]"
  "dev_path PhaseDatabaseInstalled = [PhaseBusinessCentralInstalled]"
  "dev_path PhaseBusinessCentralInstalled = [PhaseDatabaseReady]"
  "dev_path PhaseDatabaseReady = [PhaseComplete]"
  by (simp_all add: dev_path_def phase_consts)

text \<open>
  A trace that goes along a path of phases: it writes a prefix of it, all of it when no error
  is reported and the request is put back, and nothing when no error is reported and the
  request is done with, or when the request only waits.
\<close>

definition follows :: "StatusPhase list \<Rightarrow> event list \<Rightarrow> (reconcile_return \<times> 'h) outcome \<Rightarrow> bool" where
  "follows path tr out \<longleftrightarrow>
     starts_with (map dev_Phase (dev_writes tr)) path \<and>
     (\<forall>res h. out = Done ((res, None), h) \<longrightarrow>
        (rr_Requeue res \<and> map dev_Phase (dev_writes tr) = path) \<or>
        (rr_Requeue res \<and> path = [PhaseDatabaseReady] \<and> dev_writes tr = []) \<or>
        (\<not> rr_Requeue res \<and> path = [] \<and> dev_writes tr = []))"

text \<open>Writing the result of a phase function.\<close>

lemma Dev_handleResult_runs:
  "runs (Dev_handleResult r) tr out \<longleftrightarrow>
     (\<exists>err. r = Inl err \<and> tr = [] \<and> out = Done (\<lparr>rr_Requeue = False\<rparr>, Some err)) \<or>
     (\<exists>d u. r = Inr d \<and> tr = [EUpdateRhpamDev d u] \<and>
        out = Done (\<lparr>rr_Requeue = True\<rparr>, case u of Inl err \<Rightarrow> Some err | Inr _ \<Rightarrow> None))"
  by (cases r) (auto simp: Dev_handleResult_def)

lemma handle_runs:
  assumes m: "guarantees keeps_resources m (\<lambda>r. \<forall>d'. r = Inr d' \<longrightarrow> P d')"
    and run: "runs (bind m (\<lambda>r. bind (Dev_handleResult r) (\<lambda>res. Return (res, h)))) tr out"
  obtains
    (failed) "dev_writes tr = []" "\<forall>res h'. out = Done (res, h') \<longrightarrow> (\<exists>err. res = (\<lparr>rr_Requeue = False\<rparr>, Some err))"
  | (wrote) tr1 d' u where "P d'" "tr = tr1 @ [EUpdateRhpamDev d' u]" "list_all keeps_resources tr1"
      "out = Done ((\<lparr>rr_Requeue = True\<rparr>, case u of Inl err \<Rightarrow> Some err | Inr _ \<Rightarrow> None), h)"
proof -
  from run consider
      (panic) s where "runs m tr (Panicked s)" "out = Panicked s"
    | (ok) r tr1 tr2 where "runs m tr1 (Done r)" "tr = tr1 @ tr2"
        "runs (bind (Dev_handleResult r) (\<lambda>res. Return (res, h))) tr2 out"
    by (auto simp: runs_bind_iff)
  then show thesis
  proof cases
    case panic
    then show thesis using runs_list_all [OF m] by (intro failed) auto
  next
    case ok
    with runs_list_all [OF m ok(1)] runs_result [OF m ok(1)] show thesis
      by (auto simp: runs_bind_iff Dev_handleResult_runs intro: failed wrote)
  qed
qed

lemma handle_follows:
  assumes m: "guarantees keeps_resources m (\<lambda>r. \<forall>d'. r = Inr d' \<longrightarrow> dev_Phase d' = p)"
    and run: "runs (bind m (\<lambda>r. bind (Dev_handleResult r) (\<lambda>res. Return (res, h)))) tr out"
  shows "follows [p] tr out"
  using m run by (rule handle_runs) (auto simp: follows_def split: sum.splits)

lemma handle_moved_follows:
  assumes "guarantees keeps_resources m (\<lambda>r. \<forall>d'. r = Inr d' \<longrightarrow> d' = moved p d)"
    and "runs (bind m (\<lambda>r. bind (Dev_handleResult r) (\<lambda>res. Return (res, h)))) tr out"
  shows "follows [p] tr out"
  by (rule handle_follows [OF guarantees_mono [OF assms(1)] assms(2)]) auto

subsection \<open>Provisioning\<close>

text \<open>
  The two writes of the provisioning phase. The second one continues with the answer of the
  first, whose error is dropped.
\<close>

definition answered :: "RhpamDev \<Rightarrow> RhpamDev result \<Rightarrow> RhpamDev" where
  "answered d u = (case u of Inl _ \<Rightarrow> d | Inr d' \<Rightarrow> d')"

lemma update_answered: "update_dropping_error d k = UpdateRhpamDev d (\<lambda>u. k (answered d u))"
  by (simp add: update_dropping_error_def answered_def)

lemma provisioning_keeps:
  "guarantees keeps_resources
     (bind (Dev_authenticatedClient ph) (\<lambda>(r, ph). case r of
        Inl err \<Rightarrow> Return (Inl err, ph)
      | Inr ssoClient \<Rightarrow> bind (provision_with ph ssoClient d) (\<lambda>res. Return (res, ph))))
     (\<lambda>(r, ph'). \<forall>d'. r = Inr d' \<longrightarrow> (\<exists>token. length token = 6 \<and> set token \<subseteq> set letterRunes
        \<and> d' = moved PhaseRealmProvisioned (set_dev_realm (dev_Name d @ ''-'' @ token) d)))"
  by (rule guarantees_bind [OF quiet_keepsD [OF Dev_authenticatedClient_quiet]])
     (auto split: sum.splits intro!: guarantees_bind [OF keycloak_rest.provision_with_keeps])

lemma provisioning_runs:
  assumes "runs (bind (ProvisionRealm ph d) (\<lambda>(r, ph). bind (Dev_handleResult r) (\<lambda>res. Return (res, ph)))) tr out"
  obtains u tr1 where "tr = EUpdateRhpamDev (set_dev_phase PhaseRealmProvisioning d) u # tr1"
      "list_all keeps_resources tr1" "\<forall>res h'. out = Done (res, h') \<longrightarrow> (\<exists>err. res = (\<lparr>rr_Requeue = False\<rparr>, Some err))"
  | u u' tr1 token h where
      "tr = EUpdateRhpamDev (set_dev_phase PhaseRealmProvisioning d) u # tr1 @
        [EUpdateRhpamDev (moved PhaseRealmProvisioned
           (set_dev_realm (dev_Name (answered (set_dev_phase PhaseRealmProvisioning d) u) @ ''-'' @ token)
             (answered (set_dev_phase PhaseRealmProvisioning d) u))) u']"
      "list_all keeps_resources tr1" "length token = 6" "set token \<subseteq> set letterRunes"
      "out = Done ((\<lparr>rr_Requeue = True\<rparr>, case u' of Inl err \<Rightarrow> Some err | Inr _ \<Rightarrow> None), h)"
proof -
  let ?d1 = "set_dev_phase PhaseRealmProvisioning d"
  let ?m = "\<lambda>u. bind (Dev_authenticatedClient ph) (\<lambda>(r, ph). case r of
        Inl err \<Rightarrow> Return (Inl err, ph)
      | Inr ssoClient \<Rightarrow> bind (provision_with ph ssoClient (answered ?d1 u)) (\<lambda>res. Return (res, ph)))"
  from assms obtain u tr1 where tr: "tr = EUpdateRhpamDev ?d1 u # tr1"
    and run: "runs (bind (?m u) (\<lambda>(r, ph). bind (Dev_handleResult r) (\<lambda>res. Return (res, ph)))) tr1 out"
    by (auto simp: ProvisionRealm_def update_answered)
  from run consider
      (panic) s where "runs (?m u) tr1 (Panicked s)" "out = Panicked s"
    | (ok) r h t1 t2 where "runs (?m u) t1 (Done (r, h))" "tr1 = t1 @ t2"
        "runs (bind (Dev_handleResult r) (\<lambda>res. Return (res, h))) t2 out"
    by (subst (asm) runs_bind_iff) auto
  then show thesis
  proof cases
    case panic
    then show thesis using tr runs_list_all [OF provisioning_keeps] by (intro that(1)) auto
  next
    case ok
    have k: "list_all keeps_resources t1" by (rule runs_list_all [OF provisioning_keeps ok(1)])
    from ok(3) consider
        (err) err where "r = Inl err" "t2 = []" "out = Done ((\<lparr>rr_Requeue = False\<rparr>, Some err), h)"
      | (upd) d' u' where "r = Inr d'" "t2 = [EUpdateRhpamDev d' u']"
          "out = Done ((\<lparr>rr_Requeue = True\<rparr>, case u' of Inl err \<Rightarrow> Some err | Inr _ \<Rightarrow> None), h)"
      by (auto simp: runs_bind_iff Dev_handleResult_runs)
    then show thesis
    proof cases
      case err
      then show thesis using tr ok(2) k by (intro that(1)) auto
    next
      case upd
      with runs_result [OF provisioning_keeps ok(1)] obtain token where
        "length token = 6" "set token \<subseteq> set letterRunes"
        "d' = moved PhaseRealmProvisioned (set_dev_realm (dev_Name (answered ?d1 u) @ ''-'' @ token) (answered ?d1 u))"
        by auto
      with upd tr ok(2) k show thesis by (intro that(2)) auto
    qed
  qed
qed

subsection \<open>Deprovisioning\<close>

definition asset_keys :: "RhpamDev \<Rightarrow> (TypeMeta \<times> NamespacedName) list" where
  "asset_keys d = map (\<lambda>a. (fst a, key_of (dev_Namespace d) (snd a))) deprovision_assets"

definition tenants :: "RhpamDev \<Rightarrow> RhpamUser list \<Rightarrow> RhpamUser list" where
  "tenants d us = filter (\<lambda>u. ru_Realm u = dev_Realm d) us"

lemma delete_assets_runs:
  assumes "runs (delete_assets ns as k) tr out"
  obtains tr1 tr2 where "tr = tr1 @ tr2" "runs k tr2 out"
    "deleted tr1 = map (\<lambda>a. (fst a, key_of ns (snd a))) as"
    "dev_writes tr1 = []" "user_writes tr1 = []" "created tr1 = []"
  using assms
proof (induction as arbitrary: tr thesis)
  case Nil
  then show ?case by (intro Nil(1) [of "[]" tr]) auto
next
  case (Cons a as)
  from Cons.prems(2) obtain r t where t: "tr = EDeleteObject (fst a) (key_of ns (snd a)) r # t"
    and run: "runs (delete_assets ns as k) t out" by auto
  obtain t1 t2 where "t = t1 @ t2" "runs k t2 out"
    "deleted t1 = map (\<lambda>a. (fst a, key_of ns (snd a))) as"
    "dev_writes t1 = []" "user_writes t1 = []" "created t1 = []"
    by (rule Cons.IH [OF _ run])
  with t show ?case
    by (intro Cons.prems(1) [of "EDeleteObject (fst a) (key_of ns (snd a)) r # t1" t2]) auto
qed

lemma retire_users_runs:
  assumes "runs (retire_users realm us k) tr out"
  obtains tr1 tr2 where "tr = tr1 @ tr2" "runs k tr2 out"
    "user_writes tr1 = map (set_user_phase PhaseDeprovisioned) (filter (\<lambda>u. ru_Realm u = realm) us)"
    "dev_writes tr1 = []" "deleted tr1 = []" "created tr1 = []"
  using assms
proof (induction us arbitrary: tr thesis)
  case Nil
  then show ?case by (intro Nil(1) [of "[]" tr]) auto
next
  case (Cons u us)
  show ?case
  proof (cases "realm = ru_Realm u")
    case True
    with Cons.prems(2) obtain r t where t: "tr = EUpdateRhpamUser (set_user_phase PhaseDeprovisioned u) r # t"
      and run: "runs (retire_users realm us k) t out" by auto
    obtain t1 t2 where "t = t1 @ t2" "runs k t2 out"
      "user_writes t1 = map (set_user_phase PhaseDeprovisioned) (filter (\<lambda>u. ru_Realm u = realm) us)"
      "dev_writes t1 = []" "deleted t1 = []" "created t1 = []"
      by (rule Cons.IH [OF _ run])
    with t True show ?thesis
      by (intro Cons.prems(1) [of "EUpdateRhpamUser (set_user_phase PhaseDeprovisioned u) r # t1" t2]) auto
  next
    case False
    with Cons.prems(2) have run: "runs (retire_users realm us k) tr out" by simp
    obtain t1 t2 where "tr = t1 @ t2" "runs k t2 out"
      "user_writes t1 = map (set_user_phase PhaseDeprovisioned) (filter (\<lambda>u. ru_Realm u = realm) us)"
      "dev_writes t1 = []" "deleted t1 = []" "created t1 = []"
      by (rule Cons.IH [OF _ run])
    with False show ?thesis by (intro Cons.prems(1) [of t1 t2]) auto
  qed
qed

text \<open>
  What deprovisioning did, when it went on after the deletion of the realm and when it did not.
\<close>

definition realm_gone :: "RhpamDev \<Rightarrow> event list \<Rightarrow> bool" where
  "realm_gone d tr \<longleftrightarrow>
     (\<exists>k secret. EGetObject gvk_Secret k (Inr secret) \<in> set tr \<and>
        deleted_by (kf_AdminUrl (factory_of_secret secret) @ realm_path (dev_Realm d)) tr)"

definition cleaned_up :: "RhpamDev \<Rightarrow> event list \<Rightarrow> bool" where
  "cleaned_up d tr \<longleftrightarrow> deleted tr = asset_keys d \<and>
     (\<exists>us. EListRhpamUser (dev_Namespace d) (Inr us) \<in> set tr \<and>
        user_writes tr = map (set_user_phase PhaseDeprovisioned) (tenants d us))"

context keycloak_rest
begin

lemma deprovision_with_runs:
  assumes "runs (deprovision_with kc d) tr out"
  shows "dev_writes tr = [] \<and> created tr = [] \<and>
    (deleted tr = [] \<and> user_writes tr = [] \<or> cleaned_up d tr) \<and>
    (\<forall>d'. out = Done (Inr d') \<longrightarrow> d' = set_dev_phase PhaseDeprovisioned d \<and> cleaned_up d tr \<and>
        deleted_by (base @ realm_path (dev_Realm d)) tr)"
proof -
  note q = method_quiet(2)
  from assms consider
      (stop) out' where "runs (kc_DeleteRealm kc (dev_Realm d)) tr out'" "\<forall>d'. out \<noteq> Done (Inr d')"
    | (go_on) x t1 t2 where "tr = t1 @ t2" "runs (kc_DeleteRealm kc (dev_Realm d)) t1 (Done (Inr x))"
        "runs (ListRhpamUser (dev_Namespace d) (\<lambda>r. case r of
           Inl err \<Rightarrow> Return (Inl err)
         | Inr items \<Rightarrow> retire_users (dev_Realm d) items
             (delete_assets (dev_Namespace d) deprovision_assets
               (Return (Inr (set_dev_phase PhaseDeprovisioned d)))))) t2 out"
    by (auto simp: deprovision_with_def runs_check_err_iff)
  then show ?thesis
  proof cases
    case stop
    then show ?thesis using runs_list_all [OF q stop(1)] by auto
  next
    case go_on
    have quiet1: "list_all quiet t1" by (rule runs_list_all [OF q go_on(2)])
    have gone: "deleted_by (base @ realm_path (dev_Realm d)) t1" by (rule DeleteRealm_ok [OF go_on(2)])
    from go_on(3) obtain r t3 where t2: "t2 = EListRhpamUser (dev_Namespace d) r # t3"
      and run: "(\<exists>err. r = Inl err \<and> t3 = [] \<and> out = Done (Inl err)) \<or>
        (\<exists>us. r = Inr us \<and> runs (retire_users (dev_Realm d) us
             (delete_assets (dev_Namespace d) deprovision_assets
               (Return (Inr (set_dev_phase PhaseDeprovisioned d))))) t3 out)"
      by (auto simp: runs_branch_iff)
    from run show ?thesis
    proof (elim disjE exE conjE)
      fix err assume "r = Inl err" "t3 = []" "out = Done (Inl err)"
      with quiet1 t2 go_on(1) show ?thesis by simp
    next
      fix us assume r: "r = Inr us" and retire: "runs (retire_users (dev_Realm d) us
             (delete_assets (dev_Namespace d) deprovision_assets
               (Return (Inr (set_dev_phase PhaseDeprovisioned d))))) t3 out"
      obtain t4 t5 where 4: "t3 = t4 @ t5"
          "runs (delete_assets (dev_Namespace d) deprovision_assets
             (Return (Inr (set_dev_phase PhaseDeprovisioned d)))) t5 out"
          "user_writes t4 = map (set_user_phase PhaseDeprovisioned) (tenants d us)"
          "dev_writes t4 = []" "deleted t4 = []" "created t4 = []"
        by (rule retire_users_runs [OF retire]) (rule that, simp_all add: tenants_def)
      obtain t6 t7 where 6: "t5 = t6 @ t7" "runs (Return (Inr (set_dev_phase PhaseDeprovisioned d))) t7 out"
          "deleted t6 = asset_keys d" "dev_writes t6 = []" "user_writes t6 = []" "created t6 = []"
        by (rule delete_assets_runs [OF 4(2)]) (rule that, simp_all add: asset_keys_def)
      have clean: "cleaned_up d tr"
        using 4 6 t2 r go_on(1) quiet1 by (auto simp: cleaned_up_def)
      with 4 6 t2 go_on(1) quiet1 gone show ?thesis by auto
    qed
  qed
qed

end

subsection \<open>The deletion branch\<close>

lemma ReadSSOSecret_runs:
  "runs ReadSSOSecret tr (Done (Inr secret)) \<Longrightarrow> \<exists>k. EGetObject gvk_Secret k (Inr secret) \<in> set tr"
  by (auto simp: ReadSSOSecret_def Getenv_def runs_branch_iff)

lemma Dev_authenticatedClient_runs:
  assumes "runs (Dev_authenticatedClient ph) tr (Done (Inr kc, ph'))"
  obtains k secret where "EGetObject gvk_Secret k (Inr secret) \<in> set tr" "list_all quiet tr"
    "keycloak_rest kc (kf_AdminUrl (factory_of_secret secret))"
proof -
  from runs_result [OF Dev_authenticatedClient_quiet assms]
  have rest: "keycloak_rest kc (kf_AdminUrl (dph_keycloakFactory ph'))" by simp
  from assms obtain secret t1 t2 where "tr = t1 @ t2" "runs ReadSSOSecret t1 (Done (Inr secret))"
    and kf: "dph_keycloakFactory ph' = factory_of_secret secret"
    by (auto simp: Dev_authenticatedClient_def authenticatedClient_def readSSOSecret_def
          runs_bind_iff runs_branch_iff split: sum.split_asm)
  with ReadSSOSecret_runs obtain k where "EGetObject gvk_Secret k (Inr secret) \<in> set tr" by fastforce
  with rest kf runs_list_all [OF Dev_authenticatedClient_quiet assms] show thesis
    by (intro that) auto
qed

lemma Dev_Deprovision_runs:
  assumes "runs (Dev_Deprovision ph d) tr out"
  shows "dev_writes tr = [] \<and> created tr = [] \<and>
    (deleted tr = [] \<and> user_writes tr = [] \<or> cleaned_up d tr) \<and>
    (\<forall>d' h. out = Done (Inr d', h) \<longrightarrow> d' = set_dev_phase PhaseDeprovisioned d \<and> cleaned_up d tr \<and> realm_gone d tr)"
proof -
  from assms consider
      (panic) s where "runs (Dev_authenticatedClient ph) tr (Panicked s)" "out = Panicked s"
    | (failed) err h where "runs (Dev_authenticatedClient ph) tr (Done (Inl err, h))" "out = Done (Inl err, h)"
    | (ok) kc h t1 t2 where "tr = t1 @ t2" "runs (Dev_authenticatedClient ph) t1 (Done (Inr kc, h))"
        "runs (bind (deprovision_with kc d) (\<lambda>res. Return (res, h))) t2 out"
    by (auto simp: Dev_Deprovision_def runs_bind_state_iff)
  then show ?thesis
  proof cases
    case panic
    then show ?thesis using runs_list_all [OF Dev_authenticatedClient_quiet panic(1)] by auto
  next
    case failed
    then show ?thesis using runs_list_all [OF Dev_authenticatedClient_quiet failed(1)] by auto
  next
    case ok
    obtain k secret where s: "EGetObject gvk_Secret k (Inr secret) \<in> set t1" "list_all quiet t1"
        "keycloak_rest kc (kf_AdminUrl (factory_of_secret secret))"
      by (rule Dev_authenticatedClient_runs [OF ok(2)])
    from ok(3) obtain out' where o: "runs (deprovision_with kc d) t2 out'"
      "\<And>d' h. out = Done (Inr d', h) \<Longrightarrow> out' = Done (Inr d')"
      by (auto simp: runs_bind_iff)
    from keycloak_rest.deprovision_with_runs [OF s(3) o(1)]
    have *: "dev_writes t2 = [] \<and> created t2 = [] \<and> (deleted t2 = [] \<and> user_writes t2 = [] \<or> cleaned_up d t2) \<and>
      (\<forall>d'. out' = Done (Inr d') \<longrightarrow> d' = set_dev_phase PhaseDeprovisioned d \<and> cleaned_up d t2 \<and>
        deleted_by (kf_AdminUrl (factory_of_secret secret) @ realm_path (dev_Realm d)) t2)" .
    have "cleaned_up d t2 \<Longrightarrow> cleaned_up d tr" using ok(1) s(2) by (auto simp: cleaned_up_def)
    moreover have "deleted_by (kf_AdminUrl (factory_of_secret secret) @ realm_path (dev_Realm d)) t2 \<Longrightarrow> realm_gone d tr"
      unfolding realm_gone_def ok(1) using s(1) by auto
    ultimately show ?thesis using * o(2) ok(1) s(2) by auto
  qed
qed

lemma Dev_reconcile_deletion_runs:
  assumes "runs (Dev_reconcile_deletion ph d) tr out"
  obtains (failed) "dev_writes tr = []" "created tr = []" "deleted tr = [] \<and> user_writes tr = [] \<or> cleaned_up d tr"
      "\<forall>res h. out = Done (res, h) \<longrightarrow> (\<exists>err. res = (\<lparr>rr_Requeue = False\<rparr>, Some err))"
  | (wrote) tr1 u h where "tr = tr1 @ [EUpdateRhpamDev (set_dev_finalizers [] (set_dev_phase PhaseDeprovisioned d)) u]"
      "dev_writes tr1 = []" "created tr1 = []" "cleaned_up d tr1" "realm_gone d tr1"
      "out = Done ((\<lparr>rr_Requeue = True\<rparr>, case u of Inl err \<Rightarrow> Some err | Inr _ \<Rightarrow> None), h)"
proof -
  from assms consider
      (panic) s where "runs (Dev_Deprovision ph d) tr (Panicked s)" "out = Panicked s"
    | (ok) r h t1 t2 where "runs (Dev_Deprovision ph d) t1 (Done (r, h))" "tr = t1 @ t2"
        "runs (bind (Dev_handleResult (case r of Inl err \<Rightarrow> Inl err | Inr d' \<Rightarrow> Inr (set_dev_finalizers [] d')))
                 (\<lambda>res. Return (res, h))) t2 out"
    unfolding Dev_reconcile_deletion_def by (subst (asm) runs_bind_iff) auto
  then show thesis
  proof cases
    case panic
    with Dev_Deprovision_runs [OF panic(1)] show thesis by (intro failed) auto
  next
    case ok
    note dep = Dev_Deprovision_runs [OF ok(1)]
    show thesis
    proof (cases r)
      case (Inl err)
      with ok dep show thesis by (intro failed) (auto simp: runs_bind_iff Dev_handleResult_runs)
    next
      case (Inr d')
      with ok dep show thesis by (auto simp: runs_bind_iff Dev_handleResult_runs intro: wrote)
    qed
  qed
qed

subsection \<open>One reconciliation\<close>

lemma Dev_Reconcile_runs:
  assumes "runs (Dev_Reconcile r req) tr out"
  obtains (early) "list_all quiet tr" "\<forall>d. EGetRhpamDev req (Inr d) \<notin> set tr" "requests tr = []"
      "\<exists>err. out = Done ((\<lparr>rr_Requeue = False\<rparr>, err), r) \<and>
         (\<forall>e. err = Some e \<longleftrightarrow> EGetRhpamDev req (Inl e) \<in> set tr \<and> \<not> IsNotFound e)"
  | (found) d t out' where "tr = [ELookupEnv ''WATCH_NAMESPACE'' (Some (nn_Namespace req)), EGetRhpamDev req (Inr d)] @ t"
      "runs (if om_DeletionTimestamp (dev_ObjectMeta d) \<noteq> None
             then Dev_reconcile_deletion (rd_phaseHandler r) d else Dev_reconcile_phase (rd_phaseHandler r) d) t out'"
      "\<And>res h. out = Done (res, h) \<Longrightarrow> \<exists>ph. h = r\<lparr>rd_phaseHandler := ph\<rparr> \<and> out' = Done (res, ph)"
proof -
  from assms consider
      (no_ns) v where "tr = [ELookupEnv ''WATCH_NAMESPACE'' v]" "out = Done ((\<lparr>rr_Requeue = False\<rparr>, None), r)"
    | (error) err e where "tr = [ELookupEnv ''WATCH_NAMESPACE'' (Some (nn_Namespace req)), EGetRhpamDev req (Inl err)]"
        "out = Done ((\<lparr>rr_Requeue = False\<rparr>, e), r)" "e = (if IsNotFound err then None else Some err)"
    | (object) d t where "tr = [ELookupEnv ''WATCH_NAMESPACE'' (Some (nn_Namespace req)), EGetRhpamDev req (Inr d)] @ t"
        "runs (bind (if om_DeletionTimestamp (dev_ObjectMeta d) \<noteq> None
               then Dev_reconcile_deletion (rd_phaseHandler r) d else Dev_reconcile_phase (rd_phaseHandler r) d)
               (\<lambda>(res, ph). Return (res, r\<lparr>rd_phaseHandler := ph\<rparr>))) t out"
    unfolding Dev_Reconcile_def GetWatchNamespace_def
    by (auto simp: runs_branch_iff split: option.split_asm)
  then show thesis
  proof cases
    case object
    from object(2) obtain out' where
      "runs (if om_DeletionTimestamp (dev_ObjectMeta d) \<noteq> None
             then Dev_reconcile_deletion (rd_phaseHandler r) d else Dev_reconcile_phase (rd_phaseHandler r) d) t out'"
      "\<And>res h. out = Done (res, h) \<Longrightarrow> \<exists>ph. h = r\<lparr>rd_phaseHandler := ph\<rparr> \<and> out' = Done (res, ph)"
      by (subst (asm) runs_bind_iff) auto
    with object(1) show thesis by (rule found)
  qed (auto intro!: early)
qed

text \<open>The branches of the switch, each against its path.\<close>

lemma phases_distinct:
  "PhaseAccepted \<noteq> NoPhase" "PhasePrepare \<noteq> NoPhase" "PhasePrepare \<noteq> PhaseAccepted"
  "PhasePrepared \<noteq> NoPhase" "PhasePrepared \<noteq> PhaseAccepted" "PhasePrepared \<noteq> PhasePrepare"
  "PhaseDatabaseInstalled \<noteq> NoPhase" "PhaseDatabaseInstalled \<noteq> PhaseAccepted"
  "PhaseDatabaseInstalled \<noteq> PhasePrepare" "PhaseDatabaseInstalled \<noteq> PhasePrepared"
  "PhaseBusinessCentralInstalled \<noteq> NoPhase" "PhaseBusinessCentralInstalled \<noteq> PhaseAccepted"
  "PhaseBusinessCentralInstalled \<noteq> PhasePrepare" "PhaseBusinessCentralInstalled \<noteq> PhasePrepared"
  "PhaseBusinessCentralInstalled \<noteq> PhaseDatabaseInstalled"
  "PhaseDatabaseReady \<noteq> NoPhase" "PhaseDatabaseReady \<noteq> PhaseAccepted" "PhaseDatabaseReady \<noteq> PhasePrepare"
  "PhaseDatabaseReady \<noteq> PhasePrepared" "PhaseDatabaseReady \<noteq> PhaseDatabaseInstalled"
  "PhaseDatabaseReady \<noteq> PhaseBusinessCentralInstalled"
  by (simp_all add: phase_consts)

lemma waiting_follows:
  assumes "runs (bind (WaitForDatabase d) (\<lambda>r. case r of
          Inr (False, rhpamState) \<Rightarrow> Return ((\<lparr>rr_Requeue = True\<rparr>, None), ph)
        | Inr (True, rhpamState) \<Rightarrow> bind (Dev_handleResult (Inr rhpamState)) (\<lambda>res. Return (res, ph))
        | Inl err \<Rightarrow> bind (Dev_handleResult (Inl err)) (\<lambda>res. Return (res, ph)))) tr out"
  shows "follows [PhaseDatabaseReady] tr out"
proof -
  from assms consider
      (panic) s where "runs (WaitForDatabase d) tr (Panicked s)" "out = Panicked s"
    | (ok) r t1 t2 where "runs (WaitForDatabase d) t1 (Done r)" "tr = t1 @ t2"
        "runs (case r of
          Inr (False, rhpamState) \<Rightarrow> Return ((\<lparr>rr_Requeue = True\<rparr>, None), ph)
        | Inr (True, rhpamState) \<Rightarrow> bind (Dev_handleResult (Inr rhpamState)) (\<lambda>res. Return (res, ph))
        | Inl err \<Rightarrow> bind (Dev_handleResult (Inl err)) (\<lambda>res. Return (res, ph))) t2 out"
    by (subst (asm) runs_bind_iff) auto
  then show ?thesis
  proof cases
    case panic
    then show ?thesis using runs_list_all [OF WaitForDatabase_quiet panic(1)] by (auto simp: follows_def)
  next
    case ok
    note q = runs_list_all [OF WaitForDatabase_quiet ok(1)] runs_result [OF WaitForDatabase_quiet ok(1)]
    show ?thesis
    proof (cases r)
      case (Inl err)
      with ok q show ?thesis by (auto simp: follows_def runs_bind_iff Dev_handleResult_runs)
    next
      case (Inr bd)
      obtain b d' where r: "r = Inr (b, d')" using Inr by (cases bd) auto
      show ?thesis
      proof (cases b)
        case True
        with ok q r obtain u where "t2 = [EUpdateRhpamDev d' u]" "dev_Phase d' = PhaseDatabaseReady"
            "out = Done ((\<lparr>rr_Requeue = True\<rparr>, case u of Inl err \<Rightarrow> Some err | Inr _ \<Rightarrow> None), ph)"
          by (auto simp: runs_bind_iff Dev_handleResult_runs)
        with ok q show ?thesis by (auto simp: follows_def split: sum.splits)
      next
        case False
        with ok q r show ?thesis by (auto simp: follows_def)
      qed
    qed
  qed
qed

lemma provisioning_follows:
  assumes "runs (bind (ProvisionRealm ph d) (\<lambda>(r, ph). bind (Dev_handleResult r) (\<lambda>res. Return (res, ph)))) tr out"
  shows "follows [PhaseRealmProvisioning, PhaseRealmProvisioned] tr out"
  using assms
proof (rule provisioning_runs)
qed (auto simp: follows_def split: sum.splits)

text \<open>
  The switch, as its cases: the first phase, the provisioning, the wait for the database, a phase
  whose function moves on to the next one, and a phase that is not handled.
\<close>

lemma Dev_reconcile_phase_cases:
  assumes "runs (Dev_reconcile_phase ph d) tr out"
  obtains
    (init) "dev_Phase d = NoPhase"
      "runs (bind (Return (Dev_Initialize d)) (\<lambda>r. bind (Dev_handleResult r) (\<lambda>res. Return (res, ph)))) tr out"
  | (provision) "dev_Phase d = PhaseAccepted"
      "runs (bind (ProvisionRealm ph d) (\<lambda>(r, ph). bind (Dev_handleResult r) (\<lambda>res. Return (res, ph)))) tr out"
  | (wait) "dev_Phase d = PhaseBusinessCentralInstalled"
      "runs (bind (WaitForDatabase d) (\<lambda>r. case r of
          Inr (False, rhpamState) \<Rightarrow> Return ((\<lparr>rr_Requeue = True\<rparr>, None), ph)
        | Inr (True, rhpamState) \<Rightarrow> bind (Dev_handleResult (Inr rhpamState)) (\<lambda>res. Return (res, ph))
        | Inl err \<Rightarrow> bind (Dev_handleResult (Inl err)) (\<lambda>res. Return (res, ph)))) tr out"
  | (move) m p where "dev_Phase d \<noteq> NoPhase" "dev_path (dev_Phase d) = [p]"
      "guarantees keeps_resources m (\<lambda>r. \<forall>d'. r = Inr d' \<longrightarrow> d' = moved p d)"
      "runs (bind m (\<lambda>r. bind (Dev_handleResult r) (\<lambda>res. Return (res, ph)))) tr out"
  | (idle) "dev_path (dev_Phase d) = []" "tr = []" "out = Done ((\<lparr>rr_Requeue = False\<rparr>, None), ph)"
proof -
  note step = Dev_Prepare_keeps [of ph d] InstallDatabase_keeps [of ph d]
    InstallBusinessCentral_keeps [of ph d] InstallKieServer_keeps [of ph d]
  show thesis
    using assms unfolding Dev_reconcile_phase_def Let_def runs_branch_iff(3)
  proof (elim disjE conjE)
    assume p: "dev_Phase d = PhasePrepare"
      and r: "runs (bind (Dev_Prepare ph d) (\<lambda>r. bind (Dev_handleResult r) (\<lambda>res. Return (res, ph)))) tr out"
    show thesis by (rule move [OF _ _ _ r]) (simp add: p phases_distinct, simp add: p, rule step)
  next
    assume p: "dev_Phase d = PhasePrepared"
      and r: "runs (bind (InstallDatabase ph d) (\<lambda>r. bind (Dev_handleResult r) (\<lambda>res. Return (res, ph)))) tr out"
    show thesis by (rule move [OF _ _ _ r]) (simp add: p phases_distinct, simp add: p, rule step)
  next
    assume p: "dev_Phase d = PhaseDatabaseInstalled"
      and r: "runs (bind (InstallBusinessCentral ph d) (\<lambda>r. bind (Dev_handleResult r) (\<lambda>res. Return (res, ph)))) tr out"
    show thesis by (rule move [OF _ _ _ r]) (simp add: p phases_distinct, simp add: p, rule step)
  next
    assume p: "dev_Phase d = PhaseDatabaseReady"
      and r: "runs (bind (InstallKieServer ph d) (\<lambda>r. bind (Dev_handleResult r) (\<lambda>res. Return (res, ph)))) tr out"
    show thesis by (rule move [OF _ _ _ r]) (simp add: p phases_distinct, simp add: p, rule step)
  qed (erule (1) init | erule (1) provision | erule (1) wait | auto simp: dev_path_def intro: idle)+
qed

lemma Dev_reconcile_phase_follows:
  assumes "runs (Dev_reconcile_phase ph d) tr out"
  shows "follows (dev_path (dev_Phase d)) tr out"
  using assms
proof (cases rule: Dev_reconcile_phase_cases)
  case init
  have "guarantees keeps_resources (Return (Dev_Initialize d)) (\<lambda>r. \<forall>d'. r = Inr d' \<longrightarrow> dev_Phase d' = PhaseAccepted)"
    by (simp add: Dev_Initialize_ok)
  from handle_follows [OF this init(2)] init(1) show ?thesis by simp
next
  case provision
  from provisioning_follows [OF provision(2)] provision(1) show ?thesis by simp
next
  case wait
  from waiting_follows [OF wait(2)] wait(1) show ?thesis by simp
next
  case move
  from handle_moved_follows [OF move(3,4)] move(2) show ?thesis by simp
next
  case idle
  then show ?thesis by (simp add: follows_def)
qed

end
