(* ===== verification/Cluster.thy ===== *)
theory Cluster
  imports Traces Common KeycloakTypes
begin

text \<open>
  The environment in its documented behaviour. \<^theory_text>\<open>object_store\<close> is the contract of the
  Kubernetes API server for the objects the operator installs: a lookup answers with the
  object or with "not found", a creation adds a missing object, and the process' own calls
  change no object. \<^theory_text>\<open>cluster\<close> is a reference environment that keeps the contract: a store
  of objects and of the two custom resources, fixed files and variables, an HTTP server and a
  YAML reader given as functions, a clock, a seeded generator, the role
  names and accounts of one realm, and the clients of every realm. It is executable, and the
  examples of the development run on it.
\<close>

type_synonym store = "TypeMeta \<times> NamespacedName \<Rightarrow> Object option"

definition store_key :: "Object \<Rightarrow> TypeMeta \<times> NamespacedName" where
  "store_key ob = (ob_TypeMeta ob, object_key ob)"

subsection \<open>The contract\<close>

locale object_store =
  fixes E :: "'w env" and objs :: "'w \<Rightarrow> store"
  assumes get_present: "objs w (g, k) = Some ob \<Longrightarrow> fst (env_GetObject E g k w) = Inr ob"
    and get_absent: "objs w (g, k) = None \<Longrightarrow> \<exists>e. fst (env_GetObject E g k w) = Inl e \<and> IsNotFound e"
    and get_keeps: "objs (snd (env_GetObject E g k w)) = objs w"
    and create_absent: "objs w (store_key ob) = None \<Longrightarrow>
          (\<exists>x. fst (env_CreateObject E ob w) = Inr x) \<and>
          objs (snd (env_CreateObject E ob w)) = (objs w)(store_key ob \<mapsto> ob)"
    and LookupEnv_keeps: "objs (snd (env_LookupEnv E v w)) = objs w"
    and ReadFile_keeps: "objs (snd (env_ReadFile E f w)) = objs w"
    and YamlUnmarshal_keeps: "objs (snd (env_YamlUnmarshal E f w)) = objs w"
    and TimeNow_keeps: "objs (snd (env_TimeNow E w)) = objs w"
    and RandSeed_keeps: "objs (env_RandSeed E s w) = objs w"
    and RandIntn_keeps: "objs (snd (env_RandIntn E n w)) = objs w"
    and RangeOrder_keeps: "objs (snd (env_RangeOrder E ks w)) = objs w"
begin

lemmas process_keeps = LookupEnv_keeps ReadFile_keeps YamlUnmarshal_keeps TimeNow_keeps
  RandSeed_keeps RandIntn_keeps RangeOrder_keeps

text \<open>Code that only makes calls of the process leaves the objects as they are.\<close>

lemma internal_keeps: "list_all internal (trace_of E m w) \<Longrightarrow> objs (snd (exec E m w)) = objs w"
proof (induction m arbitrary: w)
qed (simp_all add: prod.case_eq_if internal_def process_keeps)

lemma guaranteed_internal_keeps:
  "guarantees internal m Q \<Longrightarrow> objs (snd (exec E m w)) = objs w"
  by (rule internal_keeps, rule runs_list_all [OF _ exec_runs])

end

subsection \<open>A reference cluster\<close>

record world =
  w_objects :: "Object list"
  w_devs :: "RhpamDev list"
  w_users :: "RhpamUser list"
  w_clock :: int
  w_rand :: int
  w_body :: string
  w_roles :: "string list"
  w_accounts :: "(string \<times> string list) list"
  w_realms :: "(string \<times> (string \<times> KeycloakApiClient) list) list"

record site =
  s_vars :: "(string \<times> string) list"
  s_files :: "(string \<times> string) list"
  s_yaml :: "string \<Rightarrow> Object result"
  s_http :: "Request \<Rightarrow> world \<Rightarrow> (int \<times> string) \<times> world"

definition already_exists :: "string \<Rightarrow> error" where
  "already_exists name = StatusError ''AlreadyExists'' (name @ '' already exists'')"

definition dev_key :: "RhpamDev \<Rightarrow> NamespacedName" where
  "dev_key d = key_of (dev_Namespace d) (dev_Name d)"

definition user_key :: "RhpamUser \<Rightarrow> NamespacedName" where
  "user_key u = key_of (ru_Namespace u) (om_Name (ru_ObjectMeta u))"

definition lookup_object :: "world \<Rightarrow> store" where
  "lookup_object w gk = find (\<lambda>ob. store_key ob = gk) (w_objects w)"

definition answer :: "string \<Rightarrow> 'a option \<Rightarrow> 'a result" where
  "answer name p = (case p of None \<Rightarrow> Inl (NewNotFound name) | Some x \<Rightarrow> Inr x)"

text \<open>
  An update replaces the stored resource; a resource that is being deleted goes with its last
  finalizer.
\<close>

definition update_dev :: "RhpamDev \<Rightarrow> world \<Rightarrow> RhpamDev result \<times> world" where
  "update_dev d w =
     (if dev_key d \<notin> set (map dev_key (w_devs w)) then (Inl (NewNotFound (dev_Name d)), w)
      else if om_DeletionTimestamp (dev_ObjectMeta d) \<noteq> None \<and> om_Finalizers (dev_ObjectMeta d) = []
      then (Inr d, w\<lparr>w_devs := filter (\<lambda>x. dev_key x \<noteq> dev_key d) (w_devs w)\<rparr>)
      else (Inr d, w\<lparr>w_devs := map (\<lambda>x. if dev_key x = dev_key d then d else x) (w_devs w)\<rparr>))"

definition update_user :: "RhpamUser \<Rightarrow> world \<Rightarrow> RhpamUser result \<times> world" where
  "update_user u w =
     (if user_key u \<notin> set (map user_key (w_users w)) then (Inl (NewNotFound (om_Name (ru_ObjectMeta u))), w)
      else if om_DeletionTimestamp (ru_ObjectMeta u) \<noteq> None \<and> om_Finalizers (ru_ObjectMeta u) = []
      then (Inr u, w\<lparr>w_users := filter (\<lambda>x. user_key x \<noteq> user_key u) (w_users w)\<rparr>)
      else (Inr u, w\<lparr>w_users := map (\<lambda>x. if user_key x = user_key u then u else x) (w_users w)\<rparr>))"

definition cluster :: "site \<Rightarrow> world env" where
  "cluster s =
     \<lparr>env_LookupEnv = (\<lambda>v w. (map_of (s_vars s) v, w)),
      env_ReadFile = (\<lambda>f w. (case map_of (s_files s) f of
          None \<Rightarrow> Inl (ErrorString (''open '' @ f @ '': no such file or directory'')) | Some x \<Rightarrow> Inr x, w)),
      env_TimeNow = (\<lambda>w. (w_clock w, w)),
      env_RandSeed = (\<lambda>t w. w\<lparr>w_rand := t\<rparr>),
      env_RandIntn = (\<lambda>n w. (nat (w_rand w mod 62), w\<lparr>w_rand := (w_rand w * 5 + 3) mod 1024\<rparr>)),
      env_RangeOrder = (\<lambda>ks w. (ks, w)),
      env_NewRequest = (\<lambda>m u w. (Inr (), w)),
      env_HttpDo = (\<lambda>q w. (case s_http s q w of ((status, body), w') \<Rightarrow>
          (Inr \<lparr>rs_StatusCode = status, rs_Status = ''''\<rparr>, w'\<lparr>w_body := body\<rparr>))),
      env_ReadBody = (\<lambda>w. (Inr (w_body w), w)),
      env_CloseBody = (\<lambda>w. w),
      env_YamlUnmarshal = (\<lambda>t w. (s_yaml s t, w)),
      env_GetRhpamDev = (\<lambda>k w. (answer (nn_Name k) (find (\<lambda>d. dev_key d = k) (w_devs w)), w)),
      env_GetRhpamUser = (\<lambda>k w. (answer (nn_Name k) (find (\<lambda>u. user_key u = k) (w_users w)), w)),
      env_GetObject = (\<lambda>g k w. (answer (nn_Name k) (lookup_object w (g, k)), w)),
      env_ListRhpamDev = (\<lambda>ns w. (Inr (filter (\<lambda>d. dev_Namespace d = ns) (w_devs w)), w)),
      env_ListRhpamUser = (\<lambda>ns w. (Inr (filter (\<lambda>u. ru_Namespace u = ns) (w_users w)), w)),
      env_UpdateRhpamDev = update_dev,
      env_UpdateRhpamUser = update_user,
      env_CreateObject = (\<lambda>ob w.
          if lookup_object w (store_key ob) = None then (Inr ob, w\<lparr>w_objects := ob # w_objects w\<rparr>)
          else (Inl (already_exists (om_Name (ob_ObjectMeta ob))), w)),
      env_DeleteObject = (\<lambda>g k w.
          if lookup_object w (g, k) = None then (Inl (NewNotFound (nn_Name k)), w)
          else (Inr (), w\<lparr>w_objects := filter (\<lambda>ob. store_key ob \<noteq> (g, k)) (w_objects w)\<rparr>))\<rparr>"

interpretation cluster: object_store "cluster s" lookup_object for s
  by unfold_locales
     (auto simp: cluster_def answer_def lookup_object_def store_key_def fun_eq_iff)

end
