(* ===== verification/Samples.thy ===== *)
theory Samples
  imports Cluster
begin

text \<open>
  Concrete custom resources, objects and a concrete site for the examples that accompany the
  properties: a site with one SSO secret, a Keycloak server that answers every request, and the
  template of the service account.
\<close>

definition sample_config :: RhpamConfig where
  "sample_config =
     \<lparr>cfg_DatabaseConfig = \<lparr>dbc_PersistentVolumeCapacity = '''', dbc_MaxConnections = ''50'',
         dbc_SharedBuffers = '''', dbc_MaxPreparedTransactions = '''', dbc_MemoryLimit = ''''\<rparr>,
      cfg_BusinessCentralConfig = \<lparr>bcc_PersistentVolumeCapacity = ''2Gi'', bcc_CpuRequest = '''',
         bcc_CpuLimit = '''', bcc_MemoryRequest = '''', bcc_MemoryLimit = '''', bcc_GcMaxMetaSize = '''',
         bcc_KieMBeans = '''', bcc_JavaOptsAppend = ''''\<rparr>,
      cfg_KieServerConfig = \<lparr>ksc_CpuRequest = '''', ksc_CpuLimit = '''', ksc_MemoryRequest = '''',
         ksc_MemoryLimit = '''', ksc_GcMaxMetaSize = '''', ksc_KieMBeans = '''',
         ksc_KieServerId = ''kieserver-dev'', ksc_DroolsFilterClasses = '''', ksc_BypassAuthUser = ''''\<rparr>\<rparr>"

definition sample_meta :: "string \<Rightarrow> string list \<Rightarrow> string option \<Rightarrow> ObjectMeta" where
  "sample_meta name finalizers deletion =
     empty_ObjectMeta\<lparr>om_Name := name, om_Namespace := ''ns'', om_UID := ''u1'',
       om_Finalizers := finalizers, om_DeletionTimestamp := deletion\<rparr>"

definition sample_dev :: "StatusPhase \<Rightarrow> string \<Rightarrow> string list \<Rightarrow> string option \<Rightarrow> RhpamDev" where
  "sample_dev phase realm finalizers deletion =
     \<lparr>dev_TypeMeta = \<lparr>tm_Kind = ''RhpamDev'', tm_APIVersion = ''rhpam.integreatly.org/v1alpha1''\<rparr>,
      dev_ObjectMeta = sample_meta ''rhpam'' finalizers deletion,
      dev_Spec = \<lparr>ds_Domain = ''example.com'', ds_Config = sample_config\<rparr>,
      dev_Status = \<lparr>dst_Phase = phase, dst_Version = '''', dst_Realm = realm\<rparr>\<rparr>"

definition sample_user :: "StatusPhase \<Rightarrow> string \<Rightarrow> string list \<Rightarrow> string option \<Rightarrow> RhpamUser" where
  "sample_user phase realm finalizers deletion =
     \<lparr>ru_TypeMeta = \<lparr>tm_Kind = ''RhpamUser'', tm_APIVersion = ''rhpam.integreatly.org/v1alpha1''\<rparr>,
      ru_ObjectMeta = sample_meta ''users'' finalizers deletion,
      ru_Spec = \<lparr>us_Roles = [Some \<lparr>role_Name = ''auditor''\<rparr>],
         us_Users = [Some \<lparr>user_Username = ''jo'', user_Password = ''pw'', user_Roles = [''auditor'']\<rparr>]\<rparr>,
      ru_Status = \<lparr>ust_Phase = phase, ust_Realm = realm\<rparr>\<rparr>"

definition sample_request :: NamespacedName where
  "sample_request = \<lparr>nn_Namespace = ''ns'', nn_Name = ''rhpam''\<rparr>"

definition sample_scheme :: Scheme where
  "sample_scheme kind = Inr \<lparr>tm_Kind = kind, tm_APIVersion = ''rhpam.integreatly.org/v1alpha1''\<rparr>"

definition sample_secret :: Object where
  "sample_secret =
     \<lparr>ob_TypeMeta = gvk_Secret,
      ob_ObjectMeta = empty_ObjectMeta\<lparr>om_Name := ''credential'', om_Namespace := ''sso''\<rparr>,
      ob_Payload = SecretData [(''SSO_ADMIN_USERNAME'', ''admin''), (''SSO_ADMIN_PASSWORD'', ''pw''),
         (''SSO_ADMIN_URL'', ''https://sso'')] ''Opaque''\<rparr>"

definition sample_vars :: "(string \<times> string) list" where
  "sample_vars = [(''WATCH_NAMESPACE'', ''ns''), (''SSO_NAMESPACE'', ''sso''),
     (''SSO_ADMIN_CREDENTIALS_SECRET'', ''credential''), (''TEMPLATE_PATH'', ''t'')]"

text \<open>A server that accepts every request: 201, 204 or 200 by method, and a token for a login.\<close>

definition sample_http :: "Request \<Rightarrow> world \<Rightarrow> (int \<times> string) \<times> world" where
  "sample_http q w =
     (if rq_Method q = ''POST'' \<and> rq_URL q = ''https://sso/auth/realms/master/protocol/openid-connect/token''
      then (200, ''{\"access_token\":\"t\"}'')
      else if rq_Method q = ''POST'' then (201, '''')
      else if rq_Method q = ''DELETE'' then (204, '''')
      else (200, ''[]''), w)"

text \<open>
  The template of the service account, and the one rendering of it that the YAML reader of the
  site knows.
\<close>

definition service_account_template :: string where
  "service_account_template =
     ''kind: ServiceAccount\<newline>metadata:\<newline>  name: {{ .ServiceAccount }}\<newline>  namespace: {{ .ApplicationNamespace }}''"

definition sample_account :: Object where
  "sample_account =
     \<lparr>ob_TypeMeta = gvk_ServiceAccount,
      ob_ObjectMeta = empty_ObjectMeta\<lparr>om_Name := ''rhpam'', om_Namespace := ''ns''\<rparr>,
      ob_Payload = Unstructured ''''\<rparr>"

definition sample_yaml :: "string \<Rightarrow> Object result" where
  "sample_yaml text =
     (if text = ''kind: ServiceAccount\<newline>metadata:\<newline>  name: rhpam\<newline>  namespace: ns''
      then Inr sample_account else Inl (ErrorString ''yaml: cannot read''))"

definition sample_site :: site where
  "sample_site =
     \<lparr>s_vars = sample_vars, s_files = [(''t/rhpamdev-service-account.yaml'', service_account_template)],
      s_yaml = sample_yaml, s_http = sample_http\<rparr>"

definition sample_world :: "RhpamDev list \<Rightarrow> RhpamUser list \<Rightarrow> world" where
  "sample_world devs users =
     \<lparr>w_objects = [sample_secret], w_devs = devs, w_users = users, w_clock = 1000, w_rand = 0, w_body = '''', w_roles = [], w_accounts = [],
      w_realms = []\<rparr>"

lemmas sample_defs = sample_config_def sample_meta_def sample_dev_def sample_user_def
  sample_request_def sample_scheme_def sample_secret_def empty_ObjectMeta_def

end
