(* ===== verification/RhpamdevProperties.thy ===== *)
theory RhpamdevProperties
  imports RhpamdevPhases Samples
begin

text \<open>
  The properties of the RhpamDev controller: what one reconciliation may write, delete and
  report, over every run of Reconcile against any environment. Each is followed by an example
  run on the reference cluster.
\<close>

definition sample_reconciler :: ReconcileRhpamDev where
  "sample_reconciler = Dev_newReconciler sample_scheme"

definition sample_trace :: "RhpamDev \<Rightarrow> event list" where
  "sample_trace d = trace_of (cluster sample_site) (Dev_Reconcile sample_reconciler sample_request) (sample_world [d] [])"

definition sample_outcome :: "RhpamDev \<Rightarrow> (reconcile_return \<times> ReconcileRhpamDev) outcome" where
  "sample_outcome d = fst (exec (cluster sample_site) (Dev_Reconcile sample_reconciler sample_request) (sample_world [d] []))"

lemma sample_runs: "runs (Dev_Reconcile sample_reconciler sample_request) (sample_trace d) (sample_outcome d)"
  unfolding sample_trace_def sample_outcome_def by (rule exec_runs)

abbreviation watch_event :: "string \<Rightarrow> event" where
  "watch_event ns \<equiv> ELookupEnv ''WATCH_NAMESPACE'' (Some ns)"

subsection \<open>Phases\<close>

text \<open>
  What a run found: the resource is fetched once, as the second call.
\<close>

lemma Dev_Reconcile_found:
  assumes "runs (Dev_Reconcile r req) (e # EGetRhpamDev req (Inr d) # t) out"
  obtains out' where "e = watch_event (nn_Namespace req)"
      "runs (if om_DeletionTimestamp (dev_ObjectMeta d) \<noteq> None
             then Dev_reconcile_deletion (rd_phaseHandler r) d else Dev_reconcile_phase (rd_phaseHandler r) d) t out'"
      "\<And>res h. out = Done (res, h) \<Longrightarrow> \<exists>ph. h = r\<lparr>rd_phaseHandler := ph\<rparr> \<and> out' = Done (res, ph)"
  using assms
proof (rule Dev_Reconcile_runs)
  fix d' t' out'
  assume "e # EGetRhpamDev req (Inr d) # t = [watch_event (nn_Namespace req), EGetRhpamDev req (Inr d')] @ t'"
    and "runs (if om_DeletionTimestamp (dev_ObjectMeta d') \<noteq> None
             then Dev_reconcile_deletion (rd_phaseHandler r) d' else Dev_reconcile_phase (rd_phaseHandler r) d') t' out'"
    and "\<And>res h. out = Done (res, h) \<Longrightarrow> \<exists>ph. h = r\<lparr>rd_phaseHandler := ph\<rparr> \<and> out' = Done (res, ph)"
  then show thesis by (intro that) auto
qed auto

text \<open>
  C2. One reconciliation of a resource that is not being deleted takes it along the phase path
  of the phase it was found in, whatever the API server, Keycloak and the file system answer:
  the phases written are a prefix of the path; when no error is reported and the request is put
  back, the whole path was written, or the database is still waited for; when no error is
  reported and the request is done with, the phase has no path and nothing was written.
\<close>

theorem Dev_Reconcile_follows_path:
  assumes "runs (Dev_Reconcile r req) (e # EGetRhpamDev req (Inr d) # t) out"
    and "om_DeletionTimestamp (dev_ObjectMeta d) = None"
  shows "follows (dev_path (dev_Phase d)) t out"
proof -
  obtain out' where run: "runs (Dev_reconcile_phase (rd_phaseHandler r) d) t out'"
    and out': "\<And>res h. out = Done (res, h) \<Longrightarrow> \<exists>ph. h = r\<lparr>rd_phaseHandler := ph\<rparr> \<and> out' = Done (res, ph)"
    by (rule Dev_Reconcile_found [OF assms(1)]) (simp add: assms(2))
  from Dev_reconcile_phase_follows [OF run] out' show ?thesis
    unfolding follows_def by blast
qed

lemma Dev_Reconcile_follows_path_witness:
  "follows [PhasePrepared] (drop 2 (sample_trace (sample_dev PhasePrepare ''r'' [RhpamFinalizer] None)))
     (sample_outcome (sample_dev PhasePrepare ''r'' [RhpamFinalizer] None))"
proof -
  let ?d = "sample_dev PhasePrepare ''r'' [RhpamFinalizer] None"
  have t: "sample_trace ?d = watch_event ''ns'' # EGetRhpamDev sample_request (Inr ?d) # drop 2 (sample_trace ?d)"
    by code_simp
  have "follows (dev_path (dev_Phase ?d)) (drop 2 (sample_trace ?d)) (sample_outcome ?d)"
    by (rule Dev_Reconcile_follows_path [of sample_reconciler sample_request "watch_event ''ns''"],
        subst t [symmetric], rule sample_runs, simp add: sample_defs)
  then show ?thesis by (simp add: sample_dev_def)
qed

text \<open>
  C5. Nothing of a resource being deleted is written but the release: its phase is
  "deprovisioned" and its finalizers are empty, and this write is the last call, made after the
  server at the address of the SSO secret answered the deletion of exactly this realm with 204,
  every asset was asked to be deleted and every user resource of the realm was marked. No error
  is reported only when the release was written.
\<close>

theorem Dev_release_is_safe:
  assumes "runs (Dev_Reconcile r req) (e # EGetRhpamDev req (Inr d) # t) out"
    and "om_DeletionTimestamp (dev_ObjectMeta d) \<noteq> None"
  shows "dev_writes t = [] \<and> (\<forall>res err h. out = Done ((res, err), h) \<longrightarrow> err \<noteq> None) \<or>
    (\<exists>t1 u. t = t1 @ [EUpdateRhpamDev (set_dev_finalizers [] (set_dev_phase PhaseDeprovisioned d)) u] \<and>
       dev_writes t1 = [] \<and> realm_gone d t1 \<and> cleaned_up d t1)"
proof -
  obtain out' where run: "runs (Dev_reconcile_deletion (rd_phaseHandler r) d) t out'"
    and out': "\<And>res h. out = Done (res, h) \<Longrightarrow> \<exists>ph. h = r\<lparr>rd_phaseHandler := ph\<rparr> \<and> out' = Done (res, ph)"
    by (rule Dev_Reconcile_found [OF assms(1)]) (simp add: assms(2))
  from run show ?thesis
  proof (cases rule: Dev_reconcile_deletion_runs)
    case failed
    with out' show ?thesis by blast
  next
    case wrote
    then show ?thesis by blast
  qed
qed

lemma Dev_release_is_safe_witness:
  "\<exists>t1 u. drop 2 (sample_trace (sample_dev PhaseComplete ''r1'' [RhpamFinalizer] (Some ''now''))) =
     t1 @ [EUpdateRhpamDev (sample_dev PhaseDeprovisioned ''r1'' [] (Some ''now'')) u] \<and>
     realm_gone (sample_dev PhaseComplete ''r1'' [RhpamFinalizer] (Some ''now'')) t1"
proof -
  let ?d = "sample_dev PhaseComplete ''r1'' [RhpamFinalizer] (Some ''now'')"
  have t: "sample_trace ?d = watch_event ''ns'' # EGetRhpamDev sample_request (Inr ?d) # drop 2 (sample_trace ?d)"
    by code_simp
  have w: "dev_writes (drop 2 (sample_trace ?d)) \<noteq> []" by code_simp
  have d: "set_dev_finalizers [] (set_dev_phase PhaseDeprovisioned ?d) = sample_dev PhaseDeprovisioned ''r1'' [] (Some ''now'')"
    by (simp add: sample_defs setter_defs)
  show ?thesis
    using Dev_release_is_safe [of sample_reconciler sample_request "watch_event ''ns''" ?d
        "drop 2 (sample_trace ?d)" "sample_outcome ?d"] sample_runs [of ?d] t w d
    by (auto simp: sample_dev_def sample_meta_def)
qed

subsection \<open>What a write keeps\<close>

text \<open>An API server whose answer to an update carries the spec and the finalizers it was sent.\<close>

definition echoes :: "event list \<Rightarrow> bool" where
  "echoes tr \<longleftrightarrow> (\<forall>x y. EUpdateRhpamDev x (Inr y) \<in> set tr \<longrightarrow>
     dev_Spec y = dev_Spec x \<and> om_Finalizers (dev_ObjectMeta y) = om_Finalizers (dev_ObjectMeta x))"

definition keeps_spec :: "RhpamDev \<Rightarrow> RhpamDev \<Rightarrow> bool" where
  "keeps_spec d w \<longleftrightarrow> dev_Spec w = dev_Spec d \<and>
     set (om_Finalizers (dev_ObjectMeta w)) = insert RhpamFinalizer (set (om_Finalizers (dev_ObjectMeta d)))"

lemma handle_moved_writes:
  assumes "guarantees keeps_resources m (\<lambda>r. \<forall>d'. r = Inr d' \<longrightarrow> P d')"
    and "runs (bind m (\<lambda>r. bind (Dev_handleResult r) (\<lambda>res. Return (res, h)))) tr out"
    and "w \<in> set (dev_writes tr)"
  shows "P w"
  using assms(1,2) by (rule handle_runs) (use assms(3) in auto)

lemma waiting_writes:
  assumes "runs (bind (WaitForDatabase d) (\<lambda>r. case r of
          Inr (False, rhpamState) \<Rightarrow> Return ((\<lparr>rr_Requeue = True\<rparr>, None), ph)
        | Inr (True, rhpamState) \<Rightarrow> bind (Dev_handleResult (Inr rhpamState)) (\<lambda>res. Return (res, ph))
        | Inl err \<Rightarrow> bind (Dev_handleResult (Inl err)) (\<lambda>res. Return (res, ph)))) tr out"
  obtains (no_answer) e where "tr = [EGetObject gvk_DeploymentConfig (key_of (dev_Namespace d) DatabaseDeployment) (Inl e)]"
  | (not_ready) ob where "tr = [EGetObject gvk_DeploymentConfig (key_of (dev_Namespace d) DatabaseDeployment) (Inr ob)]"
      "ready_replicas (ob_Payload ob) \<noteq> 1"
  | (ready) ob u where "tr = [EGetObject gvk_DeploymentConfig (key_of (dev_Namespace d) DatabaseDeployment) (Inr ob),
        EUpdateRhpamDev (moved PhaseDatabaseReady d) u]" "ready_replicas (ob_Payload ob) = 1"
proof -
  from assms obtain g t where tr: "tr = EGetObject gvk_DeploymentConfig (key_of (dev_Namespace d) DatabaseDeployment) g # t"
    by (auto simp: WaitForDatabase_def isDatabaseReady_def check_err_def)
  show thesis
  proof (cases g)
    case (Inl e)
    with assms tr no_answer show thesis
      by (auto simp: WaitForDatabase_def isDatabaseReady_def check_err_def Dev_handleResult_def)
  next
    case (Inr ob)
    with assms tr not_ready ready show thesis
      by (cases "ready_replicas (ob_Payload ob) = 1")
         (auto simp: WaitForDatabase_def isDatabaseReady_def check_err_def Dev_handleResult_def moved_def)
  qed
qed

lemma keeps_spec_moved [simp]:
  "RhpamFinalizer \<in> set (om_Finalizers (dev_ObjectMeta d)) \<Longrightarrow> keeps_spec d (moved p d)"
  by (auto simp: keeps_spec_def)

lemma keeps_spec_realm: "keeps_spec d x \<Longrightarrow> keeps_spec d (moved p (set_dev_realm r x))"
  by (simp add: keeps_spec_def)

lemma Dev_reconcile_phase_writes:
  assumes run: "runs (Dev_reconcile_phase ph d) tr out" and echo: "echoes tr"
    and fin: "dev_Phase d = NoPhase \<or> RhpamFinalizer \<in> set (om_Finalizers (dev_ObjectMeta d))"
    and w: "w \<in> set (dev_writes tr)"
  shows "keeps_spec d w"
  using run
proof (cases rule: Dev_reconcile_phase_cases)
  case init
  have "guarantees keeps_resources (Return (Dev_Initialize d)) (\<lambda>r. \<forall>d'. r = Inr d' \<longrightarrow> keeps_spec d d')"
    by (simp add: Dev_Initialize_ok keeps_spec_def)
  from handle_moved_writes [OF this init(2) w] show ?thesis .
next
  case provision
  with fin have f: "RhpamFinalizer \<in> set (om_Finalizers (dev_ObjectMeta d))" by (auto simp: phases_distinct)
  let ?d1 = "set_dev_phase PhaseRealmProvisioning d"
  have ans: "keeps_spec d (answered ?d1 u)" if "EUpdateRhpamDev ?d1 u \<in> set tr" for u
    using that echo f by (cases u) (auto simp: echoes_def answered_def keeps_spec_def)
  from provision(2) show ?thesis
  proof (rule provisioning_runs)
    fix u t1 assume "tr = EUpdateRhpamDev ?d1 u # t1" "list_all keeps_resources t1"
    with w f show ?thesis by (auto simp: keeps_spec_def)
  next
    fix u u' t1 token
    assume t: "tr = EUpdateRhpamDev ?d1 u # t1 @ [EUpdateRhpamDev (moved PhaseRealmProvisioned
         (set_dev_realm (dev_Name (answered ?d1 u) @ ''-'' @ token) (answered ?d1 u))) u']"
      and k: "list_all keeps_resources t1"
    have "keeps_spec d (answered ?d1 u)" by (rule ans) (simp add: t)
    then have "keeps_spec d (moved PhaseRealmProvisioned
         (set_dev_realm (dev_Name (answered ?d1 u) @ ''-'' @ token) (answered ?d1 u)))" by (rule keeps_spec_realm)
    moreover have "keeps_spec d ?d1" using f by (simp add: keeps_spec_def insert_absorb)
    ultimately show ?thesis using w keeps_writes(1) [OF k] unfolding t by force
  qed
next
  case wait
  with fin have f: "RhpamFinalizer \<in> set (om_Finalizers (dev_ObjectMeta d))" by (auto simp: phases_distinct)
  from wait(2) show ?thesis by (rule waiting_writes) (use w f in simp_all)
next
  case move
  with fin have f: "RhpamFinalizer \<in> set (om_Finalizers (dev_ObjectMeta d))" by auto
  from handle_moved_writes [OF move(3,4) w] f show ?thesis by simp
next
  case idle
  with w show ?thesis by simp
qed

text \<open>
  C21. Outside deletion every write keeps the spec as the user wrote it, and adds the operator's
  finalizer or keeps it, losing none of the others: a resource that reached a phase is never
  left without the finalizer, so its realm is always deleted before it goes. The API
  server is assumed to answer an update with the spec and finalizers it was sent.
\<close>

theorem Dev_writes_keep_finalizer:
  assumes "runs (Dev_Reconcile r req) (e # EGetRhpamDev req (Inr d) # t) out"
    and "om_DeletionTimestamp (dev_ObjectMeta d) = None" and "echoes t"
    and "dev_Phase d = NoPhase \<or> RhpamFinalizer \<in> set (om_Finalizers (dev_ObjectMeta d))"
    and "w \<in> set (dev_writes t)"
  shows "keeps_spec d w"
proof -
  obtain out' where run: "runs (Dev_reconcile_phase (rd_phaseHandler r) d) t out'"
    by (rule Dev_Reconcile_found [OF assms(1)]) (simp add: assms(2))
  from Dev_reconcile_phase_writes [OF run assms(3-5)] show ?thesis .
qed

lemma Dev_writes_keep_finalizer_witness:
  "keeps_spec (sample_dev NoPhase '''' [] None)
     (moved PhaseAccepted (sample_dev NoPhase '''' [RhpamFinalizer] None))"
proof -
  let ?d = "sample_dev NoPhase '''' [] None"
  let ?w = "moved PhaseAccepted (sample_dev NoPhase '''' [RhpamFinalizer] None)"
  have t: "sample_trace ?d = [watch_event ''ns'', EGetRhpamDev sample_request (Inr ?d), EUpdateRhpamDev ?w (Inr ?w)]"
    by code_simp
  show ?thesis
    by (rule Dev_writes_keep_finalizer [of sample_reconciler sample_request "watch_event ''ns''" ?d
          "[EUpdateRhpamDev ?w (Inr ?w)]" "sample_outcome ?d"])
       (use sample_runs [of ?d] t in \<open>auto simp: echoes_def sample_dev_def sample_meta_def empty_ObjectMeta_def\<close>)
qed

text \<open>
  C22. The database is waited for: in phase "business central installed" the only question asked
  is the deployment config of the database, and the phase moves on exactly when it reports one
  ready replica; the request is put back without an error when it reports another number, and
  an error is reported when there is no answer.
\<close>

theorem Dev_waits_for_database:
  assumes "runs (Dev_Reconcile r req) (e # EGetRhpamDev req (Inr d) # t) out"
    and "om_DeletionTimestamp (dev_ObjectMeta d) = None"
    and "dev_Phase d = PhaseBusinessCentralInstalled"
  shows "\<exists>g. hd t = EGetObject gvk_DeploymentConfig (key_of (dev_Namespace d) DatabaseDeployment) g \<and>
    (case g of
       Inl err \<Rightarrow> tl t = [] \<and> (\<exists>err'. out = Done ((\<lparr>rr_Requeue = False\<rparr>, Some err'), r))
     | Inr ob \<Rightarrow>
         if ready_replicas (ob_Payload ob) = 1
         then (\<exists>u. tl t = [EUpdateRhpamDev (moved PhaseDatabaseReady d) u])
         else tl t = [] \<and> out = Done ((\<lparr>rr_Requeue = True\<rparr>, None), r))"
proof -
  note defs = Dev_Reconcile_def GetWatchNamespace_def Dev_reconcile_phase_def phases_distinct WaitForDatabase_def
    isDatabaseReady_def check_err_def Dev_handleResult_def moved_def
  have e: "e = watch_event (nn_Namespace req)"
    by (rule Dev_Reconcile_found [OF assms(1)])
  with assms obtain g t' where t: "t = EGetObject gvk_DeploymentConfig (key_of (dev_Namespace d) DatabaseDeployment) g # t'"
    by (auto simp: defs)
  show ?thesis
  proof (cases g)
    case (Inl err)
    with assms e t show ?thesis by (auto simp: defs)
  next
    case (Inr ob)
    with assms e t show ?thesis by (cases "ready_replicas (ob_Payload ob) = 1") (auto simp: defs)
  qed
qed

lemma Dev_waits_for_database_witness:
  "\<exists>g. hd (drop 2 (sample_trace (sample_dev PhaseBusinessCentralInstalled ''r'' [RhpamFinalizer] None))) =
     EGetObject gvk_DeploymentConfig (key_of ''ns'' DatabaseDeployment) g"
proof -
  let ?d = "sample_dev PhaseBusinessCentralInstalled ''r'' [RhpamFinalizer] None"
  have t: "sample_trace ?d = watch_event ''ns'' # EGetRhpamDev sample_request (Inr ?d) # drop 2 (sample_trace ?d)"
    by code_simp
  show ?thesis
    using Dev_waits_for_database [of sample_reconciler sample_request "watch_event ''ns''" ?d
        "drop 2 (sample_trace ?d)" "sample_outcome ?d"] sample_runs [of ?d] t
    by (auto simp: sample_dev_def sample_meta_def empty_ObjectMeta_def)
qed

subsection \<open>What is left behind\<close>

lemma provisioning_stuck:
  "runs (Dev_reconcile_phase ph d) t out \<Longrightarrow> dev_Phase d = PhaseRealmProvisioning \<Longrightarrow>
     t = [] \<and> out = Done ((\<lparr>rr_Requeue = False\<rparr>, None), ph)"
  by (erule Dev_reconcile_phase_cases) (auto simp: dev_path_def phase_consts split: if_split_asm)

text \<open>
  C25. A provisioning of the realm that fails is never tried again. When the mark "realm
  provisioning" was stored and the reconciliation then fails, the next one, on the stored
  resource, makes no call, reports no error and does not ask to be called again: no case of the
  switch handles the mark.
\<close>

theorem failed_provisioning_is_final:
  assumes "runs (Dev_Reconcile r req) (e # EGetRhpamDev req (Inr d) # EUpdateRhpamDev w (Inr d1) # t) (Done ((res, Some err), r1))"
    and "om_DeletionTimestamp (dev_ObjectMeta d) = None" and "dev_Phase d = PhaseAccepted"
    and "dev_writes t = []"
    and "dev_Status d1 = dev_Status w" and "om_DeletionTimestamp (dev_ObjectMeta d1) = None"
    and "runs (Dev_Reconcile r1 req) (e' # EGetRhpamDev req (Inr d1) # t') out'"
  shows "dev_Phase w = PhaseRealmProvisioning \<and> \<not> rr_Requeue res \<and>
     t' = [] \<and> out' = Done ((\<lparr>rr_Requeue = False\<rparr>, None), r1)"
proof -
  obtain o1 where run: "runs (Dev_reconcile_phase (rd_phaseHandler r) d) (EUpdateRhpamDev w (Inr d1) # t) o1"
    and o1: "\<exists>ph. o1 = Done ((res, Some err), ph)"
    by (rule Dev_Reconcile_found [OF assms(1)]) (auto simp: assms(2))
  from run assms(3) have
    "runs (bind (ProvisionRealm (rd_phaseHandler r) d) (\<lambda>(r, ph). bind (Dev_handleResult r) (\<lambda>res. Return (res, ph))))
       (EUpdateRhpamDev w (Inr d1) # t) o1"
    by (simp add: Dev_reconcile_phase_def Let_def phases_distinct)
  then have w: "w = set_dev_phase PhaseRealmProvisioning d" and "\<not> rr_Requeue res"
    using o1 assms(4) by (auto elim!: provisioning_runs)
  obtain o2 where run2: "runs (Dev_reconcile_phase (rd_phaseHandler r1) d1) t' o2"
    and o2: "\<And>res h. out' = Done (res, h) \<Longrightarrow> \<exists>ph. h = r1\<lparr>rd_phaseHandler := ph\<rparr> \<and> o2 = Done (res, ph)"
    by (rule Dev_Reconcile_found [OF assms(7)]) (simp add: assms(6))
  have "dev_Phase d1 = PhaseRealmProvisioning" using w assms(5) by simp
  from provisioning_stuck [OF run2 this] have t': "t' = []" "o2 = Done ((\<lparr>rr_Requeue = False\<rparr>, None), rd_phaseHandler r1)"
    by auto
  have "out' = Done ((\<lparr>rr_Requeue = False\<rparr>, None), r1)"
    using assms(7) \<open>dev_Phase d1 = PhaseRealmProvisioning\<close> assms(6) t'(1)
    by (auto simp: Dev_Reconcile_def GetWatchNamespace_def runs_branch_iff runs_bind_iff
          Dev_reconcile_phase_def Let_def phase_consts)
  with w \<open>\<not> rr_Requeue res\<close> t' show ?thesis by simp
qed

text \<open>
  The example: the variable that names the namespace of the SSO secret is missing when the realm
  is provisioned, and set when the resource is reconciled again.
\<close>

lemma failed_provisioning_is_final_witness:
  "\<exists>res err r1.
     fst (exec (cluster (sample_site\<lparr>s_vars := [(''WATCH_NAMESPACE'', ''ns'')]\<rparr>))
           (Dev_Reconcile sample_reconciler sample_request)
           (sample_world [sample_dev PhaseAccepted '''' [RhpamFinalizer] None] [])) = Done ((res, Some err), r1) \<and>
     \<not> rr_Requeue res"
proof -
  let ?d = "sample_dev PhaseAccepted '''' [RhpamFinalizer] None"
  let ?d1 = "sample_dev PhaseRealmProvisioning '''' [RhpamFinalizer] None"
  let ?E = "cluster (sample_site\<lparr>s_vars := [(''WATCH_NAMESPACE'', ''ns'')]\<rparr>)"
  let ?m = "Dev_Reconcile sample_reconciler sample_request"
  have t1: "trace_of ?E ?m (sample_world [?d] []) = watch_event ''ns'' # EGetRhpamDev sample_request (Inr ?d) #
      EUpdateRhpamDev ?d1 (Inr ?d1) # [ELookupEnv ''SSO_NAMESPACE'' None]"
    and "case fst (exec ?E ?m (sample_world [?d] [])) of
      Done ((res, err), r1) \<Rightarrow> err = Some (ErrorString ''Environment variable SSO_NAMESPACE is not set.'')
    | Panicked s \<Rightarrow> False"
    by code_simp+
  then obtain res err r1 where o1: "fst (exec ?E ?m (sample_world [?d] [])) = Done ((res, Some err), r1)"
    by (auto split: outcome.split_asm)
  then have run1: "runs ?m (watch_event ''ns'' # EGetRhpamDev sample_request (Inr ?d) #
      EUpdateRhpamDev ?d1 (Inr ?d1) # [ELookupEnv ''SSO_NAMESPACE'' None]) (Done ((res, Some err), r1))"
    using exec_runs [of ?m ?E "sample_world [?d] []"] t1 by simp
  have run2: "runs (Dev_Reconcile r1 sample_request) [watch_event ''ns'', EGetRhpamDev sample_request (Inr ?d1)]
      (Done ((\<lparr>rr_Requeue = False\<rparr>, None), r1))"
    by (simp add: Dev_Reconcile_def GetWatchNamespace_def Dev_reconcile_phase_def phase_consts sample_defs)
  have "\<not> rr_Requeue res"
    using failed_provisioning_is_final [OF run1 _ _ _ _ _ run2]
    by (simp add: sample_dev_def sample_meta_def empty_ObjectMeta_def)
  with o1 show ?thesis by blast
qed

lemma deleted_keys:
  assumes "runs (Dev_Reconcile r req) tr out"
  shows "deleted tr = [] \<or> (\<exists>d. deleted tr = asset_keys d)"
  using assms
proof (cases rule: Dev_Reconcile_runs)
  case early
  then show ?thesis by simp
next
  case (found d t out')
  show ?thesis
  proof (cases "om_DeletionTimestamp (dev_ObjectMeta d) = None")
    case True
    with found(2) have "runs (Dev_reconcile_phase (rd_phaseHandler r) d) t out'" by simp
    then have "deleted t = []"
    proof (cases rule: Dev_reconcile_phase_cases)
      case provision
      from provision(2) show ?thesis by (rule provisioning_runs) auto
    next
      case wait
      from wait(2) show ?thesis by (rule waiting_writes) auto
    next
      case (move m p)
      from move(3,4) show ?thesis
        by (auto simp: runs_bind_iff Dev_handleResult_runs dest: runs_list_all)
    qed (auto simp: runs_bind_iff Dev_handleResult_runs)
    with found(1) show ?thesis by simp
  next
    case False
    with found(2) have "runs (Dev_reconcile_deletion (rd_phaseHandler r) d) t out'" by simp
    then show ?thesis
      by (rule Dev_reconcile_deletion_runs) (use found(1) in \<open>auto simp: cleaned_up_def\<close>)
  qed
qed

lemma gvk_distinct [simp]:
  "gvk_Route \<noteq> gvk_Service" "gvk_DeploymentConfig \<noteq> gvk_Service" "gvk_PersistentVolumeClaim \<noteq> gvk_Service"
  "gvk_ConfigMap \<noteq> gvk_Service" "gvk_Secret \<noteq> gvk_Service" "gvk_ServiceAccount \<noteq> gvk_Service"
  by (simp_all add: gvk_defs)

text \<open>
  C26. No reconciliation ever asks for the deletion of the service of the Kie server, which
  the last phase installs; when the assets of a resource are deleted, the service of Business
  Central is asked for twice instead.
\<close>

theorem kie_server_service_never_deleted:
  assumes "runs (Dev_Reconcile r req) tr out"
  shows "(gvk_Service, key_of ns KieServerService) \<notin> set (deleted tr) \<and>
    (deleted tr \<noteq> [] \<longrightarrow> (\<exists>ns'. count_list (deleted tr) (gvk_Service, key_of ns' BusinessCentralService) = 2))"
proof -
  have a: "(gvk_Service, key_of ns KieServerService) \<notin> set (asset_keys d)" for d
    unfolding asset_keys_def deprovision_assets_def
    by (simp add: gvk_distinct [symmetric]) (simp add: constants)
  have b: "count_list (asset_keys d) (gvk_Service, key_of (dev_Namespace d) BusinessCentralService) = 2" for d
    unfolding asset_keys_def deprovision_assets_def
    by (simp add: gvk_distinct [symmetric]) (simp add: constants)
  show ?thesis
    using deleted_keys [OF assms] a b by (elim disjE exE) auto
qed

lemma kie_server_service_never_deleted_witness:
  "length (deleted (sample_trace (sample_dev PhaseComplete ''r1'' [RhpamFinalizer] (Some ''now'')))) = 15 \<and>
   (gvk_Service, key_of ''ns'' KieServerService) \<notin>
     set (deleted (sample_trace (sample_dev PhaseComplete ''r1'' [RhpamFinalizer] (Some ''now''))))"
proof (rule conjI)
  show "length (deleted (sample_trace (sample_dev PhaseComplete ''r1'' [RhpamFinalizer] (Some ''now'')))) = 15"
    by code_simp
qed (use kie_server_service_never_deleted [OF sample_runs] in blast)

subsection \<open>Requests that are not for this operator\<close>

text \<open>
  C27. A reconciliation that fetched no resource (the watched namespace is not set or is another
  one, the resource is gone, or the API server failed) changes nothing: no write, creation or
  deletion, no HTTP request, the reconciler as it was. It reports an error exactly when the API
  server failed with something else than "not found".
\<close>

theorem Dev_Reconcile_without_resource:
  assumes "runs (Dev_Reconcile r req) tr out" and "\<forall>d. EGetRhpamDev req (Inr d) \<notin> set tr"
  shows "dev_writes tr = [] \<and> user_writes tr = [] \<and> created tr = [] \<and> deleted tr = [] \<and> requests tr = [] \<and>
    (\<exists>err. out = Done ((\<lparr>rr_Requeue = False\<rparr>, err), r) \<and>
       (\<forall>e. err = Some e \<longleftrightarrow> EGetRhpamDev req (Inl e) \<in> set tr \<and> \<not> IsNotFound e))"
  using assms(1)
proof (cases rule: Dev_Reconcile_runs)
  case early
  then show ?thesis by simp
next
  case found
  from found(1) assms(2) have False by auto
  then show ?thesis ..
qed

lemma Dev_Reconcile_without_resource_witness:
  "dev_writes (trace_of (cluster sample_site) (Dev_Reconcile sample_reconciler sample_request) (sample_world [] [])) = []"
proof -
  let ?t = "trace_of (cluster sample_site) (Dev_Reconcile sample_reconciler sample_request) (sample_world [] [])"
  have t: "?t = [watch_event ''ns'', EGetRhpamDev sample_request (Inl (NewNotFound ''rhpam''))]" by code_simp
  show ?thesis by (rule Dev_Reconcile_without_resource [OF exec_runs, THEN conjunct1]) (simp add: t)
qed

end
