(* ===== verification/RhpamuserHandler.thy ===== *)
theory RhpamuserHandler
  imports SsoLogin
begin

text \<open>
  pkg/controller/rhpamuser/phaseHandler.go: the phases of an RhpamUser resource, which bring the
  roles, users and role mappings of a Keycloak realm in line with the resource. A Go map is an
  association list, and a loop over it asks for an order of its keys
  (theory Effects, \<^theory_text>\<open>RangeOrder\<close>).
\<close>

record UserPhaseHandler =
  uph_keycloakFactory :: KeycloakFactory

definition User_NewPhaseHandler :: UserPhaseHandler where
  "User_NewPhaseHandler = \<lparr>uph_keycloakFactory = NewKeycloakFactory\<rparr>"

subsection \<open>Defaults (rhpamuser\_controller.go)\<close>

definition defaultRoles :: "string list" where
  "defaultRoles = [''admin'', ''process-admin'', ''manager'', ''analyst'', ''developer'', ''user'', ''kie-server'']"

definition defaultUsers :: "User list" where
  "defaultUsers =
     [\<lparr>user_Username = ''adminuser'', user_Password = ''admin1!'', user_Roles = [''admin'', ''kie-server'']\<rparr>,
      \<lparr>user_Username = ''controlleruser'', user_Password = ''controller1!'', user_Roles = [''kie-server'']\<rparr>,
      \<lparr>user_Username = ''mavenuser'', user_Password = ''maven1!'', user_Roles = []\<rparr>,
      \<lparr>user_Username = ''executionuser'', user_Password = ''execution1!'', user_Roles = [''kie-server'']\<rparr>]"

fun contains_role :: "string list \<Rightarrow> string \<Rightarrow> bool" where
  "contains_role [] role = False"
| "contains_role (r # rs) role = (if role = r then True else contains_role rs role)"

definition isDefaultRole :: "string \<Rightarrow> bool" where
  "isDefaultRole role = contains_role defaultRoles role"

fun contains_user :: "User list \<Rightarrow> string \<Rightarrow> bool" where
  "contains_user [] username = False"
| "contains_user (u # us) username = (if username = user_Username u then True else contains_user us username)"

definition isDefaultUser :: "string \<Rightarrow> bool" where
  "isDefaultUser username = contains_user defaultUsers username"

lemma contains_role_iff [simp]: "contains_role rs r \<longleftrightarrow> r \<in> set rs"
  by (induction rs) auto

lemma contains_user_iff [simp]: "contains_user us n \<longleftrightarrow> n \<in> user_Username ` set us"
  by (induction us) auto

lemma isDefaultRole_iff: "isDefaultRole r \<longleftrightarrow> r \<in> set defaultRoles"
  by (simp add: isDefaultRole_def)

lemma isDefaultUser_iff: "isDefaultUser n \<longleftrightarrow> n \<in> user_Username ` set defaultUsers"
  by (simp add: isDefaultUser_def)

subsection \<open>Logging in\<close>

definition User_readSSOSecret :: "UserPhaseHandler \<Rightarrow> (unit result \<times> UserPhaseHandler) io" where
  "User_readSSOSecret ph =
     bind (readSSOSecret (uph_keycloakFactory ph)) (\<lambda>(r, kf). Return (r, ph\<lparr>uph_keycloakFactory := kf\<rparr>))"

definition User_authenticatedClient :: "UserPhaseHandler \<Rightarrow> (KeycloakInterface result \<times> UserPhaseHandler) io" where
  "User_authenticatedClient ph =
     bind (authenticatedClient (uph_keycloakFactory ph)) (\<lambda>(r, kf). Return (r, ph\<lparr>uph_keycloakFactory := kf\<rparr>))"

subsection \<open>One role, one user, one role mapping\<close>

text \<open>Any error of the lookup is taken to mean that the role is missing.\<close>

definition createRole :: "KeycloakInterface \<Rightarrow> string \<Rightarrow> string \<Rightarrow> unit result io" where
  "createRole ssoClient realm role =
     bind (kc_GetRole ssoClient role realm) (\<lambda>r. case r of
       Inr _ \<Rightarrow> Return (Inr ())
     | Inl _ \<Rightarrow>
         bind NewRoleHelper (\<lambda>roleHelper.
         check (LoadRoleTemplate roleHelper \<lparr>rop_RoleName = role\<rparr>) (\<lambda>json.
         check_err (WithMessage ''Error creating role in rhsso'') (kc_CreateRole ssoClient json realm) (\<lambda>_.
         Return (Inr ())))))"

definition createUser :: "KeycloakInterface \<Rightarrow> string \<Rightarrow> string \<Rightarrow> string \<Rightarrow> unit result io" where
  "createUser ssoClient realm username password =
     bind (kc_FindUserByUsername ssoClient username realm) (\<lambda>r. case r of
       Inr _ \<Rightarrow> Return (Inr ())
     | Inl _ \<Rightarrow>
         bind NewUserHelper (\<lambda>userHelper.
         check (LoadUserTemplate userHelper \<lparr>up_Username = username, up_Password = password\<rparr>) (\<lambda>json.
         check_err (WithMessage ''Error creating user in rhsso'') (kc_CreateUser ssoClient json realm) (\<lambda>_.
         Return (Inr ())))))"

definition deleteUser :: "KeycloakInterface \<Rightarrow> string \<Rightarrow> string \<Rightarrow> unit result io" where
  "deleteUser ssoClient realm username =
     bind (kc_FindUserByUsername ssoClient username realm) (\<lambda>r. case r of
       Inl _ \<Rightarrow> Return (Inr ())
     | Inr user \<Rightarrow>
         check_err (WithMessage ''Error deleting user in rhsso'') (kc_DeleteUser ssoClient (kau_ID user) realm) (\<lambda>_.
         Return (Inr ())))"

text \<open>The names of a list of roles; a nil element panics.\<close>

primrec role_names :: "KeycloakRole option list \<Rightarrow> string list io" where
  "role_names [] = Return []"
| "role_names (r # rs) = deref r (\<lambda>role. bind (role_names rs) (\<lambda>names. Return (kr_Name role # names)))"

text \<open>
  The template of the role mapping is loaded, but the error of loading it is shadowed and never
  looked at: the request is then sent with an empty body.
\<close>

definition user_role_json :: "string \<Rightarrow> string \<Rightarrow> string io" where
  "user_role_json rolename roleId =
     bind NewUserRoleHelper (\<lambda>userRoleHelper.
     bind (LoadUserRoleTemplate userRoleHelper \<lparr>urp_RoleName = rolename, urp_RoleId = roleId\<rparr>) (\<lambda>r.
     Return (case r of Inl _ \<Rightarrow> '''' | Inr json \<Rightarrow> json)))"

definition createUserRealmRole :: "KeycloakInterface \<Rightarrow> string \<Rightarrow> string \<Rightarrow> string \<Rightarrow> unit result io" where
  "createUserRealmRole ssoClient realm username rolename =
     check (kc_FindUserByUsername ssoClient username realm) (\<lambda>user.
     check (kc_GetRealmRoleMappings ssoClient (kau_ID user) realm) (\<lambda>roleMappings.
     bind (role_names roleMappings) (\<lambda>names.
     if rolename \<notin> set names then
       check (kc_GetRole ssoClient rolename realm) (\<lambda>role.
       bind (user_role_json rolename (kr_ID role)) (\<lambda>json.
       check_err (WithMessage ''Error creating userrole in rhsso'')
         (kc_CreateUserRealmRole ssoClient json (kau_ID user) realm) (\<lambda>_.
       Return (Inr ()))))
     else Return (Inr ()))))"

definition deleteUserRealmRole :: "KeycloakInterface \<Rightarrow> string \<Rightarrow> string \<Rightarrow> string \<Rightarrow> unit result io" where
  "deleteUserRealmRole ssoClient realm username rolename =
     check (kc_FindUserByUsername ssoClient username realm) (\<lambda>user.
     check (kc_GetRealmRoleMappings ssoClient (kau_ID user) realm) (\<lambda>roleMappings.
     bind (role_names roleMappings) (\<lambda>names.
     if rolename \<in> set names then
       check (kc_GetRole ssoClient rolename realm) (\<lambda>role.
       bind (user_role_json rolename (kr_ID role)) (\<lambda>json.
       check_err (WithMessage ''Error creating userrole in rhsso'')
         (kc_DeleteUserRealmRole ssoClient json (kau_ID user) realm) (\<lambda>_.
       Return (Inr ()))))
     else Return (Inr ()))))"

definition createUserWithRealmRoles :: "KeycloakInterface \<Rightarrow> string \<Rightarrow> User \<Rightarrow> unit result io" where
  "createUserWithRealmRoles ssoClient realm user =
     check (createUser ssoClient realm (user_Username user) (user_Password user)) (\<lambda>_.
     for_each (user_Roles user) (\<lambda>role. createUserRealmRole ssoClient realm (user_Username user) role))"

subsection \<open>Pairing what Keycloak has with what the resource asks for\<close>

type_synonym role_pairs = "(string \<times> KeycloakRolePair) list"
type_synonym user_pairs = "(string \<times> KeycloakUserPair) list"

definition add_kc_role :: "string \<Rightarrow> role_pairs \<Rightarrow> role_pairs" where
  "add_kc_role name m = AList.update name \<lparr>krp_KcRole = name, krp_SpecRole = ''''\<rparr> m"

definition add_spec_role :: "string \<Rightarrow> role_pairs \<Rightarrow> role_pairs" where
  "add_spec_role name m =
     (case map_of m name of
        Some p \<Rightarrow> AList.update name (p\<lparr>krp_SpecRole := name\<rparr>) m
      | None \<Rightarrow> AList.update name \<lparr>krp_KcRole = '''', krp_SpecRole = name\<rparr> m)"

definition pair_roles :: "string list \<Rightarrow> string list \<Rightarrow> role_pairs" where
  "pair_roles kcRoles specRoles = fold add_spec_role specRoles (fold add_kc_role kcRoles [])"

definition reconcileRole :: "KeycloakInterface \<Rightarrow> string \<Rightarrow> string \<Rightarrow> string \<Rightarrow> unit result io" where
  "reconcileRole ssoClient realm kcRole specRole =
     (if specRole = '''' \<and> \<not> isDefaultRole kcRole then kc_DeleteRole ssoClient kcRole realm
      else if kcRole = '''' then createRole ssoClient realm specRole
      else Return (Inr ()))"

definition reconcileUserRealmRole :: "KeycloakInterface \<Rightarrow> string \<Rightarrow> string \<Rightarrow> string \<Rightarrow> string \<Rightarrow> unit result io" where
  "reconcileUserRealmRole ssoClient realm user kcRole specRole =
     (if kcRole = '''' then createUserRealmRole ssoClient realm user specRole
      else if specRole = '''' then deleteUserRealmRole ssoClient realm user kcRole
      else Return (Inr ()))"

text \<open>A loop over a map of pairs, in the order the runtime chooses.\<close>

definition for_each_pair :: "(string \<times> 'p) list \<Rightarrow> ('p \<Rightarrow> unit result io) \<Rightarrow> unit result io" where
  "for_each_pair m f =
     RangeOrder (map fst m) (\<lambda>order.
       for_each order (\<lambda>k. case map_of m k of None \<Rightarrow> Return (Inr ()) | Some p \<Rightarrow> f p))"

primrec spec_role_names :: "Role option list \<Rightarrow> string list io" where
  "spec_role_names [] = Return []"
| "spec_role_names (r # rs) = deref r (\<lambda>role. bind (spec_role_names rs) (\<lambda>names. Return (role_Name role # names)))"

definition reconcileRoles :: "KeycloakInterface \<Rightarrow> RhpamUser \<Rightarrow> unit result io" where
  "reconcileRoles ssoClient rhpamuser =
     check (kc_ListRoles ssoClient (ru_Realm rhpamuser)) (\<lambda>roles.
     bind (role_names roles) (\<lambda>kcNames.
     bind (spec_role_names (us_Roles (ru_Spec rhpamuser))) (\<lambda>specNames.
     for_each_pair (pair_roles kcNames specNames)
       (\<lambda>p. reconcileRole ssoClient (ru_Realm rhpamuser) (krp_KcRole p) (krp_SpecRole p)))))"

subsection \<open>Users\<close>

definition reconcileUser :: "KeycloakInterface \<Rightarrow> string \<Rightarrow> KeycloakUser option \<Rightarrow> KeycloakUser option \<Rightarrow> unit result io" where
  "reconcileUser ssoClient realm kcUser specUser =
     (case specUser of
        None \<Rightarrow>
          deref kcUser (\<lambda>kcUser. deref (ku_KeycloakApiUser kcUser) (\<lambda>kc.
            if \<not> isDefaultUser (kau_UserName kc)
            then bind (deleteUser ssoClient realm (kau_UserName kc)) (\<lambda>_. Return (Inr ()))
            else Return (Inr ())))
      | Some specUser \<Rightarrow>
          (case kcUser of
             None \<Rightarrow>
               deref (ku_KeycloakApiUser specUser) (\<lambda>spec.
               deref (ku_Password specUser) (\<lambda>password.
                 createUserWithRealmRoles ssoClient realm
                   \<lparr>user_Username = kau_UserName spec, user_Password = password, user_Roles = kau_RealmRoles spec\<rparr>))
           | Some kcUser \<Rightarrow>
               deref (ku_KeycloakApiUser kcUser) (\<lambda>kc.
               deref (ku_KeycloakApiUser specUser) (\<lambda>spec.
                 for_each_pair (pair_roles (kau_RealmRoles kc) (kau_RealmRoles spec))
                   (\<lambda>p. reconcileUserRealmRole ssoClient realm (kau_UserName kc) (krp_KcRole p) (krp_SpecRole p))))))"

text \<open>
  The users of the realm, each with the names of its realm roles appended, keyed by user name.
\<close>

primrec load_users :: "KeycloakInterface \<Rightarrow> string \<Rightarrow> KeycloakUser option list \<Rightarrow> user_pairs \<Rightarrow> user_pairs result io" where
  "load_users ssoClient realm [] m = Return (Inr m)"
| "load_users ssoClient realm (u # us) m =
     deref u (\<lambda>user. deref (ku_KeycloakApiUser user) (\<lambda>api.
       check (kc_GetRealmRoleMappings ssoClient (kau_ID api) realm) (\<lambda>roleMappings.
       bind (role_names roleMappings) (\<lambda>names.
       load_users ssoClient realm us
         (AList.update (kau_UserName api)
           \<lparr>kup_KcUser = Some (user\<lparr>ku_KeycloakApiUser := Some (api\<lparr>kau_RealmRoles := kau_RealmRoles api @ names\<rparr>)\<rparr>),
            kup_SpecUser = None\<rparr> m)))))"

definition spec_keycloak_user :: "User \<Rightarrow> KeycloakUser" where
  "spec_keycloak_user user =
     zero_KeycloakUser\<lparr>ku_KeycloakApiUser :=
         Some (zero_KeycloakApiUser\<lparr>kau_UserName := user_Username user, kau_RealmRoles := user_Roles user\<rparr>),
       ku_Password := Some (user_Password user)\<rparr>"

definition add_spec_user :: "User \<Rightarrow> user_pairs \<Rightarrow> user_pairs" where
  "add_spec_user user m =
     (case map_of m (user_Username user) of
        Some p \<Rightarrow> AList.update (user_Username user) (p\<lparr>kup_SpecUser := Some (spec_keycloak_user user)\<rparr>) m
      | None \<Rightarrow> AList.update (user_Username user)
                  \<lparr>kup_KcUser = None, kup_SpecUser = Some (spec_keycloak_user user)\<rparr> m)"

primrec add_spec_users :: "User option list \<Rightarrow> user_pairs \<Rightarrow> user_pairs io" where
  "add_spec_users [] m = Return m"
| "add_spec_users (u # us) m = deref u (\<lambda>user. add_spec_users us (add_spec_user user m))"

definition reconcileUsers :: "KeycloakInterface \<Rightarrow> RhpamUser \<Rightarrow> unit result io" where
  "reconcileUsers ssoClient rhpamuser =
     check (kc_ListUsers ssoClient (ru_Realm rhpamuser)) (\<lambda>users.
     check (load_users ssoClient (ru_Realm rhpamuser) users []) (\<lambda>kcPairs.
     bind (add_spec_users (us_Users (ru_Spec rhpamuser)) kcPairs) (\<lambda>userPairList.
     for_each_pair userPairList
       (\<lambda>p. reconcileUser ssoClient (ru_Realm rhpamuser) (kup_KcUser p) (kup_SpecUser p)))))"

subsection \<open>The phases\<close>

definition User_Initialize :: "RhpamUser \<Rightarrow> RhpamUser result" where
  "User_Initialize rhpamuser =
     (case AddFinalizer (ru_ObjectMeta rhpamuser) RhpamFinalizer of
        Inl err \<Rightarrow> Inl err
      | Inr om \<Rightarrow> Inr (set_user_phase PhaseAccepted (rhpamuser\<lparr>ru_ObjectMeta := om\<rparr>)))"

definition create_defaults :: "KeycloakInterface \<Rightarrow> string \<Rightarrow> unit result io" where
  "create_defaults ssoClient realm =
     check (for_each defaultRoles (createRole ssoClient realm)) (\<lambda>_.
     for_each defaultUsers (\<lambda>user.
       check (createUser ssoClient realm (user_Username user) (user_Password user)) (\<lambda>_.
       for_each (user_Roles user) (\<lambda>role. createUserRealmRole ssoClient realm (user_Username user) role))))"

definition adopt_realm :: "RhpamDev \<Rightarrow> RhpamUser \<Rightarrow> RhpamUser" where
  "adopt_realm rhpamdev rhpamuser = set_user_realm (dev_Realm rhpamdev) (set_user_phase PhaseReconcile rhpamuser)"

primrec accept_devs :: "UserPhaseHandler \<Rightarrow> RhpamDev list \<Rightarrow> RhpamUser \<Rightarrow> (RhpamUser result \<times> UserPhaseHandler) io" where
  "accept_devs ph [] rhpamuser = Return (Inr rhpamuser, ph)"
| "accept_devs ph (rhpamdev # rest) rhpamuser =
     (let rhpamuser1 = (if dev_Phase rhpamdev = PhaseComplete then adopt_realm rhpamdev rhpamuser else rhpamuser) in
      if dev_Phase rhpamdev = PhaseRealmProvisioned then
        bind (User_authenticatedClient ph) (\<lambda>(r, ph). case r of
          Inl err \<Rightarrow> Return (Inl err, ph)
        | Inr ssoClient \<Rightarrow> bind (create_defaults ssoClient (dev_Realm rhpamdev)) (\<lambda>d. case d of
            Inl err \<Rightarrow> Return (Inl err, ph)
          | Inr _ \<Rightarrow> UpdateRhpamDev (set_dev_phase PhasePrepare rhpamdev) (\<lambda>_.
              accept_devs ph rest (adopt_realm rhpamdev rhpamuser1))))
      else accept_devs ph rest rhpamuser1)"

definition User_Accepted :: "UserPhaseHandler \<Rightarrow> RhpamUser \<Rightarrow> (RhpamUser result \<times> UserPhaseHandler) io" where
  "User_Accepted ph rhpamuser =
     ListRhpamDev (ru_Namespace rhpamuser) (\<lambda>r. case r of
       Inl err \<Rightarrow> Return (Inl err, ph)
     | Inr items \<Rightarrow> accept_devs ph items rhpamuser)"

definition reconcile_with :: "KeycloakInterface \<Rightarrow> RhpamUser \<Rightarrow> RhpamUser result io" where
  "reconcile_with ssoClient rhpamuser =
     check (reconcileRoles ssoClient rhpamuser) (\<lambda>_.
     check (reconcileUsers ssoClient rhpamuser) (\<lambda>_.
     Return (Inr rhpamuser)))"

definition User_reconcile :: "UserPhaseHandler \<Rightarrow> RhpamUser \<Rightarrow> (RhpamUser result \<times> UserPhaseHandler) io" where
  "User_reconcile ph rhpamuser =
     bind (User_authenticatedClient ph) (\<lambda>(r, ph). case r of
       Inl err \<Rightarrow> Return (Inl err, ph)
     | Inr ssoClient \<Rightarrow> bind (reconcile_with ssoClient rhpamuser) (\<lambda>res. Return (res, ph)))"

subsection \<open>Deprovisioning\<close>

definition delete_custom_user :: "KeycloakInterface \<Rightarrow> string \<Rightarrow> KeycloakUser option \<Rightarrow> unit result io" where
  "delete_custom_user ssoClient realm u =
     deref u (\<lambda>user. deref (ku_KeycloakApiUser user) (\<lambda>api.
       if \<not> isDefaultUser (kau_UserName api)
       then check_err (WithMessage ''Error deleting user in rhsso'') (kc_DeleteUser ssoClient (kau_ID api) realm)
              (\<lambda>_. Return (Inr ()))
       else Return (Inr ())))"

definition delete_custom_role :: "KeycloakInterface \<Rightarrow> string \<Rightarrow> KeycloakRole option \<Rightarrow> unit result io" where
  "delete_custom_role ssoClient realm r =
     deref r (\<lambda>role.
       if \<not> isDefaultRole (kr_Name role)
       then check_err (WithMessage ''Error deleting role in rhsso'') (kc_DeleteRole ssoClient (kr_Name role) realm)
              (\<lambda>_. Return (Inr ()))
       else Return (Inr ()))"

text \<open>The error of listing the roles is not looked at: there are then no roles to delete.\<close>

definition delete_custom :: "KeycloakInterface \<Rightarrow> string \<Rightarrow> unit result io" where
  "delete_custom ssoClient realm =
     check (kc_ListUsers ssoClient realm) (\<lambda>users.
     check (for_each users (delete_custom_user ssoClient realm)) (\<lambda>_.
     bind (kc_ListRoles ssoClient realm) (\<lambda>r.
     for_each (case r of Inl _ \<Rightarrow> [] | Inr roles \<Rightarrow> roles) (delete_custom_role ssoClient realm))))"

text \<open>The resource is returned with the error, still in the phase it had.\<close>

definition User_Deprovision :: "UserPhaseHandler \<Rightarrow> RhpamUser \<Rightarrow> ((RhpamUser \<times> error option) \<times> UserPhaseHandler) io" where
  "User_Deprovision ph rhpamuser =
     bind (User_authenticatedClient ph) (\<lambda>(r, ph). case r of
       Inl err \<Rightarrow> Return ((rhpamuser, Some err), ph)
     | Inr ssoClient \<Rightarrow> bind (delete_custom ssoClient (ru_Realm rhpamuser)) (\<lambda>d. case d of
         Inl err \<Rightarrow> Return ((rhpamuser, Some err), ph)
       | Inr _ \<Rightarrow> Return ((set_user_phase PhaseDeprovisioned rhpamuser, None), ph)))"

end
