(* ===== verification/RhpamuserController.thy ===== *)
theory RhpamuserController
  imports RhpamuserHandler RhpamdevController
begin

text \<open>
  pkg/controller/rhpamuser/rhpamuser\_controller.go: one reconciliation of an RhpamUser resource.
\<close>

record ReconcileRhpamUser =
  ruc_phaseHandler :: UserPhaseHandler

definition User_newReconciler :: ReconcileRhpamUser where
  "User_newReconciler = \<lparr>ruc_phaseHandler = User_NewPhaseHandler\<rparr>"

definition User_handleResult :: "RhpamUser result \<Rightarrow> bool \<Rightarrow> reconcile_return io" where
  "User_handleResult r requeue =
     (case r of
        Inl err \<Rightarrow> Return (\<lparr>rr_Requeue = False\<rparr>, Some err)
      | Inr rhpam \<Rightarrow> UpdateRhpamUser rhpam (\<lambda>u.
          Return (\<lparr>rr_Requeue = requeue\<rparr>, case u of Inl err \<Rightarrow> Some err | Inr _ \<Rightarrow> None)))"

definition User_reconcile_deletion :: "UserPhaseHandler \<Rightarrow> RhpamUser \<Rightarrow> (reconcile_return \<times> UserPhaseHandler) io" where
  "User_reconcile_deletion ph rhpamCopy =
     (if ru_Phase rhpamCopy = PhaseDeprovisioned then
        bind (User_handleResult (Inr (set_user_phase PhaseComplete (set_user_finalizers [] rhpamCopy))) False)
          (\<lambda>res. Return (res, ph))
      else bind (User_Deprovision ph rhpamCopy) (\<lambda>((rhpamState, err), ph). case err of
          Some err \<Rightarrow>
            UpdateRhpamUser (set_user_phase PhaseDeprovisionFailed rhpamState) (\<lambda>_.
            bind (User_handleResult (Inl err) False) (\<lambda>res. Return (res, ph)))
        | None \<Rightarrow> bind (User_handleResult (Inr rhpamState) True) (\<lambda>res. Return (res, ph))))"

definition User_reconcile_phase :: "UserPhaseHandler \<Rightarrow> RhpamUser \<Rightarrow> (reconcile_return \<times> UserPhaseHandler) io" where
  "User_reconcile_phase ph rhpamCopy =
     (let phase = ru_Phase rhpamCopy in
      if phase = NoPhase then
        bind (User_handleResult (User_Initialize rhpamCopy) True) (\<lambda>res. Return (res, ph))
      else if phase = PhaseAccepted then
        bind (User_Accepted ph rhpamCopy) (\<lambda>(r, ph). bind (User_handleResult r True) (\<lambda>res. Return (res, ph)))
      else if phase = PhaseReconcile then
        bind (User_reconcile ph rhpamCopy) (\<lambda>(r, ph). bind (User_handleResult r False) (\<lambda>res. Return (res, ph)))
      else Return ((\<lparr>rr_Requeue = False\<rparr>, None), ph))"

definition User_Reconcile :: "ReconcileRhpamUser \<Rightarrow> NamespacedName \<Rightarrow> (reconcile_return \<times> ReconcileRhpamUser) io" where
  "User_Reconcile r request =
     bind GetWatchNamespace (\<lambda>ns. case ns of
       Inl err \<Rightarrow> Return ((\<lparr>rr_Requeue = False\<rparr>, None), r)
     | Inr namespace \<Rightarrow>
         if namespace \<noteq> nn_Namespace request then Return ((\<lparr>rr_Requeue = False\<rparr>, None), r)
         else GetRhpamUser request (\<lambda>g. case g of
           Inl err \<Rightarrow>
             if IsNotFound err then Return ((\<lparr>rr_Requeue = False\<rparr>, None), r)
             else Return ((\<lparr>rr_Requeue = False\<rparr>, Some err), r)
         | Inr rhpam \<Rightarrow>
             bind (if om_DeletionTimestamp (ru_ObjectMeta rhpam) \<noteq> None
                   then User_reconcile_deletion (ruc_phaseHandler r) rhpam
                   else User_reconcile_phase (ruc_phaseHandler r) rhpam)
               (\<lambda>(res, ph). Return (res, r\<lparr>ruc_phaseHandler := ph\<rparr>))))"

end
