(* ===== verification/RhpamuserCalls.thy ===== *)
theory RhpamuserCalls
  imports RhpamuserController KeycloakContract
begin

text \<open>
  What each operation of the RhpamUser phase handler asks of Keycloak and of the cluster,
  against any environment.
\<close>

subsection \<open>Requests that spare the defaults\<close>

text \<open>
  A request to the realm at this address that deletes no default role: a deletion is of a role
  that is not a default one, or below the address of the users.
\<close>

definition spares :: "string \<Rightarrow> string \<Rightarrow> string \<Rightarrow> string \<Rightarrow> bool" where
  "spares base realm meth url \<longleftrightarrow> meth = ''DELETE'' \<longrightarrow>
     (\<exists>role. url = base @ realm_path realm @ ''/roles/'' @ role \<and> \<not> isDefaultRole role) \<or>
     (\<exists>rest. url = base @ realm_path realm @ ''/users/'' @ rest)"

text \<open>Requests that delete nothing.\<close>

definition deletes_nothing :: "string \<Rightarrow> string \<Rightarrow> bool" where
  "deletes_nothing meth url \<longleftrightarrow> meth \<noteq> ''DELETE''"

lemma deletes_nothing_spares: "deletes_nothing meth url \<Longrightarrow> spares base realm meth url"
  by (simp add: deletes_nothing_def spares_def)

lemma templates_internal:
  "guarantees internal NewRoleHelper (\<lambda>_. True)" "guarantees internal NewUserHelper (\<lambda>_. True)"
  "guarantees internal NewUserRoleHelper (\<lambda>_. True)"
  "guarantees internal (loadTemplate name path data) (\<lambda>_. True)"
  "guarantees internal (user_role_json rolename ident) (\<lambda>_. True)"
  unfolding NewRoleHelper_def NewUserHelper_def NewUserRoleHelper_def templatePath_def Getenv_def
    user_role_json_def LoadUserRoleTemplate_def loadTemplate_render
  by auto

lemma role_names_internal: "guarantees internal (role_names rs) (\<lambda>_. True)"
  by (induction rs) (auto intro: guarantees_bind)

lemma spec_role_names_internal: "guarantees internal (spec_role_names rs) (\<lambda>_. True)"
  by (induction rs) (auto intro: guarantees_bind)

lemma add_spec_users_internal: "guarantees internal (add_spec_users us m) (\<lambda>_. True)"
  by (induction us arbitrary: m) auto

lemma for_each_pair_sends:
  assumes "\<And>k p. map_of m k = Some p \<Longrightarrow> guarantees (sends S) (f p) (\<lambda>_. True)"
  shows "guarantees (sends S) (for_each_pair m f) (\<lambda>_. True)"
  unfolding for_each_pair_def
  by (rule guarantees_RangeOrder) (auto intro!: guarantees_for_each assms split: option.splits)

context keycloak_rest
begin

text \<open>Every method but the deletions deletes nothing; the deletions that are used spare the defaults.\<close>

lemma methods_delete_nothing:
  "guarantees (sends deletes_nothing) (kc_FindUserByUsername kc name realm) (\<lambda>_. True)"
  "guarantees (sends deletes_nothing) (kc_ListUsers kc realm) (\<lambda>_. True)"
  "guarantees (sends deletes_nothing) (kc_ListRoles kc realm) (\<lambda>_. True)"
  "guarantees (sends deletes_nothing) (kc_GetRole kc role realm) (\<lambda>_. True)"
  "guarantees (sends deletes_nothing) (kc_CreateRole kc json realm) (\<lambda>_. True)"
  "guarantees (sends deletes_nothing) (kc_CreateUser kc json realm) (\<lambda>_. True)"
  "guarantees (sends deletes_nothing) (kc_GetRealmRoleMappings kc ident realm) (\<lambda>_. True)"
  "guarantees (sends deletes_nothing) (kc_CreateUserRealmRole kc json ident realm) (\<lambda>_. True)"
  by (rule sends_monoD [OF calls_sends], rule method_calls, simp add: deletes_nothing_def)+

lemma methods_spare:
  "guarantees (sends (spares base realm)) (kc_DeleteUser kc ident realm) (\<lambda>_. True)"
  "guarantees (sends (spares base realm)) (kc_DeleteUserRealmRole kc json ident realm) (\<lambda>_. True)"
  "\<not> isDefaultRole role \<Longrightarrow> guarantees (sends (spares base realm)) (kc_DeleteRole kc role realm) (\<lambda>_. True)"
  by (rule sends_monoD [OF calls_sends], rule method_calls, auto simp: spares_def)+

lemma createRole_nothing: "guarantees (sends deletes_nothing) (createRole kc realm role) (\<lambda>_. True)"
  unfolding createRole_def LoadRoleTemplate_def
  by (rule guarantees_bind [OF methods_delete_nothing(4)])
     (auto split: sum.splits intro!: guarantees_bind [OF internal_sendsD [OF templates_internal(1)]]
        guarantees_check_err [OF internal_sendsD [OF templates_internal(4)]]
        guarantees_check_err [OF methods_delete_nothing(5)])

lemma createUser_nothing: "guarantees (sends deletes_nothing) (createUser kc realm user password) (\<lambda>_. True)"
  unfolding createUser_def LoadUserTemplate_def
  by (rule guarantees_bind [OF methods_delete_nothing(1)])
     (auto split: sum.splits intro!: guarantees_bind [OF internal_sendsD [OF templates_internal(2)]]
        guarantees_check_err [OF internal_sendsD [OF templates_internal(4)]]
        guarantees_check_err [OF methods_delete_nothing(6)])

lemma createUserRealmRole_nothing:
  "guarantees (sends deletes_nothing) (createUserRealmRole kc realm user role) (\<lambda>_. True)"
  unfolding createUserRealmRole_def
  by (rule guarantees_check_err [OF methods_delete_nothing(1)],
      rule guarantees_check_err [OF methods_delete_nothing(7)],
      rule guarantees_bind [OF internal_sendsD [OF role_names_internal]])
     (auto intro!: guarantees_check_err [OF methods_delete_nothing(4)]
        guarantees_bind [OF internal_sendsD [OF templates_internal(5)]]
        guarantees_check_err [OF methods_delete_nothing(8)])

lemma create_defaults_nothing: "guarantees (sends deletes_nothing) (create_defaults kc realm) (\<lambda>_. True)"
  unfolding create_defaults_def
  by (auto intro!: guarantees_check_err [OF guarantees_for_each] guarantees_for_each createRole_nothing
        guarantees_check_err [OF createUser_nothing] createUserRealmRole_nothing)

lemma createUserWithRealmRoles_nothing:
  "guarantees (sends deletes_nothing) (createUserWithRealmRoles kc realm user) (\<lambda>_. True)"
  unfolding createUserWithRealmRoles_def
  by (auto intro!: guarantees_check_err [OF createUser_nothing] guarantees_for_each createUserRealmRole_nothing)

lemmas spare_of_nothing = sends_monoD [OF _ deletes_nothing_spares]

lemma reconcileRole_spares: "guarantees (sends (spares base realm)) (reconcileRole kc realm kr sr) (\<lambda>_. True)"
  unfolding reconcileRole_def by (auto intro: methods_spare(3) spare_of_nothing [OF createRole_nothing])

lemma reconcileRoles_spares:
  "guarantees (sends (spares base (ru_Realm u))) (reconcileRoles kc u) (\<lambda>_. True)"
  unfolding reconcileRoles_def
  by (auto intro!: guarantees_check_err [OF spare_of_nothing [OF methods_delete_nothing(3)]]
        guarantees_bind [OF internal_sendsD [OF role_names_internal]]
        guarantees_bind [OF internal_sendsD [OF spec_role_names_internal]]
        for_each_pair_sends reconcileRole_spares)

lemma deleteUser_spares: "guarantees (sends (spares base realm)) (deleteUser kc realm user) (\<lambda>_. True)"
  unfolding deleteUser_def
  by (rule guarantees_bind [OF spare_of_nothing [OF methods_delete_nothing(1)]])
     (auto split: sum.splits intro!: guarantees_check_err [OF methods_spare(1)])

lemma deleteUserRealmRole_spares:
  "guarantees (sends (spares base realm)) (deleteUserRealmRole kc realm user role) (\<lambda>_. True)"
  unfolding deleteUserRealmRole_def
  by (auto intro!: guarantees_check_err [OF spare_of_nothing [OF methods_delete_nothing(1)]]
        guarantees_check_err [OF spare_of_nothing [OF methods_delete_nothing(7)]]
        guarantees_bind [OF internal_sendsD [OF role_names_internal]]
        guarantees_check_err [OF spare_of_nothing [OF methods_delete_nothing(4)]]
        guarantees_bind [OF internal_sendsD [OF templates_internal(5)]]
        guarantees_check_err [OF methods_spare(2)])

lemma reconcileUser_spares:
  "guarantees (sends (spares base realm)) (reconcileUser kc realm ku su) (\<lambda>_. True)"
  unfolding reconcileUser_def reconcileUserRealmRole_def
  by (auto split: option.splits
        intro!: guarantees_bind [OF deleteUser_spares] spare_of_nothing [OF createUserWithRealmRoles_nothing]
          for_each_pair_sends spare_of_nothing [OF createUserRealmRole_nothing] deleteUserRealmRole_spares)

lemma load_users_nothing: "guarantees (sends deletes_nothing) (load_users kc realm us m) (\<lambda>_. True)"
  by (induction us arbitrary: m)
     (auto intro!: guarantees_check_err [OF methods_delete_nothing(7)]
        guarantees_bind [OF internal_sendsD [OF role_names_internal]])

lemma reconcileUsers_spares:
  "guarantees (sends (spares base (ru_Realm u))) (reconcileUsers kc u) (\<lambda>_. True)"
  unfolding reconcileUsers_def
  by (auto intro!: guarantees_check_err [OF spare_of_nothing [OF methods_delete_nothing(2)]]
        guarantees_check_err [OF spare_of_nothing [OF load_users_nothing]]
        guarantees_bind [OF internal_sendsD [OF add_spec_users_internal]]
        for_each_pair_sends reconcileUser_spares)

lemma reconcile_with_spares:
  "guarantees (sends (spares base (ru_Realm u))) (reconcile_with kc u) (\<lambda>r. \<forall>u'. r = Inr u' \<longrightarrow> u' = u)"
  unfolding reconcile_with_def
  by (auto intro!: guarantees_check_err [OF reconcileRoles_spares] guarantees_check_err [OF reconcileUsers_spares])

lemma delete_custom_spares:
  "guarantees (sends (spares base realm)) (delete_custom kc realm) (\<lambda>_. True)"
  unfolding delete_custom_def delete_custom_user_def delete_custom_role_def
  by (auto split: sum.splits
        intro!: guarantees_check_err [OF spare_of_nothing [OF methods_delete_nothing(2)]]
          guarantees_check_err [OF guarantees_for_each] guarantees_for_each
          guarantees_check_err [OF methods_spare(1)] guarantees_check_err [OF methods_spare(3)]
          guarantees_bind [OF spare_of_nothing [OF methods_delete_nothing(3)]])

end

subsection \<open>Logging in\<close>

text \<open>
  What happens outside the realm in a reconciliation: calls of the process, reads of the
  cluster, requests that delete nothing, and nothing that creates or deletes an object.
\<close>

definition harmless :: "(string \<Rightarrow> string \<Rightarrow> bool) \<Rightarrow> event \<Rightarrow> bool" where
  "harmless S ev = (case ev of
      ENewRequest m u r \<Rightarrow> S m u
    | EHttpDo q r \<Rightarrow> S (rq_Method q) (rq_URL q)
    | ECreateObject ob r \<Rightarrow> False | EDeleteObject g k r \<Rightarrow> False
    | EUpdateRhpamDev d r \<Rightarrow> False | EUpdateRhpamUser u r \<Rightarrow> False | _ \<Rightarrow> True)"

lemma harmless_simps [simp]:
  "harmless S (ELookupEnv a b1)" "harmless S (EGetObject g k b2)" "harmless S (EListRhpamDev a b3)"
  "harmless S (EReadBody b4)" "harmless S ECloseBody" "\<not> harmless S (EUpdateRhpamDev d b5)"
  "harmless S (ENewRequest m u r) \<longleftrightarrow> S m u" "harmless S (EHttpDo q r') \<longleftrightarrow> S (rq_Method q) (rq_URL q)"
  by (simp_all add: harmless_def)

lemma sends_harmless: "sends S ev \<Longrightarrow> harmless S ev"
  by (auto simp: sends_def internal_def harmless_def split: event.splits)

lemma sends_harmlessD: "guarantees (sends S) m Q \<Longrightarrow> guarantees (harmless S) m Q"
  by (erule guarantees_mono) (auto simp: sends_harmless)

lemma harmless_writes [simp]:
  assumes "list_all (harmless S) tr"
  shows "dev_writes tr = []" "user_writes tr = []" "created tr = []" "deleted tr = []"
  using assms by (induction tr; simp add: harmless_def split: event.splits)+

lemma harmless_requests: "list_all (harmless S) tr \<Longrightarrow> q \<in> set (requests tr) \<Longrightarrow> S (rq_Method q) (rq_URL q)"
  by (induction tr) (auto split: event.splits)

lemma login_harmless:
  "guarantees (harmless deletes_nothing) (User_authenticatedClient ph)
     (\<lambda>(r, ph'). \<forall>kc. r = Inr kc \<longrightarrow> keycloak_rest kc (kf_AdminUrl (uph_keycloakFactory ph')))"
proof -
  have secret: "guarantees (harmless deletes_nothing) (readSSOSecret kf) (\<lambda>_. True)" for kf
    unfolding readSSOSecret_def
    by (rule guarantees_bind [where R = "\<lambda>_. True"])
       (auto simp: ReadSSOSecret_def Getenv_def split: sum.splits)
  have token: "guarantees (harmless deletes_nothing) (login c user pass) (\<lambda>_. True)" for c user pass
    by (auto simp: login_def Let_def deletes_nothing_def split: sum.splits)
  have client: "guarantees (harmless deletes_nothing) (AuthenticatedClient kf) (\<lambda>_. True)" for kf
    unfolding AuthenticatedClient_def by (auto intro!: guarantees_check_err [OF token])
  have "guarantees (harmless deletes_nothing) (authenticatedClient kf) (\<lambda>_. True)" for kf
    unfolding authenticatedClient_def
    by (rule guarantees_bind [OF secret]) (auto split: sum.splits intro!: guarantees_bind [OF client])
  then have "guarantees (harmless deletes_nothing) (authenticatedClient kf)
      (\<lambda>(r, kf'). \<forall>kc. r = Inr kc \<longrightarrow> keycloak_rest kc (kf_AdminUrl kf'))" for kf
    using authenticatedClient_quiet [of kf] unfolding guarantees_def by blast
  then show ?thesis
    unfolding User_authenticatedClient_def by (rule guarantees_bind) auto
qed

lemma harmless_spares:
  "list_all (harmless deletes_nothing) tr \<Longrightarrow> list_all (harmless (spares base realm)) tr"
  by (erule list.pred_mono_strong) (auto simp: harmless_def deletes_nothing_spares split: event.splits)

lemma login_runs:
  assumes "runs (bind (User_authenticatedClient ph) (\<lambda>(r, h). case r of Inl err \<Rightarrow> f err h | Inr kc \<Rightarrow> g kc h)) tr out"
  obtains (panic) s where "list_all (harmless deletes_nothing) tr" "out = Panicked s"
  | (failed) err h t1 t2 where "list_all (harmless deletes_nothing) t1" "runs (f err h) t2 out" "tr = t1 @ t2"
  | (ok) kc h t1 t2 where "list_all (harmless deletes_nothing) t1"
      "keycloak_rest kc (kf_AdminUrl (uph_keycloakFactory h))" "runs (g kc h) t2 out" "tr = t1 @ t2"
proof -
  note q = runs_list_all [OF login_harmless]
  from assms consider
      (panic) s where "runs (User_authenticatedClient ph) tr (Panicked s)" "out = Panicked s"
    | (failed) err h t1 t2 where "runs (User_authenticatedClient ph) t1 (Done (Inl err, h))" "runs (f err h) t2 out" "tr = t1 @ t2"
    | (ok) kc h t1 t2 where "runs (User_authenticatedClient ph) t1 (Done (Inr kc, h))" "runs (g kc h) t2 out" "tr = t1 @ t2"
    by (auto simp: runs_bind_state_iff)
  then show thesis
  proof cases
    case panic
    then show thesis using q that(1) by blast
  next
    case failed
    then show thesis using q that(2) by blast
  next
    case ok
    from runs_result [OF login_harmless ok(1)] have "keycloak_rest kc (kf_AdminUrl (uph_keycloakFactory h))" by simp
    with ok q show thesis using that(3) by blast
  qed
qed

subsection \<open>The phases\<close>

lemma User_Initialize_ok:
  "User_Initialize u = Inr (set_user_phase PhaseAccepted
     (set_user_finalizers (sets_List (om_Finalizers (ru_ObjectMeta u) @ [RhpamFinalizer])) u))"
  by (simp add: User_Initialize_def AddFinalizer_def set_user_finalizers_def)

lemma User_reconcile_runs:
  assumes "runs (User_reconcile ph u) tr out"
  obtains base where "list_all (harmless (spares base (ru_Realm u))) tr"
    "\<forall>u' h. out = Done (Inr u', h) \<longrightarrow> u' = u"
  using assms unfolding User_reconcile_def
proof (cases rule: login_runs)
  case (ok kc h t1 t2)
  let ?P = "harmless (spares (kf_AdminUrl (uph_keycloakFactory h)) (ru_Realm u))"
  have g: "guarantees ?P (bind (reconcile_with kc u) (\<lambda>res. Return (res, h))) (\<lambda>(r, _). \<forall>u'. r = Inr u' \<longrightarrow> u' = u)"
    by (rule guarantees_bind [OF sends_harmlessD [OF keycloak_rest.reconcile_with_spares [OF ok(2)]]]) auto
  show thesis
  proof (rule that)
    show "list_all ?P tr"
      using harmless_spares [OF ok(1)] runs_list_all [OF g ok(3)] ok(4) by simp
    show "\<forall>u' h. out = Done (Inr u', h) \<longrightarrow> u' = u"
      using g ok(3) unfolding guarantees_def by fastforce
  qed
qed (auto dest: harmless_spares intro: that)

text \<open>
  Deprovisioning returns the resource as it was with an error, or marked.
\<close>

lemma User_Deprovision_runs:
  assumes "runs (User_Deprovision ph u) tr out"
  obtains base where "list_all (harmless (spares base (ru_Realm u))) tr"
    "\<forall>u' e h. out = Done ((u', e), h) \<longrightarrow> u' = (if e = None then set_user_phase PhaseDeprovisioned u else u)"
  using assms unfolding User_Deprovision_def
proof (cases rule: login_runs)
  case (ok kc h t1 t2)
  let ?P = "harmless (spares (kf_AdminUrl (uph_keycloakFactory h)) (ru_Realm u))"
  have g: "guarantees ?P (bind (delete_custom kc (ru_Realm u)) (\<lambda>d. case d of
         Inl err \<Rightarrow> Return ((u, Some err), h)
       | Inr _ \<Rightarrow> Return ((set_user_phase PhaseDeprovisioned u, None), h)))
      (\<lambda>((u', e), _). u' = (if e = None then set_user_phase PhaseDeprovisioned u else u))"
    by (rule guarantees_bind [OF sends_harmlessD [OF keycloak_rest.delete_custom_spares [OF ok(2)]]])
       (auto split: sum.splits)
  show thesis
  proof (rule that)
    show "list_all ?P tr"
      using harmless_spares [OF ok(1)] runs_list_all [OF g ok(3)] ok(4) by simp
    show "\<forall>u' e h. out = Done ((u', e), h) \<longrightarrow> u' = (if e = None then set_user_phase PhaseDeprovisioned u else u)"
      using g ok(3) unfolding guarantees_def by fastforce
  qed
qed (auto dest: harmless_spares intro: that)

text \<open>
  The acceptance: the RhpamDev resources in phase "realm provisioned" are moved on, each after
  the defaults were created in its realm, and the user resource takes the realm of the last one
  that is provisioned or complete.
\<close>

definition moves_on :: "RhpamDev list \<Rightarrow> RhpamDev \<Rightarrow> bool" where
  "moves_on devs w \<longleftrightarrow> (\<exists>d \<in> set devs. dev_Phase d = PhaseRealmProvisioned \<and> w = set_dev_phase PhasePrepare d)"

definition adopts :: "RhpamDev list \<Rightarrow> RhpamUser \<Rightarrow> RhpamUser \<Rightarrow> bool" where
  "adopts devs u u' \<longleftrightarrow> u' = u \<or>
     (\<exists>d \<in> set devs. dev_Phase d \<in> {PhaseRealmProvisioned, PhaseComplete} \<and> u' = adopt_realm d u)"

definition accepting :: "RhpamDev list \<Rightarrow> event \<Rightarrow> bool" where
  "accepting devs ev = (case ev of EUpdateRhpamDev w r \<Rightarrow> moves_on devs w | _ \<Rightarrow> harmless deletes_nothing ev)"

lemma harmless_accepting: "harmless deletes_nothing ev \<Longrightarrow> accepting devs ev"
  by (auto simp: accepting_def harmless_def split: event.splits)

lemma harmless_acceptingD: "guarantees (harmless deletes_nothing) m Q \<Longrightarrow> guarantees (accepting devs) m Q"
  by (erule guarantees_mono) (auto simp: harmless_accepting)

lemma adopts_step:
  "d \<in> set devs \<Longrightarrow> dev_Phase d \<in> {PhaseRealmProvisioned, PhaseComplete} \<Longrightarrow> adopts devs u v \<Longrightarrow>
     adopts devs u (adopt_realm d v)"
  by (auto simp: adopts_def adopt_realm_def setter_defs)

lemma accept_devs_accepting:
  assumes "set rest \<subseteq> set devs" and "adopts devs u v"
  shows "guarantees (accepting devs) (accept_devs ph rest v) (\<lambda>(r, _). \<forall>u'. r = Inr u' \<longrightarrow> adopts devs u u')"
  using assms
proof (induction rest arbitrary: ph v)
  case (Cons d rest)
  let ?v = "if dev_Phase d = PhaseComplete then adopt_realm d v else v"
  have v: "adopts devs u ?v" using Cons.prems by (auto intro: adopts_step)
  have rec: "adopts devs u w \<Longrightarrow> guarantees (accepting devs) (accept_devs h rest w) (\<lambda>(r, _). \<forall>u'. r = Inr u' \<longrightarrow> adopts devs u u')" for h w
    using Cons.IH Cons.prems(1) by simp
  show ?case
  proof (cases "dev_Phase d = PhaseRealmProvisioned")
    case False
    with rec [OF v] show ?thesis by (simp add: Let_def)
  next
    case True
    have w: "accepting devs (EUpdateRhpamDev (set_dev_phase PhasePrepare d) r)" for r
      using True Cons.prems(1) by (auto simp: accepting_def moves_on_def)
    have v': "adopts devs u (adopt_realm d ?v)" using True Cons.prems(1) v by (intro adopts_step) auto
    have "guarantees (accepting devs) (bind (create_defaults kc (dev_Realm d)) (\<lambda>x. case x of
            Inl err \<Rightarrow> Return (Inl err, h)
          | Inr _ \<Rightarrow> UpdateRhpamDev (set_dev_phase PhasePrepare d) (\<lambda>_. accept_devs h rest (adopt_realm d ?v))))
        (\<lambda>(r, _). \<forall>u'. r = Inr u' \<longrightarrow> adopts devs u u')" if "keycloak_rest kc base" for kc base h
      by (rule guarantees_bind [OF harmless_acceptingD [OF sends_harmlessD [OF keycloak_rest.create_defaults_nothing [OF that]]]])
         (use w rec [OF v'] in \<open>auto split: sum.splits\<close>)
    then show ?thesis
      using True by (auto simp: Let_def split: sum.splits intro!: guarantees_bind [OF harmless_acceptingD [OF login_harmless]])
  qed
qed simp

text \<open>
  A RhpamDev resource is moved on right after its defaults were created, in its realm.
\<close>

lemma split_after:
  assumes "p @ q = t1 @ x # t2" and "x \<notin> set p"
  obtains t where "t1 = p @ t" "q = t @ x # t2"
  using assms by (auto simp: append_eq_append_conv2 append_eq_Cons_conv)

lemma harmless_no_update: "list_all (harmless S) tr \<Longrightarrow> EUpdateRhpamDev w r \<notin> set tr"
  by (auto simp: list_all_iff harmless_def)

definition defaults_created :: "string \<Rightarrow> event list \<Rightarrow> bool" where
  "defaults_created realm tr \<longleftrightarrow>
     (\<exists>t0 t kc base. tr = t0 @ t \<and> keycloak_rest kc base \<and> runs (create_defaults kc realm) t (Done (Inr ())))"

lemma defaults_created_prefix: "defaults_created realm t \<Longrightarrow> defaults_created realm (p @ t)"
  unfolding defaults_created_def by (metis append_assoc)

lemma accept_devs_defaults:
  assumes "runs (accept_devs ph devs v) tr out" and "tr = t1 @ EUpdateRhpamDev w r # t2"
  shows "defaults_created (dev_Realm w) t1"
  using assms
proof (induction devs arbitrary: ph v tr t1)
  case (Cons d devs)
  note IH = Cons.IH
  have other: "PhaseRealmProvisioned \<noteq> PhaseComplete" by (simp add: phase_consts)
  show ?case
  proof (cases "dev_Phase d = PhaseRealmProvisioned")
    case False
    with Cons show ?thesis by (simp add: Let_def)
  next
    case True
    with Cons.prems(1) have
      "runs (bind (User_authenticatedClient ph) (\<lambda>(r, ph). case r of
          Inl err \<Rightarrow> Return (Inl err, ph)
        | Inr kc \<Rightarrow> bind (create_defaults kc (dev_Realm d)) (\<lambda>x. case x of
            Inl err \<Rightarrow> Return (Inl err, ph)
          | Inr _ \<Rightarrow> UpdateRhpamDev (set_dev_phase PhasePrepare d) (\<lambda>_. accept_devs ph devs (adopt_realm d v))))) tr out"
      by (simp add: Let_def other)
    then show ?thesis
    proof (cases rule: login_runs)
      case (ok kc h a b)
      note q = runs_list_all [OF sends_harmlessD [OF keycloak_rest.create_defaults_nothing [OF ok(2)]]]
      obtain t where t: "t1 = a @ t" "b = t @ EUpdateRhpamDev w r # t2"
        using Cons.prems(2) harmless_no_update [OF ok(1)] unfolding ok(4) by (rule split_after)
      from ok(3) consider
          (stop) out' where "runs (create_defaults kc (dev_Realm d)) b out'"
        | (go) c u t' where "runs (create_defaults kc (dev_Realm d)) c (Done (Inr ()))"
            "b = c @ EUpdateRhpamDev (set_dev_phase PhasePrepare d) u # t'"
            "runs (accept_devs h devs (adopt_realm d v)) t' out"
        by (auto simp: runs_bind_iff runs_branch_iff)
      then show ?thesis
      proof cases
        case stop
        have "EUpdateRhpamDev w r \<notin> set b" by (rule harmless_no_update [OF q [OF stop]])
        with t(2) show ?thesis by simp
      next
        case go
        obtain s where s: "t = c @ s" "EUpdateRhpamDev (set_dev_phase PhasePrepare d) u # t' = s @ EUpdateRhpamDev w r # t2"
          using go(2) t(2) harmless_no_update [OF q [OF go(1)]] by (metis split_after)
        have "defaults_created (dev_Realm w) t"
        proof (cases s)
          case Nil
          with s have "t = c" "w = set_dev_phase PhasePrepare d" by auto
          with go(1) ok(2) show ?thesis 
            unfolding defaults_created_def by (intro exI [of _ "[]"] exI [of _ c]) auto
        next
          case (Cons x s')
          with s have "t' = s' @ EUpdateRhpamDev w r # t2" "t = (c @ [x]) @ s'" by auto
          with IH [OF go(3)] show ?thesis by (simp only: defaults_created_prefix)
        qed
        with t(1) show ?thesis by (simp add: defaults_created_prefix)
      qed
    qed (use Cons.prems(2) in auto)
  qed
qed simp

end
