(* ===== verification/RhpamuserProperties.thy ===== *)
theory RhpamuserProperties
  imports RhpamuserCalls Samples
begin

text \<open>
  The properties of the RhpamUser controller over every run of its Reconcile against any
  environment, each with an example.
\<close>

subsection \<open>One reconciliation\<close>

lemma User_handleResult_runs:
  "runs (User_handleResult r rq) tr out \<longleftrightarrow>
     (\<exists>err. r = Inl err \<and> tr = [] \<and> out = Done (\<lparr>rr_Requeue = False\<rparr>, Some err)) \<or>
     (\<exists>u a. r = Inr u \<and> tr = [EUpdateRhpamUser u a] \<and>
        out = Done (\<lparr>rr_Requeue = rq\<rparr>, case a of Inl err \<Rightarrow> Some err | Inr _ \<Rightarrow> None))"
  by (cases r) (auto simp: User_handleResult_def)

lemma User_Reconcile_found:
  assumes "runs (User_Reconcile r req) (e # EGetRhpamUser req (Inr u) # t) out"
  obtains out' where
      "runs (if om_DeletionTimestamp (ru_ObjectMeta u) \<noteq> None
             then User_reconcile_deletion (ruc_phaseHandler r) u else User_reconcile_phase (ruc_phaseHandler r) u) t out'"
      "\<And>res h. out = Done (res, h) \<Longrightarrow> \<exists>ph. h = r\<lparr>ruc_phaseHandler := ph\<rparr> \<and> out' = Done (res, ph)"
proof -
  from assms obtain v where e: "e = ELookupEnv ''WATCH_NAMESPACE'' v"
    by (auto simp: User_Reconcile_def GetWatchNamespace_def)
  have "v = Some (nn_Namespace req)"
    using assms e by (cases v) (simp_all add: User_Reconcile_def GetWatchNamespace_def runs_branch_iff)
  with assms e have "runs (bind (if om_DeletionTimestamp (ru_ObjectMeta u) \<noteq> None
             then User_reconcile_deletion (ruc_phaseHandler r) u else User_reconcile_phase (ruc_phaseHandler r) u)
               (\<lambda>(res, ph). Return (res, r\<lparr>ruc_phaseHandler := ph\<rparr>))) t out"
    by (simp add: User_Reconcile_def GetWatchNamespace_def)
  then obtain out' where
      "runs (if om_DeletionTimestamp (ru_ObjectMeta u) \<noteq> None
             then User_reconcile_deletion (ruc_phaseHandler r) u else User_reconcile_phase (ruc_phaseHandler r) u) t out'"
      "\<And>res h. out = Done (res, h) \<Longrightarrow> \<exists>ph. h = r\<lparr>ruc_phaseHandler := ph\<rparr> \<and> out' = Done (res, ph)"
    by (subst (asm) runs_bind_iff) auto
  then show thesis by (rule that)
qed

subsection \<open>Phases\<close>

text \<open>
  The phases a reconciliation may write for a user resource found in a phase, outside deletion
  and when it is being deleted. A phase without an entry is not handled.
\<close>

definition user_next :: "StatusPhase \<Rightarrow> StatusPhase set" where
  "user_next p =
     (if p = NoPhase then {PhaseAccepted}
      else if p = PhaseAccepted then {PhaseAccepted, PhaseReconcile}
      else if p = PhaseReconcile then {PhaseReconcile}
      else {})"

definition user_deletion_next :: "StatusPhase \<Rightarrow> StatusPhase set" where
  "user_deletion_next p = (if p = PhaseDeprovisioned then {PhaseComplete} else {PhaseDeprovisioned, PhaseDeprovisionFailed})"

lemma user_phases_distinct:
  "PhaseAccepted \<noteq> NoPhase" "PhaseReconcile \<noteq> NoPhase" "PhaseReconcile \<noteq> PhaseAccepted"
  by (simp_all add: phase_consts)

lemma User_Accepted_runs:
  assumes "runs (User_Accepted ph u) tr out"
  obtains (no_list) e where "tr = [EListRhpamDev (ru_Namespace u) (Inl e)]" "\<exists>h. out = Done (Inl e, h)"
  | (listed) devs tr' where "tr = EListRhpamDev (ru_Namespace u) (Inr devs) # tr'" "list_all (accepting devs) tr'"
      "\<forall>u' h. out = Done (Inr u', h) \<longrightarrow> adopts devs u u'" "runs (accept_devs ph devs u) tr' out"
proof -
  from assms consider e where "tr = [EListRhpamDev (ru_Namespace u) (Inl e)]" "\<exists>h. out = Done (Inl e, h)"
    | devs tr' where "tr = EListRhpamDev (ru_Namespace u) (Inr devs) # tr'" "runs (accept_devs ph devs u) tr' out"
    by (auto simp: User_Accepted_def runs_branch_iff)
  then show thesis
  proof cases
    case (2 devs tr')
    have "guarantees (accepting devs) (accept_devs ph devs u) (\<lambda>(r, _). \<forall>u'. r = Inr u' \<longrightarrow> adopts devs u u')"
      by (rule accept_devs_accepting) (simp_all add: adopts_def)
    with 2 listed show thesis unfolding guarantees_def by fastforce
  qed (rule no_list)
qed

lemma accepting_writes [simp]:
  assumes "list_all (accepting devs) tr"
  shows "user_writes tr = []" "created tr = []" "deleted tr = []"
    "\<And>w. w \<in> set (dev_writes tr) \<Longrightarrow> moves_on devs w"
  using assms by (induction tr; auto simp: accepting_def harmless_def split: event.splits)+

text \<open>
  A run that writes the user resource at most once, at its end, and nothing else of the cluster
  but RhpamDev resources; a run that reports no error did write it.
\<close>

definition settles :: "(RhpamUser \<Rightarrow> bool) \<Rightarrow> event list \<Rightarrow> (reconcile_return \<times> 'h) outcome \<Rightarrow> bool" where
  "settles P tr out \<longleftrightarrow> created tr = [] \<and> deleted tr = [] \<and> length (user_writes tr) \<le> 1 \<and>
     (\<forall>w \<in> set (user_writes tr). P w) \<and> (\<forall>res h. out = Done ((res, None), h) \<longrightarrow> user_writes tr \<noteq> [])"

definition writes_no_user :: "event list \<Rightarrow> bool" where
  "writes_no_user tr \<longleftrightarrow> user_writes tr = [] \<and> created tr = [] \<and> deleted tr = []"

lemma settles_outcome:
  assumes "settles P tr out'" and "\<And>res h. out = Done (res, h) \<Longrightarrow> \<exists>ph. h = f ph \<and> out' = Done (res, ph)"
  shows "settles P tr out"
  using assms unfolding settles_def by blast

lemma handle_settles:
  assumes m: "\<And>t o'. runs m t o' \<Longrightarrow> writes_no_user t \<and> (\<forall>u' h. o' = Done (Inr u', h) \<longrightarrow> P u')"
    and run: "runs (bind m (\<lambda>(r, ph). bind (User_handleResult r rq) (\<lambda>res. Return (res, ph)))) tr out"
  shows "settles P tr out"
proof -
  from run consider s where "runs m tr (Panicked s)" "out = Panicked s"
    | r h t1 t2 where "runs m t1 (Done (r, h))" "tr = t1 @ t2"
        "runs (bind (User_handleResult r rq) (\<lambda>res. Return (res, h))) t2 out"
    by (subst (asm) runs_bind_iff) auto
  then show ?thesis
    using m by cases (fastforce simp: settles_def writes_no_user_def runs_bind_iff User_handleResult_runs)+
qed

lemma User_Accepted_writes:
  assumes "runs (User_Accepted ph u) tr out"
  shows "writes_no_user tr \<and>
    (\<forall>u' h. out = Done (Inr u', h) \<longrightarrow> u' = u \<or>
       (\<exists>d. dev_Phase d \<in> {PhaseRealmProvisioned, PhaseComplete} \<and> u' = adopt_realm d u))"
  using assms
proof (cases rule: User_Accepted_runs)
  case (listed devs tr')
  then show ?thesis by (auto simp: writes_no_user_def adopts_def)
qed (auto simp: writes_no_user_def)

lemma User_reconcile_writes:
  assumes "runs (User_reconcile ph u) tr out"
  shows "writes_no_user tr \<and> (\<forall>u' h. out = Done (Inr u', h) \<longrightarrow> u' = u)"
  using assms by (rule User_reconcile_runs) (auto simp: writes_no_user_def)

text \<open>
  What is common to every write outside deletion: the spec is kept, the finalizer is there if it
  was there or the resource was new.
\<close>

definition user_step :: "RhpamUser \<Rightarrow> RhpamUser \<Rightarrow> bool" where
  "user_step u w \<longleftrightarrow> ru_Phase w \<in> user_next (ru_Phase u) \<and> ru_Spec w = ru_Spec u \<and>
     set (om_Finalizers (ru_ObjectMeta w)) =
       (if ru_Phase u = NoPhase then insert RhpamFinalizer else id) (set (om_Finalizers (ru_ObjectMeta u)))"

lemma User_reconcile_phase_settles:
  assumes run: "runs (User_reconcile_phase ph u) tr out" and handled: "user_next (ru_Phase u) \<noteq> {}"
  shows "settles (user_step u) tr out"
proof -
  note defs = User_reconcile_phase_def Let_def user_phases_distinct
  consider (init) "ru_Phase u = NoPhase" | (accepted) "ru_Phase u = PhaseAccepted" | (reconcile) "ru_Phase u = PhaseReconcile"
    using handled by (auto simp: user_next_def split: if_split_asm)
  then show ?thesis
  proof cases
    case init
    with run show ?thesis
      by (auto simp: defs runs_bind_iff User_handleResult_runs User_Initialize_ok settles_def user_step_def user_next_def)
  next
    case accepted
    then have run': "runs (bind (User_Accepted ph u) (\<lambda>(r, ph). bind (User_handleResult r True) (\<lambda>res. Return (res, ph)))) tr out"
      using run by (simp add: defs)
    show ?thesis
      by (rule handle_settles [OF _ run'], drule User_Accepted_writes)
         (auto simp: accepted user_step_def user_next_def user_phases_distinct adopt_realm_def)
  next
    case reconcile
    then have run': "runs (bind (User_reconcile ph u) (\<lambda>(r, ph). bind (User_handleResult r False) (\<lambda>res. Return (res, ph)))) tr out"
      using run by (simp add: defs)
    show ?thesis
      by (rule handle_settles [OF _ run'], drule User_reconcile_writes)
         (auto simp: reconcile user_step_def user_next_def user_phases_distinct)
  qed
qed

lemma User_reconcile_phase_idle:
  "runs (User_reconcile_phase ph u) tr out \<Longrightarrow> user_next (ru_Phase u) = {} \<Longrightarrow>
     tr = [] \<and> out = Done ((\<lparr>rr_Requeue = False\<rparr>, None), ph)"
  by (auto simp: User_reconcile_phase_def Let_def user_next_def split: if_split_asm)

definition sample_user_request :: NamespacedName where
  "sample_user_request = \<lparr>nn_Namespace = ''ns'', nn_Name = ''users''\<rparr>"

definition sample_user_trace :: "RhpamDev list \<Rightarrow> RhpamUser \<Rightarrow> event list" where
  "sample_user_trace devs u =
     trace_of (cluster sample_site) (User_Reconcile User_newReconciler sample_user_request) (sample_world devs [u])"

definition sample_user_outcome :: "RhpamDev list \<Rightarrow> RhpamUser \<Rightarrow> (reconcile_return \<times> ReconcileRhpamUser) outcome" where
  "sample_user_outcome devs u =
     fst (exec (cluster sample_site) (User_Reconcile User_newReconciler sample_user_request) (sample_world devs [u]))"

lemma sample_user_runs:
  "runs (User_Reconcile User_newReconciler sample_user_request) (sample_user_trace devs u) (sample_user_outcome devs u)"
  unfolding sample_user_trace_def sample_user_outcome_def by (rule exec_runs)

abbreviation user_watch :: event where
  "user_watch \<equiv> ELookupEnv ''WATCH_NAMESPACE'' (Some ''ns'')"

text \<open>
  C16. One reconciliation of a user resource that is not being deleted writes it at most once,
  creates and deletes no object of the cluster, and takes it along the phases: from none to
  "accepted", from "accepted" to itself or to "reconcile", from "reconcile" to itself, keeping
  the spec and the finalizers (the first step adds the operator's). No error is reported only
  when it was written, and a resource in any other phase is left alone.
\<close>

theorem User_Reconcile_follows_phases:
  assumes "runs (User_Reconcile r req) (e # EGetRhpamUser req (Inr u) # t) out"
    and "om_DeletionTimestamp (ru_ObjectMeta u) = None"
  shows "if user_next (ru_Phase u) = {} then t = [] \<and> (\<forall>res h. out = Done (res, h) \<longrightarrow> res = (\<lparr>rr_Requeue = False\<rparr>, None))
         else settles (user_step u) t out"
proof -
  obtain out' where run: "runs (User_reconcile_phase (ruc_phaseHandler r) u) t out'"
    and out': "\<And>res h. out = Done (res, h) \<Longrightarrow> \<exists>ph. h = r\<lparr>ruc_phaseHandler := ph\<rparr> \<and> out' = Done (res, ph)"
    by (rule User_Reconcile_found [OF assms(1)]) (simp add: assms(2))
  show ?thesis
  proof (cases "user_next (ru_Phase u) = {}")
    case True
    with User_reconcile_phase_idle [OF run True] out' show ?thesis by fastforce
  next
    case False
    have "settles (user_step u) t out" using User_reconcile_phase_settles [OF run False] out' by (rule settles_outcome)
    with False show ?thesis by simp
  qed
qed

lemma User_Reconcile_follows_phases_witness:
  "map ru_Phase (user_writes (sample_user_trace [sample_dev PhaseComplete ''r1'' [] None]
     (sample_user PhaseAccepted '''' [RhpamFinalizer] None))) = [PhaseReconcile] \<and>
   settles (user_step (sample_user PhaseAccepted '''' [RhpamFinalizer] None))
     (drop 2 (sample_user_trace [sample_dev PhaseComplete ''r1'' [] None] (sample_user PhaseAccepted '''' [RhpamFinalizer] None)))
     (sample_user_outcome [sample_dev PhaseComplete ''r1'' [] None] (sample_user PhaseAccepted '''' [RhpamFinalizer] None))"
proof -
  let ?u = "sample_user PhaseAccepted '''' [RhpamFinalizer] None" and ?ds = "[sample_dev PhaseComplete ''r1'' [] None]"
  have t: "sample_user_trace ?ds ?u = user_watch # EGetRhpamUser sample_user_request (Inr ?u) # drop 2 (sample_user_trace ?ds ?u)"
    and w: "map ru_Phase (user_writes (sample_user_trace ?ds ?u)) = [PhaseReconcile]"
    by code_simp+
  have "settles (user_step ?u) (drop 2 (sample_user_trace ?ds ?u)) (sample_user_outcome ?ds ?u)"
    using User_Reconcile_follows_phases [of User_newReconciler sample_user_request user_watch ?u
        "drop 2 (sample_user_trace ?ds ?u)" "sample_user_outcome ?ds ?u"] sample_user_runs [of ?ds ?u] t
    by (simp add: sample_user_def sample_meta_def empty_ObjectMeta_def user_next_def user_phases_distinct)
  with w show ?thesis by simp
qed

subsection \<open>Deletion\<close>

lemma User_reconcile_deletion_runs:
  assumes "runs (User_reconcile_deletion ph u) tr out"
  obtains (release) a where "ru_Phase u = PhaseDeprovisioned"
      "tr = [EUpdateRhpamUser (set_user_phase PhaseComplete (set_user_finalizers [] u)) a]"
      "\<exists>err. out = Done ((\<lparr>rr_Requeue = False\<rparr>, err), ph)"
  | (panic) s base where "ru_Phase u \<noteq> PhaseDeprovisioned" "list_all (harmless (spares base (ru_Realm u))) tr" "out = Panicked s"
  | (failed) base t a err h where "ru_Phase u \<noteq> PhaseDeprovisioned"
      "tr = t @ [EUpdateRhpamUser (set_user_phase PhaseDeprovisionFailed u) a]"
      "list_all (harmless (spares base (ru_Realm u))) t" "out = Done ((\<lparr>rr_Requeue = False\<rparr>, Some err), h)"
      "\<exists>h. runs (User_Deprovision ph u) t (Done ((u, Some err), h))"
  | (succeeded) base t a err h where "ru_Phase u \<noteq> PhaseDeprovisioned"
      "tr = t @ [EUpdateRhpamUser (set_user_phase PhaseDeprovisioned u) a]"
      "list_all (harmless (spares base (ru_Realm u))) t" "out = Done ((\<lparr>rr_Requeue = True\<rparr>, err), h)"
      "\<exists>h. runs (User_Deprovision ph u) t (Done ((set_user_phase PhaseDeprovisioned u, None), h))"
proof (cases "ru_Phase u = PhaseDeprovisioned")
  case True
  with assms show thesis
    by (auto simp: User_reconcile_deletion_def runs_bind_iff User_handleResult_runs intro!: release)
next
  case False
  with assms consider (p) s where "runs (User_Deprovision ph u) tr (Panicked s)" "out = Panicked s"
    | (e) u' err h t a where "runs (User_Deprovision ph u) t (Done ((u', Some err), h))"
        "tr = t @ [EUpdateRhpamUser (set_user_phase PhaseDeprovisionFailed u') a]"
        "out = Done ((\<lparr>rr_Requeue = False\<rparr>, Some err), h)"
    | (n) u' h t a err where "runs (User_Deprovision ph u) t (Done ((u', None), h))"
        "tr = t @ [EUpdateRhpamUser u' a]" "out = Done ((\<lparr>rr_Requeue = True\<rparr>, err), h)"
    by (auto simp: User_reconcile_deletion_def runs_bind_iff runs_branch_iff User_handleResult_runs)
  then show thesis
  proof cases
    case p
    from p(1) show thesis by (rule User_Deprovision_runs) (rule panic [OF False _ p(2)])
  next
    case e
    from e(1) obtain base where b: "list_all (harmless (spares base (ru_Realm u))) t" "u' = u"
      by (rule User_Deprovision_runs) auto
    show thesis by (rule failed [OF False _ b(1) e(3)]) (use e b in auto)
  next
    case n
    from n(1) obtain base where b: "list_all (harmless (spares base (ru_Realm u))) t" "u' = set_user_phase PhaseDeprovisioned u"
      by (rule User_Deprovision_runs) auto
    show thesis by (rule succeeded [OF False _ b(1) n(3)]) (use n b in auto)
  qed
qed

text \<open>
  C17. A user resource that is being deleted is released, its finalizers emptied, only from the
  phase "deprovisioned", and then without a single request. From any other phase it keeps its
  finalizers and is written once: as "deprovisioned", after a deprovisioning of its realm that
  succeeded, with the request put back, or as "deprovision failed", with the error reported.
\<close>

theorem User_release_is_safe:
  assumes "runs (User_Reconcile r req) (e # EGetRhpamUser req (Inr u) # t) (Done ((res, err), r'))"
    and "om_DeletionTimestamp (ru_ObjectMeta u) \<noteq> None"
  shows "if ru_Phase u = PhaseDeprovisioned
    then \<exists>a. t = [EUpdateRhpamUser (set_user_phase PhaseComplete (set_user_finalizers [] u)) a] \<and> \<not> rr_Requeue res
    else \<exists>t1 a e1 h.
      t = t1 @ [EUpdateRhpamUser (set_user_phase (if e1 = None then PhaseDeprovisioned else PhaseDeprovisionFailed) u) a] \<and>
      user_writes t1 = [] \<and> rr_Requeue res = (e1 = None) \<and> (e1 \<noteq> None \<longrightarrow> err = e1) \<and>
      runs (User_Deprovision (ruc_phaseHandler r) u) t1
        (Done ((if e1 = None then set_user_phase PhaseDeprovisioned u else u, e1), h))"
proof -
  obtain ph where run: "runs (User_reconcile_deletion (ruc_phaseHandler r) u) t (Done ((res, err), ph))"
    by (rule User_Reconcile_found [OF assms(1)]) (auto simp: assms(2))
  from run show ?thesis
  proof (cases rule: User_reconcile_deletion_runs)
    case release
    then show ?thesis by auto
  next
    case (failed base t1 a e1 h)
    then show ?thesis by (auto intro!: exI [of _ t1] exI [of _ a] exI [of _ "Some e1"])
  next
    case (succeeded base t1 a e1 h)
    then show ?thesis by (auto intro!: exI [of _ t1] exI [of _ a] exI [of _ "None :: error option"])
  qed simp
qed

lemma User_release_is_safe_witness:
  "\<exists>t1 a. drop 2 (sample_user_trace [] (sample_user PhaseReconcile ''r1'' [RhpamFinalizer] (Some ''now''))) =
     t1 @ [EUpdateRhpamUser (sample_user PhaseDeprovisioned ''r1'' [RhpamFinalizer] (Some ''now'')) a]"
proof -
  let ?u = "sample_user PhaseReconcile ''r1'' [RhpamFinalizer] (Some ''now'')"
  let ?v = "sample_user PhaseDeprovisioned ''r1'' [RhpamFinalizer] (Some ''now'')"
  have t: "sample_user_trace [] ?u = user_watch # EGetRhpamUser sample_user_request (Inr ?u) # drop 2 (sample_user_trace [] ?u)"
    and oc: "case sample_user_outcome [] ?u of Done ((res, None), r') \<Rightarrow> rr_Requeue res | _ \<Rightarrow> False"
    by code_simp+
  from oc obtain res r' where o': "sample_user_outcome [] ?u = Done ((res, None), r')" "rr_Requeue res"
    by (auto split: outcome.split_asm option.split_asm prod.split_asm)
  have v: "set_user_phase PhaseDeprovisioned ?u = ?v" by (simp add: sample_user_def setter_defs)
  have "runs (User_Reconcile User_newReconciler sample_user_request)
      (user_watch # EGetRhpamUser sample_user_request (Inr ?u) # drop 2 (sample_user_trace [] ?u)) (Done ((res, None), r'))"
    using sample_user_runs [of "[]" ?u] t o' by simp
  from User_release_is_safe [OF this] o'(2) show ?thesis
    by (auto simp: sample_user_def sample_meta_def phase_consts v [unfolded sample_user_def sample_meta_def])
qed

subsection \<open>What is never deleted\<close>

definition sparing :: "RhpamUser \<Rightarrow> event list \<Rightarrow> bool" where
  "sparing u tr \<longleftrightarrow> (\<exists>base. \<forall>q \<in> set (requests tr). spares base (ru_Realm u) (rq_Method q) (rq_URL q))"

lemma harmless_sparing: "list_all (harmless (spares base (ru_Realm u))) tr \<Longrightarrow> sparing u tr"
  unfolding sparing_def using harmless_requests by fast

lemma sparing_write [simp]: "sparing u (t @ [EUpdateRhpamUser w a]) \<longleftrightarrow> sparing u t"
  by (simp add: sparing_def)

lemma accepting_sparing:
  assumes "list_all (accepting devs) tr"
  shows "sparing u tr"
proof -
  have "\<forall>q \<in> set (requests tr). deletes_nothing (rq_Method q) (rq_URL q)"
    using assms by (induction tr) (auto simp: accepting_def harmless_def split: event.splits)
  then show ?thesis unfolding sparing_def by (auto intro: deletes_nothing_spares)
qed

lemma handle_sparing:
  assumes "\<And>t o'. runs m t o' \<Longrightarrow> sparing u t"
    and "runs (bind m (\<lambda>(r, ph). bind (User_handleResult r rq) (\<lambda>res. Return (res, ph)))) tr out"
  shows "sparing u tr"
proof -
  from assms(2) consider s where "runs m tr (Panicked s)"
    | r h t1 t2 where "runs m t1 (Done (r, h))" "tr = t1 @ t2"
        "runs (bind (User_handleResult r rq) (\<lambda>res. Return (res, h))) t2 out"
    by (subst (asm) runs_bind_iff) auto
  then show ?thesis
  proof cases
    case 1
    with assms(1) show ?thesis by blast
  next
    case 2
    from 2(3) have "requests t2 = []" by (auto simp: runs_bind_iff User_handleResult_runs)
    with assms(1) [OF 2(1)] 2(2) show ?thesis by (simp add: sparing_def)
  qed
qed

lemma User_reconcile_phase_sparing:
  assumes run: "runs (User_reconcile_phase ph u) tr out"
  shows "sparing u tr"
proof -
  note defs = User_reconcile_phase_def Let_def user_phases_distinct
  have acc: "sparing u t" if "runs (User_Accepted ph u) t o'" for t o'
    using that by (rule User_Accepted_runs) (auto simp: sparing_def dest!: accepting_sparing [of _ _ u])
  have rec: "sparing u t" if "runs (User_reconcile ph u) t o'" for t o'
    using that by (rule User_reconcile_runs) (rule harmless_sparing)
  consider (init) "ru_Phase u = NoPhase" | (accepted) "ru_Phase u = PhaseAccepted" | (reconcile) "ru_Phase u = PhaseReconcile"
    | (idle) "user_next (ru_Phase u) = {}"
    by (metis user_next_def)
  then show ?thesis
  proof cases
    case init
    with run show ?thesis
      by (auto simp: defs runs_bind_iff User_handleResult_runs User_Initialize_ok sparing_def)
  next
    case accepted
    with run have "runs (bind (User_Accepted ph u) (\<lambda>(r, ph). bind (User_handleResult r True) (\<lambda>res. Return (res, ph)))) tr out"
      by (simp add: defs)
    with handle_sparing acc show ?thesis by blast
  next
    case reconcile
    with run have "runs (bind (User_reconcile ph u) (\<lambda>(r, ph). bind (User_handleResult r False) (\<lambda>res. Return (res, ph)))) tr out"
      by (simp add: defs)
    with handle_sparing rec show ?thesis by blast
  next
    case idle
    with User_reconcile_phase_idle [OF run] show ?thesis by (simp add: sparing_def)
  qed
qed

text \<open>
  C15. The default roles are safe: whatever Keycloak lists and whatever the resource asks for, a
  reconciliation of a user resource sends no deletion but of a role of its own realm that is not
  one of the seven defaults, or of something below the users of its realm.
\<close>

theorem default_roles_never_deleted:
  assumes "runs (User_Reconcile r req) (e # EGetRhpamUser req (Inr u) # t) out"
  shows "\<exists>base. \<forall>q \<in> set (requests t). rq_Method q = ''DELETE'' \<longrightarrow>
    (\<exists>role. rq_URL q = base @ realm_path (ru_Realm u) @ ''/roles/'' @ role \<and> role \<notin> set defaultRoles) \<or>
    (\<exists>rest. rq_URL q = base @ realm_path (ru_Realm u) @ ''/users/'' @ rest)"
proof -
  obtain out' where run: "runs (if om_DeletionTimestamp (ru_ObjectMeta u) \<noteq> None
      then User_reconcile_deletion (ruc_phaseHandler r) u else User_reconcile_phase (ruc_phaseHandler r) u) t out'"
    by (rule User_Reconcile_found [OF assms(1)])
  have "sparing u t"
  proof (cases "om_DeletionTimestamp (ru_ObjectMeta u) = None")
    case True
    with run User_reconcile_phase_sparing show ?thesis by simp
  next
    case False
    with run have "runs (User_reconcile_deletion (ruc_phaseHandler r) u) t out'" by simp
    then show ?thesis
      by (rule User_reconcile_deletion_runs) (auto dest: harmless_sparing, simp add: sparing_def)
  qed
  then show ?thesis unfolding sparing_def spares_def isDefaultRole_iff .
qed

text \<open>A server with one role that nobody asks for: it is deleted.\<close>

definition old_role_http :: "Request \<Rightarrow> world \<Rightarrow> (int \<times> string) \<times> world" where
  "old_role_http q w =
     (if rq_Method q = ''GET'' \<and> rev (take 6 (rev (rq_URL q))) = ''/roles'' then ((200, ''[{\"name\":\"old\"}]''), w)
      else sample_http q w)"

definition old_role_site :: site where
  "old_role_site = sample_site\<lparr>s_http := old_role_http\<rparr>"

definition old_role_trace :: "event list" where
  "old_role_trace = trace_of (cluster old_role_site) (User_Reconcile User_newReconciler sample_user_request)
      (sample_world [] [sample_user PhaseReconcile ''r1'' [] None])"

lemma default_roles_never_deleted_witness:
  "list_ex (\<lambda>q. rq_Method q = ''DELETE'') (requests old_role_trace) \<and>
    (\<exists>base. \<forall>q \<in> set (requests (drop 2 old_role_trace)). spares base ''r1'' (rq_Method q) (rq_URL q))"
proof
  let ?u = "sample_user PhaseReconcile ''r1'' [] None"
  show "list_ex (\<lambda>q. rq_Method q = ''DELETE'') (requests old_role_trace)"
    unfolding old_role_trace_def by code_simp
  have t: "old_role_trace = user_watch # EGetRhpamUser sample_user_request (Inr ?u) # drop 2 old_role_trace"
    unfolding old_role_trace_def by code_simp
  have "\<exists>out. runs (User_Reconcile User_newReconciler sample_user_request) old_role_trace out"
    unfolding old_role_trace_def by (rule exI, rule exec_runs)
  then obtain out where "runs (User_Reconcile User_newReconciler sample_user_request)
      (user_watch # EGetRhpamUser sample_user_request (Inr ?u) # drop 2 old_role_trace) out"
    using t by auto
  from default_roles_never_deleted [OF this] show "\<exists>base. \<forall>q \<in> set (requests (drop 2 old_role_trace)). spares base ''r1'' (rq_Method q) (rq_URL q)"
    by (simp add: sample_user_def spares_def isDefaultRole_iff)
qed

end
