(* ===== verification/Lifecycle.thy ===== *)
theory Lifecycle
  imports RhpamdevProperties RhpamuserProperties
begin

text \<open>
  The life of an RhpamDev resource as both controllers drive it: an abstract machine over the
  phases in the order a resource goes through them, and the proof that every write of either
  controller is a step of it. The order of the phases is a linear order of the library, so
  "forward" is its strict order.
\<close>

subsection \<open>The abstract machine\<close>

datatype phase = New | Accepted | Provisioning | Provisioned | ToPrepare | Prepared
  | DbInstalled | BcInstalled | DbReady | Completed | Gone

primrec phase_name :: "phase \<Rightarrow> StatusPhase" where
  "phase_name New = NoPhase"
| "phase_name Accepted = PhaseAccepted"
| "phase_name Provisioning = PhaseRealmProvisioning"
| "phase_name Provisioned = PhaseRealmProvisioned"
| "phase_name ToPrepare = PhasePrepare"
| "phase_name Prepared = PhasePrepared"
| "phase_name DbInstalled = PhaseDatabaseInstalled"
| "phase_name BcInstalled = PhaseBusinessCentralInstalled"
| "phase_name DbReady = PhaseDatabaseReady"
| "phase_name Completed = PhaseComplete"
| "phase_name Gone = PhaseDeprovisioned"

primrec rank :: "phase \<Rightarrow> nat" where
  "rank New = 0" | "rank Accepted = 1" | "rank Provisioning = 2" | "rank Provisioned = 3"
| "rank ToPrepare = 4" | "rank Prepared = 5" | "rank DbInstalled = 6" | "rank BcInstalled = 7"
| "rank DbReady = 8" | "rank Completed = 9" | "rank Gone = 10"

lemma rank_inject [simp]: "rank p = rank q \<longleftrightarrow> p = q"
  by (cases p; cases q; simp)

lemma phase_name_inject [simp]: "phase_name p = phase_name q \<longleftrightarrow> p = q"
  by (cases p; cases q; simp add: phase_consts)

instantiation phase :: linorder
begin

definition less_eq_phase :: "phase \<Rightarrow> phase \<Rightarrow> bool" where
  "p \<le> q \<longleftrightarrow> rank p \<le> rank q"

definition less_phase :: "phase \<Rightarrow> phase \<Rightarrow> bool" where
  "p < q \<longleftrightarrow> rank p < rank q"

instance
  by standard (auto simp: less_eq_phase_def less_phase_def)

end

text \<open>
  The steps: the phases of the RhpamDev controller, the one of the RhpamUser controller, and
  deletion. The mark "realm provisioning" is written with its error dropped, so provisioning
  also starts from "accepted".
\<close>

inductive lifecycle :: "phase \<Rightarrow> phase \<Rightarrow> bool" where
  accept: "lifecycle New Accepted"
| mark: "lifecycle Accepted Provisioning"
| provision: "lifecycle Provisioning Provisioned"
| provision_unmarked: "lifecycle Accepted Provisioned"
| create_defaults: "lifecycle Provisioned ToPrepare"
| prepare: "lifecycle ToPrepare Prepared"
| install_database: "lifecycle Prepared DbInstalled"
| install_business_central: "lifecycle DbInstalled BcInstalled"
| database_ready: "lifecycle BcInstalled DbReady"
| install_kie_server: "lifecycle DbReady Completed"
| delete: "lifecycle p Gone"

inductive_cases lifecycle_from_Gone: "lifecycle Gone q"
inductive_simps lifecycle_simps:
  "lifecycle p Accepted" "lifecycle p Provisioning" "lifecycle p Provisioned" "lifecycle p ToPrepare"
  "lifecycle p Prepared" "lifecycle p DbInstalled" "lifecycle p BcInstalled" "lifecycle p DbReady"
  "lifecycle p Completed" "lifecycle p New"

lemma rank_bound: "rank p \<le> 10"
  by (cases p) simp_all

lemma lifecycle_forward: "lifecycle p q \<Longrightarrow> p \<le> q"
  by (induction rule: lifecycle.induct) (simp_all add: less_eq_phase_def rank_bound)

subsection \<open>Histories of one resource\<close>

text \<open>
  The phases a resource went through, oldest first: consecutive entries are equal (the resource
  was written for another reason) or a step.
\<close>

definition lives :: "phase list \<Rightarrow> bool" where
  "lives ps \<longleftrightarrow> ps \<noteq> [] \<and> hd ps = New \<and> successively (\<lambda>p q. p = q \<or> lifecycle p q) ps"

lemma lives_snoc: "ps \<noteq> [] \<Longrightarrow> lives (ps @ [q]) \<longleftrightarrow> lives ps \<and> (last ps = q \<or> lifecycle (last ps) q)"
  by (auto simp: lives_def successively_append_iff)

lemma lives_sorted: "lives ps \<Longrightarrow> sorted ps"
proof -
  assume "lives ps"
  then have "successively (\<le>) ps"
    unfolding lives_def by (auto elim!: successively_mono dest: lifecycle_forward)
  then show ?thesis
    by (simp add: successively_conv_sorted_wrt transp_on_le)
qed

text \<open>
  What a resource went through before it reached a phase: every stage of the installation, but
  for the mark, which may be missing.
\<close>

definition stages :: "phase list" where
  "stages = [New, Accepted, Provisioned, ToPrepare, Prepared, DbInstalled, BcInstalled, DbReady, Completed]"

definition earlier :: "phase \<Rightarrow> phase list" where
  "earlier p = (if p = Gone then [New] else filter (\<lambda>q. q \<le> p) stages)"

lemma lifecycle_earlier:
  "lifecycle p q \<Longrightarrow> set (earlier q) \<subseteq> insert New (insert q (insert p (set (earlier p))))"
  by (cases rule: lifecycle.cases, assumption) (auto simp: earlier_def stages_def less_eq_phase_def)

lemma lives_earlier: "lives ps \<Longrightarrow> p \<in> set ps \<Longrightarrow> set (earlier p) \<subseteq> set ps"
proof (induction ps arbitrary: p rule: rev_induct)
  case (snoc q ps)
  show ?case
  proof (cases "ps = []")
    case True
    with snoc.prems show ?thesis by (auto simp: lives_def earlier_def stages_def less_eq_phase_def)
  next
    case False
    with snoc.prems have ps: "lives ps" and step: "last ps = q \<or> lifecycle (last ps) q"
      by (auto simp: lives_snoc)
    from False ps have "New \<in> set ps" "last ps \<in> set ps" by (auto simp: lives_def) (metis hd_in_set)
    moreover from this(2) have "set (earlier (last ps)) \<subseteq> set ps" by (rule snoc.IH [OF ps])
    ultimately show ?thesis
      using step snoc.IH [OF ps] snoc.prems(2) lifecycle_earlier [of "last ps" q] by (cases "p = q") auto
  qed
qed simp

end
