(* ===== verification/RhpamdevInstall.thy ===== *)
theory RhpamdevInstall
  imports RhpamdevCalls Cluster
begin

text \<open>
  Installing from templates against an object store: what createResource asks for, creates and
  returns on each of its branches, and, when the store and the templates behave, that a list of
  resources is completely there afterwards, that objects already there are left alone, and that
  installing once more creates nothing.
\<close>

subsection \<open>One resource, against any environment\<close>

text \<open>The object a template stands for: the template filled in and read as YAML.\<close>

definition templated :: "RhpamDev \<Rightarrow> Resource \<Rightarrow> Object result io" where
  "templated cr res = bind (newResourceHelper cr) (\<lambda>h. ResourceHelper_createResource h res)"

definition template_error :: "error \<Rightarrow> error" where
  "template_error err = ErrorString (''Error parsing templates: '' @ error_text err)"

definition ensure_object :: "DevPhaseHandler \<Rightarrow> RhpamDev \<Rightarrow> Resource \<Rightarrow> Object \<Rightarrow> unit result io" where
  "ensure_object ph cr res resource =
     GetObject (ob_TypeMeta resource) (key_of (dev_Namespace cr) (res_name res)) (\<lambda>r. case r of
       Inr _ \<Rightarrow> Return (Inr ())
     | Inl err \<Rightarrow>
         if \<not> IsNotFound err
         then Return (Inl (ErrorString (''Error reading resource '' @ [CHR 0x27] @ res_name res @ [CHR 0x27] @ '': '' @ error_text err)))
         else (case SetControllerReference cr resource (dph_scheme ph) of
           Inl err \<Rightarrow> Return (Inl (ErrorString (''Error setting the custom resource as owner: '' @ error_text err)))
         | Inr resource' \<Rightarrow> CreateObject resource' (\<lambda>r. case r of
             Inl err \<Rightarrow> Return (Inl (ErrorString (''Error creating resource: '' @ error_text err)))
           | Inr _ \<Rightarrow> Return (Inr ()))))"

lemma createResource_split:
  "createResource ph cr res = check_err template_error (templated cr res) (ensure_object ph cr res)"
  unfolding createResource_def templated_def ensure_object_def check_err_def template_error_def by simp

lemma templated_internal: "guarantees internal (templated cr res) (\<lambda>_. True)"
  unfolding templated_def
  by (rule guarantees_bind [OF newResourceHelper_internal ResourceHelper_createResource_internal])

text \<open>The branches of a run, once the template is read.\<close>

lemma ensure_object_runs:
  assumes "runs (ensure_object ph cr res ob) tr out"
  obtains (present) x where "tr = [EGetObject (ob_TypeMeta ob) (key_of (dev_Namespace cr) (res_name res)) (Inr x)]"
      "out = Done (Inr ())"
  | (unreadable) e e' where "tr = [EGetObject (ob_TypeMeta ob) (key_of (dev_Namespace cr) (res_name res)) (Inl e)]"
      "\<not> IsNotFound e" "out = Done (Inl e')"
  | (unowned) e e' e'' where "tr = [EGetObject (ob_TypeMeta ob) (key_of (dev_Namespace cr) (res_name res)) (Inl e)]"
      "IsNotFound e" "SetControllerReference cr ob (dph_scheme ph) = Inl e'" "out = Done (Inl e'')"
  | (created) e ob' c where "tr = [EGetObject (ob_TypeMeta ob) (key_of (dev_Namespace cr) (res_name res)) (Inl e),
        ECreateObject ob' c]" "IsNotFound e" "SetControllerReference cr ob (dph_scheme ph) = Inr ob'"
      "out = Done (Inr ()) \<longleftrightarrow> (\<exists>x. c = Inr x)"
  using assms unfolding ensure_object_def
  by (auto simp: runs_branch_iff)

lemma createResource_runs:
  assumes "runs (createResource ph cr res) tr out"
  obtains (untemplated) e where "list_all internal tr" "out = Done (Inl e)"
  | (templated) ob t1 t2 where "tr = t1 @ t2" "list_all internal t1" "runs (templated cr res) t1 (Done (Inr ob))"
      "runs (ensure_object ph cr res ob) t2 out"
  | (panicked) s where "list_all internal tr" "out = Panicked s"
proof -
  note q = runs_list_all [OF templated_internal]
  from assms show thesis
    unfolding createResource_split runs_check_err_iff by (auto dest: q intro: that)
qed

subsection \<open>A list of resources, in a store\<close>

text \<open>
  The template of a resource always gives this object, its metadata carries the name the
  operator looks up, and nobody else controls it.
\<close>

definition installs :: "'w env \<Rightarrow> DevPhaseHandler \<Rightarrow> RhpamDev \<Rightarrow> (Resource \<Rightarrow> Object) \<Rightarrow> Resource \<Rightarrow> bool" where
  "installs E ph cr tob res \<longleftrightarrow>
     (\<forall>w. fst (exec E (templated cr res) w) = Done (Inr (tob res))) \<and>
     object_key (tob res) = key_of (dev_Namespace cr) (res_name res) \<and>
     (\<exists>ob'. SetControllerReference cr (tob res) (dph_scheme ph) = Inr ob')"

lemma SetControllerReference_key:
  "SetControllerReference cr ob scheme = Inr ob' \<Longrightarrow> store_key ob' = store_key ob"
  by (erule SetControllerReference_ok) (simp add: store_key_def object_key_def)

definition owned :: "DevPhaseHandler \<Rightarrow> RhpamDev \<Rightarrow> Object \<Rightarrow> Object" where
  "owned ph cr ob = own_if_possible cr ob (dph_scheme ph)"

definition add_missing :: "DevPhaseHandler \<Rightarrow> RhpamDev \<Rightarrow> Object \<Rightarrow> store \<Rightarrow> store" where
  "add_missing ph cr ob m = (if m (store_key ob) = None then m(store_key ob \<mapsto> owned ph cr ob) else m)"

lemma add_missing_simps [simp]:
  "add_missing ph cr ob m (store_key ob) \<noteq> None"
  "m k = Some x \<Longrightarrow> add_missing ph cr ob m k = Some x"
  "m (store_key ob) \<noteq> None \<Longrightarrow> add_missing ph cr ob m = m"
  by (auto simp: add_missing_def)

context object_store
begin

lemma createResource_exec:
  assumes "installs E ph cr tob res"
  shows "fst (exec E (createResource ph cr res) w) = Done (Inr ())"
    and "objs (snd (exec E (createResource ph cr res) w)) = add_missing ph cr (tob res) (objs w)"
    and "objs w (store_key (tob res)) \<noteq> None \<Longrightarrow> created (trace_of E (createResource ph cr res) w) = []"
proof -
  let ?ob = "tob res" and ?k = "key_of (dev_Namespace cr) (res_name res)"
  obtain w1 where w1: "exec E (templated cr res) w = (Done (Inr ?ob), w1)"
    using assms unfolding installs_def by (metis prod.collapse)
  have objs1: "objs w1 = objs w"
    using guaranteed_internal_keeps [OF templated_internal, of cr res w] w1 by simp
  obtain ob' where ref: "SetControllerReference cr ?ob (dph_scheme ph) = Inr ob'"
    using assms by (auto simp: installs_def)
  have sk: "store_key ?ob = (ob_TypeMeta ?ob, ?k)"
    using assms by (simp add: installs_def store_key_def)
  have sk': "store_key ob' = store_key ?ob" by (rule SetControllerReference_key [OF ref])
  have own: "owned ph cr ?ob = ob'" using ref by (simp add: owned_def own_if_possible_def)
  have quiet1: "created (trace_of E (templated cr res) w) = []"
    using runs_list_all [OF internal_quietD [OF templated_internal] exec_runs] by (rule quiet_writes)
  obtain g w2 where g: "env_GetObject E (ob_TypeMeta ?ob) ?k w1 = (g, w2)" by fastforce
  have objs2: "objs w2 = objs w" using get_keeps [of "ob_TypeMeta ?ob" ?k w1] g objs1 by simp
  note defs = createResource_split exec_check_err trace_of_check_err w1 ensure_object_def g
  have "fst (exec E (createResource ph cr res) w) = Done (Inr ()) \<and>
        objs (snd (exec E (createResource ph cr res) w)) = add_missing ph cr ?ob (objs w) \<and>
        (objs w (store_key ?ob) \<noteq> None \<longrightarrow> created (trace_of E (createResource ph cr res) w) = [])"
  proof (cases "objs w (store_key ?ob)")
    case None
    with get_absent [of w1 "ob_TypeMeta ?ob" ?k] objs1 sk g obtain e where e: "g = Inl e" "IsNotFound e" by auto
    obtain c w3 where c: "env_CreateObject E ob' w2 = (c, w3)" by fastforce
    with create_absent [of w2 ob'] None objs2 sk' obtain x where "c = Inr x" "objs w3 = (objs w)(store_key ?ob \<mapsto> ob')"
      by auto
    with None e ref own c show ?thesis by (simp add: defs add_missing_def)
  next
    case (Some ob)
    with get_present [of w1 "ob_TypeMeta ?ob" ?k ob] objs1 sk g have "g = Inr ob" by simp
    with Some quiet1 objs2 show ?thesis by (simp add: defs)
  qed
  then show "fst (exec E (createResource ph cr res) w) = Done (Inr ())"
    "objs (snd (exec E (createResource ph cr res) w)) = add_missing ph cr ?ob (objs w)"
    "objs w (store_key ?ob) \<noteq> None \<Longrightarrow> created (trace_of E (createResource ph cr res) w) = []" by auto
qed

lemma createResources_exec:
  assumes "\<forall>res \<in> set ress. installs E ph cr tob res"
  shows "fst (exec E (createResources ph cr ress) w) = Done (Inr ()) \<and>
    objs (snd (exec E (createResources ph cr ress) w)) = fold (add_missing ph cr) (map tob ress) (objs w) \<and>
    ((\<forall>res \<in> set ress. objs w (store_key (tob res)) \<noteq> None) \<longrightarrow>
       created (trace_of E (createResources ph cr ress) w) = [])"
  using assms unfolding createResources_def
proof (induction ress arbitrary: w)
  case (Cons res ress)
  from Cons.prems have here: "installs E ph cr tob res" by simp
  obtain w1 where w1: "exec E (createResource ph cr res) w = (Done (Inr ()), w1)"
    using createResource_exec(1) [OF here] by (metis prod.collapse)
  have o1: "objs w1 = add_missing ph cr (tob res) (objs w)"
    using createResource_exec(2) [OF here, of w] w1 by simp
  have IH: "fst (exec E (for_each ress (createResource ph cr)) w1) = Done (Inr ()) \<and>
    objs (snd (exec E (for_each ress (createResource ph cr)) w1)) = fold (add_missing ph cr) (map tob ress) (objs w1) \<and>
    ((\<forall>res \<in> set ress. objs w1 (store_key (tob res)) \<noteq> None) \<longrightarrow>
       created (trace_of E (for_each ress (createResource ph cr)) w1) = [])"
    using Cons.prems by (intro Cons.IH) simp
  moreover have "objs w (store_key (tob res)) \<noteq> None \<Longrightarrow> objs w1 = objs w" using o1 by simp
  ultimately show ?case
    using o1 createResource_exec(3) [OF here, of w]
    by (simp add: exec_check_err trace_of_check_err w1)
qed simp

lemma fold_add_missing:
  "m k = Some x \<Longrightarrow> fold (add_missing ph cr) obs m k = Some x"
  by (induction obs arbitrary: m) auto

lemma fold_add_missing_present:
  "ob \<in> set obs \<Longrightarrow> fold (add_missing ph cr) obs m (store_key ob) \<noteq> None"
proof (induction obs arbitrary: m)
  case (Cons ob' obs)
  show ?case
  proof (cases "ob = ob'")
    case True
    obtain x where "add_missing ph cr ob m (store_key ob) = Some x" using add_missing_simps(1) by blast
    then have "fold (add_missing ph cr) obs (add_missing ph cr ob m) (store_key ob) = Some x" by (rule fold_add_missing)
    with True show ?thesis by simp
  next
    case False
    with Cons show ?thesis by simp
  qed
qed simp

text \<open>
  The contract of installing: it succeeds, everything asked for is there, what was there stays,
  and installing again creates nothing.
\<close>

lemma install_complete:
  assumes "\<forall>res \<in> set ress. installs E ph cr tob res"
    and w': "exec E (createResources ph cr ress) w = (out, w')"
  shows "out = Done (Inr ())"
    and "res \<in> set ress \<Longrightarrow> objs w' (store_key (tob res)) \<noteq> None"
    and "objs w k = Some ob \<Longrightarrow> objs w' k = Some ob"
    and "created (trace_of E (createResources ph cr ress) w') = []"
proof -
  note r = createResources_exec [OF assms(1)]
  have o: "objs w' = fold (add_missing ph cr) (map tob ress) (objs w)" using r [of w] w' by simp
  show "out = Done (Inr ())" using r [of w] w' by simp
  show present: "objs w' (store_key (tob res)) \<noteq> None" if "res \<in> set ress" for res
    using fold_add_missing_present [of "tob res" "map tob ress"] that unfolding o by simp
  show "objs w k = Some ob \<Longrightarrow> objs w' k = Some ob" unfolding o by (rule fold_add_missing)
  show "created (trace_of E (createResources ph cr ress) w') = []" using r [of w'] present by blast
qed

end

end
