(* ===== verification/RhpamdevProvision.thy ===== *)
theory RhpamdevProvision
  imports RhpamdevInstall Samples
begin

text \<open>
  Provisioning a realm, when it succeeds: the requests sent, in order, and the secrets left for
  the two servers; the tokens that names and passwords are made of; the database credentials.
\<close>

subsection \<open>Secrets\<close>

definition secret_object :: "RhpamDev \<Rightarrow> string \<Rightarrow> (string \<times> string) list \<Rightarrow> Object" where
  "secret_object cr name data =
     \<lparr>ob_TypeMeta = gvk_Secret, ob_ObjectMeta = labelled_meta cr name, ob_Payload = SecretData data ''Opaque''\<rparr>"

lemma createSecret_runs:
  assumes "runs (createSecret ph cr name data) tr out"
  obtains (present) x where "tr = [EGetObject gvk_Secret (key_of (dev_Namespace cr) name) (Inr x)]" "out = Done (Inr ())"
  | (created) e c where "tr = [EGetObject gvk_Secret (key_of (dev_Namespace cr) name) (Inl e),
        ECreateObject (owned ph cr (secret_object cr name data)) c]"
      "out = Done (case c of Inl err \<Rightarrow> Inl err | Inr _ \<Rightarrow> Inr ())"
  using assms unfolding createSecret_def Let_def secret_object_def owned_def
  by (auto simp: runs_branch_iff)

lemma owned_simps [simp]:
  "ob_Payload (owned ph cr ob) = ob_Payload ob" "store_key (owned ph cr ob) = store_key ob"
  "om_Name (ob_ObjectMeta (owned ph cr ob)) = om_Name (ob_ObjectMeta ob)"
proof -
  show "ob_Payload (owned ph cr ob) = ob_Payload ob"
    "om_Name (ob_ObjectMeta (owned ph cr ob)) = om_Name (ob_ObjectMeta ob)"
    by (auto simp: owned_def own_if_possible_def split: sum.splits elim: SetControllerReference_ok)
  show "store_key (owned ph cr ob) = store_key ob"
    by (auto simp: owned_def own_if_possible_def split: sum.splits dest: SetControllerReference_key)
qed

text \<open>What creating a secret can leave: nothing, or the secret with these data.\<close>

lemma createSecret_created:
  assumes "runs (createSecret ph cr name data) tr out"
  shows "created tr = [] \<or> created tr = [owned ph cr (secret_object cr name data)]" and "requests tr = []"
  using assms by (auto elim!: createSecret_runs)

subsection \<open>The realm\<close>

text \<open>What a realm secret says: the address of Keycloak, the realm, and the client.\<close>

definition realm_secret_for :: "string \<Rightarrow> string \<Rightarrow> Object \<Rightarrow> bool" where
  "realm_secret_for url realm ob \<longleftrightarrow>
     secret_data (ob_Payload ob) ''sso-url'' = url \<and> secret_data (ob_Payload ob) ''realm'' = realm \<and>
     (om_Name (ob_ObjectMeta ob) = BusinessCentralRealmSecret \<and> secret_data (ob_Payload ob) ''client'' = ''rhpambc'' \<or>
      om_Name (ob_ObjectMeta ob) = KieServerRealmSecret \<and> secret_data (ob_Payload ob) ''client'' = ''rhpamks'')"

definition provisioning_requests :: "string \<Rightarrow> string \<Rightarrow> string \<Rightarrow> string \<Rightarrow> (string \<times> string) list" where
  "provisioning_requests base realm i j =
     (let clients = base @ realm_path realm @ ''/clients'' in
      [(''POST'', base @ ''/auth/admin/realms''), (''POST'', clients), (''POST'', clients), (''POST'', clients),
       (''GET'', clients), (''GET'', clients @ ''/'' @ i @ ''/client-secret''),
       (''GET'', clients), (''GET'', clients @ ''/'' @ j @ ''/client-secret'')])"

lemma sent_internal [simp]: "list_all internal tr \<Longrightarrow> sent tr = []"
  by (simp add: sent_def)

lemma loadTemplate_internal: "guarantees internal (loadTemplate name path data) (\<lambda>_. True)"
  unfolding loadTemplate_render by auto

lemma find_client_id_internal: "guarantees internal (find_client_id cs i) (\<lambda>_. True)"
  by (induction cs) auto

lemma NewRealmHelper_internal: "guarantees internal NewRealmHelper (\<lambda>_. True)"
  unfolding NewRealmHelper_def by (rule guarantees_bind [OF templatePath_internal]) auto

lemmas provision_internal =
  runs_list_all [OF loadTemplate_internal] runs_list_all [OF find_client_id_internal]
  runs_list_all [OF NewRealmHelper_internal] runs_list_all [OF generateToken_internal]

context keycloak_rest
begin

lemma createRealmClient_sent:
  "runs (createRealmClient kc h realm ps) tr (Done (Inr x)) \<Longrightarrow>
     sent tr = [(''POST'', base @ realm_path realm @ ''/clients'')] \<and> created tr = []"
  unfolding createRealmClient_def LoadRealmClientTemplate_def runs_check_done_iff
  by (auto dest!: provision_internal calls_ok [OF CreateClient_calls])

lemma getClientSecret_sent:
  "runs (getClientSecret kc realm i) tr (Done (Inr x)) \<Longrightarrow>
     (\<exists>j. sent tr = [(''GET'', base @ realm_path realm @ ''/clients''),
            (''GET'', base @ realm_path realm @ ''/clients/'' @ j @ ''/client-secret'')]) \<and> created tr = []"
  unfolding getClientSecret_def runs_check_done_iff runs_bind_done_iff
  by (auto dest!: provision_internal calls_ok [OF ListClients_calls] calls_ok [OF GetClientSecret_calls])

text \<open>A successful provisioning, as its steps.\<close>

lemma provision_with_success:
  assumes "runs (provision_with ph kc d) tr (Done (Inr d'))"
  shows "(\<exists>i j. sent tr = provisioning_requests base (dev_Realm d') i j) \<and>
    (\<forall>ob \<in> set (created tr). realm_secret_for (kf_AdminUrl (dph_keycloakFactory ph) @ ''/auth'') (dev_Realm d') ob) \<and>
    (\<exists>token. dev_Realm d' = dev_Name d @ ''-'' @ token \<and> length token = 6 \<and> set token \<subseteq> set letterRunes)"
proof -
  let ?url = "kf_AdminUrl (dph_keycloakFactory ph) @ ''/auth''"
  from assms obtain h t0 token t1 json t2 x t3 where
      steps: "runs NewRealmHelper t0 (Done h)" "runs (generateToken 6) t1 (Done token)"
        "runs (LoadRealmTemplate h \<lparr>rp_RealmId = dev_Name d @ ''-'' @ token\<rparr>) t2 (Done (Inr json))"
        "runs (kc_CreateRealm kc json) t3 (Done (Inr x))"
    and rest: "\<exists>u1 u2 u3 u4 u5 u6 u7 p1 p2 p3 y1 y2 y3 b y5 k y7.
        tr = t0 @ t1 @ t2 @ t3 @ u1 @ u2 @ u3 @ u4 @ u5 @ u6 @ u7 \<and>
        runs (createRealmClient kc h (dev_Name d @ ''-'' @ token) p1) u1 (Done (Inr y1)) \<and>
        runs (createRealmClient kc h (dev_Name d @ ''-'' @ token) p2) u2 (Done (Inr y2)) \<and>
        runs (createRealmClient kc h (dev_Name d @ ''-'' @ token) p3) u3 (Done (Inr y3)) \<and>
        runs (getClientSecret kc (dev_Name d @ ''-'' @ token) ''rhpambc'') u4 (Done (Inr b)) \<and>
        runs (createRealmSecret ph d BusinessCentralRealmSecret ?url (dev_Name d @ ''-'' @ token) ''rhpambc'' b) u5 (Done (Inr y5)) \<and>
        runs (getClientSecret kc (dev_Name d @ ''-'' @ token) ''rhpamks'') u6 (Done (Inr k)) \<and>
        runs (createRealmSecret ph d KieServerRealmSecret ?url (dev_Name d @ ''-'' @ token) ''rhpamks'' k) u7 (Done (Inr y7)) \<and>
        dev_Realm d' = dev_Name d @ ''-'' @ token"
    unfolding provision_with_def Let_def runs_bind_done_iff runs_check_done_iff
    by (elim exE conjE) (simp, blast)
  define realm where "realm = dev_Name d @ ''-'' @ token"
  from rest obtain u1 u2 u3 u4 u5 u6 u7 p1 p2 p3 y1 y2 y3 b y5 k y7 where
      tr: "tr = t0 @ t1 @ t2 @ t3 @ u1 @ u2 @ u3 @ u4 @ u5 @ u6 @ u7" and d': "dev_Realm d' = realm"
    and c: "runs (createRealmClient kc h realm p1) u1 (Done (Inr y1))"
        "runs (createRealmClient kc h realm p2) u2 (Done (Inr y2))"
        "runs (createRealmClient kc h realm p3) u3 (Done (Inr y3))"
    and g: "runs (getClientSecret kc realm ''rhpambc'') u4 (Done (Inr b))"
        "runs (getClientSecret kc realm ''rhpamks'') u6 (Done (Inr k))"
    and sec: "runs (createRealmSecret ph d BusinessCentralRealmSecret ?url realm ''rhpambc'' b) u5 (Done (Inr y5))"
        "runs (createRealmSecret ph d KieServerRealmSecret ?url realm ''rhpamks'' k) u7 (Done (Inr y7))"
    unfolding realm_def by blast
  note start = provision_internal(3) [OF steps(1)] provision_internal(4) [OF steps(2)]
    provision_internal(1) [OF steps(3) [unfolded LoadRealmTemplate_def]] calls_ok [OF CreateRealm_calls steps(4)]
  note clients = c [THEN createRealmClient_sent]
  obtain i j where secrets: "sent u4 = [(''GET'', base @ realm_path realm @ ''/clients''),
            (''GET'', base @ realm_path realm @ ''/clients/'' @ i @ ''/client-secret'')]" "created u4 = []"
      "sent u6 = [(''GET'', base @ realm_path realm @ ''/clients''),
            (''GET'', base @ realm_path realm @ ''/clients/'' @ j @ ''/client-secret'')]" "created u6 = []"
    using g [THEN getClientSecret_sent] by blast
  note made = createSecret_created [OF sec(1) [unfolded createRealmSecret_def]]
    createSecret_created [OF sec(2) [unfolded createRealmSecret_def]]
  have "sent tr = provisioning_requests base realm i j"
    using start clients secrets made(2,4) by (simp add: tr provisioning_requests_def Let_def sent_def [of u5] sent_def [of u7])
  moreover have "\<forall>ob \<in> set (created tr). realm_secret_for ?url realm ob"
    using start clients secrets made(1,3)
    by (auto simp: tr realm_secret_for_def secret_object_def labelled_meta_def)
  moreover have "length token = 6 \<and> set token \<subseteq> set letterRunes"
    using runs_result [OF generateToken_internal steps(2)] .
  ultimately show ?thesis using d' by (auto simp: realm_def)
qed

end

text \<open>
  C13. A provisioning that succeeds sent exactly these requests, in this order: it created the
  realm, then three clients in it, then looked up the clients and read the secret of one, twice.
  The realm is named after the resource and a token of six letters or digits, the resource it
  returns carries the name, and every secret it created points at Keycloak's address, at this
  very realm and at the client of the server it is for.
\<close>

theorem provisioning_consistent:
  assumes "runs (provision_with ph (client_interface c) d) tr (Done (Inr d'))"
  shows "(\<exists>i j. sent tr = provisioning_requests (cl_URL c) (dev_Realm d') i j) \<and>
    (\<forall>ob \<in> set (created tr). realm_secret_for (kf_AdminUrl (dph_keycloakFactory ph) @ ''/auth'') (dev_Realm d') ob) \<and>
    (\<exists>token. dev_Realm d' = dev_Name d @ ''-'' @ token \<and> length token = 6 \<and> set token \<subseteq> set letterRunes)"
  by (rule client.provision_with_success [OF assms])

definition sample_keycloak_http :: "Request \<Rightarrow> world \<Rightarrow> (int \<times> string) \<times> world" where
  "sample_keycloak_http q w =
     (if rq_Method q = ''POST'' then (201, '''')
      else if rev (take 8 (rev (rq_URL q))) = ''/clients''
      then (200, ''[{\"id\":\"i1\",\"clientId\":\"rhpambc\"},{\"id\":\"i2\",\"clientId\":\"rhpamks\"}]'')
      else (200, ''{\"value\":\"s\"}''), w)"

definition sample_keycloak_site :: site where
  "sample_keycloak_site = sample_site\<lparr>s_files := [(''t/realm.json'', ''{}''), (''t/realm-client.json'', ''{}'')],
     s_http := sample_keycloak_http\<rparr>"

lemma provisioning_consistent_witness:
  "\<exists>d'. (\<exists>i j. sent (trace_of (cluster sample_keycloak_site)
       (provision_with (Dev_NewPhaseHandler sample_scheme) (client_interface \<lparr>cl_URL = ''u'', cl_token = ''t''\<rparr>)
          (sample_dev PhaseRealmProvisioning '''' [] None)) (sample_world [] [])) =
       provisioning_requests ''u'' (dev_Realm d') i j) \<and> starts_with ''rhpam-'' (dev_Realm d')"
proof -
  let ?m = "provision_with (Dev_NewPhaseHandler sample_scheme) (client_interface \<lparr>cl_URL = ''u'', cl_token = ''t''\<rparr>)
          (sample_dev PhaseRealmProvisioning '''' [] None)"
  let ?E = "cluster sample_keycloak_site" and ?w = "sample_world [] []"
  have "case fst (exec ?E ?m ?w) of Done (Inr d') \<Rightarrow> starts_with ''rhpam-'' (dev_Realm d') | _ \<Rightarrow> False"
    by code_simp
  then obtain d' where d': "fst (exec ?E ?m ?w) = Done (Inr d')" "starts_with ''rhpam-'' (dev_Realm d')"
    by (auto split: outcome.splits sum.splits)
  have "runs ?m (trace_of ?E ?m ?w) (Done (Inr d'))" using exec_runs [of ?m ?E ?w] d'(1) by simp
  from provisioning_consistent [OF this] d'(2) show ?thesis by auto
qed

subsection \<open>Creating a resource\<close>

lemma internal_no_lookup: "list_all internal t \<Longrightarrow> EGetObject g k r \<notin> set t"
  by (auto simp: list_all_iff internal_def)

text \<open>
  C28. Creating a resource from its template makes at most one object, and only after a lookup
  of the resource's name in the namespace of the custom resource was answered "not found": the
  object is the one the template gives, with the controller reference of the custom resource
  among its owners and nothing else changed. It reports success exactly when the object was there
  or its creation was accepted; a lookup that fails otherwise is an error.
\<close>

theorem createResource_contract:
  assumes "runs (createResource ph cr res) tr out"
  shows "created tr = [] \<and> (out = Done (Inr ()) \<longleftrightarrow> (\<exists>g x. EGetObject g (key_of (dev_Namespace cr) (res_name res)) (Inr x) \<in> set tr)) \<or>
    (\<exists>t ob ob' e c gvk refs. tr = t @ [EGetObject (ob_TypeMeta ob) (key_of (dev_Namespace cr) (res_name res)) (Inl e), ECreateObject ob' c] \<and>
       runs (templated cr res) t (Done (Inr ob)) \<and> IsNotFound e \<and>
       dph_scheme ph ''RhpamDev'' = Inr gvk \<and> NewControllerRef (dev_ObjectMeta cr) gvk \<in> set refs \<and>
       ob' = ob\<lparr>ob_ObjectMeta := (ob_ObjectMeta ob)\<lparr>om_OwnerReferences := refs\<rparr>\<rparr> \<and>
       (out = Done (Inr ()) \<longleftrightarrow> (\<exists>x. c = Inr x)))"
  using assms
proof (cases rule: createResource_runs)
  case (templated ob t1 t2)
  from templated(4) show ?thesis
  proof (cases rule: ensure_object_runs)
    case (created e ob' c)
    from created(3) obtain gvk refs where "dph_scheme ph ''RhpamDev'' = Inr gvk"
      "NewControllerRef (dev_ObjectMeta cr) gvk \<in> set refs"
      "ob' = ob\<lparr>ob_ObjectMeta := (ob_ObjectMeta ob)\<lparr>om_OwnerReferences := refs\<rparr>\<rparr>"
      by (rule SetControllerReference_ok)
    with created(1,2,4) templated(1,3) show ?thesis by (intro disjI2 exI conjI) simp_all
  qed (use templated(1,2) internal_no_lookup [OF templated(2)] in auto)
qed (auto simp: internal_no_lookup)

lemma createResource_contract_witness:
  "\<exists>ob' t. created (trace_of (cluster sample_site) (createResource (Dev_NewPhaseHandler sample_scheme)
      (sample_dev PhasePrepare ''r'' [] None) ServiceAccountResource) (sample_world [] [])) = [ob'] \<and>
     om_OwnerReferences (ob_ObjectMeta ob') \<noteq> []"
proof -
  let ?m = "createResource (Dev_NewPhaseHandler sample_scheme) (sample_dev PhasePrepare ''r'' [] None) ServiceAccountResource"
  have "length (created (trace_of (cluster sample_site) ?m (sample_world [] []))) = 1" by code_simp
  with createResource_contract [OF exec_runs [of ?m "cluster sample_site" "sample_world [] []"]]
  show ?thesis by auto
qed

text \<open>
  C20. Against an API server and templates that behave (a lookup answers with the object or with
  "not found", a creation adds a missing object; every template gives an object of the name that
  is looked up), installing a list of resources succeeds, leaves every resource of the list in
  place and every object that was there as it was, and installing once more creates nothing.
\<close>

theorem createResources_idempotent:
  assumes "object_store E objs" and "\<forall>res \<in> set ress. installs E ph cr tob res"
    and "exec E (createResources ph cr ress) w = (out, w')"
  shows "out = Done (Inr ()) \<and> (\<forall>res \<in> set ress. objs w' (store_key (tob res)) \<noteq> None) \<and>
    (\<forall>k ob. objs w k = Some ob \<longrightarrow> objs w' k = Some ob) \<and>
    created (trace_of E (createResources ph cr ress) w') = []"
  using object_store.install_complete [OF assms] by auto

lemma sample_installs:
  "installs (cluster sample_site) (Dev_NewPhaseHandler sample_scheme) (sample_dev PhasePrepare ''r'' [] None)
     (\<lambda>_. sample_account) ServiceAccountResource"
proof -
  have r: "render service_account_template (RhpamdevParameters_fields (template_params (sample_dev PhasePrepare ''r'' [] None))) =
      Inr ''kind: ServiceAccount\<newline>metadata:\<newline>  name: rhpam\<newline>  namespace: ns''"
    by code_simp
  have t: "fst (exec (cluster sample_site) (templated (sample_dev PhasePrepare ''r'' [] None) ServiceAccountResource) w) =
      Done (Inr sample_account)" for w
    using r by (simp add: templated_def newResourceHelper_def newTemplateHelper_def Getenv_def ResourceHelper_createResource_def
        loadYamlTemplate_render check_err_def cluster_def sample_site_def sample_vars_def sample_yaml_def
        ServiceAccountResource_def ServiceAccountTemplate_def)
  show ?thesis
    unfolding installs_def using t
    by (auto simp: sample_account_def sample_defs object_key_def key_of_def ServiceAccountResource_def ServiceAccount_def
        SetControllerReference_def Dev_NewPhaseHandler_def)
qed

lemma createResources_idempotent_witness:
  "lookup_object (snd (exec (cluster sample_site) (createResources (Dev_NewPhaseHandler sample_scheme)
      (sample_dev PhasePrepare ''r'' [] None) [ServiceAccountResource]) (sample_world [] []))) (store_key sample_account) \<noteq> None"
proof -
  let ?m = "createResources (Dev_NewPhaseHandler sample_scheme) (sample_dev PhasePrepare ''r'' [] None) [ServiceAccountResource]"
  obtain out w' where e: "exec (cluster sample_site) ?m (sample_world [] []) = (out, w')" by fastforce
  from createResources_idempotent [OF cluster.object_store_axioms _ e, of "\<lambda>_. sample_account"] sample_installs
  show ?thesis by (simp add: e)
qed

subsection \<open>Tokens\<close>

text \<open>
  The source of math/rand: seeding sets its state from the seed alone, and every number is a
  function of the state, which it moves on.
\<close>

definition seeded :: "'w env \<Rightarrow> ('w \<Rightarrow> 's) \<Rightarrow> (int \<Rightarrow> 's) \<Rightarrow> (nat \<Rightarrow> 's \<Rightarrow> nat \<times> 's) \<Rightarrow> bool" where
  "seeded E src start nxt \<longleftrightarrow>
     (\<forall>t w. src (env_RandSeed E t w) = start t) \<and>
     (\<forall>n w. fst (env_RandIntn E n w) = fst (nxt n (src w)) \<and> src (snd (env_RandIntn E n w)) = snd (nxt n (src w)))"

primrec draw :: "(nat \<Rightarrow> 's \<Rightarrow> nat \<times> 's) \<Rightarrow> nat \<Rightarrow> 's \<Rightarrow> string" where
  "draw nxt 0 s = []"
| "draw nxt (Suc n) s =
     letterRunes ! (fst (nxt (length letterRunes) s) mod length letterRunes) # draw nxt n (snd (nxt (length letterRunes) s))"

lemma random_runes_draw:
  "seeded E src start nxt \<Longrightarrow> fst (exec E (random_runes n) w) = Done (draw nxt n (src w))"
proof (induction n arbitrary: w)
  case (Suc n)
  obtain i w1 where i: "env_RandIntn E (length letterRunes) w = (i, w1)" by fastforce
  have n: "fst (nxt (length letterRunes) (src w)) = i" "snd (nxt (length letterRunes) (src w)) = src w1"
    using Suc.prems i unfolding seeded_def by (metis fst_conv, metis snd_conv)
  obtain w2 where "exec E (random_runes n) w1 = (Done (draw nxt n (src w1)), w2)"
    using Suc.IH [OF Suc.prems, of w1] by (metis prod.collapse)
  with i n show ?case by (simp add: exec_bind)
qed simp

lemma draw_prefix: "n \<le> m \<Longrightarrow> draw nxt n s = take n (draw nxt m s)"
proof (induction n arbitrary: m s)
  case (Suc n)
  then show ?case by (cases m) auto
qed simp

text \<open>
  C29. The generator is seeded anew, with the clock in seconds, for every token, so two tokens
  made in the same second are prefixes of each other: the four characters that end the database
  user name are the first four of the ten of the database password, unless the second changes
  between the two calls of generateToken.
\<close>

theorem tokens_of_one_second:
  assumes "seeded E src start nxt"
    and "exec E (generateToken n) w = (Done u, w1)" and "exec E (generateToken m) w' = (Done p, w2)"
    and "fst (env_TimeNow E w) = fst (env_TimeNow E w')" and "n \<le> m"
  shows "u = take n p"
proof -
  have tok: "fst (exec E (generateToken k) v) = Done (draw nxt k (start (fst (env_TimeNow E v))))" for k v
    using random_runes_draw [OF assms(1)] assms(1) unfolding generateToken_def seeded_def
    by (simp add: prod.case_eq_if)
  from tok [of n w] tok [of m w'] assms(2-4) have "u = draw nxt n (start (fst (env_TimeNow E w)))"
    "p = draw nxt m (start (fst (env_TimeNow E w)))" by auto
  with draw_prefix [OF assms(5)] show ?thesis by simp
qed

lemma tokens_of_one_second_witness:
  "\<exists>u p. fst (exec (cluster sample_site) (generateToken 4) (sample_world [] [])) = Done u \<and>
     fst (exec (cluster sample_site) (generateToken 10) (sample_world [] [])) = Done p \<and> u = take 4 p"
proof -
  let ?E = "cluster sample_site"
  have s: "seeded ?E w_rand (\<lambda>t. t) (\<lambda>n s. (nat (s mod 62), (s * 5 + 3) mod 1024))"
    by (simp add: seeded_def cluster_def)
  have d: "\<exists>u w1. exec ?E (generateToken k) (sample_world [] []) = (Done u, w1)" for k
    using random_runes_draw [OF s, of k] by (simp add: generateToken_def cluster_def prod_eq_iff)
  obtain u w1 p w2 where e: "exec ?E (generateToken 4) (sample_world [] []) = (Done u, w1)"
      "exec ?E (generateToken 10) (sample_world [] []) = (Done p, w2)"
    using d [of 4] d [of 10] by blast
  from tokens_of_one_second [OF s e] e show ?thesis by simp
qed

end
