(* ===== verification/TemplateFiles.thy ===== *)
theory TemplateFiles
  imports GoTemplate GoJson KeycloakTypes KeycloakTemplates
begin

text \<open>
  The JSON templates of templates/rhsso that the RhpamUser controller fills in, as they are in the
  repository, and what becomes of the names put into them: text/template copies a value into
  the text unescaped, so the JSON the server reads says what was meant when the value is made
  of characters that stand for themselves in a JSON string, and a quote breaks out of it.
\<close>

subsection \<open>The files\<close>

definition role_json :: string where
  "role_json =
     ''{\<newline>    \"name\": \"{{ .RoleName }}\",\<newline>    \"scopeParamRequired\": false,\<newline>    \"composite\": false,\<newline>    \"clientRole\": false\<newline>  }''"

definition role_json_parts :: "item list" where
  "role_json_parts = [Text ''{\<newline>    \"name\": \"'',
     Field ''RoleName'',
     Text ''\",\<newline>    \"scopeParamRequired\": false,\<newline>    \"composite\": false,\<newline>    \"clientRole\": false\<newline>  }'']"

lemma role_json_Parse: "template_Parse role_json = Inr role_json_parts"
  by code_simp

definition user_json :: string where
  "user_json =
     ''{\<newline>    \"access\": {\<newline>      \"impersonate\": true,\<newline>      \"manage\": true,\<newline>      \"manageGroupMembership\": true,\<newline>      \"mapRoles\": true,\<newline>      \"view\": true\<newline>    },\<newline>    \"credentials\" : [ {\<newline>      \"type\" : \"password\",\<newline>      \"value\": \"{{ .Password }}\",\<newline>      \"temporary\": false\<newline>    } ],\<newline>    \"disableableCredentialTypes\": [\<newline>      \"password\"\<newline>    ],\<newline>    \"emailVerified\": false,\<newline>    \"enabled\": true,\<newline>    \"notBefore\": 0,\<newline>    \"requiredActions\": [],\<newline>    \"totp\": false,\<newline>    \"username\": \"{{ .Username }}\"\<newline>  }''"

definition user_json_parts :: "item list" where
  "user_json_parts = [Text ''{\<newline>    \"access\": {\<newline>      \"impersonate\": true,\<newline>      \"manage\": true,\<newline>      \"manageGroupMembership\": true,\<newline>      \"mapRoles\": true,\<newline>      \"view\": true\<newline>    },\<newline>    \"credentials\" : [ {\<newline>      \"type\" : \"password\",\<newline>      \"value\": \"'',
     Field ''Password'',
     Text ''\",\<newline>      \"temporary\": false\<newline>    } ],\<newline>    \"disableableCredentialTypes\": [\<newline>      \"password\"\<newline>    ],\<newline>    \"emailVerified\": false,\<newline>    \"enabled\": true,\<newline>    \"notBefore\": 0,\<newline>    \"requiredActions\": [],\<newline>    \"totp\": false,\<newline>    \"username\": \"'',
     Field ''Username'',
     Text ''\"\<newline>  }'']"

lemma user_json_Parse: "template_Parse user_json = Inr user_json_parts"
  by code_simp

definition user_role_json_template :: string where
  "user_role_json_template =
     ''[{\<newline>    \"name\": \"{{ .RoleName }}\",\<newline>    \"id\": \"{{ .RoleId }}\"\<newline>  }]''"

definition user_role_json_template_parts :: "item list" where
  "user_role_json_template_parts = [Text ''[{\<newline>    \"name\": \"'',
     Field ''RoleName'',
     Text ''\",\<newline>    \"id\": \"'',
     Field ''RoleId'',
     Text ''\"\<newline>  }]'']"

lemma user_role_json_template_Parse: "template_Parse user_role_json_template = Inr user_role_json_template_parts"
  by code_simp


subsection \<open>Scanning a text in pieces\<close>

text \<open>The scanner over a piece of text: the tokens so far and the mode it is left in.\<close>

fun lex_run :: "lmode \<Rightarrow> string \<Rightarrow> (token list \<times> lmode) option" where
  "lex_run m [] = Some ([], m)"
| "lex_run m (c # cs) =
     (case lex_step m c of None \<Rightarrow> None
      | Some (ts, m') \<Rightarrow> (case lex_run m' cs of None \<Rightarrow> None | Some (us, m'') \<Rightarrow> Some (ts @ us, m'')))"

lemma json_lex_run:
  "lex_run m s = Some (ts, m') \<Longrightarrow> json_lex m (s @ cs) = map_option (\<lambda>us. ts @ us) (json_lex m' cs)"
proof (induction s arbitrary: m ts)
  case (Cons c s)
  then show ?case
    by (cases "json_lex m' cs") (auto split: option.splits prod.splits)
qed simp

text \<open>A piece that opens a string literal, a plain text, the quote and the rest.\<close>

lemma json_lex_literal:
  assumes "lex_run LDef pre = Some (ts, LStr None [])" and "list_all plain_char s"
  shows "json_lex LDef (pre @ s @ CHR 0x22 # post) = map_option (\<lambda>us. ts @ TStr s # us) (json_lex LDef post)"
  using json_lex_run [OF assms(1)] lex_string_literal [OF assms(2)]
  by (simp add: option.map_comp comp_def)

lemma parse_tokens_step:
  "tok_step s t = Some s' \<Longrightarrow> parse_tokens s (t # ts) = parse_tokens s' ts"
  by simp

subsection \<open>Roles\<close>

lemma role_json_value:
  assumes "list_all plain_char n"
  shows "\<exists>json. render role_json (RoleParameters_fields \<lparr>rop_RoleName = n\<rparr>) = Inr json \<and>
    json_parse json = Some (JObj [(''name'', JStr n), (''scopeParamRequired'', JBool False),
      (''composite'', JBool False), (''clientRole'', JBool False)])"
proof -
  let ?pre = "''{\<newline>    \"name\": \"''"
  let ?post = "'',\<newline>    \"scopeParamRequired\": false,\<newline>    \"composite\": false,\<newline>    \"clientRole\": false\<newline>  }''"
  have r: "render role_json (RoleParameters_fields \<lparr>rop_RoleName = n\<rparr>) = Inr (?pre @ n @ CHR 0x22 # ?post)"
    by (simp add: render_def role_json_Parse role_json_parts_def RoleParameters_fields_def)
  have "lex_run LDef ?pre = Some ([TLBrace, TStr ''name'', TColon], LStr None [])"
    and post: "json_lex LDef ?post = Some [TComma, TStr ''scopeParamRequired'', TColon, TFalse, TComma,
      TStr ''composite'', TColon, TFalse, TComma, TStr ''clientRole'', TColon, TFalse, TRBrace]"
    by code_simp+
  from json_lex_literal [OF this(1) assms, of ?post] post
  have "json_lex LDef (?pre @ n @ CHR 0x22 # ?post) = Some ([TLBrace, TStr ''name'', TColon, TStr n,
      TComma, TStr ''scopeParamRequired'', TColon, TFalse, TComma,
      TStr ''composite'', TColon, TFalse, TComma, TStr ''clientRole'', TColon, TFalse, TRBrace])"
    by simp
  then have "json_parse (?pre @ n @ CHR 0x22 # ?post) = Some (JObj [(''name'', JStr n), (''scopeParamRequired'', JBool False),
      (''composite'', JBool False), (''clientRole'', JBool False)])"
    by (simp add: json_parse_def tok_step_def)
  with r show ?thesis by blast
qed

lemma role_json_zero:
  assumes "list_all plain_char n"
  shows "\<exists>json. render role_json (RoleParameters_fields \<lparr>rop_RoleName = n\<rparr>) = Inr json \<and>
    Unmarshal decode_KeycloakRole json = Inr (zero_KeycloakRole\<lparr>kr_Name := n\<rparr>)"
proof -
  obtain json where j: "render role_json (RoleParameters_fields \<lparr>rop_RoleName = n\<rparr>) = Inr json"
    "json_parse json = Some (JObj [(''name'', JStr n), (''scopeParamRequired'', JBool False),
      (''composite'', JBool False), (''clientRole'', JBool False)])"
    using role_json_value [OF assms] by blast
  have "Unmarshal decode_KeycloakRole json = Inr (zero_KeycloakRole\<lparr>kr_Name := n\<rparr>)"
    using j(2) by (simp add: Unmarshal_def decode_KeycloakRole_def store_struct_def KeycloakRole_fields_def find_field_def
        store_string_def store_bool_def zero_KeycloakRole_def)
  with j(1) show ?thesis by blast
qed

lemma role_json_decodes:
  "list_all plain_char n \<Longrightarrow> \<exists>json r. render role_json (RoleParameters_fields \<lparr>rop_RoleName = n\<rparr>) = Inr json \<and>
     Unmarshal decode_KeycloakRole json = Inr r \<and> kr_Name r = n"
  using role_json_zero by fastforce

text \<open>
  C30. A role whose name is made of characters that stand for themselves in JSON (no quote, no
  backslash, no control character) is sent as it is meant: role.json filled in with the name
  decodes to a realm role of exactly this name.
\<close>

theorem role_template_roundtrip:
  assumes "list_all plain_char n"
  shows "\<exists>json. render role_json (RoleParameters_fields \<lparr>rop_RoleName = n\<rparr>) = Inr json \<and>
    Unmarshal decode_KeycloakRole json = Inr (zero_KeycloakRole\<lparr>kr_Name := n\<rparr>)"
  by (rule role_json_zero [OF assms])

lemma role_template_roundtrip_witness:
  "\<exists>json. render role_json (RoleParameters_fields \<lparr>rop_RoleName = ''process-admin''\<rparr>) = Inr json"
  using role_template_roundtrip [of "''process-admin''"] by (auto simp: plain_char_def char_code_def)

subsection \<open>Users\<close>

lemma user_json_value:
  assumes "list_all plain_char n" and "list_all plain_char p"
  shows "\<exists>json kvs. render user_json (UserParameters_fields \<lparr>up_Username = n, up_Password = p\<rparr>) = Inr json \<and>
    json_parse json = Some (JObj kvs) \<and> map_of kvs ''username'' = Some (JStr n) \<and>
    map_of kvs ''credentials'' = Some (JArr [JObj [(''type'', JStr ''password''), (''value'', JStr p), (''temporary'', JBool False)]])"
proof -
  let ?pre = "''{\<newline>    \"access\": {\<newline>      \"impersonate\": true,\<newline>      \"manage\": true,\<newline>      \"manageGroupMembership\": true,\<newline>      \"mapRoles\": true,\<newline>      \"view\": true\<newline>    },\<newline>    \"credentials\" : [ {\<newline>      \"type\" : \"password\",\<newline>      \"value\": \"''"
  let ?mid = "'',\<newline>      \"temporary\": false\<newline>    } ],\<newline>    \"disableableCredentialTypes\": [\<newline>      \"password\"\<newline>    ],\<newline>    \"emailVerified\": false,\<newline>    \"enabled\": true,\<newline>    \"notBefore\": 0,\<newline>    \"requiredActions\": [],\<newline>    \"totp\": false,\<newline>    \"username\": \"''"
  let ?post = "''\<newline>  }''"
  let ?json = "?pre @ p @ CHR 0x22 # ?mid @ n @ CHR 0x22 # ?post"
  have r: "render user_json (UserParameters_fields \<lparr>up_Username = n, up_Password = p\<rparr>) = Inr ?json"
    by (simp add: render_def user_json_Parse user_json_parts_def UserParameters_fields_def)
  have pre: "lex_run LDef ?pre = Some ([TLBrace, TStr ''access'', TColon, TLBrace,
      TStr ''impersonate'', TColon, TTrue, TComma, TStr ''manage'', TColon, TTrue, TComma,
      TStr ''manageGroupMembership'', TColon, TTrue, TComma, TStr ''mapRoles'', TColon, TTrue, TComma,
      TStr ''view'', TColon, TTrue, TRBrace, TComma, TStr ''credentials'', TColon, TLBrack, TLBrace,
      TStr ''type'', TColon, TStr ''password'', TComma, TStr ''value'', TColon], LStr None [])"
    and mid: "lex_run LDef ?mid = Some ([TComma, TStr ''temporary'', TColon, TFalse, TRBrace, TRBrack, TComma,
      TStr ''disableableCredentialTypes'', TColon, TLBrack, TStr ''password'', TRBrack, TComma,
      TStr ''emailVerified'', TColon, TFalse, TComma, TStr ''enabled'', TColon, TTrue, TComma,
      TStr ''notBefore'', TColon, TNum ''0'', TComma, TStr ''requiredActions'', TColon, TLBrack, TRBrack, TComma,
      TStr ''totp'', TColon, TFalse, TComma, TStr ''username'', TColon], LStr None [])"
    and post: "json_lex LDef ?post = Some [TRBrace]"
    by code_simp+
  from json_lex_literal [OF mid assms(1), of ?post] post
  have m: "json_lex LDef (?mid @ n @ CHR 0x22 # ?post) = Some ([TComma, TStr ''temporary'', TColon, TFalse, TRBrace, TRBrack, TComma,
      TStr ''disableableCredentialTypes'', TColon, TLBrack, TStr ''password'', TRBrack, TComma,
      TStr ''emailVerified'', TColon, TFalse, TComma, TStr ''enabled'', TColon, TTrue, TComma,
      TStr ''notBefore'', TColon, TNum ''0'', TComma, TStr ''requiredActions'', TColon, TLBrack, TRBrack, TComma,
      TStr ''totp'', TColon, TFalse, TComma, TStr ''username'', TColon, TStr n, TRBrace])"
    by simp
  note json_lex_literal [OF pre assms(2), of "?mid @ n @ CHR 0x22 # ?post"]
  also note m
  finally have "\<exists>kvs. json_parse ?json = Some (JObj kvs) \<and> map_of kvs ''username'' = Some (JStr n) \<and>
    map_of kvs ''credentials'' = Some (JArr [JObj [(''type'', JStr ''password''), (''value'', JStr p), (''temporary'', JBool False)]])"
    by (simp add: json_parse_def tok_step_def)
  with r show ?thesis by blast
qed

text \<open>
  C31. A user whose name and password are made of such characters is sent as it is meant:
  user.json filled in reads as a JSON object with this user name and, as its only credential, a
  permanent password of this value.
\<close>

theorem user_template_roundtrip:
  assumes "list_all plain_char n" and "list_all plain_char p"
  shows "\<exists>json kvs. render user_json (UserParameters_fields \<lparr>up_Username = n, up_Password = p\<rparr>) = Inr json \<and>
    json_parse json = Some (JObj kvs) \<and> map_of kvs ''username'' = Some (JStr n) \<and>
    map_of kvs ''credentials'' = Some (JArr [JObj [(''type'', JStr ''password''), (''value'', JStr p), (''temporary'', JBool False)]])"
  by (rule user_json_value [OF assms])

lemma user_template_roundtrip_witness:
  "\<exists>json. render user_json (UserParameters_fields \<lparr>up_Username = ''adminuser'', up_Password = ''admin1!''\<rparr>) = Inr json"
  using user_template_roundtrip [of "''adminuser''" "''admin1!''"] by (auto simp: plain_char_def char_code_def)

subsection \<open>Role mappings\<close>

lemma user_role_json_value:
  assumes "list_all plain_char n" and "list_all plain_char i"
  shows "\<exists>json. render user_role_json_template (UserRoleParameters_fields \<lparr>urp_RoleName = n, urp_RoleId = i\<rparr>) = Inr json \<and>
    Unmarshal (decode_slice (decode_ptr decode_KeycloakRole)) json = Inr [Some (zero_KeycloakRole\<lparr>kr_Name := n, kr_ID := i\<rparr>)]"
proof -
  let ?pre = "''[{\<newline>    \"name\": \"''"
  let ?mid = "'',\<newline>    \"id\": \"''"
  let ?post = "''\<newline>  }]''"
  let ?json = "?pre @ n @ CHR 0x22 # ?mid @ i @ CHR 0x22 # ?post"
  have r: "render user_role_json_template (UserRoleParameters_fields \<lparr>urp_RoleName = n, urp_RoleId = i\<rparr>) = Inr ?json"
    by (simp add: render_def user_role_json_template_Parse user_role_json_template_parts_def UserRoleParameters_fields_def)
  have pre: "lex_run LDef ?pre = Some ([TLBrack, TLBrace, TStr ''name'', TColon], LStr None [])"
    and mid: "lex_run LDef ?mid = Some ([TComma, TStr ''id'', TColon], LStr None [])"
    and post: "json_lex LDef ?post = Some [TRBrace, TRBrack]"
    by code_simp+
  from json_lex_literal [OF mid assms(2), of ?post] post
  have m: "json_lex LDef (?mid @ i @ CHR 0x22 # ?post) =
      Some [TComma, TStr ''id'', TColon, TStr i, TRBrace, TRBrack]" by simp
  note json_lex_literal [OF pre assms(1), of "?mid @ i @ CHR 0x22 # ?post"]
  also note m
  finally have "json_parse ?json = Some (JArr [JObj [(''name'', JStr n), (''id'', JStr i)]])"
    by (simp add: json_parse_def tok_step_def)
  then have "Unmarshal (decode_slice (decode_ptr decode_KeycloakRole)) ?json =
      Inr [Some (zero_KeycloakRole\<lparr>kr_Name := n, kr_ID := i\<rparr>)]"
    by (simp add: Unmarshal_def decode_slice_def decode_ptr_def decode_KeycloakRole_def store_struct_def
        KeycloakRole_fields_def find_field_def store_string_def zero_KeycloakRole_def)
  with r show ?thesis by blast
qed

text \<open>
  Nothing is escaped, so a name with a quote is not sent as it is meant: asked for the role
  n","name":"m, the operator has the server create the role m, whatever n and m are.
\<close>

lemma quotes_break_out:
  assumes "list_all plain_char n" and "list_all plain_char m"
  shows "\<exists>json. render role_json (RoleParameters_fields \<lparr>rop_RoleName = n @ ''\",\"name\":\"'' @ m\<rparr>) = Inr json \<and>
    Unmarshal decode_KeycloakRole json = Inr (zero_KeycloakRole\<lparr>kr_Name := m\<rparr>)"
proof -
  let ?pre = "''{\<newline>    \"name\": \"''" and ?mid = "'',\"name\":\"''"
  let ?post = "'',\<newline>    \"scopeParamRequired\": false,\<newline>    \"composite\": false,\<newline>    \"clientRole\": false\<newline>  }''"
  let ?json = "?pre @ n @ CHR 0x22 # ?mid @ m @ CHR 0x22 # ?post"
  have r: "render role_json (RoleParameters_fields \<lparr>rop_RoleName = n @ ''\",\"name\":\"'' @ m\<rparr>) = Inr ?json"
    by (simp add: render_def role_json_Parse role_json_parts_def RoleParameters_fields_def)
  have pre: "lex_run LDef ?pre = Some ([TLBrace, TStr ''name'', TColon], LStr None [])"
    and mid: "lex_run LDef ?mid = Some ([TComma, TStr ''name'', TColon], LStr None [])"
    and post: "json_lex LDef ?post = Some [TComma, TStr ''scopeParamRequired'', TColon, TFalse, TComma,
      TStr ''composite'', TColon, TFalse, TComma, TStr ''clientRole'', TColon, TFalse, TRBrace]"
    by code_simp+
  note json_lex_literal [OF pre assms(1), of "?mid @ m @ CHR 0x22 # ?post"]
  also note json_lex_literal [OF mid assms(2), of ?post]
  finally have "json_parse ?json = Some (JObj [(''name'', JStr n), (''name'', JStr m), (''scopeParamRequired'', JBool False),
      (''composite'', JBool False), (''clientRole'', JBool False)])"
    unfolding post by (simp add: json_parse_def tok_step_def)
  then have "Unmarshal decode_KeycloakRole ?json = Inr (zero_KeycloakRole\<lparr>kr_Name := m\<rparr>)"
    by (simp add: Unmarshal_def decode_KeycloakRole_def store_struct_def KeycloakRole_fields_def find_field_def
        store_string_def store_bool_def zero_KeycloakRole_def)
  with r show ?thesis by blast
qed

end
