(* ===== verification/RoleReconcile.thy ===== *)
theory RoleReconcile
  imports RhpamuserHandler TemplateFiles
begin

text \<open>
  What the reconciliation of roles achieves, on a Keycloak server that behaves: afterwards the
  roles of the realm are exactly those of the resource and, of those that were there before, the
  defaults. The order in which the pairs are visited does not matter.

  The server is seen through two contracts: \<^theory_text>\<open>keycloak_roles\<close> is what the methods of the
  client do to the set of role names of a realm, and \<^theory_text>\<open>rest_roles\<close>, in theory RoleServer,
  what the server does for each request; the client turns the second into the first.
\<close>

subsection \<open>Names\<close>

text \<open>
  A name that needs no escaping, neither in a URL nor in JSON: letters, digits and four other
  characters.
\<close>

definition plain_name :: "string \<Rightarrow> bool" where
  "plain_name n \<longleftrightarrow> n \<noteq> [] \<and> list_all (\<lambda>c. is_alnum c \<or> c \<in> set ''-_.~'') n"

lemma plain_name_chars: "plain_name n \<Longrightarrow> list_all plain_char n"
  unfolding plain_name_def list_all_iff
  by (fastforce simp: plain_char_def is_alnum_def Let_def char_code_def)

lemma plain_name_nonempty [simp]: "plain_name n \<Longrightarrow> n \<noteq> ''''"
  by (simp add: plain_name_def)

lemma default_roles_plain: "\<forall>n \<in> set defaultRoles. plain_name n"
  by code_simp

subsection \<open>The pairs\<close>

definition pair_for :: "string set \<Rightarrow> string set \<Rightarrow> string \<Rightarrow> KeycloakRolePair option" where
  "pair_for K S n =
     (if n \<in> K \<or> n \<in> S
      then Some \<lparr>krp_KcRole = (if n \<in> K then n else ''''), krp_SpecRole = (if n \<in> S then n else '''')\<rparr>
      else None)"

lemma fold_kc_roles:
  "map_of (fold add_kc_role ks m) n =
     (if n \<in> set ks then Some \<lparr>krp_KcRole = n, krp_SpecRole = ''''\<rparr> else map_of m n)"
  by (induction ks arbitrary: m) (auto simp: add_kc_role_def)

lemma fold_spec_roles:
  assumes "\<And>n. map_of m n = pair_for K S n"
  shows "map_of (fold add_spec_role ss m) n = pair_for K (S \<union> set ss) n"
  using assms
proof (induction ss arbitrary: m S)
  case (Cons s ss)
  have "map_of (add_spec_role s m) x = pair_for K (insert s S) x" for x
    using Cons.prems [of x] Cons.prems [of s]
    by (auto simp: add_spec_role_def pair_for_def split: option.splits)
  from Cons.IH [of "add_spec_role s m" "insert s S"] this show ?case by simp
qed simp

text \<open>Each name on either side has one pair, with the name on the sides it is on.\<close>

lemma pair_roles_lookup: "map_of (pair_roles ks ss) n = pair_for (set ks) (set ss) n"
proof -
  have "map_of (fold add_kc_role ks []) x = pair_for (set ks) {} x" for x
    by (simp add: fold_kc_roles pair_for_def)
  from fold_spec_roles [OF this] show ?thesis by (simp add: pair_roles_def)
qed

lemma distinct_add:
  "distinct (map fst m) \<Longrightarrow> distinct (map fst (add_kc_role n m))"
  "distinct (map fst m) \<Longrightarrow> distinct (map fst (add_spec_role n m))"
  by (auto simp: add_kc_role_def add_spec_role_def split: option.splits)

lemma pair_roles_keys:
  "distinct (map fst (pair_roles ks ss))" "set (map fst (pair_roles ks ss)) = set ks \<union> set ss"
proof -
  have "distinct (map fst m) \<Longrightarrow> distinct (map fst (fold add_kc_role ks m))" for m
    by (induction ks arbitrary: m) (auto intro: distinct_add)
  moreover have "distinct (map fst m) \<Longrightarrow> distinct (map fst (fold add_spec_role ss m))" for m
    by (induction ss arbitrary: m) (auto intro: distinct_add)
  ultimately show "distinct (map fst (pair_roles ks ss))" by (simp add: pair_roles_def)
  have "n \<in> fst ` set (pair_roles ks ss) \<longleftrightarrow> n \<in> set ks \<union> set ss" for n
    using pair_roles_lookup [of ks ss n] map_of_in_keys [of "pair_roles ks ss" n]
    by (simp add: pair_for_def split: if_split_asm)
  then show "set (map fst (pair_roles ks ss)) = set ks \<union> set ss" by auto
qed

subsection \<open>The contracts\<close>

text \<open>
  The state of the server may say more than the names of the roles. \<^theory_text>\<open>added\<close> and \<^theory_text>\<open>removed\<close>
  are what becomes of it when a role is created or deleted, and \<^theory_text>\<open>edits keep\<close> is a sequence of
  creations of roles in \<^theory_text>\<open>keep\<close> and deletions of others.
\<close>

definition edits :: "(string \<Rightarrow> 's \<Rightarrow> 's \<Rightarrow> bool) \<Rightarrow> (string \<Rightarrow> 's \<Rightarrow> 's \<Rightarrow> bool) \<Rightarrow> string set \<Rightarrow> 's \<Rightarrow> 's \<Rightarrow> bool" where
  "edits added removed keep = (\<lambda>s s'. \<exists>n. if n \<in> keep then added n s s' else removed n s s')\<^sup>*\<^sup>*"

lemma edits_refl [simp]: "edits added removed keep s s"
  by (simp add: edits_def)

lemma edits_trans: "edits added removed keep s s' \<Longrightarrow> edits added removed keep s' s'' \<Longrightarrow> edits added removed keep s s''"
  unfolding edits_def by (rule rtranclp_trans)

lemma edits_added: "n \<in> keep \<Longrightarrow> added n s s' \<Longrightarrow> edits added removed keep s s'"
  unfolding edits_def by (rule r_into_rtranclp) (auto intro!: exI [of _ n])

lemma edits_removed: "n \<notin> keep \<Longrightarrow> removed n s s' \<Longrightarrow> edits added removed keep s s'"
  unfolding edits_def by (rule r_into_rtranclp) (auto intro!: exI [of _ n])

locale keycloak_roles =
  fixes kc :: KeycloakInterface and realm :: string and E :: "'w env" and st :: "'w \<Rightarrow> 's"
    and roles :: "'s \<Rightarrow> string set" and added removed :: "string \<Rightarrow> 's \<Rightarrow> 's \<Rightarrow> bool"
  assumes added_roles: "added n s s' \<Longrightarrow> roles s' = insert n (roles s)"
    and removed_roles: "removed n s s' \<Longrightarrow> roles s' = roles s - {n}"
    and ListRoles: "\<forall>n \<in> roles (st w). plain_name n \<Longrightarrow>
        \<exists>rs w'. exec E (kc_ListRoles kc realm) w = (Done (Inr (map Some rs)), w') \<and>
          kr_Name ` set rs = roles (st w) \<and> st w' = st w"
    and GetRole_present: "plain_name n \<Longrightarrow> n \<in> roles (st w) \<Longrightarrow>
        \<exists>r w'. exec E (kc_GetRole kc n realm) w = (Done (Inr r), w') \<and> st w' = st w"
    and GetRole_absent: "plain_name n \<Longrightarrow> n \<notin> roles (st w) \<Longrightarrow>
        \<exists>e w'. exec E (kc_GetRole kc n realm) w = (Done (Inl e), w') \<and> st w' = st w"
    and CreateRole: "Unmarshal decode_KeycloakRole json = Inr r \<Longrightarrow> plain_name (kr_Name r) \<Longrightarrow> kr_Name r \<notin> roles (st w) \<Longrightarrow>
        \<exists>w'. exec E (kc_CreateRole kc json realm) w = (Done (Inr ()), w') \<and> added (kr_Name r) (st w) (st w')"
    and DeleteRole: "plain_name n \<Longrightarrow> n \<in> roles (st w) \<Longrightarrow>
        \<exists>w'. exec E (kc_DeleteRole kc n realm) w = (Done (Inr ()), w') \<and> removed n (st w) (st w')"
    and LookupEnv_roles: "st (snd (env_LookupEnv E v w)) = st w"
    and ReadFile_roles: "st (snd (env_ReadFile E f w)) = st w"
    and RangeOrder_roles: "st (snd (env_RangeOrder E ks w)) = st w"

locale role_templates =
  fixes E :: "'w env" and dir :: string
  assumes template_dir: "fst (env_LookupEnv E ''TEMPLATE_PATH'' w) = Some dir" and dir_set: "dir \<noteq> ''''"
    and role_file: "fst (env_ReadFile E (dir @ ''/role.json'') w) = Inr role_json"

locale role_reconciler = keycloak_roles + role_templates
begin

lemma createRole_exec:
  assumes "plain_name n"
  shows "\<exists>w'. exec E (createRole kc realm n) w = (Done (Inr ()), w') \<and>
    (if n \<in> roles (st w) then st w' = st w else added n (st w) (st w'))"
proof (cases "n \<in> roles (st w)")
  case True
  with GetRole_present [OF assms True] show ?thesis
    by (auto simp: createRole_def exec_bind)
next
  case False
  from GetRole_absent [OF assms False] obtain e w1 where
    w1: "exec E (kc_GetRole kc n realm) w = (Done (Inl e), w1)" "st w1 = st w" by blast
  obtain w2 where w2: "env_LookupEnv E ''TEMPLATE_PATH'' w1 = (Some dir, w2)" "st w2 = st w1"
    using template_dir [of w1] LookupEnv_roles [of "''TEMPLATE_PATH''" w1] by (metis prod.collapse)
  obtain w3 where w3: "env_ReadFile E (dir @ ''/role.json'') w2 = (Inr role_json, w3)" "st w3 = st w2"
    using role_file [of w2] ReadFile_roles [of "dir @ ''/role.json''" w2] by (metis prod.collapse)
  obtain json r where json: "render role_json (RoleParameters_fields \<lparr>rop_RoleName = n\<rparr>) = Inr json"
    "Unmarshal decode_KeycloakRole json = Inr r" "kr_Name r = n"
    using role_json_decodes [OF plain_name_chars [OF assms]] by blast
  obtain w4 where w4: "exec E (kc_CreateRole kc json realm) w3 = (Done (Inr ()), w4)" "added n (st w3) (st w4)"
    using CreateRole [OF json(2), of w3] json(3) assms False w1 w2 w3 by auto
  show ?thesis
    using w1 w2 w3 w4 json(1) dir_set False
    by (simp add: createRole_def exec_bind exec_check_err NewRoleHelper_def templatePath_def Getenv_def
        LoadRoleTemplate_def loadTemplate_render)
qed

text \<open>
  One pair: its name is there afterwards if it is asked for, or if it was there and is a default.
  The roles to keep are those asked for and the defaults.
\<close>

lemma reconcileRole_exec:
  assumes "pair_for K S n = Some p" and "plain_name n" and "n \<in> roles (st w) \<longleftrightarrow> n \<in> K"
  shows "\<exists>w'. exec E (reconcileRole kc realm (krp_KcRole p) (krp_SpecRole p)) w = (Done (Inr ()), w') \<and>
    edits added removed (S \<union> set defaultRoles) (st w) (st w') \<and>
    roles (st w') = (if n \<in> S \<or> n \<in> K \<and> n \<in> set defaultRoles then insert n (roles (st w)) else roles (st w) - {n})"
proof (cases "n \<in> K")
  case True
  then have p: "p = \<lparr>krp_KcRole = n, krp_SpecRole = (if n \<in> S then n else '''')\<rparr>"
    using assms(1) by (simp add: pair_for_def)
  show ?thesis
  proof (cases "n \<in> S \<or> n \<in> set defaultRoles")
    case True
    with \<open>n \<in> K\<close> p assms(2,3) show ?thesis
      by (auto simp: reconcileRole_def isDefaultRole_iff insert_absorb)
  next
    case False
    with p assms(2) have "reconcileRole kc realm (krp_KcRole p) (krp_SpecRole p) = kc_DeleteRole kc n realm"
      by (simp add: reconcileRole_def isDefaultRole_iff)
    moreover obtain w' where "exec E (kc_DeleteRole kc n realm) w = (Done (Inr ()), w')" "removed n (st w) (st w')"
      using DeleteRole [OF assms(2), of w] assms(3) \<open>n \<in> K\<close> by blast
    ultimately show ?thesis
      using False removed_roles edits_removed [of n "S \<union> set defaultRoles" removed] by auto
  qed
next
  case False
  then have S: "n \<in> S" and p: "p = \<lparr>krp_KcRole = '''', krp_SpecRole = n\<rparr>"
    using assms(1) by (auto simp: pair_for_def split: if_split_asm)
  from p assms(2) have "reconcileRole kc realm (krp_KcRole p) (krp_SpecRole p) = createRole kc realm n"
    by (simp add: reconcileRole_def)
  moreover obtain w' where "exec E (createRole kc realm n) w = (Done (Inr ()), w')" "added n (st w) (st w')"
    using createRole_exec [OF assms(2), of w] assms(3) False by auto
  ultimately show ?thesis
    using S added_roles edits_added [of n "S \<union> set defaultRoles" added] by auto
qed

lemma reconcile_pairs_exec:
  assumes "distinct order" and "\<forall>n \<in> set order. plain_name n \<and> (n \<in> K \<or> n \<in> S)"
    and "\<forall>n \<in> set order. n \<in> roles (st w) \<longleftrightarrow> n \<in> K" and "\<And>n. map_of m n = pair_for K S n"
  shows "\<exists>w'. exec E (for_each order (\<lambda>k. case map_of m k of None \<Rightarrow> Return (Inr ())
        | Some p \<Rightarrow> reconcileRole kc realm (krp_KcRole p) (krp_SpecRole p))) w = (Done (Inr ()), w') \<and>
    edits added removed (S \<union> set defaultRoles) (st w) (st w') \<and>
    roles (st w') = (roles (st w) - set order) \<union> {n \<in> set order. n \<in> S \<or> n \<in> K \<and> n \<in> set defaultRoles}"
  using assms(1-3)
proof (induction order arbitrary: w)
  case (Cons n order)
  let ?loop = "for_each order (\<lambda>k. case map_of m k of None \<Rightarrow> Return (Inr ())
        | Some p \<Rightarrow> reconcileRole kc realm (krp_KcRole p) (krp_SpecRole p))"
  let ?edits = "edits added removed (S \<union> set defaultRoles)"
  from Cons.prems have n: "plain_name n" "n \<in> K \<or> n \<in> S" "n \<in> roles (st w) \<longleftrightarrow> n \<in> K" "n \<notin> set order" by auto
  obtain p where p: "map_of m n = Some p" "pair_for K S n = Some p"
    using n(2) assms(4) by (auto simp: pair_for_def)
  obtain w1 where w1: "exec E (reconcileRole kc realm (krp_KcRole p) (krp_SpecRole p)) w = (Done (Inr ()), w1)"
    "roles (st w1) = (if n \<in> S \<or> n \<in> K \<and> n \<in> set defaultRoles then insert n (roles (st w)) else roles (st w) - {n})"
    "?edits (st w) (st w1)"
    using reconcileRole_exec [OF p(2) n(1,3)] by blast
  have "\<forall>x \<in> set order. x \<in> roles (st w1) \<longleftrightarrow> x \<in> K" using Cons.prems n(4) w1(2) by auto
  then have "\<exists>w'. exec E ?loop w1 = (Done (Inr ()), w') \<and> ?edits (st w1) (st w') \<and>
    roles (st w') = (roles (st w1) - set order) \<union> {n \<in> set order. n \<in> S \<or> n \<in> K \<and> n \<in> set defaultRoles}"
    using Cons.prems by (intro Cons.IH) auto
  then obtain w2 where w2: "exec E ?loop w1 = (Done (Inr ()), w2)" "?edits (st w1) (st w2)"
    "roles (st w2) = (roles (st w1) - set order) \<union> {n \<in> set order. n \<in> S \<or> n \<in> K \<and> n \<in> set defaultRoles}"
    by blast
  have "roles (st w2) = (roles (st w) - set (n # order)) \<union> {x \<in> set (n # order). x \<in> S \<or> x \<in> K \<and> x \<in> set defaultRoles}"
    using w2(3) w1(2) n(4) by auto
  with w1(1) w2(1) p(1) edits_trans [OF w1(3) w2(2)] show ?case by (simp add: exec_check_err)
qed simp

text \<open>The names of a list of roles, and of the roles of the spec, when none is nil.\<close>

lemma role_names_exec: "exec E (role_names (map Some rs)) w = (Done (map kr_Name rs), w)"
  by (induction rs) (simp_all add: exec_bind)

lemma spec_role_names_exec: "exec E (spec_role_names (map Some rs)) w = (Done (map role_Name rs), w)"
  by (induction rs) (simp_all add: exec_bind)

lemma reconcileRoles_exec:
  assumes spec: "us_Roles (ru_Spec u) = map Some ss" and u: "ru_Realm u = realm"
    and plain: "\<forall>n \<in> role_Name ` set ss \<union> roles (st w). plain_name n"
  shows "\<exists>w'. exec E (reconcileRoles kc u) w = (Done (Inr ()), w') \<and>
    edits added removed (role_Name ` set ss \<union> set defaultRoles) (st w) (st w') \<and>
    roles (st w') = role_Name ` set ss \<union> (roles (st w) \<inter> set defaultRoles)"
proof -
  obtain rs w1 where w1: "exec E (kc_ListRoles kc realm) w = (Done (Inr (map Some rs)), w1)"
    "kr_Name ` set rs = roles (st w)" "st w1 = st w"
    using ListRoles [of w] plain by blast
  let ?K = "roles (st w)" and ?S = "role_Name ` set ss"
  let ?m = "pair_roles (map kr_Name rs) (map role_Name ss)"
  obtain o1 w2 where w2: "env_RangeOrder E (map fst ?m) w1 = (o1, w2)" "st w2 = st w"
    using RangeOrder_roles [of "map fst ?m" w1] w1(3) by (metis prod.collapse)
  define order where "order = (if mset o1 = mset (map fst ?m) then o1 else map fst ?m)"
  have ms: "mset order = mset (map fst ?m)" by (simp add: order_def)
  have keys: "set order = ?K \<union> ?S"
    using pair_roles_keys(2) [of "map kr_Name rs" "map role_Name ss"] w1(2) mset_eq_setD [OF ms] by simp
  have dist: "distinct order" using pair_roles_keys(1) mset_eq_imp_distinct_iff [OF ms] by blast
  let ?loop = "for_each order (\<lambda>k. case map_of ?m k of None \<Rightarrow> Return (Inr ())
        | Some p \<Rightarrow> reconcileRole kc realm (krp_KcRole p) (krp_SpecRole p))"
  have "\<exists>w'. exec E ?loop w2 = (Done (Inr ()), w') \<and> edits added removed (?S \<union> set defaultRoles) (st w2) (st w') \<and>
    roles (st w') = (roles (st w2) - set order) \<union> {n \<in> set order. n \<in> ?S \<or> n \<in> ?K \<and> n \<in> set defaultRoles}"
    by (rule reconcile_pairs_exec [OF dist, where K = ?K and S = ?S])
       (use plain keys w2(2) w1(2) pair_roles_lookup in auto)
  moreover have "(roles (st w2) - set order) \<union> {n \<in> set order. n \<in> ?S \<or> n \<in> ?K \<and> n \<in> set defaultRoles} =
      ?S \<union> (?K \<inter> set defaultRoles)"
    unfolding keys w2(2) by blast
  ultimately obtain w' where w': "exec E ?loop w2 = (Done (Inr ()), w')"
    "edits added removed (?S \<union> set defaultRoles) (st w2) (st w')" "roles (st w') = ?S \<union> (?K \<inter> set defaultRoles)"
    by auto
  have "exec E (reconcileRoles kc u) w = (Done (Inr ()), w')"
    using w1(1) w2(1) w'(1) unfolding reconcileRoles_def for_each_pair_def u spec order_def
    by (simp add: exec_check_err exec_bind role_names_exec spec_role_names_exec)
  with w'(2,3) w2(2) show ?thesis by auto
qed

end

end
