(* ===== verification/RestExec.thy ===== *)
theory RestExec
  imports KeycloakClient
begin

text \<open>
  The requests of the client against a server with a state: \<^theory_text>\<open>rest_server\<close> says which
  calls leave the state alone, \<^theory_text>\<open>replies\<close> what the server does with one request. The lemmas
  turn a reply into the result of the method that sends the request.
\<close>

text \<open>The server answers with a status, moves to this state, and the body can be read.\<close>

definition replies :: "'w env \<Rightarrow> ('w \<Rightarrow> 'd) \<Rightarrow> Request \<Rightarrow> 'w \<Rightarrow> (int \<Rightarrow> bool) \<Rightarrow> (string \<Rightarrow> bool) \<Rightarrow> 'd \<Rightarrow> bool" where
  "replies E state q w status body d \<longleftrightarrow>
     (\<exists>res w' b. env_HttpDo E q w = (Inr res, w') \<and> status (rs_StatusCode res) \<and> state w' = d \<and>
        fst (env_ReadBody E w') = Inr b \<and> body b)"

text \<open>The requests as the client makes them.\<close>

definition get_request :: "Client \<Rightarrow> string \<Rightarrow> Request" where
  "get_request c path = \<lparr>rq_Method = ''GET'', rq_URL = admin_url c path, rq_Header = [bearer c], rq_Body = None\<rparr>"

definition post_request :: "Client \<Rightarrow> string \<Rightarrow> string \<Rightarrow> Request" where
  "post_request c path json = \<lparr>rq_Method = ''POST'', rq_URL = admin_url c path,
     rq_Header = [(''Content-Type'', ''application/json''), bearer c], rq_Body = Some json\<rparr>"

definition delete_request :: "Client \<Rightarrow> string \<Rightarrow> Request" where
  "delete_request c path = \<lparr>rq_Method = ''DELETE'', rq_URL = admin_url c path, rq_Header = [bearer c], rq_Body = None\<rparr>"

definition delete_body_request :: "Client \<Rightarrow> string \<Rightarrow> string \<Rightarrow> Request" where
  "delete_body_request c path json = \<lparr>rq_Method = ''DELETE'', rq_URL = admin_url c path,
     rq_Header = [(''Content-Type'', ''application/json''), bearer c], rq_Body = Some json\<rparr>"

definition token_url :: "Client \<Rightarrow> string" where
  "token_url c = cl_URL c @ ''/'' @ authUrl"

lemmas request_shapes = get_request_def post_request_def delete_request_def delete_body_request_def

lemma request_fields [simp]:
  "rq_Method (get_request c p) = ''GET''" "rq_URL (get_request c p) = admin_url c p"
  "rq_Method (post_request c p j) = ''POST''" "rq_URL (post_request c p j) = admin_url c p" "rq_Body (post_request c p j) = Some j"
  "rq_Method (delete_request c p) = ''DELETE''" "rq_URL (delete_request c p) = admin_url c p" "rq_Body (delete_request c p) = None"
  "rq_Method (delete_body_request c p j) = ''DELETE''" "rq_URL (delete_body_request c p j) = admin_url c p"
  "rq_Body (delete_body_request c p j) = Some j"
  by (simp_all add: request_shapes)

locale rest_server =
  fixes E :: "'w env" and state :: "'w \<Rightarrow> 'd"
  assumes NewRequest_accepts: "fst (env_NewRequest E m url w) = Inr ()"
    and NewRequest_state: "state (snd (env_NewRequest E m url w)) = state w"
    and ReadBody_state: "state (snd (env_ReadBody E w)) = state w"
    and CloseBody_state: "state (env_CloseBody E w) = state w"
    and LookupEnv_keeps: "state (snd (env_LookupEnv E v w)) = state w"
    and ReadFile_keeps: "state (snd (env_ReadFile E f w)) = state w"
    and RangeOrder_keeps: "state (snd (env_RangeOrder E ks w)) = state w"
begin

lemma NewRequest_step: "\<exists>w'. env_NewRequest E m url w = (Inr (), w') \<and> state w' = state w"
  using NewRequest_accepts NewRequest_state by (metis prod.collapse)

lemma reply:
  assumes "replies E state q w' status body d"
  obtains res w2 b w3 where "env_HttpDo E q w' = (Inr res, w2)" "status (rs_StatusCode res)" "body b"
    "env_ReadBody E w2 = (Inr b, w3)" "state w2 = d" "state w3 = d"
  using assms ReadBody_state unfolding replies_def by (metis prod.collapse)

text \<open>What the server does with a request depends on its state only: the rules below take the reply in every world of this state.\<close>

lemma get_exec:
  assumes "\<And>w'. state w' = state w \<Longrightarrow> replies E state (get_request c path) w' (\<lambda>s. s = 200) body d"
  shows "\<exists>b w'. body b \<and> exec E (get c path name f) w = (Done (f b), w') \<and> state w' = d"
proof -
  obtain w1 where w1: "env_NewRequest E ''GET'' (admin_url c path) w = (Inr (), w1)" "state w1 = state w"
    using NewRequest_step by blast
  from reply [OF assms [OF w1(2)]] obtain res w2 b w3 where "env_HttpDo E (get_request c path) w1 = (Inr res, w2)"
    "rs_StatusCode res = 200" "body b" "env_ReadBody E w2 = (Inr b, w3)" "state w3 = d" by metis
  with w1(1) CloseBody_state [of w3] show ?thesis
    by (intro exI [of _ b]) (simp add: get_def get_request_def)
qed

lemma get_fails:
  assumes "\<And>w'. state w' = state w \<Longrightarrow> replies E state (get_request c path) w' (\<lambda>s. s \<noteq> 200) body d"
  shows "\<exists>e w'. exec E (get c path name f) w = (Done (Inl e), w') \<and> state w' = d"
proof -
  obtain w1 where w1: "env_NewRequest E ''GET'' (admin_url c path) w = (Inr (), w1)" "state w1 = state w"
    using NewRequest_step by blast
  from reply [OF assms [OF w1(2)]] obtain res w2 where "env_HttpDo E (get_request c path) w1 = (Inr res, w2)"
    "rs_StatusCode res \<noteq> 200" "state w2 = d" by metis
  with w1(1) show ?thesis by (simp add: get_def get_request_def)
qed

lemma list_all_of_exec:
  assumes "\<And>w'. state w' = state w \<Longrightarrow> replies E state (get_request c path) w' (\<lambda>s. s = 200) body d"
  shows "\<exists>b w'. body b \<and> (\<forall>x. f b = Inr x \<longrightarrow> exec E (list_all_of c path name f) w = (Done (Inr x), w')) \<and> state w' = d"
proof -
  obtain w1 where w1: "env_NewRequest E ''GET'' (admin_url c path) w = (Inr (), w1)" "state w1 = state w"
    using NewRequest_step by blast
  from reply [OF assms [OF w1(2)]] obtain res w2 b w3 where "env_HttpDo E (get_request c path) w1 = (Inr res, w2)"
    "rs_StatusCode res = 200" "body b" "env_ReadBody E w2 = (Inr b, w3)" "state w3 = d" by metis
  with w1(1) CloseBody_state [of w3] show ?thesis
    by (intro exI [of _ b] exI [of _ "env_CloseBody E w3"]) (simp add: list_all_of_def get_request_def)
qed

text \<open>A request that changes the state may leave to the server what exactly the new state is.\<close>

lemma create_exec:
  assumes "\<And>w'. state w' = state w \<Longrightarrow>
    \<exists>d. P d \<and> replies E state (post_request c path json) w' (\<lambda>s. s = status) body d"
  shows "\<exists>w'. exec E (create c json path name status) w = (Done (Inr ()), w') \<and> P (state w')"
proof -
  obtain w1 where w1: "env_NewRequest E ''POST'' (admin_url c path) w = (Inr (), w1)" "state w1 = state w"
    using NewRequest_step by blast
  from assms [OF w1(2)] obtain d where d: "P d" "replies E state (post_request c path json) w1 (\<lambda>s. s = status) body d" by blast
  from reply [OF d(2)] obtain res w2 where "env_HttpDo E (post_request c path json) w1 = (Inr res, w2)"
    "rs_StatusCode res = status" "state w2 = d" by metis
  with w1(1) d(1) CloseBody_state [of w2] show ?thesis by (simp add: create_def post_request_def)
qed

lemma delete_exec:
  assumes "\<And>w'. state w' = state w \<Longrightarrow> \<exists>d. P d \<and> replies E state (delete_request c path) w' (\<lambda>s. s = 204) body d"
  shows "\<exists>w'. exec E (delete c path name) w = (Done (Inr ()), w') \<and> P (state w')"
proof -
  obtain w1 where w1: "env_NewRequest E ''DELETE'' (admin_url c path) w = (Inr (), w1)" "state w1 = state w"
    using NewRequest_step by blast
  from assms [OF w1(2)] obtain d where d: "P d" "replies E state (delete_request c path) w1 (\<lambda>s. s = 204) body d" by blast
  from reply [OF d(2)] obtain res w2 where "env_HttpDo E (delete_request c path) w1 = (Inr res, w2)"
    "rs_StatusCode res = 204" "state w2 = d" by metis
  with w1(1) d(1) CloseBody_state [of w2] show ?thesis by (simp add: delete_def delete_request_def)
qed

lemma deleteWithBody_exec:
  assumes "\<And>w'. state w' = state w \<Longrightarrow> replies E state (delete_body_request c path json) w' (\<lambda>s. s = 204) body d"
  shows "\<exists>w'. exec E (deleteWithBody c json path name) w = (Done (Inr ()), w') \<and> state w' = d"
proof -
  obtain w1 where w1: "env_NewRequest E ''DELETE'' (admin_url c path) w = (Inr (), w1)" "state w1 = state w"
    using NewRequest_step by blast
  from reply [OF assms [OF w1(2)]] obtain res w2 where "env_HttpDo E (delete_body_request c path json) w1 = (Inr res, w2)"
    "rs_StatusCode res = 204" "state w2 = d" by metis
  with w1(1) CloseBody_state [of w2] show ?thesis by (simp add: deleteWithBody_def delete_body_request_def)
qed

end

end
