(* ===== verification/JsonTexts.thy ===== *)
theory JsonTexts
  imports TemplateFiles
begin

text \<open>
  Texts of JSON objects whose members are strings, and of arrays of such objects, as the
  reference servers answer with, and what the decoder of the client reads them as.
\<close>

type_synonym text_object = "(string \<times> string) list"

definition quoted :: "string \<Rightarrow> string" where
  "quoted s = CHR 0x22 # s @ [CHR 0x22]"

definition member_text :: "string \<times> string \<Rightarrow> string" where
  "member_text kv = quoted (fst kv) @ '':'' @ quoted (snd kv)"

definition object_text :: "text_object \<Rightarrow> string" where
  "object_text kvs =
     ''{'' @ (case kvs of [] \<Rightarrow> '''' | kv # rest \<Rightarrow> member_text kv @ concat (map (\<lambda>x. '','' @ member_text x) rest)) @ ''}''"

definition array_text :: "text_object list \<Rightarrow> string" where
  "array_text os =
     ''['' @ (case os of [] \<Rightarrow> '''' | kvs # rest \<Rightarrow> object_text kvs @ concat (map (\<lambda>x. '','' @ object_text x) rest)) @ '']''"

definition object_value :: "text_object \<Rightarrow> json" where
  "object_value kvs = JObj (map (\<lambda>(k, v). (k, JStr v)) kvs)"

definition plain_object :: "text_object \<Rightarrow> bool" where
  "plain_object kvs \<longleftrightarrow> list_all (\<lambda>(k, v). list_all plain_char k \<and> list_all plain_char v) kvs"

subsection \<open>Scanning\<close>

definition member_tokens :: "string \<times> string \<Rightarrow> token list" where
  "member_tokens kv = [TStr (fst kv), TColon, TStr (snd kv)]"

definition object_tokens :: "text_object \<Rightarrow> token list" where
  "object_tokens kvs =
     TLBrace # (case kvs of [] \<Rightarrow> [] | kv # rest \<Rightarrow> member_tokens kv @ concat (map (\<lambda>x. TComma # member_tokens x) rest)) @ [TRBrace]"

definition array_tokens :: "text_object list \<Rightarrow> token list" where
  "array_tokens os =
     TLBrack # (case os of [] \<Rightarrow> [] | kvs # rest \<Rightarrow> object_tokens kvs @ concat (map (\<lambda>x. TComma # object_tokens x) rest)) @ [TRBrack]"

text \<open>A text that scans to some tokens whatever follows; such texts can be put together.\<close>

definition scans :: "string \<Rightarrow> token list \<Rightarrow> bool" where
  "scans s ts \<longleftrightarrow> (\<forall>cs. json_lex LDef (s @ cs) = map_option (\<lambda>us. ts @ us) (json_lex LDef cs))"

lemma scans_append: "scans s ts \<Longrightarrow> scans s' ts' \<Longrightarrow> scans (s @ s') (ts @ ts')"
  by (simp add: scans_def option.map_comp comp_def)

lemma scans_Nil: "scans '''' []"
  by (simp add: scans_def option.map_id0 [unfolded id_def])

lemma scans_concat:
  "(\<And>x. x \<in> set xs \<Longrightarrow> scans (f x) (g x)) \<Longrightarrow> scans (concat (map f xs)) (concat (map g xs))"
  by (induction xs) (auto intro: scans_append scans_Nil)

lemma scans_run: "lex_run LDef s = Some (ts, LDef) \<Longrightarrow> scans s ts"
  unfolding scans_def by (blast intro: json_lex_run)

lemma scans_punctuation:
  "scans ''{'' [TLBrace]" "scans ''}'' [TRBrace]" "scans ''['' [TLBrack]" "scans '']'' [TRBrack]"
  "scans '','' [TComma]" "scans '':'' [TColon]"
  by (rule scans_run, code_simp)+

lemma scans_quoted:
  assumes "list_all plain_char s"
  shows "scans (quoted s) [TStr s]"
proof -
  have "lex_run LDef [CHR 0x22] = Some ([], LStr None [])" by code_simp
  from json_lex_literal [OF this assms] show ?thesis by (simp add: scans_def quoted_def del: json_lex.simps)
qed

lemma scans_all: "scans s ts \<Longrightarrow> json_lex LDef s = Some ts"
  unfolding scans_def by (drule spec [of _ "''''"]) simp

lemma scans_member: "list_all plain_char (fst kv) \<Longrightarrow> list_all plain_char (snd kv) \<Longrightarrow> scans (member_text kv) (member_tokens kv)"
  using scans_append [OF scans_quoted scans_append [OF scans_punctuation(6) scans_quoted], of "fst kv" "snd kv"]
  by (simp add: member_text_def member_tokens_def)

lemma scans_more: "scans s ts \<Longrightarrow> scans ('','' @ s) (TComma # ts)"
  using scans_append [OF scans_punctuation(5), of s ts] by simp

lemma scans_bracketed:
  "scans [a] [x] \<Longrightarrow> scans [b] [y] \<Longrightarrow> scans s ts \<Longrightarrow> scans ([a] @ s @ [b]) (x # ts @ [y])"
  using scans_append [of "[a]" "[x]" "s @ [b]" "ts @ [y]"] scans_append [of s ts "[b]" "[y]"] by simp

lemma scans_object:
  assumes "plain_object kvs"
  shows "scans (object_text kvs) (object_tokens kvs)"
proof -
  have "scans (case kvs of [] \<Rightarrow> '''' | kv # rest \<Rightarrow> member_text kv @ concat (map (\<lambda>x. '','' @ member_text x) rest))
      (case kvs of [] \<Rightarrow> [] | kv # rest \<Rightarrow> member_tokens kv @ concat (map (\<lambda>x. TComma # member_tokens x) rest))"
    using assms
    by (cases kvs) (auto simp: plain_object_def list_all_iff intro!: scans_Nil scans_append scans_concat scans_more [simplified] scans_member)
  from scans_bracketed [OF scans_punctuation(1,2) this] show ?thesis
    unfolding object_text_def object_tokens_def .
qed

lemma scans_array:
  assumes "list_all plain_object os"
  shows "scans (array_text os) (array_tokens os)"
proof -
  have "scans (case os of [] \<Rightarrow> '''' | kvs # rest \<Rightarrow> object_text kvs @ concat (map (\<lambda>x. '','' @ object_text x) rest))
      (case os of [] \<Rightarrow> [] | kvs # rest \<Rightarrow> object_tokens kvs @ concat (map (\<lambda>x. TComma # object_tokens x) rest))"
    using assms
    by (cases os) (auto simp: list_all_iff intro!: scans_Nil scans_append scans_concat scans_more [simplified] scans_object)
  from scans_bracketed [OF scans_punctuation(3,4) this] show ?thesis
    unfolding array_text_def array_tokens_def .
qed

subsection \<open>Parsing\<close>

lemma parse_members:
  "parse_tokens (FObj acc None # st, WantSep) (concat (map (\<lambda>x. TComma # member_tokens x) kvs) @ ts) =
     parse_tokens (FObj (rev (map (\<lambda>(k, v). (k, JStr v)) kvs) @ acc) None # st, WantSep) ts"
proof (induction kvs arbitrary: acc)
  case (Cons kv kvs)
  show ?case using Cons.IH [of "(fst kv, JStr (snd kv)) # acc"]
    by (simp add: member_tokens_def tok_step_def case_prod_beta)
qed simp

lemma parse_object_tokens:
  "parse_tokens (st, WantValue) (object_tokens kvs @ ts) =
     (case complete_value (object_value kvs) st of None \<Rightarrow> None | Some s \<Rightarrow> parse_tokens s ts)"
proof (cases kvs)
  case Nil
  then show ?thesis by (simp add: object_tokens_def object_value_def tok_step_def split: option.split)
next
  case (Cons kv rest)
  have "parse_tokens (st, WantValue) (object_tokens kvs @ ts) =
      parse_tokens (FObj [(fst kv, JStr (snd kv))] None # st, WantSep) (concat (map (\<lambda>x. TComma # member_tokens x) rest) @ TRBrace # ts)"
    by (simp add: Cons object_tokens_def member_tokens_def tok_step_def)
  then show ?thesis
    unfolding parse_members by (simp add: Cons object_value_def tok_step_def case_prod_beta split: option.split)
qed

lemma parse_objects:
  "parse_tokens ([FArr acc], WantSep) (concat (map (\<lambda>x. TComma # object_tokens x) os) @ [TRBrack]) =
     Some (JArr (rev acc @ map object_value os))"
proof (induction os arbitrary: acc)
  case (Cons kvs os)
  have "parse_tokens ([FArr acc], WantSep) (TComma # object_tokens kvs @ ts) =
      parse_tokens ([FArr (object_value kvs # acc)], WantSep) ts" for ts
    by (simp add: tok_step_def parse_object_tokens)
  with Cons.IH [of "object_value kvs # acc"] show ?case by simp
qed (simp add: tok_step_def)

lemma parse_array:
  assumes "list_all plain_object os"
  shows "json_parse (array_text os) = Some (JArr (map object_value os))"
proof (cases os)
  case Nil
  show ?thesis unfolding Nil by code_simp
next
  case (Cons kvs rest)
  have "parse_tokens ([FArr []], WantValueOrEnd) (object_tokens kvs @ ts) = parse_tokens ([FArr []], WantValue) (object_tokens kvs @ ts)" for ts
    by (simp add: object_tokens_def tok_step_def)
  then have "parse_tokens ([], WantValue) (array_tokens os) = Some (JArr (map object_value os))"
    using parse_objects [of "[object_value kvs]" rest]
    by (simp add: Cons array_tokens_def tok_step_def parse_object_tokens)
  with scans_all [OF scans_array [OF assms]] show ?thesis by (simp add: json_parse_def)
qed

lemma parse_object:
  assumes "plain_object kvs"
  shows "json_parse (object_text kvs) = Some (object_value kvs)"
  using scans_all [OF scans_object [OF assms]] parse_object_tokens [of "[]" kvs "[]"]
  by (simp add: json_parse_def)

subsection \<open>Decoding\<close>

text \<open>A decoder that reads each object as a value reads the array as the values.\<close>

lemma decode_array:
  assumes "list_all plain_object (map f xs)" and "\<And>x. x \<in> set xs \<Longrightarrow> dec (object_value (f x)) = Inr (g x)"
  shows "Unmarshal (decode_slice (decode_ptr dec)) (array_text (map f xs)) = Inr (map (\<lambda>x. Some (g x)) xs)"
proof -
  have "decode_all (decode_ptr dec) (map (\<lambda>x. object_value (f x)) xs) = Inr (map (\<lambda>x. Some (g x)) xs)"
    using assms(2) by (induction xs) (auto simp: decode_ptr_def object_value_def)
  with parse_array [OF assms(1)] show ?thesis by (simp add: Unmarshal_def decode_slice_def comp_def)
qed

lemma decode_object:
  "plain_object kvs \<Longrightarrow> Unmarshal dec (object_text kvs) = dec (object_value kvs)"
  by (simp add: Unmarshal_def parse_object)

end
