(* ===== verification/RoleServer.thy ===== *)
theory RoleServer
  imports RoleReconcile RestExec JsonTexts Samples KeycloakContract
begin

text \<open>
  The realm roles resource of Keycloak's REST interface. \<^theory_text>\<open>rest_roles\<close> states what the
  server does for each request the client sends about roles; the client turns it into the
  contract of theory RoleReconcile. The reference server answers with JSON texts that the
  decoder of the client reads back, and keeps the contract.
\<close>

subsection \<open>The server's side\<close>

definition roles_url :: "Client \<Rightarrow> string \<Rightarrow> string" where
  "roles_url c realm = cl_URL c @ realm_path realm @ ''/roles''"

definition role_url :: "Client \<Rightarrow> string \<Rightarrow> string \<Rightarrow> string" where
  "role_url c realm n = roles_url c realm @ ''/'' @ n"

locale rest_roles = rest_server E st
  for c :: Client and realm :: string and E :: "'w env" and st :: "'w \<Rightarrow> 's" +
  fixes roles :: "'s \<Rightarrow> string set" and added removed :: "string \<Rightarrow> 's \<Rightarrow> 's \<Rightarrow> bool"
  assumes create_effect: "added n s s' \<Longrightarrow> roles s' = insert n (roles s)"
    and delete_effect: "removed n s s' \<Longrightarrow> roles s' = roles s - {n}"
    and GET_roles: "rq_Method q = ''GET'' \<Longrightarrow> rq_URL q = roles_url c realm \<Longrightarrow> \<forall>n \<in> roles (st w). plain_name n \<Longrightarrow>
        replies E st q w (\<lambda>s. s = 200)
          (\<lambda>b. \<exists>rs. Unmarshal (decode_slice (decode_ptr decode_KeycloakRole)) b = Inr (map Some rs) \<and> kr_Name ` set rs = roles (st w))
          (st w)"
    and GET_role: "rq_Method q = ''GET'' \<Longrightarrow> rq_URL q = role_url c realm n \<Longrightarrow> plain_name n \<Longrightarrow>
        replies E st q w (\<lambda>s. s = (if n \<in> roles (st w) then 200 else 404))
          (\<lambda>b. n \<in> roles (st w) \<longrightarrow> (\<exists>r. Unmarshal decode_KeycloakRole b = Inr r)) (st w)"
    and POST_role: "rq_Method q = ''POST'' \<Longrightarrow> rq_URL q = roles_url c realm \<Longrightarrow> rq_Body q = Some json \<Longrightarrow>
        Unmarshal decode_KeycloakRole json = Inr r \<Longrightarrow> plain_name (kr_Name r) \<Longrightarrow> kr_Name r \<notin> roles (st w) \<Longrightarrow>
        \<exists>s. added (kr_Name r) (st w) s \<and> replies E st q w (\<lambda>s. s = 201) (\<lambda>b. True) s"
    and DELETE_role: "rq_Method q = ''DELETE'' \<Longrightarrow> rq_URL q = role_url c realm n \<Longrightarrow> plain_name n \<Longrightarrow> n \<in> roles (st w) \<Longrightarrow>
        \<exists>s. removed n (st w) s \<and> replies E st q w (\<lambda>s. s = 204) (\<lambda>b. True) s"
begin

lemmas url_defs = role_url_def roles_url_def admin_url_def realm_path_def

lemma ListRoles_exec:
  assumes "\<forall>n \<in> roles (st w). plain_name n"
  shows "\<exists>rs w'. exec E (Client_ListRoles c realm) w = (Done (Inr (map Some rs)), w') \<and>
          kr_Name ` set rs = roles (st w) \<and> st w' = st w"
proof -
  have "replies E st (get_request c (''realms/'' @ realm @ ''/roles'')) w' (\<lambda>s. s = 200)
      (\<lambda>b. \<exists>rs. Unmarshal (decode_slice (decode_ptr decode_KeycloakRole)) b = Inr (map Some rs) \<and> kr_Name ` set rs = roles (st w))
      (st w)" if "st w' = st w" for w'
    using GET_roles [of "get_request c (''realms/'' @ realm @ ''/roles'')" w'] assms that by (simp add: url_defs)
  from list_all_of_exec [OF this, where w = w and name = "''roles''" and f = "Unmarshal (decode_slice (decode_ptr decode_KeycloakRole))"]
  obtain b rs w' where "Unmarshal (decode_slice (decode_ptr decode_KeycloakRole)) b = Inr (map Some rs)" "kr_Name ` set rs = roles (st w)"
    "\<forall>x. Unmarshal (decode_slice (decode_ptr decode_KeycloakRole)) b = Inr x \<longrightarrow>
        exec E (list_all_of c (''realms/'' @ realm @ ''/roles'') ''roles''
          (Unmarshal (decode_slice (decode_ptr decode_KeycloakRole)))) w = (Done (Inr x), w')" "st w' = st w"
    by auto
  then show ?thesis unfolding Client_ListRoles_def by blast
qed

lemma GetRole_exec:
  assumes "plain_name n"
  shows "\<exists>w'. (if n \<in> roles (st w) then \<exists>r. exec E (Client_GetRole c n realm) w = (Done (Inr r), w')
               else \<exists>e. exec E (Client_GetRole c n realm) w = (Done (Inl e), w')) \<and> st w' = st w"
proof (cases "n \<in> roles (st w)")
  case True
  have "replies E st (get_request c (''realms/'' @ realm @ ''/roles/'' @ n)) w' (\<lambda>s. s = 200)
      (\<lambda>b. \<exists>r. Unmarshal decode_KeycloakRole b = Inr r) (st w)" if "st w' = st w" for w'
    using GET_role [of "get_request c (''realms/'' @ realm @ ''/roles/'' @ n)" n w'] assms that True by (simp add: url_defs)
  from get_exec [OF this, where w = w and name = "''role''" and f = "Unmarshal decode_KeycloakRole"] obtain r w' where
    "exec E (get c (''realms/'' @ realm @ ''/roles/'' @ n) ''role'' (Unmarshal decode_KeycloakRole)) w = (Done (Inr r), w')"
    "st w' = st w" by auto
  with True show ?thesis by (simp add: Client_GetRole_def exec_check_err)
next
  case False
  have "replies E st (get_request c (''realms/'' @ realm @ ''/roles/'' @ n)) w' (\<lambda>s. s \<noteq> 200)
      (\<lambda>b. True) (st w)" if "st w' = st w" for w'
    using GET_role [of "get_request c (''realms/'' @ realm @ ''/roles/'' @ n)" n w'] assms that False
    by (fastforce simp: replies_def url_defs)
  from get_fails [OF this, where w = w and name = "''role''" and f = "Unmarshal decode_KeycloakRole"] obtain e w' where
    "exec E (get c (''realms/'' @ realm @ ''/roles/'' @ n) ''role'' (Unmarshal decode_KeycloakRole)) w = (Done (Inl e), w')"
    "st w' = st w" by auto
  with False show ?thesis by (simp add: Client_GetRole_def exec_check_err)
qed

lemma CreateRole_exec:
  assumes "Unmarshal decode_KeycloakRole json = Inr r" and "plain_name (kr_Name r)" and "kr_Name r \<notin> roles (st w)"
  shows "\<exists>w'. exec E (Client_CreateRole c json realm) w = (Done (Inr ()), w') \<and> added (kr_Name r) (st w) (st w')"
  unfolding Client_CreateRole_def
proof (rule create_exec)
  fix w' assume "st w' = st w"
  with POST_role [of "post_request c (''realms/'' @ realm @ ''/roles'') json" json r w'] assms
  show "\<exists>s. added (kr_Name r) (st w) s \<and>
      replies E st (post_request c (''realms/'' @ realm @ ''/roles'') json) w' (\<lambda>s. s = 201) (\<lambda>b. True) s" by (simp add: url_defs)
qed

lemma DeleteRole_exec:
  assumes "plain_name n" and "n \<in> roles (st w)"
  shows "\<exists>w'. exec E (Client_DeleteRole c n realm) w = (Done (Inr ()), w') \<and> removed n (st w) (st w')"
  unfolding Client_DeleteRole_def
proof (rule delete_exec)
  fix w' assume "st w' = st w"
  with DELETE_role [of "delete_request c (''realms/'' @ realm @ ''/roles/'' @ n)" n w'] assms
  show "\<exists>s. removed n (st w) s \<and>
      replies E st (delete_request c (''realms/'' @ realm @ ''/roles/'' @ n)) w' (\<lambda>s. s = 204) (\<lambda>b. True) s" by (simp add: url_defs)
qed

end

sublocale rest_roles \<subseteq> keycloak_roles "client_interface c" realm E st roles added removed
proof
  fix w n json r v f ks s s'
  show "added n s s' \<Longrightarrow> roles s' = insert n (roles s)" by (rule create_effect)
  show "removed n s s' \<Longrightarrow> roles s' = roles s - {n}" by (rule delete_effect)
  show "\<forall>n \<in> roles (st w). plain_name n \<Longrightarrow> \<exists>rs w'. exec E (kc_ListRoles (client_interface c) realm) w = (Done (Inr (map Some rs)), w') \<and>
          kr_Name ` set rs = roles (st w) \<and> st w' = st w"
    using ListRoles_exec by simp
  show "plain_name n \<Longrightarrow> n \<in> roles (st w) \<Longrightarrow>
      \<exists>r w'. exec E (kc_GetRole (client_interface c) n realm) w = (Done (Inr r), w') \<and> st w' = st w"
    using GetRole_exec [of n w] by auto
  show "plain_name n \<Longrightarrow> n \<notin> roles (st w) \<Longrightarrow>
      \<exists>e w'. exec E (kc_GetRole (client_interface c) n realm) w = (Done (Inl e), w') \<and> st w' = st w"
    using GetRole_exec [of n w] by auto
  show "Unmarshal decode_KeycloakRole json = Inr r \<Longrightarrow> plain_name (kr_Name r) \<Longrightarrow> kr_Name r \<notin> roles (st w) \<Longrightarrow>
      \<exists>w'. exec E (kc_CreateRole (client_interface c) json realm) w = (Done (Inr ()), w') \<and> added (kr_Name r) (st w) (st w')"
    using CreateRole_exec by simp
  show "plain_name n \<Longrightarrow> n \<in> roles (st w) \<Longrightarrow>
      \<exists>w'. exec E (kc_DeleteRole (client_interface c) n realm) w = (Done (Inr ()), w') \<and> removed n (st w) (st w')"
    using DeleteRole_exec by simp
qed (rule LookupEnv_keeps ReadFile_keeps RangeOrder_keeps)+

context rest_roles
begin

lemma client_roles: "keycloak_roles (client_interface c) realm E st roles added removed"
  by unfold_locales

end

subsection \<open>A reference server\<close>

definition role_object :: "string \<Rightarrow> text_object" where
  "role_object n = [(''name'', n)]"

lemma plain_role_object: "plain_name n \<Longrightarrow> plain_object (role_object n)"
  using plain_name_chars by (simp add: plain_object_def role_object_def plain_char_def char_code_def)

lemma decode_role_value: "decode_KeycloakRole (object_value (role_object n)) = Inr (zero_KeycloakRole\<lparr>kr_Name := n\<rparr>)"
  by (simp add: decode_KeycloakRole_def object_value_def role_object_def store_struct_def KeycloakRole_fields_def
      find_field_def store_string_def)

lemma decode_roles:
  assumes "\<forall>n \<in> set ns. plain_name n"
  shows "Unmarshal (decode_slice (decode_ptr decode_KeycloakRole)) (array_text (map role_object ns)) =
    Inr (map (\<lambda>n. Some (zero_KeycloakRole\<lparr>kr_Name := n\<rparr>)) ns)"
  using assms by (intro decode_array) (simp_all add: list_all_iff plain_role_object decode_role_value)

lemma decode_role:
  assumes "plain_name n"
  shows "Unmarshal decode_KeycloakRole (object_text (role_object n)) = Inr (zero_KeycloakRole\<lparr>kr_Name := n\<rparr>)"
  by (simp add: decode_object [OF plain_role_object [OF assms]] decode_role_value)

definition roles_http :: "Client \<Rightarrow> string \<Rightarrow> Request \<Rightarrow> world \<Rightarrow> (int \<times> string) \<times> world" where
  "roles_http c realm q w =
     (let base = roles_url c realm; n = drop (length base + 1) (rq_URL q) in
      if rq_URL q = base then
        (if rq_Method q = ''GET'' then ((200, array_text (map role_object (w_roles w))), w)
         else if rq_Method q = ''POST'' then
           (case rq_Body q of None \<Rightarrow> ((400, ''''), w)
            | Some b \<Rightarrow> (case Unmarshal decode_KeycloakRole b of Inl e \<Rightarrow> ((400, ''''), w)
               | Inr r \<Rightarrow> if kr_Name r \<in> set (w_roles w) then ((409, ''''), w)
                          else ((201, ''''), w\<lparr>w_roles := w_roles w @ [kr_Name r]\<rparr>)))
         else ((405, ''''), w))
      else if rq_URL q = base @ ''/'' @ n then
        (if n \<notin> set (w_roles w) then ((404, ''''), w)
         else if rq_Method q = ''GET'' then ((200, object_text (role_object n)), w)
         else if rq_Method q = ''DELETE'' then ((204, ''''), w\<lparr>w_roles := filter (\<lambda>x. x \<noteq> n) (w_roles w)\<rparr>)
         else ((405, ''''), w))
      else ((404, ''''), w))"

definition roles_site :: "Client \<Rightarrow> string \<Rightarrow> site" where
  "roles_site c realm = \<lparr>s_vars = [(''TEMPLATE_PATH'', ''t'')], s_files = [(''t/role.json'', role_json)],
     s_yaml = (\<lambda>t. Inl (ErrorString ''yaml'')), s_http = roles_http c realm\<rparr>"

definition name_added :: "string \<Rightarrow> string set \<Rightarrow> string set \<Rightarrow> bool" where
  "name_added n R R' \<longleftrightarrow> R' = insert n R"
definition name_removed :: "string \<Rightarrow> string set \<Rightarrow> string set \<Rightarrow> bool" where
  "name_removed n R R' \<longleftrightarrow> R' = R - {n}"

interpretation role_server: rest_roles c realm "cluster (roles_site c realm)" "\<lambda>w. set (w_roles w)" "\<lambda>R. R" name_added name_removed for c realm
proof
  fix m url w v f ks q n json r
  let ?E = "cluster (roles_site c realm)" and ?R = "\<lambda>w. set (w_roles w)"
  have do: "env_HttpDo ?E q w = (case roles_http c realm q w of ((status, body), w') \<Rightarrow>
      (Inr \<lparr>rs_StatusCode = status, rs_Status = ''''\<rparr>, w'\<lparr>w_body := body\<rparr>))"
    by (simp add: cluster_def roles_site_def)
  have body: "fst (env_ReadBody ?E w) = Inr (w_body w)" for w by (simp add: cluster_def)
  note [simp] = do body replies_def roles_http_def Let_def
  show "rq_Method q = ''GET'' \<Longrightarrow> rq_URL q = roles_url c realm \<Longrightarrow> \<forall>n \<in> ?R w. plain_name n \<Longrightarrow>
        replies ?E ?R q w (\<lambda>s. s = 200)
          (\<lambda>b. \<exists>rs. Unmarshal (decode_slice (decode_ptr decode_KeycloakRole)) b = Inr (map Some rs) \<and> kr_Name ` set rs = ?R w)
          (?R w)"
    by (simp add: decode_roles) (intro exI [of _ "map (\<lambda>n. zero_KeycloakRole\<lparr>kr_Name := n\<rparr>) (w_roles w)"], force)
  show "rq_Method q = ''GET'' \<Longrightarrow> rq_URL q = role_url c realm n \<Longrightarrow> plain_name n \<Longrightarrow>
        replies ?E ?R q w (\<lambda>s. s = (if n \<in> ?R w then 200 else 404))
          (\<lambda>b. n \<in> ?R w \<longrightarrow> (\<exists>r. Unmarshal decode_KeycloakRole b = Inr r)) (?R w)"
    by (simp add: role_url_def decode_role)
  show "rq_Method q = ''POST'' \<Longrightarrow> rq_URL q = roles_url c realm \<Longrightarrow> rq_Body q = Some json \<Longrightarrow>
        Unmarshal decode_KeycloakRole json = Inr r \<Longrightarrow> plain_name (kr_Name r) \<Longrightarrow> kr_Name r \<notin> ?R w \<Longrightarrow>
        \<exists>s. name_added (kr_Name r) (?R w) s \<and> replies ?E ?R q w (\<lambda>s. s = 201) (\<lambda>b. True) s"
    by (simp add: name_added_def)
  show "rq_Method q = ''DELETE'' \<Longrightarrow> rq_URL q = role_url c realm n \<Longrightarrow> plain_name n \<Longrightarrow> n \<in> ?R w \<Longrightarrow>
        \<exists>s. name_removed n (?R w) s \<and> replies ?E ?R q w (\<lambda>s. s = 204) (\<lambda>b. True) s"
    by (auto simp: role_url_def name_removed_def)
qed (simp_all add: cluster_def name_added_def name_removed_def)

interpretation role_files: role_templates "cluster (roles_site c realm)" "''t''" for c realm
  by unfold_locales (simp_all add: cluster_def roles_site_def)

interpretation role_loop: role_reconciler "client_interface c" realm "cluster (roles_site c realm)" "\<lambda>w. set (w_roles w)" "\<lambda>R. R"
  name_added name_removed "''t''" for c realm
  by unfold_locales

subsection \<open>The reconciliation of roles\<close>

text \<open>
  C9. On a server with Keycloak's behaviour, with the template of the repository and with names
  that need no escaping, the reconciliation of the roles of a realm succeeds and is exact: in
  whatever order the runtime visits the pairs, the realm has afterwards the roles of the
  resource and those of its previous roles that are defaults, and no other; and the server was
  asked only to create roles that stay and to delete roles that go.
\<close>

theorem reconcileRoles_correct:
  assumes "rest_roles c realm E st roles added removed" and "role_templates E dir"
    and "us_Roles (ru_Spec u) = map Some ss" and "ru_Realm u = realm"
    and "\<forall>n \<in> role_Name ` set ss \<union> roles (st w). plain_name n"
  shows "\<exists>w'. exec E (reconcileRoles (client_interface c) u) w = (Done (Inr ()), w') \<and>
    edits added removed (role_Name ` set ss \<union> set defaultRoles) (st w) (st w') \<and>
    roles (st w') = role_Name ` set ss \<union> (roles (st w) \<inter> set defaultRoles)"
proof -
  have "keycloak_roles (client_interface c) realm E st roles added removed"
    using assms(1) by (rule rest_roles.client_roles)
  then have "role_reconciler (client_interface c) realm E st roles added removed dir"
    using assms(2) by (simp add: role_reconciler_def)
  from role_reconciler.reconcileRoles_exec [OF this assms(3,4), of w] assms(5) show ?thesis by blast
qed

lemma reconcileRoles_correct_witness:
  "\<exists>w'. exec (cluster (roles_site \<lparr>cl_URL = ''https://sso'', cl_token = ''t''\<rparr> ''r1''))
      (reconcileRoles (client_interface \<lparr>cl_URL = ''https://sso'', cl_token = ''t''\<rparr>) (sample_user PhaseReconcile ''r1'' [] None))
      ((sample_world [] [])\<lparr>w_roles := [''admin'', ''guest'']\<rparr>) = (Done (Inr ()), w') \<and>
    set (w_roles w') = {''auditor'', ''admin''}"
proof -
  let ?u = "sample_user PhaseReconcile ''r1'' [] None" and ?c = "\<lparr>cl_URL = ''https://sso'', cl_token = ''t''\<rparr>"
  let ?w = "(sample_world [] [])\<lparr>w_roles := [''admin'', ''guest'']\<rparr>"
  have p: "\<forall>n \<in> role_Name ` set [\<lparr>role_Name = ''auditor''\<rparr>] \<union> set (w_roles ?w). plain_name n"
    by code_simp
  have u: "us_Roles (ru_Spec ?u) = map Some [\<lparr>role_Name = ''auditor''\<rparr>]" "ru_Realm ?u = ''r1''"
    by (simp_all add: sample_user_def)
  obtain w' where w': "exec (cluster (roles_site ?c ''r1'')) (reconcileRoles (client_interface ?c) ?u) ?w = (Done (Inr ()), w')"
    "set (w_roles w') = role_Name ` set [\<lparr>role_Name = ''auditor''\<rparr>] \<union> (set (w_roles ?w) \<inter> set defaultRoles)"
    using reconcileRoles_correct [of ?c "''r1''" "cluster (roles_site ?c ''r1'')" "\<lambda>w. set (w_roles w)" "\<lambda>R. R" name_added name_removed "''t''" ?u
        "[\<lparr>role_Name = ''auditor''\<rparr>]" ?w]
      role_server.rest_roles_axioms [of ?c "''r1''"] role_files.role_templates_axioms [of ?c "''r1''"] u p by blast
  have "role_Name ` set [\<lparr>role_Name = ''auditor''\<rparr>] \<union> (set (w_roles ?w) \<inter> set defaultRoles) = {''auditor'', ''admin''}"
    by code_simp
  with w' show ?thesis by auto
qed

end
