(* ===== verification/KeycloakProperties.thy ===== *)
theory KeycloakProperties
  imports KeycloakContract
begin

text \<open>
  The properties of the REST client: what each kind of request accepts as an answer, what it
  leaves open, what logging in sends, and two methods that do not do what their callers expect.
\<close>

definition sample_client :: Client where
  "sample_client = \<lparr>cl_URL = ''https://sso'', cl_token = ''t''\<rparr>"

definition response :: "int \<Rightarrow> Response" where
  "response status = \<lparr>rs_StatusCode = status, rs_Status = ''''\<rparr>"

lemma response_status [simp]: "rs_StatusCode (response s) = s"
  by (simp add: response_def)

subsection \<open>Reading\<close>

definition get_request :: "Client \<Rightarrow> string \<Rightarrow> Request" where
  "get_request c path = \<lparr>rq_Method = ''GET'', rq_URL = admin_url c path, rq_Header = [bearer c], rq_Body = None\<rparr>"

lemma get_ok_iff:
  "runs (get c path what f) tr (Done (Inr x)) \<longleftrightarrow>
     (\<exists>res body. rs_StatusCode res = 200 \<and> f body = Inr x \<and>
        tr = [ENewRequest ''GET'' (admin_url c path) (Inr ()), EHttpDo (get_request c path) (Inr res),
              EReadBody (Inr body), ECloseBody])"
proof
  assume "runs (get c path what f) tr (Done (Inr x))"
  then obtain res b where tr: "rs_StatusCode res = 200" "tr = [ENewRequest ''GET'' (admin_url c path) (Inr ()),
        EHttpDo (get_request c path) (Inr res), EReadBody b, ECloseBody]"
      "Inr x = (case b of Inl err \<Rightarrow> Inl (WithMessage (''error reading '' @ what @ '' GET response'') err) | Inr body \<Rightarrow> f body)"
    by (auto simp: get_def get_request_def runs_branch_iff)
  then show "\<exists>res body. rs_StatusCode res = 200 \<and> f body = Inr x \<and>
        tr = [ENewRequest ''GET'' (admin_url c path) (Inr ()), EHttpDo (get_request c path) (Inr res),
              EReadBody (Inr body), ECloseBody]"
    by (cases b) auto
qed (auto simp: get_def get_request_def)

lemma get_never_panics: "\<not> runs (get c path what f) tr (Panicked s)"
  by (auto simp: get_def runs_branch_iff)

text \<open>
  C32. A read succeeds with a value exactly when the request could be made, was answered with
  status 200, the body could be read and decodes to this value: the calls are then the request
  with the token of the client, one reading of the body and one closing of it.
\<close>

theorem get_succeeds_iff:
  "runs (get c path what f) tr (Done (Inr x)) \<longleftrightarrow>
     (\<exists>res body. rs_StatusCode res = 200 \<and> f body = Inr x \<and>
        tr = [ENewRequest ''GET'' (admin_url c path) (Inr ()), EHttpDo (get_request c path) (Inr res),
              EReadBody (Inr body), ECloseBody])"
  by (rule get_ok_iff)

definition answered_request :: "event list \<Rightarrow> bool" where
  "answered_request tr \<longleftrightarrow> (\<exists>q res. EHttpDo q (Inr res) \<in> set tr)"

text \<open>
  C33. Every request, the login among them, closes the body of its response but one: a read that is
  answered with a status other than 200 returns without closing it. The other requests close it
  whenever there is a response.
\<close>

theorem response_bodies_closed:
  "(runs (create c obj path what st) tr out \<longrightarrow> ECloseBody \<in> set tr \<longleftrightarrow> answered_request tr) \<and>
   (runs (delete c path what) tr out \<longrightarrow> ECloseBody \<in> set tr \<longleftrightarrow> answered_request tr) \<and>
   (runs (deleteWithBody c obj path what) tr out \<longrightarrow> ECloseBody \<in> set tr \<longleftrightarrow> answered_request tr) \<and>
   (runs (list_all_of c path what f) tr' out' \<longrightarrow> ECloseBody \<in> set tr' \<longleftrightarrow> answered_request tr') \<and>
   (runs (login c user pass) tr'' out'' \<longrightarrow> ECloseBody \<in> set tr'' \<longleftrightarrow> answered_request tr'') \<and>
   (runs (get c path what f) tr' out' \<longrightarrow> ECloseBody \<in> set tr' \<longleftrightarrow>
      (\<exists>q res. EHttpDo q (Inr res) \<in> set tr' \<and> rs_StatusCode res = 200))"
proof (intro conjI impI)
  show "runs (create c obj path what st) tr out \<Longrightarrow> ECloseBody \<in> set tr \<longleftrightarrow> answered_request tr"
    by (auto simp: create_def answered_request_def runs_branch_iff)
  show "runs (delete c path what) tr out \<Longrightarrow> ECloseBody \<in> set tr \<longleftrightarrow> answered_request tr"
    by (auto simp: delete_def answered_request_def runs_branch_iff)
  show "runs (deleteWithBody c obj path what) tr out \<Longrightarrow> ECloseBody \<in> set tr \<longleftrightarrow> answered_request tr"
    by (auto simp: deleteWithBody_def answered_request_def runs_branch_iff)
  show "runs (list_all_of c path what f) tr' out' \<Longrightarrow> ECloseBody \<in> set tr' \<longleftrightarrow> answered_request tr'"
    by (auto simp: list_all_of_def answered_request_def runs_branch_iff)
  show "runs (login c user pass) tr'' out'' \<Longrightarrow> ECloseBody \<in> set tr'' \<longleftrightarrow> answered_request tr''"
    by (auto simp: login_def Let_def answered_request_def runs_branch_iff)
  show "runs (get c path what f) tr' out' \<Longrightarrow> ECloseBody \<in> set tr' \<longleftrightarrow>
      (\<exists>q res. EHttpDo q (Inr res) \<in> set tr' \<and> rs_StatusCode res = 200)"
    by (auto simp: get_def runs_branch_iff)
qed

lemma response_bodies_closed_witness:
  "ECloseBody \<notin> set [ENewRequest ''GET'' (admin_url sample_client ''x'') (Inr ()),
     EHttpDo (get_request sample_client ''x'') (Inr (response 404))]"
proof -
  have "runs (get sample_client ''x'' ''what'' (\<lambda>b. Inr b)) [ENewRequest ''GET'' (admin_url sample_client ''x'') (Inr ()),
     EHttpDo (get_request sample_client ''x'') (Inr (response 404))]
     (Done (Inl (status_error ''failed to GET'' ''what'' (response 404))))"
    by (simp add: get_def get_request_def)
  with response_bodies_closed [of sample_client _ "''x''" "''what''"] show ?thesis by simp
qed

subsection \<open>Two methods that surprise their callers\<close>

text \<open>
  GetUser never returns an error: when the request fails in any way it panics, because its
  result is converted before the error is looked at.
\<close>

lemma GetUser_panics:
  assumes "runs (Client_GetUser c ident realm) tr out"
  shows "out = Panicked ''interface conversion: interface is nil, not KeycloakApiUser'' \<or>
    (\<exists>user res body. out = Done (Inr (zero_KeycloakUser\<lparr>ku_KeycloakApiUser := Some user\<rparr>)) \<and>
       EHttpDo (get_request c (''realms/'' @ realm @ ''/users/'' @ ident)) (Inr res) \<in> set tr \<and> rs_StatusCode res = 200 \<and>
       EReadBody (Inr body) \<in> set tr \<and> Unmarshal decode_KeycloakApiUser body = Inr user)"
proof -
  let ?path = "''realms/'' @ realm @ ''/users/'' @ ident"
  from assms obtain r t1 t2 where t: "tr = t1 @ t2" "runs (get c ?path ''user'' (Unmarshal decode_KeycloakApiUser)) t1 (Done r)"
    and run: "runs (case r of Inl err \<Rightarrow> Panic ''interface conversion: interface is nil, not KeycloakApiUser''
        | Inr user \<Rightarrow> Return (Inr (zero_KeycloakUser\<lparr>ku_KeycloakApiUser := Some user\<rparr>))) t2 out"
    unfolding Client_GetUser_def runs_bind_iff using get_never_panics by blast
  show ?thesis
  proof (cases r)
    case (Inl err)
    with run show ?thesis by simp
  next
    case (Inr user)
    have "runs (get c ?path ''user'' (Unmarshal decode_KeycloakApiUser)) t1 (Done (Inr user))" using t(2) Inr by simp
    then obtain res body where "rs_StatusCode res = 200" "Unmarshal decode_KeycloakApiUser body = Inr user"
        "t1 = [ENewRequest ''GET'' (admin_url c ?path) (Inr ()), EHttpDo (get_request c ?path) (Inr res),
          EReadBody (Inr body), ECloseBody]"
      unfolding get_ok_iff by blast
    with Inr run t(1) show ?thesis by (intro disjI2 exI [of _ user] exI [of _ res] exI [of _ body]) simp
  qed
qed

lemma GetUser_panics_witness:
  "runs (Client_GetUser sample_client ''i'' ''r'')
     [ENewRequest ''GET'' (admin_url sample_client ''realms/r/users/i'') (Inr ()),
      EHttpDo (get_request sample_client ''realms/r/users/i'') (Inr (response 404))]
     (Panicked ''interface conversion: interface is nil, not KeycloakApiUser'')"
proof -
  have "\<exists>out. runs (Client_GetUser sample_client ''i'' ''r'')
     [ENewRequest ''GET'' (admin_url sample_client ''realms/r/users/i'') (Inr ()),
      EHttpDo (get_request sample_client ''realms/r/users/i'') (Inr (response 404))] out"
    by (simp add: Client_GetUser_def get_def get_request_def)
  then show ?thesis using GetUser_panics by fastforce
qed

text \<open>
  C34. FindUserByUsername takes the first user of the answer, whoever it is: it succeeds exactly
  when the server answered the search with status 200 and a list whose first element is a user
  with an identifier, and returns this user without comparing the names.
\<close>

theorem FindUserByUsername_takes_first:
  "runs (Client_FindUserByUsername c name realm) tr (Done (Inr user)) \<longleftrightarrow>
     (\<exists>res body others. rs_StatusCode res = 200 \<and> kau_ID user \<noteq> '''' \<and>
        Unmarshal (decode_slice (decode_ptr decode_KeycloakApiUser)) body = Inr (Some user # others) \<and>
        tr = [ENewRequest ''GET'' (admin_url c (''realms/'' @ realm @ ''/users?username='' @ name)) (Inr ()),
              EHttpDo (get_request c (''realms/'' @ realm @ ''/users?username='' @ name)) (Inr res),
              EReadBody (Inr body), ECloseBody])"
proof -
  let ?path = "''realms/'' @ realm @ ''/users?username='' @ name"
  let ?f = "\<lambda>body. case Unmarshal (decode_slice (decode_ptr decode_KeycloakApiUser)) body of
            Inl err \<Rightarrow> Inl err
          | Inr users \<Rightarrow> (case users of [] \<Rightarrow> Inr (Some zero_KeycloakApiUser) | u # us \<Rightarrow> Inr u)"
  have f: "?f body = Inr (Some user) \<and> kau_ID user \<noteq> '''' \<longleftrightarrow> kau_ID user \<noteq> '''' \<and>
      (\<exists>others. Unmarshal (decode_slice (decode_ptr decode_KeycloakApiUser)) body = Inr (Some user # others))" for body
    by (auto simp: zero_KeycloakApiUser_def split: sum.splits list.splits)
  have "runs (Client_FindUserByUsername c name realm) tr (Done (Inr user)) \<longleftrightarrow>
      runs (get c ?path ''user'' ?f) tr (Done (Inr (Some user))) \<and> kau_ID user \<noteq> ''''"
    unfolding Client_FindUserByUsername_def runs_check_done_iff
    by (auto simp: deref_def split: option.splits if_split_asm)
  also have "\<dots> \<longleftrightarrow> (\<exists>res body. rs_StatusCode res = 200 \<and> (?f body = Inr (Some user) \<and> kau_ID user \<noteq> '''') \<and>
        tr = [ENewRequest ''GET'' (admin_url c ?path) (Inr ()), EHttpDo (get_request c ?path) (Inr res),
              EReadBody (Inr body), ECloseBody])"
    unfolding get_ok_iff by blast
  finally show ?thesis unfolding f by auto
qed

text \<open>
  The example: a search for "jo" answered with the user "joanna" finds joanna.
\<close>

lemma first_user_may_be_another:
  "case Unmarshal (decode_slice (decode_ptr decode_KeycloakApiUser)) ''[{\"id\":\"7\",\"username\":\"joanna\"}]'' of
     Inr [Some user] \<Rightarrow> kau_UserName user = ''joanna'' \<and> kau_ID user = ''7'' | _ \<Rightarrow> False"
  by code_simp

subsection \<open>Logging in\<close>

definition login_url :: "Client \<Rightarrow> string" where
  "login_url c = cl_URL c @ ''/'' @ authUrl"

definition login_request :: "Client \<Rightarrow> string \<Rightarrow> string \<Rightarrow> Request" where
  "login_request c user pass = \<lparr>rq_Method = ''POST'', rq_URL = login_url c,
     rq_Header = [(''Content-Type'', ''application/x-www-form-urlencoded'')],
     rq_Body = Some (form_Encode [(''username'', user), (''password'', pass), (''client_id'', ''admin-cli''),
       (''grant_type'', ''password'')])\<rparr>"

text \<open>Reading a form body: the pairs between ampersands, both sides of the first equality sign unescaped.\<close>

fun hex_digit_value :: "char \<Rightarrow> int" where
  "hex_digit_value c = (if char_code c < 58 then char_code c - 48 else char_code c - 55)"

fun unescape :: "string \<Rightarrow> string" where
  "unescape [] = []"
| "unescape (c # cs) =
     (if c = CHR ''+'' then CHR '' '' # unescape cs
      else if c = CHR 0x25 then
        (case cs of a # b # ds \<Rightarrow> char_of (16 * hex_digit_value a + hex_digit_value b) # unescape ds | _ \<Rightarrow> [])
      else c # unescape cs)"

definition parse_pair :: "string \<Rightarrow> string \<times> string" where
  "parse_pair s = (unescape (takeWhile (\<lambda>c. c \<noteq> CHR ''='') s), unescape (tl (dropWhile (\<lambda>c. c \<noteq> CHR ''='') s)))"

function parse_form :: "string \<Rightarrow> (string \<times> string) list" where
  "parse_form s =
     (if s = [] then []
      else parse_pair (takeWhile (\<lambda>c. c \<noteq> CHR ''&'') s) # parse_form (tl (dropWhile (\<lambda>c. c \<noteq> CHR ''&'') s)))"
  by pat_completeness auto
termination
proof (relation "measure length")
  fix s :: string assume "s \<noteq> []"
  have "length (tl (dropWhile P s)) < length s" for P
  proof (cases "dropWhile P s")
    case Nil
    then have "tl (dropWhile P s) = []" by (simp only: list.sel)
    with \<open>s \<noteq> []\<close> show ?thesis by (metis length_greater_0_conv list.size(3))
  next
    case (Cons x xs)
    then show ?thesis using length_dropWhile_le [of P s] by simp
  qed
  then show "(tl (dropWhile (\<lambda>c. c \<noteq> CHR ''&'') s), s) \<in> measure length" by simp
qed simp

declare parse_form.simps [simp del]

lemma hex_digit_value_digit: "0 \<le> n \<Longrightarrow> n < 16 \<Longrightarrow> hex_digit_value (hex_digit n) = n"
  by (auto simp: hex_digit_def char_code_def of_char_of)

lemma hex_digit_chars: "0 \<le> n \<Longrightarrow> n < 16 \<Longrightarrow> hex_digit n \<noteq> CHR ''&'' \<and> hex_digit n \<noteq> CHR ''=''"
proof -
  assume n: "0 \<le> n" "n < 16"
  have "char_code (hex_digit n) = (if n < 10 then 48 + n else 55 + n)"
    using n by (auto simp: hex_digit_def char_code_def)
  moreover have "char_code (CHR ''&'') = 38" "char_code (CHR ''='') = 61" by code_simp+
  ultimately show ?thesis using n by (auto split: if_split_asm)
qed

lemma char_code_range: "0 \<le> char_code c" "char_code c < 256" "char_of (char_code c) = c"
proof -
  have m: "of_char c mod 256 = (of_char c :: int)" by simp
  show "0 \<le> char_code c" "char_code c < 256"
    using pos_mod_sign [of 256 "of_char c :: int"] pos_mod_bound [of 256 "of_char c :: int"] unfolding m char_code_def by simp_all
  show "char_of (char_code c) = c" by (simp add: char_code_def)
qed

lemma char_code_halves:
  "0 \<le> char_code c div 16" "char_code c div 16 < 16" "0 \<le> char_code c mod 16" "char_code c mod 16 < 16"
  using char_code_range [of c] by auto

lemma unescape_char: "unescape (query_escape_char c @ s) = c # unescape s"
proof -
  have codes: "char_code (CHR ''+'') = 43" "char_code (CHR 0x25) = 37" by code_simp+
  have safe: "c \<noteq> CHR ''+'' \<and> c \<noteq> CHR 0x25"
    if "(48 \<le> char_code c \<and> char_code c \<le> 57) \<or> (65 \<le> char_code c \<and> char_code c \<le> 90)
         \<or> (97 \<le> char_code c \<and> char_code c \<le> 122) \<or> c \<in> set ''-_.~''"
    using that codes by auto
  have "CHR 0x25 \<noteq> CHR ''+''" by simp
  then show ?thesis
    using safe char_code_halves [of c] char_code_range(3) [of c]
    by (auto simp: query_escape_char_def hex_digit_value_digit simp del: hex_digit_value.simps)
qed

lemma unescape_QueryEscape: "unescape (QueryEscape s) = s"
  unfolding QueryEscape_def by (induction s) (simp_all add: unescape_char)

lemma query_escape_char_safe: "CHR ''&'' \<notin> set (query_escape_char c) \<and> CHR ''='' \<notin> set (query_escape_char c)"
proof -
  have "char_code (CHR ''&'') = 38" "char_code (CHR ''='') = 61" by code_simp+
  then show ?thesis
    using hex_digit_chars [OF char_code_halves(1,2) [of c]] hex_digit_chars [OF char_code_halves(3,4) [of c]]
    by (auto simp: query_escape_char_def)
qed

lemma QueryEscape_safe: "CHR ''&'' \<notin> set (QueryEscape s)" "CHR ''='' \<notin> set (QueryEscape s)"
  unfolding QueryEscape_def using query_escape_char_safe by (induction s) auto

lemma takeWhile_sep: "x \<notin> set s \<Longrightarrow> takeWhile (\<lambda>c. c \<noteq> x) (s @ x # t) = s \<and> dropWhile (\<lambda>c. c \<noteq> x) (s @ x # t) = x # t"
  by (induction s) auto

lemma takeWhile_end: "x \<notin> set s \<Longrightarrow> takeWhile (\<lambda>c. c \<noteq> x) s = s \<and> dropWhile (\<lambda>c. c \<noteq> x) s = []"
  by (induction s) auto

lemma parse_pair_join: "parse_pair (QueryEscape k @ ''='' @ QueryEscape v) = (k, v)"
  using takeWhile_sep [OF QueryEscape_safe(2)] by (simp add: parse_pair_def unescape_QueryEscape)

lemma parse_form_join: "parse_form (join_pairs kvs) = kvs"
proof (induction kvs rule: join_pairs.induct)
  case 1
  then show ?case by (simp add: parse_form.simps)
next
  case (2 k v)
  have "CHR ''&'' \<notin> set (QueryEscape k @ ''='' @ QueryEscape v)" using QueryEscape_safe by simp
  note w = takeWhile_end [OF this]
  have "parse_form (QueryEscape k @ ''='' @ QueryEscape v) =
      parse_pair (QueryEscape k @ ''='' @ QueryEscape v) # parse_form (tl [])"
    by (subst parse_form.simps) (simp only: w, simp)
  with parse_pair_join [of k v] show ?case by (simp add: parse_form.simps [of "[]"])
next
  case (3 k v p kvs)
  let ?t = "join_pairs (p # kvs)"
  have "CHR ''&'' \<notin> set (QueryEscape k @ ''='' @ QueryEscape v)" using QueryEscape_safe by simp
  note w = takeWhile_sep [OF this, of ?t]
  have "parse_form ((QueryEscape k @ ''='' @ QueryEscape v) @ CHR ''&'' # ?t) =
      parse_pair (QueryEscape k @ ''='' @ QueryEscape v) # parse_form ?t"
    by (subst parse_form.simps) (simp only: w, simp)
  with 3 parse_pair_join show ?case by simp
qed

text \<open>
  C35. Logging in posts one form, and the form says what it should whatever the characters of the
  credentials: read as a form it has exactly the four entries, the user and the password as they
  are in the secret.
\<close>

theorem login_form_roundtrip:
  assumes "runs (login c user pass) tr out" and "EHttpDo q a \<in> set tr"
  shows "rq_Method q = ''POST'' \<and> rq_URL q = login_url c \<and>
    (\<exists>body. rq_Body q = Some body \<and>
       map_of (parse_form body) = [''username'' \<mapsto> user, ''password'' \<mapsto> pass, ''client_id'' \<mapsto> ''admin-cli'', ''grant_type'' \<mapsto> ''password''])"
proof -
  let ?form = "[(''username'', user), (''password'', pass), (''client_id'', ''admin-cli''), (''grant_type'', ''password'')]"
  have "map_of (sort_key fst ?form) = [''username'' \<mapsto> user, ''password'' \<mapsto> pass, ''client_id'' \<mapsto> ''admin-cli'', ''grant_type'' \<mapsto> ''password'']"
    by (auto simp: fun_eq_iff)
  moreover have "parse_form (form_Encode ?form) = sort_key fst ?form"
    by (simp only: form_Encode_def parse_form_join)
  moreover have "rq_Method q = ''POST'' \<and> rq_URL q = login_url c \<and> rq_Body q = Some (form_Encode ?form)"
    using assms unfolding login_def Let_def login_url_def by (auto simp: runs_branch_iff)
  ultimately show ?thesis by simp
qed

lemma login_form_roundtrip_witness:
  "\<exists>body. rq_Body (login_request sample_client ''admin'' ''p&w=1'') = Some body \<and> map_of (parse_form body) ''password'' = Some ''p&w=1''"
proof -
  have "runs (login sample_client ''admin'' ''p&w=1'') [ENewRequest ''POST'' (login_url sample_client) (Inr ()),
      EHttpDo (login_request sample_client ''admin'' ''p&w=1'') (Inl (ErrorString ''timeout''))]
      (Done (Inl (WithMessage ''error performing token request'' (ErrorString ''timeout''))))"
    by (simp add: login_def Let_def login_url_def login_request_def)
  from login_form_roundtrip [OF this, of "login_request sample_client ''admin'' ''p&w=1''" "Inl (ErrorString ''timeout'')"]
  show ?thesis by auto
qed

text \<open>
  C36. Whether the login worked is read off the body alone: with any status whatever, a body that
  decodes to a token response without an "error" entry makes an authenticated client, even when
  it has no token.
\<close>

theorem login_ignores_status:
  "runs (login c user pass) tr (Done (Inr c')) \<longleftrightarrow>
     (\<exists>res body token. Unmarshal decode_TokenResponse body = Inr token \<and> tr_Error token = '''' \<and>
        c' = c\<lparr>cl_token := tr_AccessToken token\<rparr> \<and>
        tr = [ENewRequest ''POST'' (login_url c) (Inr ()), EHttpDo (login_request c user pass) (Inr res),
              EReadBody (Inr body), ECloseBody])"
proof
  assume "runs (login c user pass) tr (Done (Inr c'))"
  then obtain res b where tr: "tr = [ENewRequest ''POST'' (login_url c) (Inr ()),
        EHttpDo (login_request c user pass) (Inr res), EReadBody b, ECloseBody]"
    and c': "Inr c' = (case b of Inl err \<Rightarrow> Inl (WithMessage ''error reading token response'' err)
       | Inr body \<Rightarrow> (case Unmarshal decode_TokenResponse body of
           Inl err \<Rightarrow> Inl (WithMessage ''error parsing token response'' err)
         | Inr tokenRes \<Rightarrow> if tr_Error tokenRes \<noteq> '''' then Inl (ErrorString (tr_ErrorDescription tokenRes))
                         else Inr (c\<lparr>cl_token := tr_AccessToken tokenRes\<rparr>)))"
    unfolding login_def Let_def login_url_def login_request_def by (auto simp: runs_branch_iff)
  from c' tr show "\<exists>res body token. Unmarshal decode_TokenResponse body = Inr token \<and> tr_Error token = '''' \<and>
        c' = c\<lparr>cl_token := tr_AccessToken token\<rparr> \<and>
        tr = [ENewRequest ''POST'' (login_url c) (Inr ()), EHttpDo (login_request c user pass) (Inr res),
              EReadBody (Inr body), ECloseBody]"
    by (auto split: sum.split_asm if_split_asm)
qed (auto simp: login_def Let_def login_url_def login_request_def)

text \<open>The example: an unavailable server that answers with an empty object has logged the operator in.\<close>

lemma empty_token_accepted:
  "runs (login sample_client ''admin'' ''pw'') [ENewRequest ''POST'' (login_url sample_client) (Inr ()),
     EHttpDo (login_request sample_client ''admin'' ''pw'') (Inr (response 503)), EReadBody (Inr ''{}''), ECloseBody]
     (Done (Inr (sample_client\<lparr>cl_token := ''''\<rparr>)))"
proof -
  have "Unmarshal decode_TokenResponse ''{}'' = Inr zero_TokenResponse"
    by code_simp
  then show ?thesis by (simp add: login_def Let_def login_url_def login_request_def zero_TokenResponse_def)
qed

end
