(* ===== verification/Histories.thy ===== *)
theory Histories
  imports Lifecycle
begin

text \<open>
  Both controllers at work at the same time on the resources of one API server, and users editing
  them. A history is the sequence of all calls in the order the server sees them; each
  controller contributes its own reconciliations, one after the other, any of which may have
  been cut off by a crash. The server keeps every version of one RhpamDev resource and accepts an
  update only of its newest version; what it answers to a read may be an old version, because
  the operator reads through a cache. The result is that the phases the resource goes through
  are a life in the sense of theory Lifecycle, whatever the interleaving.
\<close>

subsection \<open>The API server, for one resource\<close>

abbreviation dev_ResourceVersion :: "RhpamDev \<Rightarrow> string" where
  "dev_ResourceVersion d \<equiv> om_ResourceVersion (dev_ObjectMeta d)"

definition versions :: "RhpamDev list \<Rightarrow> string list" where
  "versions L = map dev_ResourceVersion L"

text \<open>
  The versions of the resource with key \<^theory_text>\<open>k\<close>, newest first, after the server handled a call with its
  answer; None when the server does not answer so. A read answers with a stored version of the
  key asked for; an accepted update was made from the newest version and stores the resource as
  sent, under the same key and with a version of its own.
\<close>

definition serve :: "NamespacedName \<Rightarrow> RhpamDev list \<Rightarrow> event \<Rightarrow> RhpamDev list option" where
  "serve k L ev = (case ev of
      EGetRhpamDev q r \<Rightarrow> (case r of Inl e \<Rightarrow> Some L | Inr d \<Rightarrow>
        if dev_key d = q \<and> (q = k \<longrightarrow> d \<in> set L) then Some L else None)
    | EListRhpamDev ns r \<Rightarrow> (case r of Inl e \<Rightarrow> Some L | Inr ds \<Rightarrow>
        if list_all (\<lambda>d. dev_key d = k \<longrightarrow> d \<in> set L) ds then Some L else None)
    | EUpdateRhpamDev w r \<Rightarrow> (case r of Inl e \<Rightarrow> Some L | Inr d \<Rightarrow>
        if dev_key d = dev_key w \<and> dev_Status d = dev_Status w \<and> dev_Spec d = dev_Spec w \<and>
           (dev_key w = k \<longrightarrow> dev_ResourceVersion w = hd (versions L) \<and> dev_ResourceVersion d \<notin> set (versions L))
        then Some (if dev_key w = k then d # L else L) else None)
    | _ \<Rightarrow> Some L)"

text \<open>
  A call of the RhpamDev controller, a call of the RhpamUser controller, and an edit by someone
  else, who may change or delete the resource but does not write its status.
\<close>

datatype action = Dev event | User event | Edit RhpamDev

inductive history :: "NamespacedName \<Rightarrow> action list \<Rightarrow> RhpamDev list \<Rightarrow> bool" for k where
  created: "dev_key d = k \<Longrightarrow> dev_Phase d = NoPhase \<Longrightarrow> history k [] [d]"
| dev: "history k H L \<Longrightarrow> serve k L ev = Some L' \<Longrightarrow> history k (H @ [Dev ev]) L'"
| user: "history k H L \<Longrightarrow> serve k L ev = Some L' \<Longrightarrow> history k (H @ [User ev]) L'"
| edit: "history k H L \<Longrightarrow> dev_key d = k \<Longrightarrow> dev_Status d = dev_Status (hd L) \<Longrightarrow>
    dev_ResourceVersion d \<notin> set (versions L) \<Longrightarrow> history k (H @ [Edit d]) (d # L)"

fun call_of :: "action \<Rightarrow> event option" where
  "call_of (Dev ev) = Some ev" | "call_of (User ev) = Some ev" | "call_of (Edit d) = None"

definition dev_calls :: "action list \<Rightarrow> event list" where
  "dev_calls H = List.map_filter (\<lambda>a. case a of Dev ev \<Rightarrow> Some ev | _ \<Rightarrow> None) H"

definition user_calls :: "action list \<Rightarrow> event list" where
  "user_calls H = List.map_filter (\<lambda>a. case a of User ev \<Rightarrow> Some ev | _ \<Rightarrow> None) H"

definition all_calls :: "action list \<Rightarrow> event list" where
  "all_calls H = List.map_filter call_of H"

lemma calls_simps [simp]:
  "dev_calls [] = []" "user_calls [] = []" "all_calls [] = []"
  "dev_calls (H @ [Dev ev]) = dev_calls H @ [ev]" "dev_calls (H @ [User ev]) = dev_calls H" "dev_calls (H @ [Edit d]) = dev_calls H"
  "user_calls (H @ [Dev ev]) = user_calls H" "user_calls (H @ [User ev]) = user_calls H @ [ev]" "user_calls (H @ [Edit d]) = user_calls H"
  "all_calls (H @ [Dev ev]) = all_calls H @ [ev]" "all_calls (H @ [User ev]) = all_calls H @ [ev]" "all_calls (H @ [Edit d]) = all_calls H"
  by (simp_all add: dev_calls_def user_calls_def all_calls_def List.map_filter_def)

lemma all_calls_parts: "set (dev_calls H) \<subseteq> set (all_calls H)" "set (user_calls H) \<subseteq> set (all_calls H)"
  by (auto simp: dev_calls_def user_calls_def all_calls_def List.map_filter_def split: action.splits) force+

subsection \<open>What the controllers do\<close>

definition begins :: "'a io \<Rightarrow> event list \<Rightarrow> bool" where
  "begins m tr \<longleftrightarrow> (\<exists>rest out. runs m (tr @ rest) out)"

text \<open>Reconciliations one after the other, each complete or cut off.\<close>

definition works :: "'a io set \<Rightarrow> event list \<Rightarrow> bool" where
  "works S tr \<longleftrightarrow> (\<exists>ts. tr = concat ts \<and> (\<forall>t \<in> set ts. \<exists>m \<in> S. begins m t))"

lemma begins_prefix: "begins m (t @ u) \<Longrightarrow> begins m t"
  unfolding begins_def by (metis append.assoc)

lemma works_last:
  assumes "works S (tr @ [ev])"
  obtains m p where "m \<in> S" "begins m (p @ [ev])" "set p \<subseteq> set tr"
proof -
  from assms obtain ts where "tr @ [ev] = concat ts" "\<forall>t \<in> set ts. \<exists>m \<in> S. begins m t"
    unfolding works_def by blast
  then show thesis
    using that
  proof (induction ts rule: rev_induct)
    case (snoc t ts)
    show ?case
    proof (cases t rule: rev_cases)
      case Nil
      with snoc show ?thesis by auto
    next
      case (snoc p x)
      with snoc.prems have "x = ev" "set p \<subseteq> set tr" "\<exists>m \<in> S. begins m (p @ [x])" by auto
      with snoc.prems(3) show ?thesis by blast
    qed
  qed simp
qed

lemma works_prefix:
  assumes "works S (tr @ [ev])"
  shows "works S tr"
proof -
  from assms obtain ts where "tr @ [ev] = concat ts" "\<forall>t \<in> set ts. \<exists>m \<in> S. begins m t"
    unfolding works_def by blast
  then show ?thesis
  proof (induction ts rule: rev_induct)
    case (snoc t ts)
    show ?case
    proof (cases t rule: rev_cases)
      case Nil
      with snoc show ?thesis by auto
    next
      case (snoc p x)
      with snoc.prems have "tr = concat (ts @ [p])" by simp
      moreover have "\<forall>t \<in> set (ts @ [p]). \<exists>m \<in> S. begins m t"
        using snoc snoc.prems(2) by (auto dest: begins_prefix)
      ultimately show ?thesis unfolding works_def by blast
    qed
  qed simp
qed

subsection \<open>What a write is made from\<close>

text \<open>
  A write of the RhpamDev controller is made from the version the reconciliation read, and its
  phase is a step from the phase of that version; or it is the second write of a provisioning,
  made from the answer to the first. A write of the RhpamUser controller is made from a version
  it listed.
\<close>

definition phase_step :: "StatusPhase \<Rightarrow> StatusPhase \<Rightarrow> bool" where
  "phase_step a b \<longleftrightarrow> b = PhaseDeprovisioned \<or> (\<exists>p q. a = phase_name p \<and> b = phase_name q \<and> lifecycle p q)"

definition made_from :: "RhpamDev \<Rightarrow> RhpamDev \<Rightarrow> bool" where
  "made_from b w \<longleftrightarrow> dev_key w = dev_key b \<and> dev_ResourceVersion w = dev_ResourceVersion b"

lemma phase_stepI: "lifecycle p q \<Longrightarrow> phase_step (phase_name p) (phase_name q)"
  by (auto simp: phase_step_def)

lemmas phase_steps = lifecycle.intros [THEN phase_stepI, unfolded phase_name.simps]

lemma made_from_simps [simp]:
  "made_from d (set_dev_phase p d)" "made_from d (moved p d)" "made_from d (moved p (set_dev_realm r d))"
  "made_from d (set_dev_finalizers fs d')  \<longleftrightarrow> made_from d d'"
  by (simp_all add: made_from_def dev_key_def)

lemma phase_step_path: "dev_path a = [b] \<Longrightarrow> phase_step a b"
  by (auto simp: dev_path_def intro: phase_steps split: if_split_asm)

lemma written: "w \<in> set (dev_writes (p @ EUpdateRhpamDev w a # s))"
  by simp

lemma Dev_reconcile_phase_update:
  assumes run: "runs (Dev_reconcile_phase ph d) (p @ EUpdateRhpamDev w a # s) out"
  shows "made_from d w \<and> phase_step (dev_Phase d) (dev_Phase w) \<or>
    (\<exists>w0 b. EUpdateRhpamDev w0 (Inr b) \<in> set p \<and> made_from b w \<and>
       dev_Phase w0 = PhaseRealmProvisioning \<and> dev_Phase w = PhaseRealmProvisioned)"
  using run
proof (cases rule: Dev_reconcile_phase_cases)
  case init
  have "guarantees keeps_resources (Return (Dev_Initialize d)) (\<lambda>r. \<forall>d'. r = Inr d' \<longrightarrow> made_from d d' \<and> dev_Phase d' = PhaseAccepted)"
    by (simp add: Dev_Initialize_ok made_from_def dev_key_def)
  from handle_moved_writes [OF this init(2), of w] init(1) show ?thesis by (simp add: phase_steps)
next
  case provision
  let ?d1 = "set_dev_phase PhaseRealmProvisioning d"
  from provision(2) show ?thesis
  proof (rule provisioning_runs)
    fix u t1 assume "p @ EUpdateRhpamDev w a # s = EUpdateRhpamDev ?d1 u # t1" "list_all keeps_resources t1"
    with written [of w p a s] have "w = ?d1" by simp
    with provision(1) show ?thesis by (simp add: phase_steps)
  next
    fix u u' t1 token
    let ?w2 = "moved PhaseRealmProvisioned (set_dev_realm (dev_Name (answered ?d1 u) @ ''-'' @ token) (answered ?d1 u))"
    assume t: "p @ EUpdateRhpamDev w a # s = EUpdateRhpamDev ?d1 u # t1 @ [EUpdateRhpamDev ?w2 u']"
      and k: "list_all keeps_resources t1"
    show ?thesis
    proof (cases p)
      case Nil
      with t provision(1) show ?thesis by (simp add: phase_steps)
    next
      case (Cons x p')
      with t have x: "x = EUpdateRhpamDev ?d1 u" and "p' @ EUpdateRhpamDev w a # s = t1 @ [EUpdateRhpamDev ?w2 u']" by auto
      with written [of w p' a s] k have w: "w = ?w2" by simp
      show ?thesis
      proof (cases u)
        case (Inl e)
        then have "made_from d w" unfolding w by (simp add: answered_def made_from_def dev_key_def)
        with w provision(1) show ?thesis by (simp add: phase_steps)
      next
        case (Inr b)
        then have "made_from b w" unfolding w by (simp add: answered_def)
        with w x Cons Inr show ?thesis by fastforce
      qed
    qed
  qed
next
  case wait
  from wait(2) show ?thesis
    by (rule waiting_writes) (auto simp: wait(1) phase_steps Cons_eq_append_conv append_eq_Cons_conv)
next
  case move
  from handle_moved_writes [OF move(3,4), of w] move(2) show ?thesis by (auto dest: phase_step_path)
qed simp

lemma Dev_Reconcile_update:
  assumes "begins (Dev_Reconcile r req) (p @ [EUpdateRhpamDev w a])"
  obtains (read) d where "EGetRhpamDev req (Inr d) \<in> set p" "made_from d w" "phase_step (dev_Phase d) (dev_Phase w)"
  | (second) w0 b where "EUpdateRhpamDev w0 (Inr b) \<in> set p" "made_from b w"
      "dev_Phase w0 = PhaseRealmProvisioning" "dev_Phase w = PhaseRealmProvisioned"
proof -
  from assms obtain s out where run: "runs (Dev_Reconcile r req) (p @ EUpdateRhpamDev w a # s) out"
    by (auto simp: begins_def)
  then show thesis
  proof (cases rule: Dev_Reconcile_runs)
    case early
    then show thesis by simp
  next
    case (found d t out')
    from found(1) obtain p' where p: "p = [ELookupEnv ''WATCH_NAMESPACE'' (Some (nn_Namespace req)), EGetRhpamDev req (Inr d)] @ p'"
      and t: "t = p' @ EUpdateRhpamDev w a # s"
      by (auto simp: append_eq_Cons_conv Cons_eq_append_conv)
    show thesis
    proof (cases "om_DeletionTimestamp (dev_ObjectMeta d) = None")
      case True
      with found(2) t have "runs (Dev_reconcile_phase (rd_phaseHandler r) d) (p' @ EUpdateRhpamDev w a # s) out'" by simp
      from Dev_reconcile_phase_update [OF this] read second p show thesis by auto
    next
      case False
      with found(2) t have "runs (Dev_reconcile_deletion (rd_phaseHandler r) d) (p' @ EUpdateRhpamDev w a # s) out'" by simp
      then have "w = set_dev_finalizers [] (set_dev_phase PhaseDeprovisioned d)"
        by (rule Dev_reconcile_deletion_runs) (use written [of w p' a s] in simp_all)
      with p show thesis by (intro read [of d]) (auto simp: phase_step_def)
    qed
  qed
qed

lemma user_handled:
  assumes "runs (bind m (\<lambda>(r, ph). bind (User_handleResult r rq) (\<lambda>res. Return (res, ph)))) tr out"
  obtains t1 t2 o1 where "runs m t1 o1" "tr = t1 @ t2" "dev_writes t2 = []"
proof -
  from assms consider s where "runs m tr (Panicked s)"
    | r h t1 t2 where "runs m t1 (Done (r, h))" "tr = t1 @ t2"
        "runs (bind (User_handleResult r rq) (\<lambda>res. Return (res, h))) t2 out"
    by (subst (asm) runs_bind_iff) auto
  then show thesis
    by cases (rule that [of tr _ "[]"], assumption, simp, simp,
        rule that, assumption, assumption, auto simp: runs_bind_iff User_handleResult_runs)
qed

lemma User_reconcile_phase_update:
  assumes run: "runs (User_reconcile_phase ph u) (p @ EUpdateRhpamDev w a # s) out"
  shows "\<exists>devs. EListRhpamDev (ru_Namespace u) (Inr devs) \<in> set p \<and> moves_on devs w"
proof -
  note defs = User_reconcile_phase_def Let_def user_phases_distinct
  note w = written [of w p a s]
  consider (init) "ru_Phase u = NoPhase" | (accepted) "ru_Phase u = PhaseAccepted" | (reconcile) "ru_Phase u = PhaseReconcile"
    | (idle) "user_next (ru_Phase u) = {}"
    by (metis user_next_def)
  then show ?thesis
  proof cases
    case init
    with run show ?thesis
      by (auto simp: defs runs_bind_iff User_handleResult_runs User_Initialize_ok append_eq_Cons_conv)
  next
    case accepted
    with run have "runs (bind (User_Accepted ph u) (\<lambda>(r, ph). bind (User_handleResult r True) (\<lambda>res. Return (res, ph)))) (p @ EUpdateRhpamDev w a # s) out"
      by (simp add: defs)
    then obtain t1 t2 o1 where acc: "runs (User_Accepted ph u) t1 o1" and t: "p @ EUpdateRhpamDev w a # s = t1 @ t2" and "dev_writes t2 = []"
      by (rule user_handled)
    with w have w1: "w \<in> set (dev_writes t1)" by (metis append.right_neutral trace_append(1))
    from acc show ?thesis
    proof (cases rule: User_Accepted_runs)
      case no_list
      with w1 show ?thesis by simp
    next
      case (listed devs t')
      with w1 have "moves_on devs w" by simp
      moreover have "EListRhpamDev (ru_Namespace u) (Inr devs) \<in> set p"
        using t listed(1) by (auto simp: append_eq_Cons_conv)
      ultimately show ?thesis by blast
    qed
  next
    case reconcile
    with run have "runs (bind (User_reconcile ph u) (\<lambda>(r, ph). bind (User_handleResult r False) (\<lambda>res. Return (res, ph)))) (p @ EUpdateRhpamDev w a # s) out"
      by (simp add: defs)
    then obtain t1 t2 o1 where rec: "runs (User_reconcile ph u) t1 o1" and t: "p @ EUpdateRhpamDev w a # s = t1 @ t2" and "dev_writes t2 = []"
      by (rule user_handled)
    with w have "w \<in> set (dev_writes t1)" by (metis append.right_neutral trace_append(1))
    with rec show ?thesis by (elim User_reconcile_runs) simp
  next
    case idle
    with User_reconcile_phase_idle [OF run] show ?thesis by simp
  qed
qed

lemma User_Reconcile_update:
  assumes "begins (User_Reconcile r req) (p @ [EUpdateRhpamDev w a])"
  obtains ns devs d where "EListRhpamDev ns (Inr devs) \<in> set p" "d \<in> set devs"
    "dev_Phase d = PhaseRealmProvisioned" "w = set_dev_phase PhasePrepare d"
proof -
  from assms obtain s out where run: "runs (User_Reconcile r req) (p @ EUpdateRhpamDev w a # s) out"
    by (auto simp: begins_def)
  then obtain e u p' where p: "p = e # EGetRhpamUser req (Inr u) # p'"
    by (auto simp: User_Reconcile_def GetWatchNamespace_def runs_branch_iff append_eq_Cons_conv split: option.split_asm if_split_asm)
  with run obtain out' where
      "runs (if om_DeletionTimestamp (ru_ObjectMeta u) \<noteq> None
             then User_reconcile_deletion (ruc_phaseHandler r) u else User_reconcile_phase (ruc_phaseHandler r) u)
         (p' @ EUpdateRhpamDev w a # s) out'"
    by (auto elim: User_Reconcile_found)
  then have "runs (User_reconcile_phase (ruc_phaseHandler r) u) (p' @ EUpdateRhpamDev w a # s) out'"
  proof (cases "om_DeletionTimestamp (ru_ObjectMeta u) = None")
    case False
    assume "runs (if om_DeletionTimestamp (ru_ObjectMeta u) \<noteq> None
             then User_reconcile_deletion (ruc_phaseHandler r) u else User_reconcile_phase (ruc_phaseHandler r) u)
         (p' @ EUpdateRhpamDev w a # s) out'"
    with False have "runs (User_reconcile_deletion (ruc_phaseHandler r) u) (p' @ EUpdateRhpamDev w a # s) out'" by simp
    then show ?thesis by (rule User_reconcile_deletion_runs) (use written [of w p' a s] in simp_all)
  qed simp
  from User_reconcile_phase_update [OF this] p that show thesis by (fastforce simp: moves_on_def)
qed

subsection \<open>Every history is a life\<close>

lemma serve_Some:
  assumes "serve k L ev = Some L'"
  obtains (same) "L' = L"
  | (stored) w d where "ev = EUpdateRhpamDev w (Inr d)" "L' = d # L" "dev_key w = k" "dev_key d = k"
      "dev_Status d = dev_Status w" "dev_ResourceVersion w = hd (versions L)" "dev_ResourceVersion d \<notin> set (versions L)"
proof (cases ev)
  case (EUpdateRhpamDev w r)
  with assms same stored show thesis by (cases r) (auto simp: serve_def split: if_split_asm)
qed (use assms same in \<open>auto simp: serve_def split: sum.split_asm if_split_asm\<close>)

lemma serve_keys:
  assumes "serve k L ev = Some L'" and "\<forall>d \<in> set L. dev_key d = k" and "distinct (versions L)" and "L \<noteq> []"
  shows "L' \<noteq> [] \<and> (\<forall>d \<in> set L'. dev_key d = k) \<and> distinct (versions L') \<and> set L \<subseteq> set L'"
  using assms(1) by (rule serve_Some) (use assms(2-4) in \<open>auto simp: versions_def\<close>)

text \<open>What the server answered so far is stored, and stored as it was sent.\<close>

definition answers_stored :: "NamespacedName \<Rightarrow> event list \<Rightarrow> RhpamDev list \<Rightarrow> bool" where
  "answers_stored k tr L \<longleftrightarrow>
     (\<forall>q d. EGetRhpamDev q (Inr d) \<in> set tr \<longrightarrow> dev_key d = k \<longrightarrow> d \<in> set L) \<and>
     (\<forall>ns ds d. EListRhpamDev ns (Inr ds) \<in> set tr \<longrightarrow> d \<in> set ds \<longrightarrow> dev_key d = k \<longrightarrow> d \<in> set L) \<and>
     (\<forall>w b. EUpdateRhpamDev w (Inr b) \<in> set tr \<longrightarrow> dev_Status b = dev_Status w \<and> (dev_key b = k \<longrightarrow> b \<in> set L))"

lemma answers_stored_mono: "answers_stored k tr L \<Longrightarrow> set L \<subseteq> set L' \<Longrightarrow> answers_stored k tr L'"
  unfolding answers_stored_def by blast

lemma answers_stored_snoc:
  assumes "answers_stored k tr L" and "serve k L ev = Some L'"
  shows "answers_stored k (tr @ [ev]) L'"
proof -
  have "set L \<subseteq> set L'" using assms(2) by (rule serve_Some) auto
  then have "answers_stored k tr L'" by (rule answers_stored_mono [OF assms(1)])
  moreover have "answers_stored k [ev] L'"
    using assms(2) by (cases ev) (auto simp: answers_stored_def serve_def list_all_iff split: sum.split_asm if_split_asm)
  ultimately show ?thesis unfolding answers_stored_def by auto
qed

lemma history_stored:
  "history k H L \<Longrightarrow> L \<noteq> [] \<and> (\<forall>d \<in> set L. dev_key d = k) \<and> distinct (versions L) \<and> answers_stored k (all_calls H) L"
proof (induction rule: history.induct)
  case (dev H L ev L')
  then show ?case using serve_keys [OF dev.hyps(2)] answers_stored_snoc [OF _ dev.hyps(2)] by simp
next
  case (user H L ev L')
  then show ?case using serve_keys [OF user.hyps(2)] answers_stored_snoc [OF _ user.hyps(2)] by simp
next
  case (edit H L d)
  then show ?case using answers_stored_mono [of k "all_calls H" L "d # L"] by (auto simp: versions_def)
qed (auto simp: versions_def answers_stored_def)

text \<open>A stored version is the newest one when it has the newest resource version.\<close>

lemma newest:
  assumes "distinct (versions L)" and "b \<in> set L" and "dev_ResourceVersion b = hd (versions L)"
  shows "b = hd L"
proof -
  from assms(2) obtain x xs where L: "L = x # xs" by (cases L) auto
  with assms show ?thesis by (auto simp: versions_def) (metis image_eqI)
qed

lemma life_extends:
  assumes "map phase_name ps = map dev_Phase (rev L)" and "lives ps" and "L \<noteq> []"
    and "dev_Phase d = dev_Phase (hd L) \<or> phase_step (dev_Phase (hd L)) (dev_Phase d)"
  shows "\<exists>ps. map phase_name ps = map dev_Phase (rev (d # L)) \<and> lives ps"
proof -
  from assms(1,3) have ne: "ps \<noteq> []" by auto
  have "phase_name (last ps) = dev_Phase (hd L)"
    using assms(1,3) ne by (metis last_map last_rev map_is_Nil_conv)
  with assms(4) obtain q where "phase_name q = dev_Phase d" "last ps = q \<or> lifecycle (last ps) q"
    unfolding phase_step_def by (metis lifecycle.delete phase_name.simps(11) phase_name_inject)
  with assms(1,2) ne show ?thesis
    by (intro exI [of _ "ps @ [q]"]) (simp add: lives_snoc)
qed

lemma dev_write_steps:
  assumes "begins (Dev_Reconcile r req) (p @ [EUpdateRhpamDev w (Inr d)])" and "answers_stored k p L"
    and "dev_key w = k" and "dev_ResourceVersion w = hd (versions L)" and "distinct (versions L)"
  shows "phase_step (dev_Phase (hd L)) (dev_Phase w)"
  using assms(1)
proof (cases rule: Dev_Reconcile_update)
  case (read b)
  with assms(2,3) have "b \<in> set L" by (auto simp: answers_stored_def made_from_def)
  with read assms newest [of L b] show ?thesis by (simp add: made_from_def)
next
  case (second w0 b)
  with assms(2,3) have "b \<in> set L" "dev_Status b = dev_Status w0" by (auto simp: answers_stored_def made_from_def)
  with second assms newest [of L b] show ?thesis by (simp add: made_from_def phase_steps)
qed

lemma user_write_steps:
  assumes "begins (User_Reconcile r req) (p @ [EUpdateRhpamDev w (Inr d)])" and "answers_stored k p L"
    and "dev_key w = k" and "dev_ResourceVersion w = hd (versions L)" and "distinct (versions L)"
  shows "phase_step (dev_Phase (hd L)) (dev_Phase w)"
proof -
  obtain ns devs b where b: "EListRhpamDev ns (Inr devs) \<in> set p" "b \<in> set devs"
      "dev_Phase b = PhaseRealmProvisioned" and w: "w = set_dev_phase PhasePrepare b"
    by (rule User_Reconcile_update [OF assms(1)])
  from assms(3) w have "dev_key b = k" by (simp add: dev_key_def)
  with b assms(2) have "b \<in> set L" by (auto simp: answers_stored_def)
  with b w assms newest [of L b] show ?thesis by (simp add: phase_steps)
qed

text \<open>
  The controllers of the operator: each works through reconciliations of any requests, with the
  reconciler in any state.
\<close>

definition dev_controller :: "event list \<Rightarrow> bool" where
  "dev_controller = works (range (\<lambda>(r, req). Dev_Reconcile r req))"

definition user_controller :: "event list \<Rightarrow> bool" where
  "user_controller = works (range (\<lambda>(r, req). User_Reconcile r req))"

lemma history_lives:
  assumes "history k H L" and "dev_controller (dev_calls H)" and "user_controller (user_calls H)"
  shows "\<exists>ps. map phase_name ps = map dev_Phase (rev L) \<and> lives ps"
  using assms
proof (induction rule: history.induct)
  case (created d)
  then show ?case by (intro exI [of _ "[New]"]) (simp add: lives_def)
next
  case (dev H L ev L')
  from dev.prems have works: "dev_controller (dev_calls H)" "user_controller (user_calls H)"
    by (auto simp: dev_controller_def dest: works_prefix)
  note st = history_stored [OF dev.hyps(1)]
  from dev.hyps(2) show ?case
  proof (cases rule: serve_Some)
    case same
    with dev.IH works show ?thesis by simp
  next
    case (stored w d)
    from dev.prems(1) obtain r req p where "begins (Dev_Reconcile r req) (p @ [ev])" "set p \<subseteq> set (dev_calls H)"
      unfolding dev_controller_def calls_simps by (rule works_last) auto
    moreover from this(2) st have "answers_stored k p L"
      using all_calls_parts(1) [of H] unfolding answers_stored_def by blast
    ultimately have "phase_step (dev_Phase (hd L)) (dev_Phase w)"
      using stored st by (intro dev_write_steps [of r req p w d]) auto
    with dev.IH [OF works] st stored life_extends [of _ L d] show ?thesis by auto
  qed
next
  case (user H L ev L')
  from user.prems have works: "dev_controller (dev_calls H)" "user_controller (user_calls H)"
    by (auto simp: user_controller_def dest: works_prefix)
  note st = history_stored [OF user.hyps(1)]
  from user.hyps(2) show ?case
  proof (cases rule: serve_Some)
    case same
    with user.IH works show ?thesis by simp
  next
    case (stored w d)
    from user.prems(2) obtain r req p where "begins (User_Reconcile r req) (p @ [ev])" "set p \<subseteq> set (user_calls H)"
      unfolding user_controller_def calls_simps by (rule works_last) auto
    moreover from this(2) st have "answers_stored k p L"
      using all_calls_parts(2) [of H] unfolding answers_stored_def by blast
    ultimately have "phase_step (dev_Phase (hd L)) (dev_Phase w)"
      using stored st by (intro user_write_steps [of r req p w d]) auto
    with user.IH [OF works] st stored life_extends [of _ L d] show ?thesis by auto
  qed
next
  case (edit H L d)
  with history_stored [OF edit.hyps(1)] life_extends [of _ L d] show ?case by auto
qed

text \<open>
  C1. Whatever the interleaving of the two controllers, of crashes and of edits, and however
  stale the reads: the versions of an RhpamDev resource that the API server stored went through
  the phases of a life, each write a step of the machine of theory Lifecycle, and never back.
  It is the version check of the server that makes this hold, with the controllers sending the
  resource version they read.
\<close>

theorem history_is_a_life:
  assumes "history k H L" and "dev_controller (dev_calls H)" and "user_controller (user_calls H)"
  shows "\<exists>ps. map phase_name ps = map dev_Phase (rev L) \<and> lives ps \<and> sorted ps"
  using history_lives [OF assms] lives_sorted by blast

text \<open>
  C10. The installation is in order: when a version of the resource was stored in some phase, a
  version was stored in every stage before it. A resource that is complete was accepted, had its
  realm provisioned, was moved on by a user resource, and had the database, Business Central and
  a ready database before the Kie server.
\<close>

theorem installation_in_order:
  assumes "history k H L" and "dev_controller (dev_calls H)" and "user_controller (user_calls H)"
    and "d \<in> set L" and "dev_Phase d = phase_name p" and "q \<in> set (earlier p)"
  shows "\<exists>d' \<in> set L. dev_Phase d' = phase_name q"
proof -
  obtain ps where ps: "map phase_name ps = map dev_Phase (rev L)" "lives ps"
    using history_lives [OF assms(1-3)] by blast
  have names: "phase_name ` set ps = dev_Phase ` set L"
    using arg_cong [OF ps(1), of set] by simp
  with assms(4,5) have "p \<in> set ps"
    by (metis imageE imageI phase_name_inject)
  with lives_earlier [OF ps(2)] assms(6) names show ?thesis by (metis imageE imageI subsetD)
qed

definition sample_stored :: RhpamDev where
  "sample_stored = (let d = moved PhaseAccepted (sample_dev NoPhase '''' [RhpamFinalizer] None) in
     d\<lparr>dev_ObjectMeta := (dev_ObjectMeta d)\<lparr>om_ResourceVersion := ''2''\<rparr>\<rparr>)"

definition sample_history :: "action list" where
  "sample_history =
     [Dev (watch_event ''ns''), User (ELookupEnv ''WATCH_NAMESPACE'' None),
      Dev (EGetRhpamDev sample_request (Inr (sample_dev NoPhase '''' [] None))),
      Dev (EUpdateRhpamDev (moved PhaseAccepted (sample_dev NoPhase '''' [RhpamFinalizer] None)) (Inr sample_stored))]"

lemma sample_history_served:
  "history sample_request sample_history [sample_stored, sample_dev NoPhase '''' [] None]"
proof -
  let ?d = "sample_dev NoPhase '''' [] None"
  have "history sample_request [] [?d]"
    by (rule history.created) (simp_all add: sample_defs dev_key_def key_of_def)
  from history.dev [OF this, of "watch_event ''ns''" "[?d]"]
  have "history sample_request [Dev (watch_event ''ns'')] [?d]" by (simp add: serve_def)
  from history.user [OF this, of "ELookupEnv ''WATCH_NAMESPACE'' None" "[?d]"]
  have "history sample_request (take 2 sample_history) [?d]" by (simp add: serve_def sample_history_def)
  from history.dev [OF this, of "EGetRhpamDev sample_request (Inr ?d)" "[?d]"]
  have "history sample_request (take 3 sample_history) [?d]"
    by (simp add: serve_def sample_history_def) (simp add: sample_defs dev_key_def key_of_def)
  from history.dev [OF this, of "EUpdateRhpamDev (moved PhaseAccepted (sample_dev NoPhase '''' [RhpamFinalizer] None)) (Inr sample_stored)" "[sample_stored, ?d]"]
  show ?thesis
    by (simp add: serve_def sample_history_def sample_stored_def Let_def moved_def versions_def)
       (simp add: sample_defs dev_key_def key_of_def)
qed

lemma sample_history_controllers:
  "dev_controller (dev_calls sample_history)" "user_controller (user_calls sample_history)"
proof -
  let ?t = "[watch_event ''ns'', EGetRhpamDev sample_request (Inr (sample_dev NoPhase '''' [] None)),
      EUpdateRhpamDev (moved PhaseAccepted (sample_dev NoPhase '''' [RhpamFinalizer] None)) (Inr sample_stored)]"
  have "runs (Dev_Reconcile sample_reconciler sample_request) ?t
      (Done ((\<lparr>rr_Requeue = True\<rparr>, None), sample_reconciler))"
    by (simp add: Dev_Reconcile_def GetWatchNamespace_def Dev_reconcile_phase_def Dev_handleResult_def Dev_Initialize_ok
         sample_dev_def sample_meta_def sample_request_def moved_def setter_defs sets_List_def RhpamFinalizer_def empty_ObjectMeta_def)
  then have "begins (Dev_Reconcile sample_reconciler sample_request) ?t"
    unfolding begins_def by (metis append_Nil2)
  moreover have "dev_calls sample_history = concat [?t]"
    by (simp add: dev_calls_def sample_history_def List.map_filter_def)
  ultimately show "dev_controller (dev_calls sample_history)"
    unfolding dev_controller_def works_def by (intro exI [of _ "[?t]"]) auto
  have "runs (User_Reconcile User_newReconciler sample_request) [ELookupEnv ''WATCH_NAMESPACE'' None]
      (Done ((\<lparr>rr_Requeue = False\<rparr>, None), User_newReconciler))"
    by (simp add: User_Reconcile_def GetWatchNamespace_def)
  then have "begins (User_Reconcile User_newReconciler sample_request) [ELookupEnv ''WATCH_NAMESPACE'' None]"
    unfolding begins_def by (metis append_Nil2)
  moreover have "user_calls sample_history = concat [[ELookupEnv ''WATCH_NAMESPACE'' None]]"
    by (simp add: user_calls_def sample_history_def List.map_filter_def)
  ultimately show "user_controller (user_calls sample_history)"
    unfolding user_controller_def works_def by (intro exI [of _ "[[ELookupEnv ''WATCH_NAMESPACE'' None]]"]) auto
qed

lemma history_is_a_life_witness:
  "\<exists>ps. map phase_name ps = [NoPhase, PhaseAccepted] \<and> lives ps \<and> sorted ps"
  using history_is_a_life [OF sample_history_served sample_history_controllers]
  by (simp add: sample_stored_def Let_def sample_dev_def)

lemma installation_in_order_witness:
  "\<exists>d' \<in> {sample_stored, sample_dev NoPhase '''' [] None}. dev_Phase d' = NoPhase"
  using installation_in_order [OF sample_history_served sample_history_controllers, of sample_stored Accepted New]
  by (simp add: sample_stored_def Let_def earlier_def stages_def less_eq_phase_def)

end
