(* ===== verification/Startup.thy ===== *)
theory Startup
  imports RhpamuserController Samples
begin

text \<open>
  cmd/manager/main.go and the registration code it calls (pkg/apis/apis.go, register.go,
  pkg/controller/controller.go, the Add functions of both controllers): how the process gets from
  its start to two controllers at work. The calls into libraries are the nodes of a small tree,
  like those of theory Effects, with one more way to end: os.Exit, which skips the deferred
  calls. The scheme of the manager starts with the types its library registers, a parameter.
\<close>

datatype reconciler = DevReconciler ReconcileRhpamDev | UserReconciler ReconcileRhpamUser

datatype startup_call =
    GetConfig
  | Become string
  | ReadySet
  | ReadyUnset
  | NewManager string
  | NewController string reconciler
  | Watch string string
  | InstallRoute
  | InstallApps
  | StartManager

datatype 'a startup =
    Result 'a
  | Exit int
  | Call startup_call "unit result \<Rightarrow> 'a startup"

primrec sequence :: "'a startup \<Rightarrow> ('a \<Rightarrow> 'b startup) \<Rightarrow> 'b startup" where
  "sequence (Result a) f = f a"
| "sequence (Exit n) f = Exit n"
| "sequence (Call c k) f = Call c (\<lambda>r. sequence (k r) f)"

subsection \<open>The scheme\<close>

type_synonym known_types = "(string \<times> TypeMeta) list"

definition SchemeGroupVersion :: string where
  "SchemeGroupVersion = ''rhpam.integreatly.org/v1alpha1''"

definition Register :: "string list \<Rightarrow> known_types \<Rightarrow> known_types" where
  "Register kinds types = map (\<lambda>k. (k, \<lparr>tm_Kind = k, tm_APIVersion = SchemeGroupVersion\<rparr>)) kinds @ types"

text \<open>The two init functions of the package, in the order of their files.\<close>

definition registered_kinds :: "string list list" where
  "registered_kinds = [[''RhpamDev'', ''RhpamDevList''], [''RhpamUser'', ''RhpamUserList'']]"

definition AddToScheme :: "known_types \<Rightarrow> known_types result" where
  "AddToScheme types = Inr (fold Register registered_kinds types)"

text \<open>What the controllers see of the scheme: the kind of a Go type, or an error.\<close>

definition scheme_of :: "known_types \<Rightarrow> Scheme" where
  "scheme_of types kind =
     (case map_of types kind of
        Some gvk \<Rightarrow> Inr gvk
      | None \<Rightarrow> Inl (ErrorString (''no kind is registered for the type '' @ kind)))"

subsection \<open>The controllers\<close>

definition Dev_add :: "known_types \<Rightarrow> reconciler \<Rightarrow> unit result startup" where
  "Dev_add types r =
     Call (NewController ''rhpamdev-controller'' r) (\<lambda>c. case c of
       Inl err \<Rightarrow> Result (Inl err)
     | Inr _ \<Rightarrow> Call (Watch ''rhpamdev-controller'' ''RhpamDev'') (\<lambda>w. case w of
         Inl err \<Rightarrow> Result (Inl err)
       | Inr _ \<Rightarrow> Result (Inr ())))"

definition Dev_Add :: "known_types \<Rightarrow> unit result startup" where
  "Dev_Add types = Dev_add types (DevReconciler (Dev_newReconciler (scheme_of types)))"

definition User_add :: "known_types \<Rightarrow> reconciler \<Rightarrow> unit result startup" where
  "User_add types r =
     Call (NewController ''rhpamuser-controller'' r) (\<lambda>c. case c of
       Inl err \<Rightarrow> Result (Inl err)
     | Inr _ \<Rightarrow> Call (Watch ''rhpamuser-controller'' ''RhpamUser'') (\<lambda>w. case w of
         Inl err \<Rightarrow> Result (Inl err)
       | Inr _ \<Rightarrow> Result (Inr ())))"

definition User_Add :: "known_types \<Rightarrow> unit result startup" where
  "User_Add types = User_add types (UserReconciler User_newReconciler)"

definition AddToManagerFuncs :: "(known_types \<Rightarrow> unit result startup) list" where
  "AddToManagerFuncs = [Dev_Add, User_Add]"

primrec add_all :: "(known_types \<Rightarrow> unit result startup) list \<Rightarrow> known_types \<Rightarrow> unit result startup" where
  "add_all [] m = Result (Inr ())"
| "add_all (f # fs) m = sequence (f m) (\<lambda>r. case r of Inl err \<Rightarrow> Result (Inl err) | Inr _ \<Rightarrow> add_all fs m)"

definition AddToManager :: "known_types \<Rightarrow> unit result startup" where
  "AddToManager m = add_all AddToManagerFuncs m"

subsection \<open>The process\<close>

text \<open>
  A call whose error ends the process. The result of leader.Become is not looked at. Returning
  from main runs the deferred removal of the readiness file; os.Exit does not.
\<close>

definition or_exit :: "unit result startup \<Rightarrow> 'a startup \<Rightarrow> 'a startup" where
  "or_exit m k = sequence m (\<lambda>r. case r of Inl err \<Rightarrow> Exit 1 | Inr _ \<Rightarrow> k)"

abbreviation call :: "startup_call \<Rightarrow> unit result startup" where
  "call c \<equiv> Call c Result"

definition main :: "known_types \<Rightarrow> unit startup" where
  "main types =
     or_exit (call GetConfig)
     (Call (Become ''rhpam-dev-operator-lock'') (\<lambda>_.
     or_exit (call ReadySet)
     (or_exit (call (NewManager ''''))
     (case AddToScheme types of
        Inl err \<Rightarrow> Exit 1
      | Inr types' \<Rightarrow>
          or_exit (AddToManager types')
          (or_exit (call InstallRoute)
          (or_exit (call InstallApps)
          (or_exit (call StartManager)
          (Call ReadyUnset (\<lambda>_. Result ())))))))))"

text \<open>The calls made, in order, and the exit status, when the libraries answer as given.\<close>

primrec run_main :: "(startup_call \<Rightarrow> unit result) \<Rightarrow> 'a startup \<Rightarrow> startup_call list \<times> int" where
  "run_main ans (Result a) = ([], 0)"
| "run_main ans (Exit n) = ([], n)"
| "run_main ans (Call c k) = (case run_main ans (k (ans c)) of (cs, n) \<Rightarrow> (c # cs, n))"

definition succeeds :: "(startup_call \<Rightarrow> unit result) \<Rightarrow> startup_call \<Rightarrow> bool" where
  "succeeds ans c = (case ans c of Inl _ \<Rightarrow> False | Inr _ \<Rightarrow> True)"

text \<open>The reconcilers the two controllers are made with, and the calls that must succeed.\<close>

definition operator_types :: "known_types \<Rightarrow> known_types" where
  "operator_types types = fold Register registered_kinds types"

definition controller_calls :: "known_types \<Rightarrow> startup_call list" where
  "controller_calls types =
     [NewController ''rhpamdev-controller'' (DevReconciler (Dev_newReconciler (scheme_of (operator_types types)))),
      Watch ''rhpamdev-controller'' ''RhpamDev'',
      NewController ''rhpamuser-controller'' (UserReconciler User_newReconciler),
      Watch ''rhpamuser-controller'' ''RhpamUser'']"

definition required :: "known_types \<Rightarrow> startup_call list" where
  "required types =
     [GetConfig, ReadySet, NewManager ''''] @ controller_calls types @ [InstallRoute, InstallApps]"

text \<open>Calls each of which must succeed, and what happens after them.\<close>

primrec chain :: "startup_call list \<Rightarrow> 'a startup \<Rightarrow> 'a startup" where
  "chain [] k = k"
| "chain (c # cs) k = or_exit (call c) (chain cs k)"

lemma run_main_or_exit:
  "run_main ans (or_exit (call c) k) =
     (if succeeds ans c then (c # fst (run_main ans k), snd (run_main ans k)) else ([c], 1))"
  by (auto simp: or_exit_def succeeds_def split: sum.splits prod.splits)

lemma run_chain:
  "run_main ans (chain cs k) =
     (if list_all (succeeds ans) cs then (cs @ fst (run_main ans k), snd (run_main ans k))
      else (takeWhile (succeeds ans) cs @ [hd (dropWhile (succeeds ans) cs)], 1))"
  by (induction cs) (auto simp: run_main_or_exit)

lemma controllers_chain:
  "or_exit (AddToManager (operator_types types)) k = chain (controller_calls types) k"
  by (auto simp: AddToManager_def AddToManagerFuncs_def Dev_Add_def Dev_add_def User_Add_def User_add_def
      or_exit_def controller_calls_def fun_eq_iff split: sum.splits)

lemma main_chain:
  "main types = chain [GetConfig] (Call (Become ''rhpam-dev-operator-lock'') (\<lambda>_.
     chain (tl (required types)) (chain [StartManager] (Call ReadyUnset (\<lambda>_. Result ())))))"
  unfolding main_def AddToScheme_def sum.case operator_types_def [symmetric] controllers_chain
  by (simp add: required_def controller_calls_def)

lemma run_main_calls:
  "run_main ans (main types) =
     (if \<not> succeeds ans GetConfig then ([GetConfig], 1)
      else if \<not> list_all (succeeds ans) (required types)
      then (GetConfig # Become ''rhpam-dev-operator-lock'' #
              takeWhile (succeeds ans) (tl (required types)) @ [hd (dropWhile (succeeds ans) (tl (required types)))], 1)
      else if \<not> succeeds ans StartManager
      then (GetConfig # Become ''rhpam-dev-operator-lock'' # tl (required types) @ [StartManager], 1)
      else (GetConfig # Become ''rhpam-dev-operator-lock'' # tl (required types) @ [StartManager, ReadyUnset], 0))"
proof -
  have r: "list_all (succeeds ans) (required types) \<longleftrightarrow> succeeds ans GetConfig \<and> list_all (succeeds ans) (tl (required types))"
    by (simp add: required_def)
  show ?thesis unfolding main_chain run_chain r
    by (simp add: run_chain run_main_or_exit split: prod.splits)
qed

lemma required_calls:
  "StartManager \<notin> set (required types)" "ReadyUnset \<notin> set (required types)" "Become lock \<notin> set (required types)"
  by (simp_all add: required_def controller_calls_def)

lemma hd_dropWhile_required:
  "\<not> list_all P xs \<Longrightarrow> hd (dropWhile P xs) \<in> set xs"
  by (induction xs) auto

lemma not_called:
  assumes "\<not> list_all P (required types)" and "P GetConfig" and "c \<notin> set (required types)"
  shows "c \<notin> set (takeWhile P (tl (required types)) @ [hd (dropWhile P (tl (required types)))])"
proof -
  have "\<not> list_all P (tl (required types))" using assms(1,2) by (simp add: required_def)
  with hd_dropWhile_required [OF this] assms(3) show ?thesis
    by (auto dest!: set_takeWhileD list.set_sel(2) [rotated])
qed

text \<open>
  C24. The manager is started exactly when the nine required calls succeed: the configuration, the
  readiness file, the manager, both controllers with their watches, and both extra schemes. The
  leader lock is not among them: whatever leader.Become answers, the process does the same, so
  an operator that failed to become the leader works beside the leader.
\<close>

theorem operator_starts_without_leading:
  "(StartManager \<in> set (fst (run_main ans (main types))) \<longleftrightarrow> list_all (succeeds ans) (required types)) \<and>
   run_main (ans(Become lock := r)) (main types) = run_main ans (main types)"
proof
  show "StartManager \<in> set (fst (run_main ans (main types))) \<longleftrightarrow> list_all (succeeds ans) (required types)"
    unfolding run_main_calls using not_called [of "succeeds ans" types StartManager] required_calls
    by (auto simp: required_def)
next
  have same: "succeeds (ans(Become lock := r)) c = succeeds ans c" if "c \<in> set (StartManager # required types)" for c
    using that required_calls(3) [of lock types] by (auto simp: succeeds_def)
  show "run_main (ans(Become lock := r)) (main types) = run_main ans (main types)"
    unfolding run_main_calls using same by (simp add: list_all_iff required_def controller_calls_def)
qed

text \<open>
  C37. The readiness file is removed exactly when the process ends with status 0, which is when
  every required call and the manager itself succeeded. A start that fails after the file was
  created leaves it behind, so the failed process looks ready.
\<close>

theorem readiness_file_left_behind:
  "(ReadyUnset \<in> set (fst (run_main ans (main types))) \<longleftrightarrow> snd (run_main ans (main types)) = 0) \<and>
   (snd (run_main ans (main types)) = 0 \<longleftrightarrow> list_all (succeeds ans) (required types @ [StartManager])) \<and>
   snd (run_main ans (main types)) \<in> {0, 1}"
  unfolding run_main_calls using not_called [of "succeeds ans" types ReadyUnset] required_calls
  by (auto simp: required_def controller_calls_def)

text \<open>
  The RhpamDev controller is made with a scheme that knows its own kind, whatever types the
  manager registered: an object without owners can always be given the custom resource as its
  controller, so the creation of a templated resource never fails for want of the kind.
\<close>

lemma started_controller_owns:
  assumes "NewController name (DevReconciler r) \<in> set (fst (run_main ans (main types)))"
    and "om_OwnerReferences (ob_ObjectMeta ob) = []"
  shows "SetControllerReference cr ob (dph_scheme (rd_phaseHandler r)) =
    Inr (ob\<lparr>ob_ObjectMeta := (ob_ObjectMeta ob)\<lparr>om_OwnerReferences :=
      [NewControllerRef (dev_ObjectMeta cr) \<lparr>tm_Kind = ''RhpamDev'', tm_APIVersion = SchemeGroupVersion\<rparr>]\<rparr>\<rparr>)"
proof -
  have "NewController name (DevReconciler r) \<in> set (required types)"
    using assms(1) not_called [of "succeeds ans" types "NewController name (DevReconciler r)"]
    unfolding run_main_calls by (auto simp: required_def split: if_split_asm)
  then have "r = Dev_newReconciler (scheme_of (operator_types types))"
    by (simp add: required_def controller_calls_def)
  then show ?thesis
    using assms(2)
    by (simp add: Dev_newReconciler_def Dev_NewPhaseHandler_def SetControllerReference_def scheme_of_def
        operator_types_def registered_kinds_def Register_def)
qed

end
