(* ===== verification/ResourceTemplates.thy ===== *)
theory ResourceTemplates
  imports RhpamdevHandler Samples
begin

text \<open>
  The eleven resource templates of src/templates and what the operator's parameters make of
  them. A file is written as the list of its texts and actions; \<^theory_text>\<open>unparse\<close> is its content, character
  by character, and the parser of templates reads it back.
\<close>

subsection \<open>Texts and actions\<close>

fun unparse :: "item list \<Rightarrow> string" where
  "unparse [] = []"
| "unparse (Text s # xs) = s @ unparse xs"
| "unparse (Field n # xs) = ''{{ .'' @ n @ '' }}'' @ unparse xs"

text \<open>A text that opens no action: no two left braces in a row, and none at the end.\<close>

fun no_action :: "string \<Rightarrow> bool" where
  "no_action [] = True"
| "no_action [c] = (c \<noteq> CHR ''{'')"
| "no_action (c # d # s) = ((c = CHR ''{'' \<longrightarrow> d \<noteq> CHR ''{'') \<and> no_action (d # s))"

fun tidy :: "item list \<Rightarrow> bool" where
  "tidy [] = True"
| "tidy [Text s] = (s \<noteq> [] \<and> no_action s)"
| "tidy (Text s # Text t # xs) = False"
| "tidy (Text s # Field n # xs) = (s \<noteq> [] \<and> no_action s \<and> tidy (Field n # xs))"
| "tidy (Field n # xs) = (n \<noteq> [] \<and> list_all is_alnum n \<and> tidy xs)"

lemma map_option_append_Nil [simp]: "map_option ((@) []) x = x"
  by (cases x) simp_all

lemma append_singleton [simp]: "(@) [x] = (#) x"
  by auto

lemma scan_text:
  "no_action s \<Longrightarrow> template_scan (InText acc) (s @ t) = template_scan (InText (rev s @ acc)) t"
proof (induction s arbitrary: acc rule: no_action.induct)
  case (3 c d s)
  show ?case
  proof (cases "c = CHR ''{''")
    case True
    with "3.prems" have d: "d \<noteq> CHR ''{''" and s: "no_action (d # s)" by auto
    have "template_scan (InText (CHR ''{'' # acc)) ((d # s) @ t) = template_scan (InText (rev (d # s) @ CHR ''{'' # acc)) t"
      using "3.IH" s by simp
    with True d show ?thesis by simp
  next
    case False
    with 3 show ?thesis by (simp add: option.map_ident)
  qed
qed (auto simp: option.map_ident)

lemma scan_action:
  "CHR ''}'' \<notin> set s \<Longrightarrow> template_scan (InAction acc) (s @ t) = template_scan (InAction (rev s @ acc)) t"
  by (induction s arbitrary: acc) (auto simp: option.map_ident)

lemma alnum_chars: "is_alnum c \<Longrightarrow> c \<noteq> CHR ''}'' \<and> \<not> is_blank c \<and> c \<noteq> CHR ''.''"
  by (auto simp: is_alnum_def is_blank_def Let_def)

lemma parse_action_field:
  assumes "n \<noteq> []" and "list_all is_alnum n"
  shows "parse_action ('' .'' @ n @ '' '') = Some n"
proof -
  obtain m c where n: "n = m @ [c]" using assms(1) by (cases n rule: rev_cases) auto
  with assms(2) have c: "\<not> is_blank c" by (simp add: alnum_chars)
  have b: "is_blank (CHR '' '')" "\<not> is_blank (CHR ''.'')" by (simp_all add: is_blank_def)
  show ?thesis using assms(2) unfolding parse_action_def n by (simp add: b c)
qed

lemma scan_field:
  assumes "n \<noteq> []" and "list_all is_alnum n"
  shows "template_scan (InText acc) (''{{ .'' @ n @ '' }}'' @ t) =
    map_option (\<lambda>ys. text_item acc @ Field n # ys) (template_scan (InText []) t)"
proof -
  have b: "CHR ''}'' \<notin> set ('' .'' @ n @ '' '')"
    using assms(2) by (auto simp: list_all_iff dest: alnum_chars)
  have "template_scan (InAction []) (('' .'' @ n @ '' '') @ ''}}'' @ t) =
      map_option (\<lambda>ys. Field n # ys) (template_scan (InText []) t)"
    unfolding scan_action [OF b] using parse_action_field [OF assms] by (simp add: option.map_comp comp_def)
  then show ?thesis by (cases "template_scan (InText []) t") simp_all
qed

lemma scan_unparse:
  "tidy xs \<Longrightarrow> template_scan (InText []) (unparse xs) = Some xs"
proof (induction xs rule: tidy.induct)
  case (2 s)
  then show ?case using scan_text [of s "[]" "[]"] by (simp add: text_item_def)
next
  case (4 s n xs)
  then have "template_scan (InText []) (unparse (Text s # Field n # xs)) =
      map_option (\<lambda>ys. text_item (rev s) @ Field n # ys) (template_scan (InText []) (unparse xs))"
    by (simp add: scan_text scan_field del: append_Cons)
  moreover have "template_scan (InText []) (unparse xs) = Some xs"
    using 4 scan_field [of n "[]" "unparse xs"] by (auto simp: text_item_def simp del: append_Cons)
  ultimately show ?case using 4 by (simp add: text_item_def)
next
  case (5 n xs)
  then show ?case using scan_field [of n "[]" "unparse xs"] by (simp add: text_item_def del: append_Cons)
qed (simp_all add: text_item_def)

lemma Parse_unparse: "tidy xs \<Longrightarrow> template_Parse (unparse xs) = Inr xs"
  by (simp add: template_Parse_def scan_unparse)

definition rhpamdev_service_account_yaml :: "item list" where
  "rhpamdev_service_account_yaml =
    [Text ''kind: ServiceAccount\<newline>apiVersion: v1\<newline>metadata:\<newline>  labels:\<newline>    app: '',
     Field ''ApplicationName'',
     Text ''\<newline>  name: '',
     Field ''ServiceAccount'',
     Text ''\<newline>  namespace: '',
     Field ''ApplicationNamespace'',
     Text ''\<newline>'']"

definition rhpamdev_postgresql_pvc_yaml :: "item list" where
  "rhpamdev_postgresql_pvc_yaml =
    [Text ''kind: PersistentVolumeClaim\<newline>apiVersion: v1\<newline>metadata:\<newline>  name: '',
     Field ''PostgresqlPvc'',
     Text ''\<newline>  namespace: '',
     Field ''ApplicationNamespace'',
     Text ''\<newline>  labels:\<newline>    app: '',
     Field ''ApplicationName'',
     Text ''\<newline>spec:\<newline>  accessModes:\<newline>  - ReadWriteOnce\<newline>  resources:\<newline>    requests:\<newline>      storage: '',
     Field ''PostgresqlPvcCapacity'']"

definition rhpamdev_postgresql_service_yaml :: "item list" where
  "rhpamdev_postgresql_service_yaml =
    [Text ''kind: Service\<newline>apiVersion: v1\<newline>metadata:\<newline>  name: '',
     Field ''PostgresqlService'',
     Text ''\<newline>  namespace: '',
     Field ''ApplicationNamespace'',
     Text ''\<newline>  annotations:\<newline>    template.openshift.io/expose-uri: postgres://{.spec.clusterIP}:{.spec.ports[?(.name==\"postgresql\")].port}\<newline>  labels:\<newline>    app: '',
     Field ''ApplicationName'',
     Text ''\<newline>spec:\<newline>  ports:\<newline>  - name: postgresql\<newline>    protocol: TCP\<newline>    port: 5432\<newline>    targetPort: 5432\<newline>    nodePort: 0\<newline>  selector:\<newline>    name: '',
     Field ''PostgresqlDeployment'',
     Text ''\<newline>  type: ClusterIP\<newline>  sessionAffinity: None'']"

definition rhpamdev_postgresql_dc_yaml :: "item list" where
  "rhpamdev_postgresql_dc_yaml =
    [Text ''kind: DeploymentConfig\<newline>apiVersion: apps.openshift.io/v1\<newline>metadata:\<newline>  labels:\<newline>    app: '',
     Field ''ApplicationName'',
     Text ''\<newline>  name: '',
     Field ''PostgresqlDeployment'',
     Text ''\<newline>  namespace: '',
     Field ''ApplicationNamespace'',
     Text ''\<newline>spec:\<newline>  strategy:\<newline>    type: Recreate\<newline>    recreateParams:\<newline>      post:\<newline>        execNewPod:\<newline>          command: \<newline>          - /bin/bash\<newline>          - /tmp/init-files/wait_for_postgresql.sh\<newline>          - /tmp/init-files/create_rhpam_database.sh\<newline>          containerName: '',
     Field ''PostgresqlDeployment'',
     Text ''\<newline>          volumes:\<newline>          - init-volume\<newline>        failurePolicy: Abort\<newline>      timeoutSeconds: 600\<newline>    resources: {}\<newline>  triggers:\<newline>  - type: ConfigChange\<newline>  replicas: 1\<newline>  selector:\<newline>    name: '',
     Field ''PostgresqlDeployment'',
     Text ''\<newline>  template:\<newline>    metadata:\<newline>      labels:\<newline>        name: '',
     Field ''PostgresqlDeployment'',
     Text ''\<newline>        app: '',
     Field ''ApplicationName'',
     Text ''\<newline>      name: '',
     Field ''PostgresqlDeployment'',
     Text ''\<newline>    spec:\<newline>      serviceAccountName: \"'',
     Field ''ServiceAccount'',
     Text ''\"\<newline>      containers:\<newline>      - name: '',
     Field ''PostgresqlDeployment'',
     Text ''\<newline>        image: '',
     Field ''PostgresqlImage'',
     Text ''\<newline>        ports:\<newline>        - containerPort: 5432\<newline>          protocol: TCP\<newline>        readinessProbe:\<newline>          exec:\<newline>            command:\<newline>            - /bin/sh\<newline>            - -i\<newline>            - -c\<newline>            - psql -h 127.0.0.1 -U $POSTGRESQL_USER -q -d $POSTGRESQL_DATABASE -c 'SELECT 1'\<newline>          initialDelaySeconds: 5\<newline>          timeoutSeconds: 1\<newline>        livenessProbe:\<newline>          timeoutSeconds: 1\<newline>          initialDelaySeconds: 30\<newline>          tcpSocket:\<newline>            port: 5432\<newline>        env:\<newline>        - name: POSTGRESQL_USER\<newline>          valueFrom:\<newline>            secretKeyRef:\<newline>              name: '',
     Field ''PostgresqlSecret'',
     Text ''\<newline>              key: database-user\<newline>        - name: POSTGRESQL_PASSWORD\<newline>          valueFrom:\<newline>            secretKeyRef:\<newline>              name: '',
     Field ''PostgresqlSecret'',
     Text ''\<newline>              key: database-password\<newline>        - name: POSTGRESQL_DATABASE\<newline>          valueFrom:\<newline>            secretKeyRef:\<newline>              name: '',
     Field ''PostgresqlSecret'',
     Text ''\<newline>              key: database-name\<newline>        - name: POSTGRESQL_SERVICE\<newline>          value: '',
     Field ''PostgresqlService'',
     Text ''\<newline>        - name: POSTGRESQL_MAX_PREPARED_TRANSACTIONS\<newline>          value: \"'',
     Field ''PostgresqlMaxPreparedTransactions'',
     Text ''\"\<newline>        - name: POSTGRESQL_MAX_CONNECTIONS\<newline>          value: \"'',
     Field ''PostgresqlMaxConnections'',
     Text ''\"\<newline>        - name: POSTGRESQL_SHARED_BUFFERS\<newline>          value: \"'',
     Field ''PostgresqlSharedBuffers'',
     Text ''\"\<newline>        resources:\<newline>          limits:\<newline>            memory: '',
     Field ''PostgresqlMemoryLimit'',
     Text ''\<newline>        volumeMounts:\<newline>        - name: \"'',
     Field ''PostgresqlPvc'',
     Text ''\"\<newline>          mountPath: \"/var/lib/pgsql/data\"\<newline>        - name: init-volume\<newline>          mountPath: /tmp/init-files\<newline>        terminationMessagePath: \"/dev/termination-log\"\<newline>        imagePullPolicy: IfNotPresent\<newline>        capabilities: {}\<newline>        securityContext:\<newline>          capabilities: {}\<newline>          privileged: false\<newline>      volumes:\<newline>      - name: \"'',
     Field ''PostgresqlPvc'',
     Text ''\"\<newline>        persistentVolumeClaim:\<newline>          claimName: \"'',
     Field ''PostgresqlPvc'',
     Text ''\"\<newline>      - configMap:\<newline>          defaultMode: 493\<newline>          name: \"'',
     Field ''PostgresqlInitConfigmap'',
     Text ''\"\<newline>        name: init-volume\<newline>      restartPolicy: Always\<newline>      dnsPolicy: ClusterFirst'']"

definition rhpamdev_bc_pvc_yaml :: "item list" where
  "rhpamdev_bc_pvc_yaml =
    [Text ''apiVersion: v1\<newline>kind: PersistentVolumeClaim\<newline>metadata:\<newline>  name: \"'',
     Field ''BusinessCentralPvc'',
     Text ''\"\<newline>  namespace: \"'',
     Field ''ApplicationNamespace'',
     Text ''\"\<newline>  labels:\<newline>    app: \"'',
     Field ''ApplicationName'',
     Text ''\"\<newline>spec:\<newline>  accessModes:\<newline>  - ReadWriteOnce\<newline>  resources:\<newline>    requests:\<newline>      storage: \"'',
     Field ''BusinessCentralVolumeCapacity'',
     Text ''\"'']"

definition rhpamdev_bc_service_yaml :: "item list" where
  "rhpamdev_bc_service_yaml =
    [Text ''kind: Service\<newline>apiVersion: v1\<newline>metadata:\<newline>  name: \"'',
     Field ''BusinessCentralService'',
     Text ''\"\<newline>  namespace: '',
     Field ''ApplicationNamespace'',
     Text ''\<newline>  labels:\<newline>    app: \"'',
     Field ''ApplicationName'',
     Text ''\"\<newline>spec:\<newline>  ports:\<newline>  - name: http\<newline>    port: 8080\<newline>    targetPort: 8080\<newline>  - name: https\<newline>    port: 8443\<newline>    targetPort: 8443\<newline>  - name: git-ssh\<newline>    port: 8001\<newline>    targetPort: 8001\<newline>  selector:\<newline>    deploymentConfig: \"'',
     Field ''BusinessCentralDeployment'',
     Text ''\"'']"

definition rhpamdev_bc_route_yaml :: "item list" where
  "rhpamdev_bc_route_yaml =
    [Text ''kind: Route\<newline>apiVersion: route.openshift.io/v1\<newline>id: \"'',
     Field ''BusinessCentralRoute'',
     Text ''-https\"\<newline>metadata:\<newline>  name: '',
     Field ''BusinessCentralRoute'',
     Text ''\<newline>  namespace: '',
     Field ''ApplicationNamespace'',
     Text ''\<newline>  labels:\<newline>    app: \"'',
     Field ''ApplicationName'',
     Text ''\"\<newline>  annotations:\<newline>    haproxy.router.openshift.io/timeout: 60s\<newline>spec:\<newline>  to:\<newline>    name: \"'',
     Field ''BusinessCentralService'',
     Text ''\"\<newline>  port:\<newline>    targetPort: http\<newline>  tls:\<newline>    termination: edge'']"

definition rhpamdev_bc_dc_yaml :: "item list" where
  "rhpamdev_bc_dc_yaml =
    [Text ''kind: DeploymentConfig\<newline>apiVersion: apps.openshift.io/v1\<newline>metadata:\<newline>  name: \"'',
     Field ''BusinessCentralDeployment'',
     Text ''\"\<newline>  namespace: \"'',
     Field ''ApplicationNamespace'',
     Text ''\"\<newline>  labels:\<newline>    app: \"'',
     Field ''ApplicationName'',
     Text ''\"\<newline>spec:\<newline>  strategy:\<newline>    type: Recreate\<newline>  triggers:\<newline>  - type: ImageChange\<newline>    imageChangeParams:\<newline>      automatic: true\<newline>      containerNames:\<newline>      - \"'',
     Field ''BusinessCentralDeployment'',
     Text ''\"\<newline>      from:\<newline>        kind: ImageStreamTag\<newline>        namespace: \"'',
     Field ''BusinessCentralImageStreamNamespace'',
     Text ''\"\<newline>        name: \"'',
     Field ''BusinessCentralImage'',
     Text '':'',
     Field ''BusinessCentralImageTag'',
     Text ''\"\<newline>  - type: ConfigChange\<newline>  replicas: 1\<newline>  selector:\<newline>    deploymentConfig: \"'',
     Field ''BusinessCentralDeployment'',
     Text ''\"\<newline>  template:\<newline>    metadata:\<newline>      name: \"'',
     Field ''BusinessCentralDeployment'',
     Text ''\"\<newline>      labels:\<newline>        deploymentConfig: \"'',
     Field ''BusinessCentralDeployment'',
     Text ''\"\<newline>        app: \"'',
     Field ''ApplicationName'',
     Text ''\"\<newline>    spec:\<newline>      serviceAccountName: \"'',
     Field ''ServiceAccount'',
     Text ''\"\<newline>      terminationGracePeriodSeconds: 60\<newline>      containers:\<newline>      - name: \"'',
     Field ''BusinessCentralDeployment'',
     Text ''\"\<newline>        image: \"'',
     Field ''BusinessCentralImage'',
     Text ''\"\<newline>        imagePullPolicy: Always\<newline>        resources:\<newline>          requests:\<newline>            cpu: \"'',
     Field ''BusinessCentralCpuRequest'',
     Text ''\"\<newline>            memory: \"'',
     Field ''BusinessCentralMemoryRequest'',
     Text ''\"\<newline>          limits:\<newline>            cpu: \"'',
     Field ''BusinessCentralCpuLimit'',
     Text ''\"\<newline>            memory: \"'',
     Field ''BusinessCentralMemoryLimit'',
     Text ''\"\<newline>        volumeMounts:\<newline>        - name: \"'',
     Field ''BusinessCentralPvc'',
     Text ''\"\<newline>          mountPath: \"/opt/eap/standalone/data/kie\"\<newline>        livenessProbe:\<newline>          exec:\<newline>            command:\<newline>            - '/bin/bash'\<newline>            - '-c'\<newline>            - 'curl --fail --silent -u \"${KIE_ADMIN_USER}:${KIE_ADMIN_PWD}\" http://localhost:8080/kie-wb.jsp'\<newline>          initialDelaySeconds: 180\<newline>          timeoutSeconds: 2\<newline>          periodSeconds: 15\<newline>        readinessProbe:\<newline>          exec:\<newline>            command:\<newline>            - '/bin/bash'\<newline>            - '-c'\<newline>            - 'curl --fail --silent -u \"${KIE_ADMIN_USER}:${KIE_ADMIN_PWD}\" http://localhost:8080/kie-wb.jsp'\<newline>          initialDelaySeconds: 60\<newline>          timeoutSeconds: 2\<newline>          periodSeconds: 30\<newline>          failureThreshold: 6\<newline>        ports:\<newline>        - name: jolokia\<newline>          containerPort: 8778\<newline>          protocol: TCP\<newline>        - name: http\<newline>          containerPort: 8080\<newline>          protocol: TCP\<newline>        - name: https\<newline>          containerPort: 8443\<newline>          protocol: TCP\<newline>        - name: git-ssh\<newline>          containerPort: 8001\<newline>          protocol: TCP\<newline>        env:\<newline>        - name: GC_MAX_METASPACE_SIZE\<newline>          value: \"'',
     Field ''BusinessCentralGcMaxMetaSize'',
     Text ''\"\<newline>        - name: KIE_MBEANS\<newline>          value: \"'',
     Field ''BusinessCentralKieMBeans'',
     Text ''\"\<newline>        - name: JAVA_OPTS_APPEND\<newline>          value: \"'',
     Field ''BusinessCentralJavaOptsAppend'',
     Text ''\"\<newline>        - name: KIE_ADMIN_USER\<newline>          value: \"'',
     Field ''KieAdminUser'',
     Text ''\"\<newline>        - name: KIE_ADMIN_PWD\<newline>          value: \"'',
     Field ''KieAdminPassword'',
     Text ''\"\<newline>        - name: SSO_URL\<newline>          valueFrom:\<newline>            secretKeyRef:\<newline>              name: '',
     Field ''BusinessCentralRealmSecret'',
     Text ''\<newline>              key: sso-url\<newline>        - name: SSO_OPENIDCONNECT_DEPLOYMENTS\<newline>          value: \"ROOT.war\"\<newline>        - name: SSO_REALM\<newline>          valueFrom:\<newline>            secretKeyRef:\<newline>              name: '',
     Field ''BusinessCentralRealmSecret'',
     Text ''\<newline>              key: realm\<newline>        - name: SSO_SECRET\<newline>          valueFrom:\<newline>            secretKeyRef:\<newline>              name: '',
     Field ''BusinessCentralRealmSecret'',
     Text ''\<newline>              key: client-secret\<newline>        - name: SSO_CLIENT\<newline>          valueFrom:\<newline>            secretKeyRef:\<newline>              name: '',
     Field ''BusinessCentralRealmSecret'',
     Text ''\<newline>              key: client\<newline>        - name: SSO_DISABLE_SSL_CERTIFICATE_VALIDATION\<newline>          value: \"true\"\<newline>        - name: SSO_PRINCIPAL_ATTRIBUTE\<newline>          value: \"preferred_username\"\<newline>      volumes:\<newline>      - name: \"'',
     Field ''BusinessCentralPvc'',
     Text ''\"\<newline>        persistentVolumeClaim:\<newline>          claimName: \"'',
     Field ''BusinessCentralPvc'',
     Text ''\"'']"

definition rhpamdev_ks_service_yaml :: "item list" where
  "rhpamdev_ks_service_yaml =
    [Text ''kind: Service\<newline>apiVersion: v1\<newline>metadata:\<newline>  name: \"'',
     Field ''KieServerService'',
     Text ''\"\<newline>  namespace: '',
     Field ''ApplicationNamespace'',
     Text ''\<newline>  labels:\<newline>    app: \"'',
     Field ''ApplicationName'',
     Text ''\"\<newline>spec:\<newline>  ports:\<newline>  - name: http\<newline>    port: 8080\<newline>    targetPort: 8080\<newline>  - name: https\<newline>    port: 8443\<newline>    targetPort: 8443\<newline>  selector:\<newline>    deploymentConfig: \"'',
     Field ''KieServerDeployment'',
     Text ''\"'']"

definition rhpamdev_ks_route_yaml :: "item list" where
  "rhpamdev_ks_route_yaml =
    [Text ''kind: Route\<newline>apiVersion: route.openshift.io/v1\<newline>id: \"'',
     Field ''KieServerRoute'',
     Text ''-https\"\<newline>metadata:\<newline>  name: '',
     Field ''KieServerRoute'',
     Text ''\<newline>  namespace: '',
     Field ''ApplicationNamespace'',
     Text ''\<newline>  labels:\<newline>    app: \"'',
     Field ''ApplicationName'',
     Text ''\"\<newline>  annotations:\<newline>    haproxy.router.openshift.io/timeout: 60s\<newline>spec:\<newline>  to:\<newline>    name: \"'',
     Field ''KieServerService'',
     Text ''\"\<newline>  port:\<newline>    targetPort: http\<newline>  tls:\<newline>    termination: edge'']"

definition rhpamdev_ks_dc_yaml :: "item list" where
  "rhpamdev_ks_dc_yaml =
    [Text ''kind: DeploymentConfig\<newline>apiVersion: apps.openshift.io/v1\<newline>metadata:\<newline>  name: \"'',
     Field ''KieServerDeployment'',
     Text ''\"\<newline>  namespace: \"'',
     Field ''ApplicationNamespace'',
     Text ''\"\<newline>  labels:\<newline>    app: \"'',
     Field ''ApplicationName'',
     Text ''\"\<newline>spec:\<newline>  strategy:\<newline>    type: Recreate\<newline>  triggers:\<newline>  - type: ImageChange\<newline>    imageChangeParams:\<newline>      automatic: true\<newline>      containerNames:\<newline>      - \"'',
     Field ''KieServerDeployment'',
     Text ''\"\<newline>      from:\<newline>        kind: ImageStreamTag\<newline>        namespace: \"'',
     Field ''KieServerImageStreamNamespace'',
     Text ''\"\<newline>        name: \"'',
     Field ''KieServerImage'',
     Text '':'',
     Field ''KieServerImageTag'',
     Text ''\"\<newline>  - type: ConfigChange\<newline>  replicas: 1\<newline>  selector:\<newline>    deploymentConfig: \"'',
     Field ''KieServerDeployment'',
     Text ''\"\<newline>  template:\<newline>    metadata:\<newline>      name: \"'',
     Field ''KieServerDeployment'',
     Text ''\"\<newline>      labels:\<newline>        deploymentConfig: \"'',
     Field ''KieServerDeployment'',
     Text ''\"\<newline>        app: \"'',
     Field ''ApplicationName'',
     Text ''\"\<newline>    spec:\<newline>      serviceAccountName: \"'',
     Field ''ServiceAccount'',
     Text ''\"\<newline>      terminationGracePeriodSeconds: 60\<newline>      containers:\<newline>      - name: \"'',
     Field ''KieServerDeployment'',
     Text ''\"\<newline>        image: '',
     Field ''KieServerImage'',
     Text ''\<newline>        imagePullPolicy: Always\<newline>        resources:\<newline>          requests:\<newline>            cpu: \"'',
     Field ''KieServerCpuRequest'',
     Text ''\"\<newline>            memory: \"'',
     Field ''KieServerMemoryRequest'',
     Text ''\"\<newline>          limits:\<newline>            cpu: \"'',
     Field ''KieServerCpuLimit'',
     Text ''\"\<newline>            memory: \"'',
     Field ''KieServerMemoryLimit'',
     Text ''\"\<newline>        livenessProbe:\<newline>          exec:\<newline>            command:\<newline>            - \"/bin/bash\"\<newline>            - \"-c\"\<newline>            - \"/opt/eap/bin/livenessProbe.sh\"\<newline>          initialDelaySeconds: 180\<newline>          timeoutSeconds: 2\<newline>          periodSeconds: 30\<newline>          failureThreshold: 3\<newline>        readinessProbe:\<newline>          exec:\<newline>            command:\<newline>            - \"/bin/bash\"\<newline>            - \"-c\"\<newline>            - \"/opt/eap/bin/readinessProbe.sh\"\<newline>          initialDelaySeconds: 30\<newline>          timeoutSeconds: 2\<newline>          periodSeconds: 30\<newline>          failureThreshold: 6\<newline>        ports:\<newline>        - name: jolokia\<newline>          containerPort: 8778\<newline>          protocol: TCP\<newline>        - name: http\<newline>          containerPort: 8080\<newline>          protocol: TCP\<newline>        - name: https\<newline>          containerPort: 8443\<newline>          protocol: TCP\<newline>        env:\<newline>        - name: GC_MAX_METASPACE_SIZE\<newline>          value: \"'',
     Field ''KieServerGcMaxMetaSize'',
     Text ''\"\<newline>        - name: DATASOURCES\<newline>          value: \"RHPAM\"\<newline>        - name: RHPAM_DRIVER\<newline>          value: \"postgresql\"\<newline>        - name: RHPAM_USERNAME\<newline>          valueFrom:\<newline>            secretKeyRef:\<newline>              name: '',
     Field ''PostgresqlSecret'',
     Text ''\<newline>              key: database-user\<newline>        - name: RHPAM_PASSWORD\<newline>          valueFrom:\<newline>            secretKeyRef:\<newline>              name: '',
     Field ''PostgresqlSecret'',
     Text ''\<newline>              key: database-password\<newline>        - name: RHPAM_DATABASE\<newline>          valueFrom:\<newline>            secretKeyRef:\<newline>              name: '',
     Field ''PostgresqlSecret'',
     Text ''\<newline>              key: database-name\<newline>        - name: RHPAM_SERVICE_HOST\<newline>          value: \"'',
     Field ''PostgresqlService'',
     Text ''\"\<newline>        - name: RHPAM_SERVICE_PORT\<newline>          value: \"5432\"\<newline>        - name: TIMER_SERVICE_DATA_STORE\<newline>          value: \"'',
     Field ''PostgresqlService'',
     Text ''\"\<newline>        - name: KIE_SERVER_PERSISTENCE_DIALECT\<newline>          value: \"org.hibernate.dialect.PostgreSQLDialect\"\<newline>        - name: DROOLS_SERVER_FILTER_CLASSES\<newline>          value: \"'',
     Field ''KieServerDroolsFilterClasses'',
     Text ''\"\<newline>        - name: KIE_MBEANS\<newline>          value: \"'',
     Field ''KieServerKieMBeans'',
     Text ''\"\<newline>        - name: KIE_ADMIN_USER\<newline>          value: \"'',
     Field ''KieAdminUser'',
     Text ''\"\<newline>        - name: KIE_ADMIN_PWD\<newline>          value: \"'',
     Field ''KieAdminPassword'',
     Text ''\"\<newline>        - name: KIE_SERVER_BYPASS_AUTH_USER\<newline>          value: \"'',
     Field ''KieServerBypassAuthUser'',
     Text ''\"\<newline>        - name: KIE_SERVER_CONTROLLER_USER\<newline>          value: \"'',
     Field ''KieServerControllerUser'',
     Text ''\"\<newline>        - name: KIE_SERVER_CONTROLLER_PWD\<newline>          value: \"'',
     Field ''KieServerControllerPassword'',
     Text ''\"\<newline>        - name: KIE_SERVER_CONTROLLER_SERVICE\<newline>          value: \"'',
     Field ''BusinessCentralService'',
     Text ''\"\<newline>        - name: KIE_SERVER_CONTROLLER_PROTOCOL\<newline>          value: \"'',
     Field ''KieServerControllerProtocol'',
     Text ''\"\<newline>        - name: KIE_SERVER_ID\<newline>          value: \"'',
     Field ''KieServerId'',
     Text ''\"\<newline>        - name: KIE_SERVER_HOST\<newline>          value: \"'',
     Field ''KieServerService'',
     Text ''\"\<newline>        - name: KIE_SERVER_PORT\<newline>          value: \"8080\"\<newline>        - name: KIE_SERVER_PROTOCOL\<newline>          value: \"http\"\<newline>        - name: KIE_SERVER_PERSISTENCE_DS\<newline>          value: \"java:/jboss/datasources/rhpam\"\<newline>        - name: MAVEN_REPOS\<newline>          value: \"RHPAMCENTR\"\<newline>        - name: RHPAMCENTR_MAVEN_REPO_SERVICE\<newline>          value: \"'',
     Field ''BusinessCentralService'',
     Text ''\"\<newline>        - name: RHPAMCENTR_MAVEN_REPO_PATH\<newline>          value: \"/maven2/\"\<newline>        - name: RHPAMCENTR_MAVEN_REPO_USERNAME\<newline>          value: \"'',
     Field ''KieMavenUser'',
     Text ''\"\<newline>        - name: RHPAMCENTR_MAVEN_REPO_PASSWORD\<newline>          value: \"'',
     Field ''KieMavenPassword'',
     Text ''\"\<newline>        - name: SSO_URL\<newline>          valueFrom:\<newline>            secretKeyRef:\<newline>              name: '',
     Field ''KieServerRealmSecret'',
     Text ''\<newline>              key: sso-url\<newline>        - name: SSO_OPENIDCONNECT_DEPLOYMENTS\<newline>          value: \"ROOT.war\"\<newline>        - name: SSO_REALM\<newline>          valueFrom:\<newline>            secretKeyRef:\<newline>              name: '',
     Field ''KieServerRealmSecret'',
     Text ''\<newline>              key: realm\<newline>        - name: SSO_SECRET\<newline>          valueFrom:\<newline>            secretKeyRef:\<newline>              name: '',
     Field ''KieServerRealmSecret'',
     Text ''\<newline>              key: client-secret\<newline>        - name: SSO_CLIENT\<newline>          valueFrom:\<newline>            secretKeyRef:\<newline>              name: '',
     Field ''KieServerRealmSecret'',
     Text ''\<newline>              key: client\<newline>        - name: SSO_DISABLE_SSL_CERTIFICATE_VALIDATION\<newline>          value: \"true\"\<newline>        - name: SSO_PRINCIPAL_ATTRIBUTE\<newline>          value: \"preferred_username\"'']"


text \<open>The files by name, each with the parameter that names its resource.\<close>

definition repo_templates :: "(string \<times> string \<times> item list) list" where
  "repo_templates =
     [(''rhpamdev-service-account'', ''ServiceAccount'', rhpamdev_service_account_yaml),
      (''rhpamdev-postgresql-pvc'', ''PostgresqlPvc'', rhpamdev_postgresql_pvc_yaml),
      (''rhpamdev-postgresql-service'', ''PostgresqlService'', rhpamdev_postgresql_service_yaml),
      (''rhpamdev-postgresql-dc'', ''PostgresqlDeployment'', rhpamdev_postgresql_dc_yaml),
      (''rhpamdev-bc-pvc'', ''BusinessCentralPvc'', rhpamdev_bc_pvc_yaml),
      (''rhpamdev-bc-service'', ''BusinessCentralService'', rhpamdev_bc_service_yaml),
      (''rhpamdev-bc-route'', ''BusinessCentralRoute'', rhpamdev_bc_route_yaml),
      (''rhpamdev-bc-dc'', ''BusinessCentralDeployment'', rhpamdev_bc_dc_yaml),
      (''rhpamdev-ks-service'', ''KieServerService'', rhpamdev_ks_service_yaml),
      (''rhpamdev-ks-route'', ''KieServerRoute'', rhpamdev_ks_route_yaml),
      (''rhpamdev-ks-dc'', ''KieServerDeployment'', rhpamdev_ks_dc_yaml)]"

text \<open>The resources the operator installs, in the order of the phases.\<close>

definition operator_resources :: "Resource list" where
  "operator_resources =
     [ServiceAccountResource, DatabasePvcResource, DatabaseServiceResource, DatabaseDeploymentConfigResource,
      BusinessCentralPvcResource, BusinessCentralServiceResource, BusinessCentralRouteResource,
      BusinessCentralDeploymentResource, KieServerServiceResource, KieServerRouteResource, KieServerDeploymentResource]"

subsection \<open>What a template declares\<close>

text \<open>
  The lines of the metadata that name the resource, the value quoted or not.
\<close>

definition names_resource :: "string \<Rightarrow> string \<Rightarrow> string \<Rightarrow> bool" where
  "names_resource text name ns \<longleftrightarrow>
     (\<exists>pre q q' post. q \<in> {'''', [CHR 0x22]} \<and> q' \<in> {'''', [CHR 0x22]} \<and>
        text = pre @ ''\<newline>  name: '' @ q @ name @ q @ ''\<newline>  namespace: '' @ q' @ ns @ q' @ ''\<newline>'' @ post)"

fun declares_here :: "string \<Rightarrow> string \<Rightarrow> string \<Rightarrow> item list \<Rightarrow> bool" where
  "declares_here q q' n (Text s # Field m # Text t # Field k # Text u # xs) =
     (m = n \<and> k = ''ApplicationNamespace'' \<and> starts_with (rev (''\<newline>  name: '' @ q)) (rev s) \<and>
      t = q @ ''\<newline>  namespace: '' @ q' \<and> starts_with (q' @ ''\<newline>'') u)"
| "declares_here q q' n _ = False"

primrec declares :: "string \<Rightarrow> item list \<Rightarrow> bool" where
  "declares n [] = False"
| "declares n (x # xs) =
     (list_ex (\<lambda>(q, q'). declares_here q q' n (x # xs))
        [('''', ''''), ('''', [CHR 0x22]), ([CHR 0x22], ''''), ([CHR 0x22], [CHR 0x22])] \<or> declares n xs)"

lemma declares_here_names:
  assumes "declares_here q q' n xs" and "q \<in> {'''', [CHR 0x22]}" and "q' \<in> {'''', [CHR 0x22]}"
    and "map_of d n = Some v" and "map_of d ''ApplicationNamespace'' = Some w"
  shows "names_resource (pre @ concat (map (item_value d) xs)) v w"
proof -
  from assms(1) obtain s t u rest where xs: "xs = Text s # Field n # Text t # Field ''ApplicationNamespace'' # Text u # rest"
    and s: "starts_with (rev (''\<newline>  name: '' @ q)) (rev s)" and t: "t = q @ ''\<newline>  namespace: '' @ q'"
    and u: "starts_with (q' @ ''\<newline>'') u"
    by (auto elim!: declares_here.elims(2) simp del: starts_with.simps)
  from s u obtain a b where "rev s = rev (''\<newline>  name: '' @ q) @ a" "u = (q' @ ''\<newline>'') @ b"
    unfolding starts_with_iff by auto
  from this(1) have "s = rev a @ ''\<newline>  name: '' @ q" by (metis rev_append rev_rev_ident append.assoc)
  with xs t \<open>u = _\<close> assms(2-5) show ?thesis
    unfolding names_resource_def
    by (intro exI [of _ "pre @ rev a"] exI [of _ q] exI [of _ q'] exI [of _ "b @ concat (map (item_value d) rest)"]) simp
qed

lemma declares_names:
  assumes "declares n xs" and "map_of d n = Some v" and "map_of d ''ApplicationNamespace'' = Some w"
  shows "names_resource (pre @ concat (map (item_value d) xs)) v w"
  using assms(1)
proof (induction xs arbitrary: pre)
  case (Cons x xs)
  show ?case
  proof (cases "declares n xs")
    case True
    from Cons.IH [OF this, of "pre @ item_value d x"] show ?thesis by simp
  next
    case False
    with Cons.prems show ?thesis
      by (auto intro: declares_here_names [OF _ _ _ assms(2,3), of _ _ "x # xs" pre, simplified])
  qed
qed simp

definition parameter_names :: "string list" where
  "parameter_names =
     [''ServiceAccount'', ''ApplicationName'', ''ApplicationNamespace'', ''PostgresqlPvc'',
      ''PostgresqlPvcCapacity'', ''PostgresqlService'', ''PostgresqlDeployment'',
      ''PostgresqlImage'', ''PostgresqlSecret'', ''PostgresqlMaxConnections'',
      ''PostgresqlSharedBuffers'', ''PostgresqlMaxPreparedTransactions'',
      ''PostgresqlMemoryLimit'', ''PostgresqlInitConfigmap'', ''BusinessCentralService'',
      ''BusinessCentralPvc'', ''BusinessCentralRoute'', ''BusinessCentralDeployment'',
      ''BusinessCentralVolumeCapacity'', ''BusinessCentralImageStreamNamespace'',
      ''BusinessCentralImage'', ''BusinessCentralImageTag'', ''BusinessCentralCpuRequest'',
      ''BusinessCentralCpuLimit'', ''BusinessCentralMemoryRequest'',
      ''BusinessCentralMemoryLimit'', ''BusinessCentralGcMaxMetaSize'',
      ''BusinessCentralKieMBeans'', ''BusinessCentralJavaOptsAppend'',
      ''BusinessCentralRealmSecret'', ''KieServerRoute'', ''KieServerService'',
      ''KieServerDeployment'', ''KieServerImageStreamNamespace'', ''KieServerImage'',
      ''KieServerImageTag'', ''KieServerCpuRequest'', ''KieServerCpuLimit'',
      ''KieServerMemoryRequest'', ''KieServerMemoryLimit'', ''KieServerGcMaxMetaSize'',
      ''KieServerDroolsFilterClasses'', ''KieServerBypassAuthUser'',
      ''KieServerControllerProtocol'', ''KieServerControllerUser'',
      ''KieServerControllerPassword'', ''KieServerId'', ''KieAdminUser'', ''KieAdminPassword'',
      ''KieMavenUser'', ''KieMavenPassword'', ''KieServerKieMBeans'', ''KieServerRealmSecret'']"

lemma parameter_keys: "map fst (RhpamdevParameters_fields p) = parameter_names"
  by (simp add: RhpamdevParameters_fields_def parameter_names_def)

lemma map_of_all: "list_all (\<lambda>(t, x). P t x) xs \<Longrightarrow> map_of xs t = Some x \<Longrightarrow> P t x"
  by (induction xs) (auto split: if_split_asm)

text \<open>
  What can be read off the files: they are well formed, mention parameters only, and declare
  the resource under the parameter of the table.
\<close>

definition sound_template :: "string \<Rightarrow> item list \<Rightarrow> bool" where
  "sound_template n xs \<longleftrightarrow> tidy xs \<and> declares n xs \<and> list_all (\<lambda>f. f \<in> set parameter_names) (item_fields xs)"

lemma sound_service_account: "sound_template ''ServiceAccount'' rhpamdev_service_account_yaml"
  by code_simp
lemma sound_postgresql_pvc: "sound_template ''PostgresqlPvc'' rhpamdev_postgresql_pvc_yaml"
  by code_simp
lemma sound_postgresql_service: "sound_template ''PostgresqlService'' rhpamdev_postgresql_service_yaml"
  by code_simp
lemma sound_postgresql_dc: "sound_template ''PostgresqlDeployment'' rhpamdev_postgresql_dc_yaml"
  by code_simp
lemma sound_bc_pvc: "sound_template ''BusinessCentralPvc'' rhpamdev_bc_pvc_yaml"
  by code_simp
lemma sound_bc_service: "sound_template ''BusinessCentralService'' rhpamdev_bc_service_yaml"
  by code_simp
lemma sound_bc_route: "sound_template ''BusinessCentralRoute'' rhpamdev_bc_route_yaml"
  by code_simp
lemma sound_bc_dc: "sound_template ''BusinessCentralDeployment'' rhpamdev_bc_dc_yaml"
  by code_simp
lemma sound_ks_service: "sound_template ''KieServerService'' rhpamdev_ks_service_yaml"
  by code_simp
lemma sound_ks_route: "sound_template ''KieServerRoute'' rhpamdev_ks_route_yaml"
  by code_simp
lemma sound_ks_dc: "sound_template ''KieServerDeployment'' rhpamdev_ks_dc_yaml"
  by code_simp

lemmas sound_files = sound_service_account sound_postgresql_pvc sound_postgresql_service sound_postgresql_dc sound_bc_pvc sound_bc_service sound_bc_route sound_bc_dc sound_ks_service sound_ks_route sound_ks_dc

lemma sound_template_render:
  assumes "sound_template n xs"
    and "map_of (RhpamdevParameters_fields p) n = Some v"
  shows "\<exists>text. render (unparse xs) (RhpamdevParameters_fields p) = Inr text \<and>
    names_resource text v (p_ApplicationNamespace p)"
proof -
  let ?d = "RhpamdevParameters_fields p"
  from assms(1) have t: "tidy xs" and d: "declares n xs" and f: "set (item_fields xs) \<subseteq> set parameter_names"
    by (auto simp: sound_template_def list_all_iff)
  from f have "set (item_fields xs) \<subseteq> fst ` set ?d" by (simp flip: parameter_keys [of p])
  then obtain out where x: "template_Execute xs ?d = Inr out" by (metis Execute_ok_iff)
  have "map_of ?d ''ApplicationNamespace'' = Some (p_ApplicationNamespace p)" by (simp add: RhpamdevParameters_fields_def)
  from declares_names [OF d assms(2) this, of "[]"] x show ?thesis
    by (simp add: render_def Parse_unparse [OF t] Execute_value [OF x])
qed

lemmas template_names =
  ServiceAccountTemplate_def DatabasePvcTemplate_def DatabaseServiceTemplate_def DatabaseDeploymentTemplate_def
  BusinessCentralRouteTemplate_def BusinessCentralServiceTemplate_def BusinessCentralPvcTemplate_def
  BusinessCentralDeploymentTemplate_def KieServerRouteTemplate_def KieServerServiceTemplate_def
  KieServerDeploymentTemplate_def

lemma names_of_parameters:
  fixes cr :: RhpamDev
  defines "d \<equiv> RhpamdevParameters_fields (template_params cr)"
  shows "map_of d ''ServiceAccount'' = Some ServiceAccount" "map_of d ''PostgresqlPvc'' = Some DatabasePvc"
    "map_of d ''PostgresqlService'' = Some DatabaseService" "map_of d ''PostgresqlDeployment'' = Some DatabaseDeployment"
    "map_of d ''BusinessCentralPvc'' = Some BusinessCentralPvc" "map_of d ''BusinessCentralService'' = Some BusinessCentralService"
    "map_of d ''BusinessCentralRoute'' = Some BusinessCentralRoute"
    "map_of d ''BusinessCentralDeployment'' = Some BusinessCentralDeployment"
    "map_of d ''KieServerService'' = Some KieServerService" "map_of d ''KieServerRoute'' = Some KieServerRoute"
    "map_of d ''KieServerDeployment'' = Some KieServerDeployment"
  unfolding d_def by (simp_all add: RhpamdevParameters_fields_def template_params_def)

lemma operator_resource_file:
  assumes "res \<in> set operator_resources"
  shows "\<exists>n xs. map_of repo_templates (res_template res) = Some (n, xs) \<and> sound_template n xs \<and>
      map_of (RhpamdevParameters_fields (template_params cr)) n = Some (res_name res)"
proof -
  have "list_all (\<lambda>res. \<exists>n xs. map_of repo_templates (res_template res) = Some (n, xs) \<and> sound_template n xs \<and>
      map_of (RhpamdevParameters_fields (template_params cr)) n = Some (res_name res)) operator_resources"
    unfolding operator_resources_def resource_defs list.pred_inject Resource.select_convs template_names repo_templates_def
    by (simp add: sound_files names_of_parameters)
  with assms show ?thesis by (simp add: list_all_iff)
qed

text \<open>
  C23. The templates of the repository work: for every custom resource, the template of each of
  the eleven resources the operator installs is there, parses, executes with the parameters
  without an error, and the text names the object exactly as the operator looks it up, by the
  name of the resource and the namespace of the custom resource.
\<close>

theorem resource_templates_work:
  assumes "res \<in> set operator_resources"
  shows "\<exists>n xs text. map_of repo_templates (res_template res) = Some (n, xs) \<and>
    render (unparse xs) (RhpamdevParameters_fields (template_params cr)) = Inr text \<and>
    names_resource text (res_name res) (dev_Namespace cr)"
proof -
  obtain n xs where "map_of repo_templates (res_template res) = Some (n, xs)" "sound_template n xs"
      "map_of (RhpamdevParameters_fields (template_params cr)) n = Some (res_name res)"
    using operator_resource_file [OF assms] by blast
  moreover have "p_ApplicationNamespace (template_params cr) = dev_Namespace cr" by (simp add: template_params_def)
  ultimately show ?thesis using sound_template_render by metis
qed

lemma resource_templates_work_witness:
  "\<exists>text. render (unparse rhpamdev_ks_dc_yaml) (RhpamdevParameters_fields (template_params (sample_dev [] [] [] None))) = Inr text \<and>
    names_resource text ''rhpam-kieserver'' ''ns''"
proof -
  have "KieServerDeploymentResource \<in> set operator_resources" by (simp add: operator_resources_def)
  from resource_templates_work [OF this, of "sample_dev [] [] [] None"] show ?thesis
    by (auto simp: sample_dev_def sample_meta_def KieServerDeploymentResource_def KieServerDeploymentTemplate_def KieServerDeployment_def repo_templates_def)
qed

subsection \<open>A setting nobody reads\<close>

definition with_kie_server_id :: "string \<Rightarrow> RhpamDev \<Rightarrow> RhpamDev" where
  "with_kie_server_id x cr =
     cr\<lparr>dev_Spec := (dev_Spec cr)\<lparr>ds_Config := (ds_Config (dev_Spec cr))\<lparr>cfg_KieServerConfig :=
       (cfg_KieServerConfig (ds_Config (dev_Spec cr)))\<lparr>ksc_KieServerId := x\<rparr>\<rparr>\<rparr>\<rparr>"

lemma template_params_without_server_id: "template_params (with_kie_server_id x cr) = template_params cr"
  by (simp add: template_params_def with_kie_server_id_def)

text \<open>
  An installation depends on the custom resource only by its metadata and the parameters of
  the templates.
\<close>

lemma createResource_cong:
  assumes "dev_ObjectMeta cr' = dev_ObjectMeta cr" and "template_params cr' = template_params cr"
  shows "createResource ph cr' res = createResource ph cr res"
proof -
  have h: "ResourceHelper_createResource \<lparr>rh_cr = cr', rh_templateHelper = th\<rparr> =
      ResourceHelper_createResource \<lparr>rh_cr = cr, rh_templateHelper = th\<rparr>" for th
    by (rule ext) (simp add: ResourceHelper_createResource_def)
  have c: "SetControllerReference cr' = SetControllerReference cr"
    unfolding SetControllerReference_def assms(1) ..
  have "newResourceHelper cr0 = Getenv ''TEMPLATE_PATH'' (\<lambda>path. Return \<lparr>rh_cr = cr0, rh_templateHelper =
      \<lparr>th_parameters = template_params cr0, th_templatePath = (if path = '''' then ''./templates'' else path)\<rparr>\<rparr>)" for cr0
    by (simp add: newResourceHelper_def newTemplateHelper_def Getenv_def)
  then show ?thesis unfolding createResource_def c assms by (simp only: Getenv_def bind.simps h assms)
qed

text \<open>
  C38. The field kieServerId of a custom resource has no effect: with any value of it the
  operator makes the same calls to install any list of resources, with the same contents.
\<close>

theorem kie_server_id_ignored:
  "createResources ph (with_kie_server_id x cr) ress = createResources ph cr ress"
proof -
  have "dev_ObjectMeta (with_kie_server_id x cr) = dev_ObjectMeta cr" by (simp add: with_kie_server_id_def)
  from createResource_cong [OF this template_params_without_server_id]
  have "createResource ph (with_kie_server_id x cr) = createResource ph cr" by (rule ext)
  then show ?thesis by (simp add: createResources_def)
qed

end
