(* ===== verification/RealmTemplates.thy ===== *)
theory RealmTemplates
  imports ResourceTemplates JsonTexts
begin

text \<open>
  The two JSON templates with which a realm is provisioned, realm.json and realm-client.json, as they
  are in templates/rhsso, and what Keycloak reads when they are filled in.
\<close>

subsection \<open>Values as tokens\<close>

text \<open>The tokens of a value, and the parser as their inverse.\<close>

fun json_tokens :: "json \<Rightarrow> token list"
  and element_tokens :: "json list \<Rightarrow> token list"
  and member_list_tokens :: "(string \<times> json) list \<Rightarrow> token list" where
  "json_tokens JNull = [TNull]"
| "json_tokens (JBool b) = [if b then TTrue else TFalse]"
| "json_tokens (JNum s) = [TNum s]"
| "json_tokens (JStr s) = [TStr s]"
| "json_tokens (JArr js) = TLBrack # element_tokens js @ [TRBrack]"
| "json_tokens (JObj kvs) = TLBrace # member_list_tokens kvs @ [TRBrace]"
| "element_tokens [] = []"
| "element_tokens [j] = json_tokens j"
| "element_tokens (j # j' # js) = json_tokens j @ TComma # element_tokens (j' # js)"
| "member_list_tokens [] = []"
| "member_list_tokens [(k, j)] = TStr k # TColon # json_tokens j"
| "member_list_tokens ((k, j) # kv # kvs) = TStr k # TColon # json_tokens j @ TComma # member_list_tokens (kv # kvs)"

definition continue_with :: "(frame list \<times> pstate) option \<Rightarrow> token list \<Rightarrow> json option" where
  "continue_with s ts = (case s of None \<Rightarrow> None | Some s' \<Rightarrow> parse_tokens s' ts)"

lemma continue_simps [simp]: "continue_with (Some s) ts = parse_tokens s ts" "continue_with None ts = None"
  by (simp_all add: continue_with_def)

lemma parse_step: "parse_tokens s (t # ts) = continue_with (tok_step s t) ts"
  by (simp add: continue_with_def)

lemma not_end: "\<exists>t ts. json_tokens j = t # ts \<and> t \<noteq> TRBrack"
  by (cases j) auto

lemma parse_json_tokens:
  "parse_tokens (st, WantValue) (json_tokens j @ ts) = continue_with (complete_value j st) ts"
  "js \<noteq> [] \<Longrightarrow> parse_tokens (FArr xs # st, WantValue) (element_tokens js @ TRBrack # ts) =
     continue_with (complete_value (JArr (rev xs @ js)) st) ts"
  "kvs \<noteq> [] \<Longrightarrow> parse_tokens (FObj ms None # st, WantKey) (member_list_tokens kvs @ TRBrace # ts) =
     continue_with (complete_value (JObj (rev ms @ kvs)) st) ts"
proof (induction j and js and kvs arbitrary: st ts and xs st ts and ms st ts rule: json_tokens_element_tokens_member_list_tokens.induct)
  case (5 js)
  show ?case
  proof (cases js)
    case Nil
    then show ?thesis by (simp add: tok_step_def continue_with_def)
  next
    case (Cons j js')
    obtain t us where t: "element_tokens js = t # us" "t \<noteq> TRBrack"
      using not_end [of j] by (cases js') (auto simp: Cons)
    have "parse_tokens (FArr [] # st, WantValueOrEnd) (element_tokens js @ TRBrack # ts) =
        parse_tokens (FArr [] # st, WantValue) (element_tokens js @ TRBrack # ts)"
      by (simp add: t tok_step_def)
    with 5 [of "[]" st ts] show ?thesis by (simp add: Cons tok_step_def)
  qed
next
  case (6 kvs)
  show ?case
  proof (cases kvs)
    case Nil
    then show ?thesis by (simp add: tok_step_def continue_with_def)
  next
    case (Cons kv kvs')
    obtain k us where k: "member_list_tokens kvs = TStr k # us"
      by (cases kv; cases kvs') (auto simp: Cons)
    have "parse_tokens (FObj [] None # st, WantKeyOrEnd) (member_list_tokens kvs @ TRBrace # ts) =
        parse_tokens (FObj [] None # st, WantKey) (member_list_tokens kvs @ TRBrace # ts)"
      by (simp add: k tok_step_def)
    with 6 [of "[]" st ts] show ?thesis by (simp add: Cons tok_step_def)
  qed
qed (simp_all add: parse_step tok_step_def del: parse_tokens.simps)

lemma parse_whole: "parse_tokens ([], WantValue) (json_tokens j) = Some j"
  using parse_json_tokens(1) [of "[]" j "[]"] by simp

subsection \<open>Scanning in pieces\<close>

lemma lex_run_append:
  "lex_run m s = Some (ts, m') \<Longrightarrow> lex_run m' t = Some (us, m'') \<Longrightarrow> lex_run m (s @ t) = Some (ts @ us, m'')"
  by (induction s arbitrary: m ts) (auto split: option.split_asm prod.split_asm)

lemma lex_run_plain: "list_all plain_char s \<Longrightarrow> lex_run (LStr None acc) s = Some ([], LStr None (rev s @ acc))"
  by (induction s arbitrary: acc) (auto simp: plain_char_def flush_surrogate_def)

lemma lex_run_quoted: "list_all plain_char s \<Longrightarrow> lex_run LDef (CHR 0x22 # s @ [CHR 0x22]) = Some ([TStr s], LDef)"
  using lex_run_append [OF lex_run_plain [of s "[]"], of "[CHR 0x22]"] by (simp add: lex_start_def is_space_def flush_surrogate_def)

lemma lex_run_whole: "lex_run LDef s = Some (json_tokens j, LDef) \<Longrightarrow> json_parse s = Some j"
  using json_lex_run [of LDef s "json_tokens j" LDef "[]"] by (simp add: json_parse_def parse_whole)

text \<open>A text line by line, each of whole tokens.\<close>

fun scanned :: "string list \<Rightarrow> token list option" where
  "scanned [] = Some []"
| "scanned (s # ss) =
     (case lex_run LDef s of Some (ts, LDef) \<Rightarrow> map_option (\<lambda>us. ts @ us) (scanned ss) | _ \<Rightarrow> None)"

lemma scanned_lex: "scanned ss = Some ts \<Longrightarrow> lex_run LDef (concat ss) = Some (ts, LDef)"
proof (induction ss arbitrary: ts)
  case (Cons s ss)
  then obtain us vs where "lex_run LDef s = Some (us, LDef)" "scanned ss = Some vs" "ts = us @ vs"
    by (auto split: option.split_asm prod.split_asm lmode.split_asm)
  with Cons.IH lex_run_append show ?case by simp
qed simp

lemma no_action_append: "no_action s \<Longrightarrow> no_action t \<Longrightarrow> no_action (s @ t)"
proof (induction s rule: no_action.induct)
  case (2 c)
  then show ?case by (cases t) auto
qed auto

lemma no_action_concat: "list_all no_action ss \<Longrightarrow> no_action (concat ss)"
  by (induction ss) (auto intro: no_action_append)

lemma more_members: "kvs \<noteq> [] \<Longrightarrow> member_list_tokens ((k, v) # kvs) = TStr k # TColon # json_tokens v @ TComma # member_list_tokens kvs"
  by (cases kvs) auto

subsection \<open>The files\<close>

definition realm_json_0 :: string where
  "realm_json_0 = ''{\<newline>    \"id\": \"''"

definition realm_json_1 :: string where
  "realm_json_1 = ''\",\<newline>    \"realm\": \"''"

definition realm_json_lines :: "string list" where
  "realm_json_lines =
    ['',\<newline>'',
     ''    \"notBefore\": 0,\<newline>'',
     ''    \"revokeRefreshToken\": false,\<newline>'',
     ''    \"refreshTokenMaxReuse\": 0,\<newline>'',
     ''    \"accessTokenLifespan\": 300,\<newline>'',
     ''    \"accessTokenLifespanForImplicitFlow\": 900,\<newline>'',
     ''    \"ssoSessionIdleTimeout\": 1800,\<newline>'',
     ''    \"ssoSessionMaxLifespan\": 36000,\<newline>'',
     ''    \"offlineSessionIdleTimeout\": 2592000,\<newline>'',
     ''    \"accessCodeLifespan\": 60,\<newline>'',
     ''    \"accessCodeLifespanUserAction\": 300,\<newline>'',
     ''    \"accessCodeLifespanLogin\": 1800,\<newline>'',
     ''    \"actionTokenGeneratedByAdminLifespan\": 43200,\<newline>'',
     ''    \"actionTokenGeneratedByUserLifespan\": 300,\<newline>'',
     ''    \"enabled\": true,\<newline>'',
     ''    \"sslRequired\": \"external\",\<newline>'',
     ''    \"registrationAllowed\": false,\<newline>'',
     ''    \"registrationEmailAsUsername\": false,\<newline>'',
     ''    \"rememberMe\": false,\<newline>'',
     ''    \"verifyEmail\": false,\<newline>'',
     ''    \"loginWithEmailAllowed\": true,\<newline>'',
     ''    \"duplicateEmailsAllowed\": false,\<newline>'',
     ''    \"resetPasswordAllowed\": false,\<newline>'',
     ''    \"editUsernameAllowed\": false,\<newline>'',
     ''    \"bruteForceProtected\": false,\<newline>'',
     ''    \"permanentLockout\": false,\<newline>'',
     ''    \"maxFailureWaitSeconds\": 900,\<newline>'',
     ''    \"minimumQuickLoginWaitSeconds\": 60,\<newline>'',
     ''    \"waitIncrementSeconds\": 60,\<newline>'',
     ''    \"quickLoginCheckMilliSeconds\": 1000,\<newline>'',
     ''    \"maxDeltaTimeSeconds\": 43200,\<newline>'',
     ''    \"failureFactor\": 30,\<newline>'',
     ''    \"defaultRoles\": [\<newline>'',
     ''      \"offline_access\",\<newline>'',
     ''      \"uma_authorization\"\<newline>'',
     ''    ],\<newline>'',
     ''    \"requiredCredentials\": [\<newline>'',
     ''      \"password\"\<newline>'',
     ''    ],\<newline>'',
     ''    \"otpPolicyType\": \"totp\",\<newline>'',
     ''    \"otpPolicyAlgorithm\": \"HmacSHA1\",\<newline>'',
     ''    \"otpPolicyInitialCounter\": 0,\<newline>'',
     ''    \"otpPolicyDigits\": 6,\<newline>'',
     ''    \"otpPolicyLookAheadWindow\": 1,\<newline>'',
     ''    \"otpPolicyPeriod\": 30,\<newline>'',
     ''    \"otpSupportedApplications\": [\<newline>'',
     ''      \"FreeOTP\",\<newline>'',
     ''      \"Google Authenticator\"\<newline>'',
     ''    ],\<newline>'',
     ''    \"browserSecurityHeaders\": {\<newline>'',
     ''      \"xContentTypeOptions\": \"nosniff\",\<newline>'',
     ''      \"xRobotsTag\": \"none\",\<newline>'',
     ''      \"xFrameOptions\": \"SAMEORIGIN\",\<newline>'',
     ''      \"xXSSProtection\": \"1; mode=block\",\<newline>'',
     ''      \"contentSecurityPolicy\": \"frame-src 'self'; frame-ancestors 'self'; object-src 'none';\",\<newline>'',
     ''      \"strictTransportSecurity\": \"max-age=31536000; includeSubDomains\"\<newline>'',
     ''    },\<newline>'',
     ''    \"smtpServer\": {},\<newline>'',
     ''    \"eventsEnabled\": false,\<newline>'',
     ''    \"eventsListeners\": [\<newline>'',
     ''      \"jboss-logging\"\<newline>'',
     ''    ],\<newline>'',
     ''    \"enabledEventTypes\": [],\<newline>'',
     ''    \"adminEventsEnabled\": false,\<newline>'',
     ''    \"adminEventsDetailsEnabled\": false,\<newline>'',
     ''    \"internationalizationEnabled\": false,\<newline>'',
     ''    \"supportedLocales\": [],\<newline>'',
     ''    \"browserFlow\": \"browser\",\<newline>'',
     ''    \"registrationFlow\": \"registration\",\<newline>'',
     ''    \"directGrantFlow\": \"direct grant\",\<newline>'',
     ''    \"resetCredentialsFlow\": \"reset credentials\",\<newline>'',
     ''    \"clientAuthenticationFlow\": \"clients\",\<newline>'',
     ''    \"dockerAuthenticationFlow\": \"docker auth\",\<newline>'',
     ''    \"attributes\": {\<newline>'',
     ''      \"_browser_header.xXSSProtection\": \"1; mode=block\",\<newline>'',
     ''      \"_browser_header.strictTransportSecurity\": \"max-age=31536000; includeSubDomains\",\<newline>'',
     ''      \"_browser_header.xFrameOptions\": \"SAMEORIGIN\",\<newline>'',
     ''      \"quickLoginCheckMilliSeconds\": \"1000\",\<newline>'',
     ''      \"permanentLockout\": \"false\",\<newline>'',
     ''      \"_browser_header.xRobotsTag\": \"none\",\<newline>'',
     ''      \"maxFailureWaitSeconds\": \"900\",\<newline>'',
     ''      \"minimumQuickLoginWaitSeconds\": \"60\",\<newline>'',
     ''      \"failureFactor\": \"30\",\<newline>'',
     ''      \"actionTokenGeneratedByUserLifespan\": \"300\",\<newline>'',
     ''      \"maxDeltaTimeSeconds\": \"43200\",\<newline>'',
     ''      \"_browser_header.xContentTypeOptions\": \"nosniff\",\<newline>'',
     ''      \"actionTokenGeneratedByAdminLifespan\": \"43200\",\<newline>'',
     ''      \"bruteForceProtected\": \"false\",\<newline>'',
     ''      \"_browser_header.contentSecurityPolicy\": \"frame-src 'self'; frame-ancestors 'self'; object-src 'none';\",\<newline>'',
     ''      \"waitIncrementSeconds\": \"60\"\<newline>'',
     ''    }\<newline>'',
     ''  }'']"

definition realm_json_2 :: string where
  "realm_json_2 = [CHR 0x22] @ concat realm_json_lines"

definition realm_json :: "item list" where
  "realm_json =
    [Text realm_json_0,
     Field ''RealmId'',
     Text realm_json_1,
     Field ''RealmId'',
     Text realm_json_2]"

definition realm_settings :: "(string \<times> json) list" where
  "realm_settings =
    [(''notBefore'', JNum ''0''),
     (''revokeRefreshToken'', JBool False),
     (''refreshTokenMaxReuse'', JNum ''0''),
     (''accessTokenLifespan'', JNum ''300''),
     (''accessTokenLifespanForImplicitFlow'', JNum ''900''),
     (''ssoSessionIdleTimeout'', JNum ''1800''),
     (''ssoSessionMaxLifespan'', JNum ''36000''),
     (''offlineSessionIdleTimeout'', JNum ''2592000''),
     (''accessCodeLifespan'', JNum ''60''),
     (''accessCodeLifespanUserAction'', JNum ''300''),
     (''accessCodeLifespanLogin'', JNum ''1800''),
     (''actionTokenGeneratedByAdminLifespan'', JNum ''43200''),
     (''actionTokenGeneratedByUserLifespan'', JNum ''300''),
     (''enabled'', JBool True),
     (''sslRequired'', JStr ''external''),
     (''registrationAllowed'', JBool False),
     (''registrationEmailAsUsername'', JBool False),
     (''rememberMe'', JBool False),
     (''verifyEmail'', JBool False),
     (''loginWithEmailAllowed'', JBool True),
     (''duplicateEmailsAllowed'', JBool False),
     (''resetPasswordAllowed'', JBool False),
     (''editUsernameAllowed'', JBool False),
     (''bruteForceProtected'', JBool False),
     (''permanentLockout'', JBool False),
     (''maxFailureWaitSeconds'', JNum ''900''),
     (''minimumQuickLoginWaitSeconds'', JNum ''60''),
     (''waitIncrementSeconds'', JNum ''60''),
     (''quickLoginCheckMilliSeconds'', JNum ''1000''),
     (''maxDeltaTimeSeconds'', JNum ''43200''),
     (''failureFactor'', JNum ''30''),
     (''defaultRoles'', JArr [JStr ''offline_access'', JStr ''uma_authorization'']),
     (''requiredCredentials'', JArr [JStr ''password'']),
     (''otpPolicyType'', JStr ''totp''),
     (''otpPolicyAlgorithm'', JStr ''HmacSHA1''),
     (''otpPolicyInitialCounter'', JNum ''0''),
     (''otpPolicyDigits'', JNum ''6''),
     (''otpPolicyLookAheadWindow'', JNum ''1''),
     (''otpPolicyPeriod'', JNum ''30''),
     (''otpSupportedApplications'', JArr [JStr ''FreeOTP'', JStr ''Google Authenticator'']),
     (''browserSecurityHeaders'', JObj [(''xContentTypeOptions'', JStr ''nosniff''), (''xRobotsTag'', JStr ''none''), (''xFrameOptions'', JStr ''SAMEORIGIN''), (''xXSSProtection'', JStr ''1; mode=block''), (''contentSecurityPolicy'', JStr ''frame-src 'self'; frame-ancestors 'self'; object-src 'none';''), (''strictTransportSecurity'', JStr ''max-age=31536000; includeSubDomains'')]),
     (''smtpServer'', JObj []),
     (''eventsEnabled'', JBool False),
     (''eventsListeners'', JArr [JStr ''jboss-logging'']),
     (''enabledEventTypes'', JArr []),
     (''adminEventsEnabled'', JBool False),
     (''adminEventsDetailsEnabled'', JBool False),
     (''internationalizationEnabled'', JBool False),
     (''supportedLocales'', JArr []),
     (''browserFlow'', JStr ''browser''),
     (''registrationFlow'', JStr ''registration''),
     (''directGrantFlow'', JStr ''direct grant''),
     (''resetCredentialsFlow'', JStr ''reset credentials''),
     (''clientAuthenticationFlow'', JStr ''clients''),
     (''dockerAuthenticationFlow'', JStr ''docker auth''),
     (''attributes'', JObj [(''_browser_header.xXSSProtection'', JStr ''1; mode=block''), (''_browser_header.strictTransportSecurity'', JStr ''max-age=31536000; includeSubDomains''), (''_browser_header.xFrameOptions'', JStr ''SAMEORIGIN''), (''quickLoginCheckMilliSeconds'', JStr ''1000''), (''permanentLockout'', JStr ''false''), (''_browser_header.xRobotsTag'', JStr ''none''), (''maxFailureWaitSeconds'', JStr ''900''), (''minimumQuickLoginWaitSeconds'', JStr ''60''), (''failureFactor'', JStr ''30''), (''actionTokenGeneratedByUserLifespan'', JStr ''300''), (''maxDeltaTimeSeconds'', JStr ''43200''), (''_browser_header.xContentTypeOptions'', JStr ''nosniff''), (''actionTokenGeneratedByAdminLifespan'', JStr ''43200''), (''bruteForceProtected'', JStr ''false''), (''_browser_header.contentSecurityPolicy'', JStr ''frame-src 'self'; frame-ancestors 'self'; object-src 'none';''), (''waitIncrementSeconds'', JStr ''60'')])]"

definition realm_client_json_0 :: string where
  "realm_client_json_0 = ''{\<newline>    \"clientId\": \"''"

definition realm_client_json_1 :: string where
  "realm_client_json_1 = ''\",\<newline>    \"rootUrl\": \"''"

definition realm_client_json_2 :: string where
  "realm_client_json_2 = ''\",\<newline>    \"adminUrl\": \"''"

definition realm_client_json_3 :: string where
  "realm_client_json_3 = ''\",\<newline>    \"surrogateAuthRequired\": false,\<newline>    \"enabled\": true,\<newline>    \"clientAuthenticatorType\": \"client-secret\",\<newline>    \"redirectUris\": [\<newline>      ''"

definition realm_client_json_4 :: string where
  "realm_client_json_4 = ''\<newline>    ],\<newline>    \"webOrigins\": [\<newline>      ''"

definition realm_client_json_5 :: string where
  "realm_client_json_5 = ''\<newline>    ],\<newline>    \"notBefore\": 0,\<newline>    \"bearerOnly\": ''"

definition realm_client_json_6 :: string where
  "realm_client_json_6 = '',\<newline>    \"consentRequired\": false,\<newline>    \"standardFlowEnabled\": true,\<newline>    \"implicitFlowEnabled\": ''"

definition realm_client_json_7 :: string where
  "realm_client_json_7 = '',\<newline>    \"directAccessGrantsEnabled\": ''"

definition realm_client_json_8 :: string where
  "realm_client_json_8 = '',\<newline>    \"serviceAccountsEnabled\": false,\<newline>    \"publicClient\": ''"

definition realm_client_json_lines :: "string list" where
  "realm_client_json_lines =
    ['',\<newline>'',
     ''    \"frontchannelLogout\": false,\<newline>'',
     ''    \"protocol\": \"openid-connect\",\<newline>'',
     ''    \"attributes\": {\<newline>'',
     ''      \"saml.assertion.signature\": \"false\",\<newline>'',
     ''      \"saml.force.post.binding\": \"false\",\<newline>'',
     ''      \"saml.multivalued.roles\": \"false\",\<newline>'',
     ''      \"saml.encrypt\": \"false\",\<newline>'',
     ''      \"saml_force_name_id_format\": \"false\",\<newline>'',
     ''      \"saml.client.signature\": \"false\",\<newline>'',
     ''      \"saml.authnstatement\": \"false\",\<newline>'',
     ''      \"saml.server.signature\": \"false\",\<newline>'',
     ''      \"saml.server.signature.keyinfo.ext\": \"false\",\<newline>'',
     ''      \"exclude.session.state.from.auth.response\": \"true\",\<newline>'',
     ''      \"saml.onetimeuse.condition\": \"false\"\<newline>'',
     ''    },\<newline>'',
     ''    \"fullScopeAllowed\": true,\<newline>'',
     ''    \"nodeReRegistrationTimeout\": -1,\<newline>'',
     ''    \"protocolMappers\": [\<newline>'',
     ''      {\<newline>'',
     ''        \"name\": \"family name\",\<newline>'',
     ''        \"protocol\": \"openid-connect\",\<newline>'',
     ''        \"protocolMapper\": \"oidc-usermodel-property-mapper\",\<newline>'',
     ''        \"consentRequired\": true,\<newline>'',
     ''        \"consentText\": \"${familyName}\",\<newline>'',
     ''        \"config\": {\<newline>'',
     ''          \"userinfo.token.claim\": \"true\",\<newline>'',
     ''          \"user.attribute\": \"lastName\",\<newline>'',
     ''          \"id.token.claim\": \"true\",\<newline>'',
     ''          \"access.token.claim\": \"true\",\<newline>'',
     ''          \"claim.name\": \"family_name\",\<newline>'',
     ''          \"jsonType.label\": \"String\"\<newline>'',
     ''        }\<newline>'',
     ''      },\<newline>'',
     ''      {\<newline>'',
     ''        \"name\": \"full name\",\<newline>'',
     ''        \"protocol\": \"openid-connect\",\<newline>'',
     ''        \"protocolMapper\": \"oidc-full-name-mapper\",\<newline>'',
     ''        \"consentRequired\": true,\<newline>'',
     ''        \"consentText\": \"${fullName}\",\<newline>'',
     ''        \"config\": {\<newline>'',
     ''          \"id.token.claim\": \"true\",\<newline>'',
     ''          \"access.token.claim\": \"true\"\<newline>'',
     ''        }\<newline>'',
     ''      },\<newline>'',
     ''      {\<newline>'',
     ''        \"name\": \"given name\",\<newline>'',
     ''        \"protocol\": \"openid-connect\",\<newline>'',
     ''        \"protocolMapper\": \"oidc-usermodel-property-mapper\",\<newline>'',
     ''        \"consentRequired\": true,\<newline>'',
     ''        \"consentText\": \"${givenName}\",\<newline>'',
     ''        \"config\": {\<newline>'',
     ''          \"userinfo.token.claim\": \"true\",\<newline>'',
     ''          \"user.attribute\": \"firstName\",\<newline>'',
     ''          \"id.token.claim\": \"true\",\<newline>'',
     ''          \"access.token.claim\": \"true\",\<newline>'',
     ''          \"claim.name\": \"given_name\",\<newline>'',
     ''          \"jsonType.label\": \"String\"\<newline>'',
     ''        }\<newline>'',
     ''      },\<newline>'',
     ''      {\<newline>'',
     ''        \"name\": \"role list\",\<newline>'',
     ''        \"protocol\": \"saml\",\<newline>'',
     ''        \"protocolMapper\": \"saml-role-list-mapper\",\<newline>'',
     ''        \"consentRequired\": false,\<newline>'',
     ''        \"config\": {\<newline>'',
     ''          \"single\": \"false\",\<newline>'',
     ''          \"attribute.nameformat\": \"Basic\",\<newline>'',
     ''          \"attribute.name\": \"Role\"\<newline>'',
     ''        }\<newline>'',
     ''      },\<newline>'',
     ''      {\<newline>'',
     ''        \"name\": \"username\",\<newline>'',
     ''        \"protocol\": \"openid-connect\",\<newline>'',
     ''        \"protocolMapper\": \"oidc-usermodel-property-mapper\",\<newline>'',
     ''        \"consentRequired\": true,\<newline>'',
     ''        \"consentText\": \"${username}\",\<newline>'',
     ''        \"config\": {\<newline>'',
     ''          \"userinfo.token.claim\": \"true\",\<newline>'',
     ''          \"user.attribute\": \"username\",\<newline>'',
     ''          \"id.token.claim\": \"true\",\<newline>'',
     ''          \"access.token.claim\": \"true\",\<newline>'',
     ''          \"claim.name\": \"preferred_username\",\<newline>'',
     ''          \"jsonType.label\": \"String\"\<newline>'',
     ''        }\<newline>'',
     ''      },\<newline>'',
     ''      {\<newline>'',
     ''        \"name\": \"email\",\<newline>'',
     ''        \"protocol\": \"openid-connect\",\<newline>'',
     ''        \"protocolMapper\": \"oidc-usermodel-property-mapper\",\<newline>'',
     ''        \"consentRequired\": true,\<newline>'',
     ''        \"consentText\": \"${email}\",\<newline>'',
     ''        \"config\": {\<newline>'',
     ''          \"userinfo.token.claim\": \"true\",\<newline>'',
     ''          \"user.attribute\": \"email\",\<newline>'',
     ''          \"id.token.claim\": \"true\",\<newline>'',
     ''          \"access.token.claim\": \"true\",\<newline>'',
     ''          \"claim.name\": \"email\",\<newline>'',
     ''          \"jsonType.label\": \"String\"\<newline>'',
     ''        }\<newline>'',
     ''      }\<newline>'',
     ''    ],\<newline>'',
     ''    \"useTemplateConfig\": false,\<newline>'',
     ''    \"useTemplateScope\": false,\<newline>'',
     ''    \"useTemplateMappers\": false\<newline>'',
     ''  }'']"

definition realm_client_json_9 :: string where
  "realm_client_json_9 = concat realm_client_json_lines"

definition realm_client_json :: "item list" where
  "realm_client_json =
    [Text realm_client_json_0,
     Field ''ClientId'',
     Text realm_client_json_1,
     Field ''RootUrl'',
     Text realm_client_json_2,
     Field ''AdminUrl'',
     Text realm_client_json_3,
     Field ''RedirectUris'',
     Text realm_client_json_4,
     Field ''WebOrigin'',
     Text realm_client_json_5,
     Field ''BearerOnly'',
     Text realm_client_json_6,
     Field ''ImplicitFlowEnabled'',
     Text realm_client_json_7,
     Field ''DirectAcessGrantEnabled'',
     Text realm_client_json_8,
     Field ''PublicClient'',
     Text realm_client_json_9]"

definition client_settings :: "(string \<times> json) list" where
  "client_settings =
    [(''frontchannelLogout'', JBool False),
     (''protocol'', JStr ''openid-connect''),
     (''attributes'', JObj [(''saml.assertion.signature'', JStr ''false''), (''saml.force.post.binding'', JStr ''false''), (''saml.multivalued.roles'', JStr ''false''), (''saml.encrypt'', JStr ''false''), (''saml_force_name_id_format'', JStr ''false''), (''saml.client.signature'', JStr ''false''), (''saml.authnstatement'', JStr ''false''), (''saml.server.signature'', JStr ''false''), (''saml.server.signature.keyinfo.ext'', JStr ''false''), (''exclude.session.state.from.auth.response'', JStr ''true''), (''saml.onetimeuse.condition'', JStr ''false'')]),
     (''fullScopeAllowed'', JBool True),
     (''nodeReRegistrationTimeout'', JNum ''-1''),
     (''protocolMappers'', JArr [JObj [(''name'', JStr ''family name''), (''protocol'', JStr ''openid-connect''), (''protocolMapper'', JStr ''oidc-usermodel-property-mapper''), (''consentRequired'', JBool True), (''consentText'', JStr ''${familyName}''), (''config'', JObj [(''userinfo.token.claim'', JStr ''true''), (''user.attribute'', JStr ''lastName''), (''id.token.claim'', JStr ''true''), (''access.token.claim'', JStr ''true''), (''claim.name'', JStr ''family_name''), (''jsonType.label'', JStr ''String'')])], JObj [(''name'', JStr ''full name''), (''protocol'', JStr ''openid-connect''), (''protocolMapper'', JStr ''oidc-full-name-mapper''), (''consentRequired'', JBool True), (''consentText'', JStr ''${fullName}''), (''config'', JObj [(''id.token.claim'', JStr ''true''), (''access.token.claim'', JStr ''true'')])], JObj [(''name'', JStr ''given name''), (''protocol'', JStr ''openid-connect''), (''protocolMapper'', JStr ''oidc-usermodel-property-mapper''), (''consentRequired'', JBool True), (''consentText'', JStr ''${givenName}''), (''config'', JObj [(''userinfo.token.claim'', JStr ''true''), (''user.attribute'', JStr ''firstName''), (''id.token.claim'', JStr ''true''), (''access.token.claim'', JStr ''true''), (''claim.name'', JStr ''given_name''), (''jsonType.label'', JStr ''String'')])], JObj [(''name'', JStr ''role list''), (''protocol'', JStr ''saml''), (''protocolMapper'', JStr ''saml-role-list-mapper''), (''consentRequired'', JBool False), (''config'', JObj [(''single'', JStr ''false''), (''attribute.nameformat'', JStr ''Basic''), (''attribute.name'', JStr ''Role'')])], JObj [(''name'', JStr ''username''), (''protocol'', JStr ''openid-connect''), (''protocolMapper'', JStr ''oidc-usermodel-property-mapper''), (''consentRequired'', JBool True), (''consentText'', JStr ''${username}''), (''config'', JObj [(''userinfo.token.claim'', JStr ''true''), (''user.attribute'', JStr ''username''), (''id.token.claim'', JStr ''true''), (''access.token.claim'', JStr ''true''), (''claim.name'', JStr ''preferred_username''), (''jsonType.label'', JStr ''String'')])], JObj [(''name'', JStr ''email''), (''protocol'', JStr ''openid-connect''), (''protocolMapper'', JStr ''oidc-usermodel-property-mapper''), (''consentRequired'', JBool True), (''consentText'', JStr ''${email}''), (''config'', JObj [(''userinfo.token.claim'', JStr ''true''), (''user.attribute'', JStr ''email''), (''id.token.claim'', JStr ''true''), (''access.token.claim'', JStr ''true''), (''claim.name'', JStr ''email''), (''jsonType.label'', JStr ''String'')])]]),
     (''useTemplateConfig'', JBool False),
     (''useTemplateScope'', JBool False),
     (''useTemplateMappers'', JBool False)]"

definition client_members :: "string \<Rightarrow> string \<Rightarrow> bool \<Rightarrow> bool \<Rightarrow> (string \<times> json) list" where
  "client_members i u b p =
    [(''clientId'', JStr i),
     (''rootUrl'', JStr u),
     (''adminUrl'', JStr u),
     (''surrogateAuthRequired'', JBool False),
     (''enabled'', JBool True),
     (''clientAuthenticatorType'', JStr ''client-secret''),
     (''redirectUris'', JArr [JStr (u @ ''/*'')]),
     (''webOrigins'', JArr [JStr u]),
     (''notBefore'', JNum ''0''),
     (''bearerOnly'', JBool b),
     (''consentRequired'', JBool False),
     (''standardFlowEnabled'', JBool True),
     (''implicitFlowEnabled'', JBool False),
     (''directAccessGrantsEnabled'', JBool True),
     (''serviceAccountsEnabled'', JBool False),
     (''publicClient'', JBool p)]
     @ client_settings"

subsection \<open>What they say\<close>

lemma realm_json_lines:
  "scanned realm_json_lines = Some (TComma # member_list_tokens realm_settings @ [TRBrace])"
  by code_simp

lemma realm_json_scans:
  "lex_run LDef realm_json_0 = Some ([TLBrace, TStr ''id'', TColon], LStr None [])"
  "lex_run (LStr None a) realm_json_1 = Some ([TStr (rev a), TComma, TStr ''realm'', TColon], LStr None [])"
  by code_simp+

lemma realm_json_scans_end:
  "lex_run (LStr None a) realm_json_2 = Some (TStr (rev a) # TComma # member_list_tokens realm_settings @ [TRBrace], LDef)"
  using scanned_lex [OF realm_json_lines] by (simp add: realm_json_2_def flush_surrogate_def)

lemma lines_have_no_action: "list_all no_action realm_json_lines" "list_all no_action realm_client_json_lines"
  by code_simp+

lemma texts_have_no_action:
  "list_all no_action [realm_json_0, realm_json_1, realm_client_json_0, realm_client_json_1, realm_client_json_2, realm_client_json_3,
     realm_client_json_4, realm_client_json_5, realm_client_json_6, realm_client_json_7, realm_client_json_8]"
  by code_simp

lemma texts_nonempty:
  "list_all (\<lambda>s. s \<noteq> []) [realm_json_0, realm_json_1, realm_client_json_0, realm_client_json_1, realm_client_json_2, realm_client_json_3,
     realm_client_json_4, realm_client_json_5, realm_client_json_6, realm_client_json_7, realm_client_json_8]"
  by code_simp

lemma fields_are_names:
  "list_all (list_all is_alnum) [''RealmId'', ''ClientId'', ''RootUrl'', ''AdminUrl'', ''RedirectUris'', ''WebOrigin'', ''BearerOnly'',
     ''ImplicitFlowEnabled'', ''DirectAcessGrantEnabled'', ''PublicClient'']"
  by code_simp

lemma realm_json_tidy: "tidy realm_json" "tidy realm_client_json"
proof -
  have "no_action realm_json_2" "realm_json_2 \<noteq> []" "no_action realm_client_json_9" "realm_client_json_9 \<noteq> []"
    using no_action_concat [OF lines_have_no_action(1)] no_action_concat [OF lines_have_no_action(2)]
      no_action_append [of "[CHR 0x22]" "concat realm_json_lines"]
    by (simp_all add: realm_json_2_def realm_client_json_9_def) (simp add: realm_client_json_lines_def)
  with texts_have_no_action texts_nonempty fields_are_names show "tidy realm_json" "tidy realm_client_json"
    by (simp_all add: realm_json_def realm_client_json_def)
qed

lemma realm_client_json_scans:
  "lex_run LDef realm_client_json_0 = Some ([TLBrace, TStr ''clientId'', TColon], LStr None [])"
  "lex_run (LStr None a) realm_client_json_1 = Some ([TStr (rev a), TComma, TStr ''rootUrl'', TColon], LStr None [])"
  "lex_run (LStr None a) realm_client_json_2 = Some ([TStr (rev a), TComma, TStr ''adminUrl'', TColon], LStr None [])"
  "lex_run (LStr None a) realm_client_json_3 = Some ([TStr (rev a), TComma, TStr ''surrogateAuthRequired'', TColon, TFalse, TComma,
     TStr ''enabled'', TColon, TTrue, TComma, TStr ''clientAuthenticatorType'', TColon, TStr ''client-secret'', TComma,
     TStr ''redirectUris'', TColon, TLBrack], LDef)"
  "lex_run LDef realm_client_json_4 = Some ([TRBrack, TComma, TStr ''webOrigins'', TColon, TLBrack], LDef)"
  "lex_run LDef realm_client_json_5 = Some ([TRBrack, TComma, TStr ''notBefore'', TColon, TNum ''0'', TComma, TStr ''bearerOnly'', TColon], LDef)"
  by code_simp+

definition bool_text :: "bool \<Rightarrow> string" where
  "bool_text b = (if b then ''true'' else ''false'')"

lemma realm_client_json_flags:
  "lex_run LDef (bool_text b @ realm_client_json_6 @ ''false'' @ realm_client_json_7 @ ''true'' @ realm_client_json_8) =
     Some (json_tokens (JBool b) @ [TComma, TStr ''consentRequired'', TColon, TFalse, TComma, TStr ''standardFlowEnabled'', TColon, TTrue, TComma,
       TStr ''implicitFlowEnabled'', TColon, TFalse, TComma, TStr ''directAccessGrantsEnabled'', TColon, TTrue, TComma,
       TStr ''serviceAccountsEnabled'', TColon, TFalse, TComma, TStr ''publicClient'', TColon], LDef)"
  by (induction b; code_simp)

lemma realm_client_json_end:
  "lex_run LDef (bool_text p @ realm_client_json_9) =
     Some (json_tokens (JBool p) @ TComma # member_list_tokens client_settings @ [TRBrace], LDef)"
proof -
  have "scanned ((bool_text p @ hd realm_client_json_lines) # tl realm_client_json_lines) =
      Some (json_tokens (JBool p) @ TComma # member_list_tokens client_settings @ [TRBrace])"
    by (induction p; code_simp)
  from scanned_lex [OF this] show ?thesis by (simp add: realm_client_json_9_def realm_client_json_lines_def)
qed

lemma realm_json_value:
  assumes "list_all plain_char r"
  shows "\<exists>json. render (unparse realm_json) (RealmParameters_fields \<lparr>rp_RealmId = r\<rparr>) = Inr json \<and>
    json_parse json = Some (JObj ((''id'', JStr r) # (''realm'', JStr r) # realm_settings))"
proof (intro exI conjI)
  let ?text = "realm_json_0 @ (r @ realm_json_1) @ r @ realm_json_2"
  show "render (unparse realm_json) (RealmParameters_fields \<lparr>rp_RealmId = r\<rparr>) = Inr ?text"
    by (simp add: render_def Parse_unparse realm_json_tidy) (simp add: realm_json_def RealmParameters_fields_def)
  have "realm_settings \<noteq> []" by (simp add: realm_settings_def)
  note m = more_members [OF this]
  note plain = lex_run_plain [OF assms, of "[]", unfolded append_Nil2]
  from lex_run_append [OF realm_json_scans(1) lex_run_append [OF lex_run_append [OF plain realm_json_scans(2)]
      lex_run_append [OF plain realm_json_scans_end]]]
  show "json_parse ?text = Some (JObj ((''id'', JStr r) # (''realm'', JStr r) # realm_settings))"
    by (intro lex_run_whole) (simp add: m)
qed

lemma realm_client_json_value:
  assumes "list_all plain_char i" and "list_all plain_char (client_root_url rhpam dep)"
  shows "\<exists>json. render (unparse realm_client_json)
      (RealmClientParameters_fields (realm_client_params rhpam i dep (bool_text b) (bool_text p))) = Inr json \<and>
    json_parse json = Some (JObj (client_members i (client_root_url rhpam dep) b p))"
proof (intro exI conjI)
  let ?u = "client_root_url rhpam dep"
  let ?text = "realm_client_json_0 @ (i @ realm_client_json_1) @ (?u @ realm_client_json_2) @ (?u @ realm_client_json_3) @
    (CHR 0x22 # (?u @ ''/*'') @ [CHR 0x22]) @ realm_client_json_4 @ (CHR 0x22 # ?u @ [CHR 0x22]) @ realm_client_json_5 @
    (bool_text b @ realm_client_json_6 @ ''false'' @ realm_client_json_7 @ ''true'' @ realm_client_json_8) @ bool_text p @ realm_client_json_9"
  show "render (unparse realm_client_json) (RealmClientParameters_fields (realm_client_params rhpam i dep (bool_text b) (bool_text p))) = Inr ?text"
    by (simp add: render_def Parse_unparse realm_json_tidy)
       (simp add: realm_client_json_def RealmClientParameters_fields_def realm_client_params_def Let_def)
  have "list_all plain_char (?u @ ''/*'')" using assms(2) by (simp add: plain_char_def char_code_def)
  note uris = lex_run_quoted [OF this] lex_run_quoted [OF assms(2)]
  note plain = lex_run_plain [OF assms(1), of "[]", unfolded append_Nil2] lex_run_plain [OF assms(2), of "[]", unfolded append_Nil2]
  have "client_settings \<noteq> []" by (simp add: client_settings_def)
  note m = more_members [OF this]
  from lex_run_append [OF realm_client_json_scans(1) lex_run_append [OF lex_run_append [OF plain(1) realm_client_json_scans(2)]
      lex_run_append [OF lex_run_append [OF plain(2) realm_client_json_scans(3)]
      lex_run_append [OF lex_run_append [OF plain(2) realm_client_json_scans(4)]
      lex_run_append [OF uris(1) lex_run_append [OF realm_client_json_scans(5)
      lex_run_append [OF uris(2) lex_run_append [OF realm_client_json_scans(6)
      lex_run_append [OF realm_client_json_flags realm_client_json_end]]]]]]]]]
  show "json_parse ?text = Some (JObj (client_members i ?u b p))"
    by (intro lex_run_whole) (simp add: m client_members_def)
qed

lemma client_members_decode:
  "\<exists>c a. decode_KeycloakClient (JObj (client_members i u b p)) = Inr c \<and> kcl_KeycloakApiClient c = Some a \<and>
     kac_ClientID a = i \<and> kac_RootURL a = u \<and> kac_AdminURL a = u \<and> kac_RedirectUris a = [u @ ''/*''] \<and> kac_WebOrigins a = [u] \<and>
     kac_BearerOnly a = b \<and> kac_PublicClient a = p \<and> kac_Enabled a \<and> kac_StandardFlowEnabled a \<and>
     kac_DirectAccessGrantsEnabled a \<and> \<not> kac_ImplicitFlowEnabled a \<and> length (kac_ProtocolMappers a) = 6"
proof -
  have "case decode_KeycloakClient (JObj (client_members i u b p)) of Inl _ \<Rightarrow> False | Inr c \<Rightarrow>
     (case kcl_KeycloakApiClient c of None \<Rightarrow> False | Some a \<Rightarrow>
     kac_ClientID a = i \<and> kac_RootURL a = u \<and> kac_AdminURL a = u \<and> kac_RedirectUris a = [u @ ''/*''] \<and> kac_WebOrigins a = [u] \<and>
     kac_BearerOnly a = b \<and> kac_PublicClient a = p \<and> kac_Enabled a \<and> kac_StandardFlowEnabled a \<and>
     kac_DirectAccessGrantsEnabled a \<and> \<not> kac_ImplicitFlowEnabled a \<and> length (kac_ProtocolMappers a) = 6)"
    by code_simp
  then show ?thesis by (auto split: sum.split_asm option.split_asm)
qed

subsection \<open>The requests of a provisioning\<close>

text \<open>
  C14. The requests that provision a realm say what is meant, for names and a root address without
  quotes, backslashes and control characters. realm.json filled in is a JSON object with the identifier
  and the name of the realm and the settings of the file. realm-client.json filled in with the parameters
  of one of the clients reads as an enabled client with the standard flow and its six mappers, whose
  addresses are the root address, that may redirect to everything below it and nowhere else, and that is
  bearer-only or public as asked.
\<close>

theorem provisioning_requests_read_back:
  assumes "list_all plain_char r" and "list_all plain_char i" and "list_all plain_char (client_root_url rhpam dep)"
  shows "(\<exists>json. runs (LoadRealmTemplate h \<lparr>rp_RealmId = r\<rparr>)
        [EReadFile (realmTemplatePath h @ ''/realm.json'') (Inr (unparse realm_json))] (Done (Inr json)) \<and>
      json_parse json = Some (JObj ((''id'', JStr r) # (''realm'', JStr r) # realm_settings))) \<and>
    (\<exists>json c a. runs (LoadRealmClientTemplate h (realm_client_params rhpam i dep (bool_text b) (bool_text p)))
        [EReadFile (realmTemplatePath h @ ''/realm-client.json'') (Inr (unparse realm_client_json))] (Done (Inr json)) \<and>
      Unmarshal decode_KeycloakClient json = Inr c \<and> kcl_KeycloakApiClient c = Some a \<and>
      kac_ClientID a = i \<and> kac_RootURL a = client_root_url rhpam dep \<and> kac_AdminURL a = client_root_url rhpam dep \<and>
      kac_RedirectUris a = [client_root_url rhpam dep @ ''/*''] \<and> kac_WebOrigins a = [client_root_url rhpam dep] \<and>
      kac_BearerOnly a = b \<and> kac_PublicClient a = p \<and> kac_Enabled a \<and> kac_StandardFlowEnabled a \<and>
      kac_DirectAccessGrantsEnabled a \<and> \<not> kac_ImplicitFlowEnabled a \<and> length (kac_ProtocolMappers a) = 6)"
proof
  show "\<exists>json. runs (LoadRealmTemplate h \<lparr>rp_RealmId = r\<rparr>)
        [EReadFile (realmTemplatePath h @ ''/realm.json'') (Inr (unparse realm_json))] (Done (Inr json)) \<and>
      json_parse json = Some (JObj ((''id'', JStr r) # (''realm'', JStr r) # realm_settings))"
    using realm_json_value [OF assms(1)] by (auto simp: LoadRealmTemplate_def loadTemplate_render)
  obtain json where "render (unparse realm_client_json)
      (RealmClientParameters_fields (realm_client_params rhpam i dep (bool_text b) (bool_text p))) = Inr json"
    and "json_parse json = Some (JObj (client_members i (client_root_url rhpam dep) b p))"
    using realm_client_json_value [OF assms(2,3)] by blast
  then show "\<exists>json c a. runs (LoadRealmClientTemplate h (realm_client_params rhpam i dep (bool_text b) (bool_text p)))
        [EReadFile (realmTemplatePath h @ ''/realm-client.json'') (Inr (unparse realm_client_json))] (Done (Inr json)) \<and>
      Unmarshal decode_KeycloakClient json = Inr c \<and> kcl_KeycloakApiClient c = Some a \<and>
      kac_ClientID a = i \<and> kac_RootURL a = client_root_url rhpam dep \<and> kac_AdminURL a = client_root_url rhpam dep \<and>
      kac_RedirectUris a = [client_root_url rhpam dep @ ''/*''] \<and> kac_WebOrigins a = [client_root_url rhpam dep] \<and>
      kac_BearerOnly a = b \<and> kac_PublicClient a = p \<and> kac_Enabled a \<and> kac_StandardFlowEnabled a \<and>
      kac_DirectAccessGrantsEnabled a \<and> \<not> kac_ImplicitFlowEnabled a \<and> length (kac_ProtocolMappers a) = 6"
    using client_members_decode [of i "client_root_url rhpam dep" b p]
    by (intro exI [of _ json]) (simp add: LoadRealmClientTemplate_def loadTemplate_render Unmarshal_def)
qed

lemma provisioning_requests_read_back_witness:
  "\<exists>json c a. runs (LoadRealmClientTemplate \<lparr>realmTemplatePath = ''t''\<rparr>
        (realm_client_params (sample_dev [] [] [] None) ''rhpambc'' BusinessCentralDeployment ''false'' ''false''))
      [EReadFile ''t/realm-client.json'' (Inr (unparse realm_client_json))] (Done (Inr json)) \<and>
    Unmarshal decode_KeycloakClient json = Inr c \<and> kcl_KeycloakApiClient c = Some a \<and> kac_ClientID a = ''rhpambc'' \<and>
    kac_RedirectUris a = [''https://'' @ BusinessCentralDeployment @ ''-ns.example.com/*'']"
proof -
  have url: "client_root_url (sample_dev [] [] [] None) BusinessCentralDeployment = ''https://'' @ BusinessCentralDeployment @ ''-ns.example.com''"
    by (simp add: client_root_url_def sample_defs)
  have "list_all plain_char ''r''" "list_all plain_char ''rhpambc''"
    "list_all plain_char (client_root_url (sample_dev [] [] [] None) BusinessCentralDeployment)"
    by code_simp+
  from provisioning_requests_read_back [OF this, of "\<lparr>realmTemplatePath = ''t''\<rparr>" False False]
  show ?thesis by (simp add: url bool_text_def) blast
qed

end
