(* ===== verification/UserReconcile.thy ===== *)
theory UserReconcile
  imports RoleReconcile
begin

text \<open>
  What the reconciliation of users achieves, on a Keycloak server that behaves: the users of the
  resource exist with exactly their roles, default users keep theirs, every other user is gone.
  \<^theory_text>\<open>keycloak_users\<close> is the contract of the client's methods in terms of the directory of one
  realm; theory UserServer derives it from the REST interface.
\<close>

subsection \<open>The directory of a realm\<close>

record account =
  ac_id :: string
  ac_roles :: "string set"

record directory =
  dr_roles :: "string \<Rightarrow> string option"
  dr_accounts :: "string \<Rightarrow> account option"

definition held :: "directory \<Rightarrow> string \<Rightarrow> string set option" where
  "held d n = map_option ac_roles (dr_accounts d n)"

definition with_account :: "directory \<Rightarrow> string \<Rightarrow> account option \<Rightarrow> directory" where
  "with_account d n a = d\<lparr>dr_accounts := (dr_accounts d)(n := a)\<rparr>"

lemma with_account_simps [simp]:
  "dr_roles (with_account d n a) = dr_roles d"
  "dr_accounts (with_account d n a) = (dr_accounts d)(n := a)"
  "held (with_account d n a) = (held d)(n := map_option ac_roles a)"
  by (auto simp: with_account_def held_def)

lemma held_None [simp]: "held d n = None \<longleftrightarrow> dr_accounts d n = None"
  by (simp add: held_def)

text \<open>Names and identifiers need no escaping, and the roles somebody has are roles of the realm.\<close>

definition plain_directory :: "directory \<Rightarrow> bool" where
  "plain_directory d \<longleftrightarrow>
     (\<forall>n i. dr_roles d n = Some i \<longrightarrow> plain_name n \<and> plain_name i) \<and>
     (\<forall>n a. dr_accounts d n = Some a \<longrightarrow> plain_name n \<and> plain_name (ac_id a) \<and> ac_roles a \<subseteq> dom (dr_roles d))"

lemma plain_directoryD:
  "plain_directory d \<Longrightarrow> dr_roles d n = Some i \<Longrightarrow> plain_name n \<and> plain_name i"
  "plain_directory d \<Longrightarrow> dr_accounts d n = Some a \<Longrightarrow> plain_name n \<and> plain_name (ac_id a) \<and> ac_roles a \<subseteq> dom (dr_roles d)"
  by (auto simp: plain_directory_def)

text \<open>
  The server stores the name of an account in lower case and in a column of 255 characters; a name
  that it stores as it is sent. A list of accounts that names no maximum has at most 100 entries.
\<close>

definition account_name :: "string \<Rightarrow> bool" where
  "account_name n \<longleftrightarrow> plain_name n \<and> length n \<le> 255 \<and> list_all (\<lambda>c. char_code c < 65 \<or> 90 < char_code c) n"

lemma account_name_plain: "account_name n \<Longrightarrow> plain_name n"
  by (simp add: account_name_def)

definition one_page :: "string set \<Rightarrow> bool" where
  "one_page N \<longleftrightarrow> finite N \<and> card N \<le> 100"

lemma one_page_subset: "one_page N \<Longrightarrow> M \<subseteq> N \<Longrightarrow> one_page M"
  unfolding one_page_def by (meson card_mono finite_subset le_trans)

lemma plain_with_account:
  "plain_directory d \<Longrightarrow> (\<And>b. a = Some b \<Longrightarrow> plain_name n \<and> plain_name (ac_id b) \<and> ac_roles b \<subseteq> dom (dr_roles d)) \<Longrightarrow>
     plain_directory (with_account d n a)"
  unfolding plain_directory_def by (auto split: if_split_asm)

text \<open>A list of the accounts, as the server gives it: without the roles.\<close>

definition lists_accounts :: "KeycloakApiUser list \<Rightarrow> directory \<Rightarrow> bool" where
  "lists_accounts us d \<longleftrightarrow>
     distinct (map kau_UserName us) \<and> kau_UserName ` set us = dom (dr_accounts d) \<and>
     (\<forall>u \<in> set us. kau_RealmRoles u = [] \<and> (\<exists>a. dr_accounts d (kau_UserName u) = Some a \<and> kau_ID u = ac_id a))"

text \<open>A directory in which one user came to hold these roles, or was deleted.\<close>

definition becomes :: "directory \<Rightarrow> string \<Rightarrow> string set option \<Rightarrow> directory \<Rightarrow> bool" where
  "becomes d n v d' \<longleftrightarrow> plain_directory d' \<and> dr_roles d' = dr_roles d \<and> held d' = (held d)(n := v)"

lemma becomesI:
  assumes "plain_directory d" and "d' = with_account d n a" and "map_option ac_roles a = v"
    and "\<And>b. a = Some b \<Longrightarrow> plain_name n \<and> plain_name (ac_id b) \<and> ac_roles b \<subseteq> dom (dr_roles d)"
  shows "becomes d n v d'"
  using assms plain_with_account [of d a n] by (auto simp: becomes_def)

lemma becomes_refl: "plain_directory d \<Longrightarrow> held d n = v \<Longrightarrow> becomes d n v d"
  by (auto simp: becomes_def)

lemma becomes_trans: "becomes d n v d' \<Longrightarrow> becomes d' n v' d'' \<Longrightarrow> becomes d n v' d''"
  by (simp add: becomes_def)

lemma dom_held: "dom (dr_accounts d) = dom (held d)"
  by (auto simp: held_def)

text \<open>
  The search of the server matches more than the name itself; a search for \<^theory_text>\<open>n\<close> is
  unambiguous when it matches no other account.
\<close>

definition unambiguous :: "(string \<Rightarrow> string \<Rightarrow> bool) \<Rightarrow> directory \<Rightarrow> string \<Rightarrow> bool" where
  "unambiguous matches d n \<longleftrightarrow> (\<forall>m \<in> dom (dr_accounts d). matches n m \<longrightarrow> m = n)"

subsection \<open>Pairs of users\<close>

definition target :: "string set \<Rightarrow> (string \<Rightarrow> string set option) \<Rightarrow> (string \<Rightarrow> User option) \<Rightarrow> string \<Rightarrow> string set option" where
  "target init D S n =
     (case S n of
        Some u \<Rightarrow> Some ((if D n = None then init else {}) \<union> set (user_Roles u))
      | None \<Rightarrow> if isDefaultUser n then D n else None)"

text \<open>The last user of a name is the one that counts.\<close>

definition asked_for :: "User list \<Rightarrow> string \<Rightarrow> User option" where
  "asked_for us = map_of (rev (map (\<lambda>u. (user_Username u, u)) us))"

definition user_pair :: "(string \<Rightarrow> string set option) \<Rightarrow> (string \<Rightarrow> User option) \<Rightarrow> string \<Rightarrow> KeycloakUserPair \<Rightarrow> bool" where
  "user_pair D S n p \<longleftrightarrow>
     (case D n of None \<Rightarrow> kup_KcUser p = None
      | Some R \<Rightarrow> \<exists>v api. kup_KcUser p = Some v \<and> ku_KeycloakApiUser v = Some api \<and> kau_UserName api = n \<and>
          set (kau_RealmRoles api) = R) \<and>
     kup_SpecUser p = map_option spec_keycloak_user (S n)"

definition pairs_ok :: "(string \<Rightarrow> string set option) \<Rightarrow> (string \<Rightarrow> User option) \<Rightarrow> user_pairs \<Rightarrow> bool" where
  "pairs_ok D S m \<longleftrightarrow>
     (\<forall>n. if n \<in> dom D \<union> dom S then \<exists>p. map_of m n = Some p \<and> user_pair D S n p else map_of m n = None)"

lemma pairs_okD:
  "pairs_ok D S m \<Longrightarrow> n \<in> dom D \<or> n \<in> dom S \<Longrightarrow> \<exists>p. map_of m n = Some p \<and> user_pair D S n p"
  using pairs_ok_def by auto

text \<open>The pairs of the accounts with these names were added to a map.\<close>

definition loaded :: "(string \<Rightarrow> string set option) \<Rightarrow> string set \<Rightarrow> user_pairs \<Rightarrow> user_pairs \<Rightarrow> bool" where
  "loaded D N m m' \<longleftrightarrow>
     (\<forall>n. if n \<in> N then \<exists>p. map_of m' n = Some p \<and> user_pair D Map.empty n p else map_of m' n = map_of m n)"

lemma loaded_insert:
  assumes "user_pair D Map.empty n p" and "loaded D N (AList.update n p m) m'"
  shows "loaded D (insert n N) m m'"
  unfolding loaded_def
proof
  fix x
  show "if x \<in> insert n N then \<exists>p. map_of m' x = Some p \<and> user_pair D Map.empty x p else map_of m' x = map_of m x"
    using assms(2) [unfolded loaded_def, rule_format, of x] assms(1)
    by (cases "x \<in> N"; cases "x = n") (simp_all add: AList.update_conv')
qed

lemma loaded_all: "loaded D (dom D) [] m \<Longrightarrow> pairs_ok D Map.empty m"
  by (simp add: loaded_def pairs_ok_def)

lemma add_spec_user_ok:
  assumes "pairs_ok D S m"
  shows "pairs_ok D (S(user_Username u \<mapsto> u)) (add_spec_user u m)"
  unfolding pairs_ok_def
proof
  fix n
  show "if n \<in> dom D \<union> dom (S(user_Username u \<mapsto> u))
    then \<exists>p. map_of (add_spec_user u m) n = Some p \<and> user_pair D (S(user_Username u \<mapsto> u)) n p
    else map_of (add_spec_user u m) n = None"
    using assms [unfolded pairs_ok_def, rule_format, of n]
    by (cases "n = user_Username u")
       (auto simp: add_spec_user_def AList.update_conv' user_pair_def split: option.splits if_split_asm)
qed

lemma add_spec_users_ok: "pairs_ok D S m \<Longrightarrow> pairs_ok D (S ++ asked_for us) (fold add_spec_user us m)"
proof (induction us arbitrary: S m)
  case (Cons u us)
  have "S ++ asked_for (u # us) = S(user_Username u \<mapsto> u) ++ asked_for us"
    by (auto simp: asked_for_def map_add_def fun_eq_iff split: option.splits)
  with Cons.IH [OF add_spec_user_ok [OF Cons.prems, of u]] show ?case by (simp only: fold_simps)
qed (simp add: asked_for_def)

lemma add_spec_users_distinct: "distinct (map fst m) \<Longrightarrow> distinct (map fst (fold add_spec_user us m))"
  by (induction us arbitrary: m) (auto simp: add_spec_user_def AList.distinct_update split: option.splits)

lemma pairs_ok_keys:
  assumes "pairs_ok D S m"
  shows "set (map fst m) = dom D \<union> dom S"
proof -
  have "n \<in> fst ` set m \<longleftrightarrow> n \<in> dom D \<union> dom S" for n
    using assms [unfolded pairs_ok_def, rule_format, of n] map_of_in_keys [of m n]
    by (auto split: if_split_asm)
  then show ?thesis by (intro set_eqI) (simp only: set_map)
qed

subsection \<open>The contract of the client\<close>

locale keycloak_users =
  fixes kc :: KeycloakInterface and realm :: string and E :: "'w env" and dir :: "'w \<Rightarrow> directory"
    and matches :: "string \<Rightarrow> string \<Rightarrow> bool" and initial :: "string set"
  assumes ListUsers: "plain_directory (dir w) \<Longrightarrow> one_page (dom (dr_accounts (dir w))) \<Longrightarrow>
        \<exists>vs us w'. exec E (kc_ListUsers kc realm) w = (Done (Inr (map Some vs)), w') \<and>
          map ku_KeycloakApiUser vs = map Some us \<and> lists_accounts us (dir w) \<and> dir w' = dir w"
    and FindUser_present: "plain_directory (dir w) \<Longrightarrow> unambiguous matches (dir w) n \<Longrightarrow> dr_accounts (dir w) n = Some a \<Longrightarrow>
        \<exists>u w'. exec E (kc_FindUserByUsername kc n realm) w = (Done (Inr u), w') \<and> kau_ID u = ac_id a \<and> dir w' = dir w"
    and FindUser_absent: "plain_directory (dir w) \<Longrightarrow> plain_name n \<Longrightarrow> unambiguous matches (dir w) n \<Longrightarrow> dr_accounts (dir w) n = None \<Longrightarrow>
        \<exists>e w'. exec E (kc_FindUserByUsername kc n realm) w = (Done (Inl e), w') \<and> dir w' = dir w"
    and Mappings: "plain_directory (dir w) \<Longrightarrow> dr_accounts (dir w) n = Some a \<Longrightarrow>
        \<exists>rs w'. exec E (kc_GetRealmRoleMappings kc (ac_id a) realm) w = (Done (Inr (map Some rs)), w') \<and>
          kr_Name ` set rs = ac_roles a \<and> dir w' = dir w"
    and CreateUser: "plain_directory (dir w) \<Longrightarrow> json_parse json = Some (JObj kvs) \<Longrightarrow>
        map_of kvs ''username'' = Some (JStr n) \<Longrightarrow> account_name n \<Longrightarrow> dr_accounts (dir w) n = None \<Longrightarrow>
        \<exists>a w'. exec E (kc_CreateUser kc json realm) w = (Done (Inr ()), w') \<and> plain_name (ac_id a) \<and>
          ac_roles a = initial \<inter> dom (dr_roles (dir w)) \<and> dir w' = with_account (dir w) n (Some a)"
    and DeleteUser: "plain_directory (dir w) \<Longrightarrow> dr_accounts (dir w) n = Some a \<Longrightarrow>
        \<exists>w'. exec E (kc_DeleteUser kc (ac_id a) realm) w = (Done (Inr ()), w') \<and> dir w' = with_account (dir w) n None"
    and GetRole: "plain_directory (dir w) \<Longrightarrow> dr_roles (dir w) m = Some i \<Longrightarrow>
        \<exists>r w'. exec E (kc_GetRole kc m realm) w = (Done (Inr r), w') \<and> kr_ID r = i \<and> dir w' = dir w"
    and AddMapping: "plain_directory (dir w) \<Longrightarrow> dr_accounts (dir w) n = Some a \<Longrightarrow>
        Unmarshal (decode_slice (decode_ptr decode_KeycloakRole)) json = Inr [Some r] \<Longrightarrow>
        dr_roles (dir w) (kr_Name r) = Some (kr_ID r) \<Longrightarrow>
        \<exists>w'. exec E (kc_CreateUserRealmRole kc json (ac_id a) realm) w = (Done (Inr ()), w') \<and>
          dir w' = with_account (dir w) n (Some (a\<lparr>ac_roles := insert (kr_Name r) (ac_roles a)\<rparr>))"
    and RemoveMapping: "plain_directory (dir w) \<Longrightarrow> dr_accounts (dir w) n = Some a \<Longrightarrow>
        Unmarshal (decode_slice (decode_ptr decode_KeycloakRole)) json = Inr [Some r] \<Longrightarrow>
        dr_roles (dir w) (kr_Name r) = Some (kr_ID r) \<Longrightarrow>
        \<exists>w'. exec E (kc_DeleteUserRealmRole kc json (ac_id a) realm) w = (Done (Inr ()), w') \<and>
          dir w' = with_account (dir w) n (Some (a\<lparr>ac_roles := ac_roles a - {kr_Name r}\<rparr>))"
    and LookupEnv_dir: "dir (snd (env_LookupEnv E v w)) = dir w"
    and ReadFile_dir: "dir (snd (env_ReadFile E f w)) = dir w"
    and RangeOrder_dir: "dir (snd (env_RangeOrder E ks w)) = dir w"

locale user_templates =
  fixes E :: "'w env" and path :: string
  assumes template_path: "fst (env_LookupEnv E ''TEMPLATE_PATH'' w) = Some path" and path_set: "path \<noteq> ''''"
    and user_file: "fst (env_ReadFile E (path @ ''/user.json'') w) = Inr user_json"
    and user_role_file: "fst (env_ReadFile E (path @ ''/user-role.json'') w) = Inr user_role_json_template"

locale user_reconciler = keycloak_users + user_templates
begin

subsection \<open>One role of one user\<close>

lemma template_env:
  "\<exists>w'. env_LookupEnv E ''TEMPLATE_PATH'' w = (Some path, w') \<and> dir w' = dir w"
  using template_path [of w] LookupEnv_dir [of "''TEMPLATE_PATH''" w] by (metis prod.collapse)

lemma user_role_json_exec:
  assumes "plain_name m" and "plain_name i"
  shows "\<exists>json w'. exec E (user_role_json m i) w = (Done json, w') \<and> dir w' = dir w \<and>
    Unmarshal (decode_slice (decode_ptr decode_KeycloakRole)) json = Inr [Some (zero_KeycloakRole\<lparr>kr_Name := m, kr_ID := i\<rparr>)]"
proof -
  obtain w1 where w1: "env_LookupEnv E ''TEMPLATE_PATH'' w = (Some path, w1)" "dir w1 = dir w"
    using template_env by blast
  obtain w2 where w2: "env_ReadFile E (path @ ''/user-role.json'') w1 = (Inr user_role_json_template, w2)" "dir w2 = dir w1"
    using user_role_file [of w1] ReadFile_dir [of "path @ ''/user-role.json''" w1] by (metis prod.collapse)
  obtain json where "render user_role_json_template (UserRoleParameters_fields \<lparr>urp_RoleName = m, urp_RoleId = i\<rparr>) = Inr json"
    "Unmarshal (decode_slice (decode_ptr decode_KeycloakRole)) json = Inr [Some (zero_KeycloakRole\<lparr>kr_Name := m, kr_ID := i\<rparr>)]"
    using user_role_json_value [OF plain_name_chars [OF assms(1)] plain_name_chars [OF assms(2)]] by blast
  with w1 w2 path_set show ?thesis
    by (simp add: user_role_json_def exec_bind NewUserRoleHelper_def templatePath_def Getenv_def
        LoadUserRoleTemplate_def loadTemplate_render)
qed

text \<open>Looking up an account and the names of its roles.\<close>

lemma find_mappings_exec:
  assumes "plain_directory (dir w)" and "unambiguous matches (dir w) n" and "dr_accounts (dir w) n = Some a"
  obtains u w1 rs w2 where "exec E (kc_FindUserByUsername kc n realm) w = (Done (Inr u), w1)" "kau_ID u = ac_id a"
    "exec E (kc_GetRealmRoleMappings kc (ac_id a) realm) w1 = (Done (Inr (map Some rs)), w2)"
    "kr_Name ` set rs = ac_roles a" "dir w2 = dir w"
proof -
  from FindUser_present [OF assms] obtain u w1 where
    1: "exec E (kc_FindUserByUsername kc n realm) w = (Done (Inr u), w1)" "kau_ID u = ac_id a" "dir w1 = dir w"
    by blast
  with assms Mappings [of w1 n a] that show thesis by auto
qed

lemma role_names_exec: "exec E (role_names (map Some rs)) w = (Done (map kr_Name rs), w)"
  by (induction rs) (simp_all add: exec_bind)

lemma createUserRealmRole_exec:
  assumes good: "plain_directory (dir w)" and one: "unambiguous matches (dir w) n"
    and a: "dr_accounts (dir w) n = Some a" and m: "dr_roles (dir w) m = Some i"
  shows "\<exists>w'. exec E (createUserRealmRole kc realm n m) w = (Done (Inr ()), w') \<and>
    dir w' = with_account (dir w) n (Some (a\<lparr>ac_roles := insert m (ac_roles a)\<rparr>))"
proof -
  from find_mappings_exec [OF good one a] obtain u w1 rs w2 where
    1: "exec E (kc_FindUserByUsername kc n realm) w = (Done (Inr u), w1)" "kau_ID u = ac_id a"
    "exec E (kc_GetRealmRoleMappings kc (ac_id a) realm) w1 = (Done (Inr (map Some rs)), w2)"
    "kr_Name ` set rs = ac_roles a" "dir w2 = dir w" .
  show ?thesis
  proof (cases "m \<in> ac_roles a")
    case True
    with a have "with_account (dir w) n (Some (a\<lparr>ac_roles := insert m (ac_roles a)\<rparr>)) = dir w"
      by (simp add: with_account_def insert_absorb fun_upd_idem)
    with 1 True show ?thesis by (simp add: createUserRealmRole_def exec_check_err exec_bind role_names_exec)
  next
    case False
    obtain r w3 where 2: "exec E (kc_GetRole kc m realm) w2 = (Done (Inr r), w3)" "kr_ID r = i" "dir w3 = dir w"
      using GetRole [of w2 m i] good m 1(5) by auto
    obtain json w4 where 3: "exec E (user_role_json m i) w3 = (Done json, w4)" "dir w4 = dir w"
      "Unmarshal (decode_slice (decode_ptr decode_KeycloakRole)) json = Inr [Some (zero_KeycloakRole\<lparr>kr_Name := m, kr_ID := i\<rparr>)]"
      using user_role_json_exec [of m i w3] plain_directoryD(1) [OF good m] 2(3) by auto
    obtain w5 where "exec E (kc_CreateUserRealmRole kc json (ac_id a) realm) w4 = (Done (Inr ()), w5)"
      "dir w5 = with_account (dir w) n (Some (a\<lparr>ac_roles := insert m (ac_roles a)\<rparr>))"
      using AddMapping [OF _ _ 3(3), of w4 n a] good a m 3(2) by auto
    with 1 2 3 False show ?thesis
      by (simp add: createUserRealmRole_def exec_check_err exec_bind role_names_exec)
  qed
qed

lemma deleteUserRealmRole_exec:
  assumes good: "plain_directory (dir w)" and one: "unambiguous matches (dir w) n"
    and a: "dr_accounts (dir w) n = Some a" and m: "m \<in> ac_roles a"
  shows "\<exists>w'. exec E (deleteUserRealmRole kc realm n m) w = (Done (Inr ()), w') \<and>
    dir w' = with_account (dir w) n (Some (a\<lparr>ac_roles := ac_roles a - {m}\<rparr>))"
proof -
  from find_mappings_exec [OF good one a] obtain u w1 rs w2 where
    1: "exec E (kc_FindUserByUsername kc n realm) w = (Done (Inr u), w1)" "kau_ID u = ac_id a"
    "exec E (kc_GetRealmRoleMappings kc (ac_id a) realm) w1 = (Done (Inr (map Some rs)), w2)"
    "kr_Name ` set rs = ac_roles a" "dir w2 = dir w" .
  obtain i where i: "dr_roles (dir w) m = Some i" using plain_directoryD(2) [OF good a] m by blast
  obtain r w3 where 2: "exec E (kc_GetRole kc m realm) w2 = (Done (Inr r), w3)" "kr_ID r = i" "dir w3 = dir w"
    using GetRole [of w2 m i] good i 1(5) by auto
  obtain json w4 where 3: "exec E (user_role_json m i) w3 = (Done json, w4)" "dir w4 = dir w"
    "Unmarshal (decode_slice (decode_ptr decode_KeycloakRole)) json = Inr [Some (zero_KeycloakRole\<lparr>kr_Name := m, kr_ID := i\<rparr>)]"
    using user_role_json_exec [of m i w3] plain_directoryD(1) [OF good i] 2(3) by auto
  obtain w5 where "exec E (kc_DeleteUserRealmRole kc json (ac_id a) realm) w4 = (Done (Inr ()), w5)"
    "dir w5 = with_account (dir w) n (Some (a\<lparr>ac_roles := ac_roles a - {m}\<rparr>))"
    using RemoveMapping [OF _ _ 3(3), of w4 n a] good a i 3(2) by auto
  with 1 2 3 m show ?thesis
    by (simp add: deleteUserRealmRole_def exec_check_err exec_bind role_names_exec)
qed


lemma held_account: "held (dir w) n = Some R \<longleftrightarrow> (\<exists>a. dr_accounts (dir w) n = Some a \<and> ac_roles a = R)"
  by (auto simp: held_def)

text \<open>What the two functions do, in terms of who holds what.\<close>

lemma add_role:
  assumes good: "plain_directory (dir w)" and one: "unambiguous matches (dir w) n"
    and R: "held (dir w) n = Some R" and m: "m \<in> dom (dr_roles (dir w))"
  shows "\<exists>w'. exec E (createUserRealmRole kc realm n m) w = (Done (Inr ()), w') \<and>
    becomes (dir w) n (Some (insert m R)) (dir w')"
proof -
  from R m obtain a i where a: "dr_accounts (dir w) n = Some a" "ac_roles a = R" and i: "dr_roles (dir w) m = Some i"
    by (auto simp: held_account)
  from createUserRealmRole_exec [OF good one a(1) i] obtain w' where
    "exec E (createUserRealmRole kc realm n m) w = (Done (Inr ()), w')"
    "dir w' = with_account (dir w) n (Some (a\<lparr>ac_roles := insert m (ac_roles a)\<rparr>))" by blast
  with good a m plain_directoryD(2) [OF good a(1)] show ?thesis
    by (intro exI [of _ w'] conjI becomesI) auto
qed

lemma remove_role:
  assumes good: "plain_directory (dir w)" and one: "unambiguous matches (dir w) n"
    and R: "held (dir w) n = Some R" and m: "m \<in> R"
  shows "\<exists>w'. exec E (deleteUserRealmRole kc realm n m) w = (Done (Inr ()), w') \<and>
    becomes (dir w) n (Some (R - {m})) (dir w')"
proof -
  from R obtain a where a: "dr_accounts (dir w) n = Some a" "ac_roles a = R" by (auto simp: held_account)
  from deleteUserRealmRole_exec [OF good one a(1)] m a(2) obtain w' where
    "exec E (deleteUserRealmRole kc realm n m) w = (Done (Inr ()), w')"
    "dir w' = with_account (dir w) n (Some (a\<lparr>ac_roles := ac_roles a - {m}\<rparr>))" by blast
  with good a m plain_directoryD(2) [OF good a(1)] show ?thesis
    by (intro exI [of _ w'] conjI becomesI) auto
qed

lemma unambiguous_becomes:
  "becomes d n v d' \<Longrightarrow> unambiguous matches d n \<Longrightarrow> unambiguous matches d' n"
  unfolding unambiguous_def dom_held becomes_def by auto

lemma add_roles:
  assumes "plain_directory (dir w)" and "unambiguous matches (dir w) n"
    and "held (dir w) n = Some R" and "set ms \<subseteq> dom (dr_roles (dir w))"
  shows "\<exists>w'. exec E (for_each ms (createUserRealmRole kc realm n)) w = (Done (Inr ()), w') \<and>
    becomes (dir w) n (Some (R \<union> set ms)) (dir w')"
  using assms
proof (induction ms arbitrary: w R)
  case Nil
  then show ?case by (auto intro: becomes_refl)
next
  case (Cons m ms)
  from add_role [of w n R m] Cons.prems obtain w1 where
    1: "exec E (createUserRealmRole kc realm n m) w = (Done (Inr ()), w1)"
    "becomes (dir w) n (Some (insert m R)) (dir w1)" by auto
  with Cons.prems have "\<exists>w'. exec E (for_each ms (createUserRealmRole kc realm n)) w1 = (Done (Inr ()), w') \<and>
    becomes (dir w1) n (Some (insert m R \<union> set ms)) (dir w')"
    by (intro Cons.IH) (auto simp: becomes_def intro: unambiguous_becomes [OF 1(2)])
  with 1 becomes_trans [OF 1(2)] show ?case by (auto simp: exec_check_err)
qed

subsection \<open>One user\<close>

lemma createUser_exec:
  assumes good: "plain_directory (dir w)" and one: "unambiguous matches (dir w) n" and none: "held (dir w) n = None"
    and n: "account_name n" and p: "list_all plain_char p"
  shows "\<exists>w'. exec E (createUser kc realm n p) w = (Done (Inr ()), w') \<and>
    becomes (dir w) n (Some (initial \<inter> dom (dr_roles (dir w)))) (dir w')"
proof -
  obtain e w1 where 1: "exec E (kc_FindUserByUsername kc n realm) w = (Done (Inl e), w1)" "dir w1 = dir w"
    using FindUser_absent [OF good account_name_plain [OF n] one] none by auto
  obtain w2 where 2: "env_LookupEnv E ''TEMPLATE_PATH'' w1 = (Some path, w2)" "dir w2 = dir w1"
    using template_env by blast
  obtain w3 where 3: "env_ReadFile E (path @ ''/user.json'') w2 = (Inr user_json, w3)" "dir w3 = dir w2"
    using user_file [of w2] ReadFile_dir [of "path @ ''/user.json''" w2] by (metis prod.collapse)
  obtain json kvs where j: "render user_json (UserParameters_fields \<lparr>up_Username = n, up_Password = p\<rparr>) = Inr json"
    "json_parse json = Some (JObj kvs)" "map_of kvs ''username'' = Some (JStr n)"
    using user_json_value [OF plain_name_chars [OF account_name_plain [OF n]] p] by blast
  have "dir w3 = dir w" using 1(2) 2(2) 3(2) by simp
  with CreateUser [OF _ j(2,3) n, of w3] good none obtain a w4 where
    4: "exec E (kc_CreateUser kc json realm) w3 = (Done (Inr ()), w4)" "plain_name (ac_id a)"
      "ac_roles a = initial \<inter> dom (dr_roles (dir w))" "dir w4 = with_account (dir w) n (Some a)" by auto
  have "exec E (createUser kc realm n p) w = (Done (Inr ()), w4)"
    using 1 2 3 4(1) j(1) path_set
    by (simp add: createUser_def exec_bind exec_check_err NewUserHelper_def templatePath_def Getenv_def
        LoadUserTemplate_def loadTemplate_render)
  moreover have "becomes (dir w) n (Some (initial \<inter> dom (dr_roles (dir w)))) (dir w4)"
    using good 4 account_name_plain [OF n] by (intro becomesI) auto
  ultimately show ?thesis by blast
qed

lemma createUserWithRealmRoles_exec:
  assumes "plain_directory (dir w)" and "unambiguous matches (dir w) (user_Username u)" and "held (dir w) (user_Username u) = None"
    and "account_name (user_Username u)" and "list_all plain_char (user_Password u)"
    and "set (user_Roles u) \<subseteq> dom (dr_roles (dir w))"
  shows "\<exists>w'. exec E (createUserWithRealmRoles kc realm u) w = (Done (Inr ()), w') \<and>
    becomes (dir w) (user_Username u) (Some (initial \<inter> dom (dr_roles (dir w)) \<union> set (user_Roles u))) (dir w')"
proof -
  obtain w1 where 1: "exec E (createUser kc realm (user_Username u) (user_Password u)) w = (Done (Inr ()), w1)"
    "becomes (dir w) (user_Username u) (Some (initial \<inter> dom (dr_roles (dir w)))) (dir w1)"
    using createUser_exec [OF assms(1-5)] by blast
  with assms(6) add_roles [of w1 "user_Username u" "initial \<inter> dom (dr_roles (dir w))" "user_Roles u"]
    unambiguous_becomes [OF 1(2) assms(2)]
  obtain w2 where "exec E (for_each (user_Roles u) (createUserRealmRole kc realm (user_Username u))) w1 = (Done (Inr ()), w2)"
    "becomes (dir w1) (user_Username u) (Some (initial \<inter> dom (dr_roles (dir w)) \<union> set (user_Roles u))) (dir w2)"
    by (auto simp: becomes_def)
  with 1 becomes_trans [OF 1(2)] show ?thesis
    by (auto simp: createUserWithRealmRoles_def exec_check_err)
qed

lemma deleteUser_exec:
  assumes good: "plain_directory (dir w)" and one: "unambiguous matches (dir w) n" and R: "held (dir w) n = Some R"
  shows "\<exists>w'. exec E (deleteUser kc realm n) w = (Done (Inr ()), w') \<and> becomes (dir w) n None (dir w')"
proof -
  from R obtain a where a: "dr_accounts (dir w) n = Some a" by (auto simp: held_account)
  obtain u w1 where 1: "exec E (kc_FindUserByUsername kc n realm) w = (Done (Inr u), w1)" "kau_ID u = ac_id a" "dir w1 = dir w"
    using FindUser_present [OF good one a] by blast
  then obtain w2 where "exec E (kc_DeleteUser kc (ac_id a) realm) w1 = (Done (Inr ()), w2)" "dir w2 = with_account (dir w) n None"
    using DeleteUser [of w1 n a] good a by auto
  with 1 good show ?thesis
    by (intro exI [of _ w2] conjI becomesI) (auto simp: deleteUser_def exec_bind exec_check_err)
qed

text \<open>The loop over the roles of a user that is there.\<close>

lemma reconcile_user_roles_exec:
  assumes "distinct order" and "\<forall>m \<in> set order. plain_name m \<and> (m \<in> K \<or> m \<in> S)" and "S \<subseteq> dom (dr_roles (dir w))"
    and "\<forall>m \<in> set order. m \<in> R \<longleftrightarrow> m \<in> K" and "\<And>m. map_of pairs m = pair_for K S m"
    and "plain_directory (dir w)" and "unambiguous matches (dir w) n" and "held (dir w) n = Some R"
  shows "\<exists>w'. exec E (for_each order (\<lambda>k. case map_of pairs k of None \<Rightarrow> Return (Inr ())
        | Some p \<Rightarrow> reconcileUserRealmRole kc realm n (krp_KcRole p) (krp_SpecRole p))) w = (Done (Inr ()), w') \<and>
    becomes (dir w) n (Some ((R - set order) \<union> (set order \<inter> S))) (dir w')"
  using assms(1-4,6-)
proof (induction order arbitrary: w R)
  case Nil
  then show ?case by (auto intro: becomes_refl)
next
  case (Cons m order)
  let ?loop = "for_each order (\<lambda>k. case map_of pairs k of None \<Rightarrow> Return (Inr ())
        | Some p \<Rightarrow> reconcileUserRealmRole kc realm n (krp_KcRole p) (krp_SpecRole p))"
  from Cons.prems have m: "plain_name m" "m \<in> K \<or> m \<in> S" "m \<in> R \<longleftrightarrow> m \<in> K" "m \<notin> set order" by auto
  obtain p where p: "map_of pairs m = Some p" "p = \<lparr>krp_KcRole = (if m \<in> K then m else ''''), krp_SpecRole = (if m \<in> S then m else '''')\<rparr>"
    using m(2) assms(5) by (auto simp: pair_for_def)
  define R' where "R' = (if m \<in> S then insert m R else R - {m})"
  have "\<exists>w1. exec E (reconcileUserRealmRole kc realm n (krp_KcRole p) (krp_SpecRole p)) w = (Done (Inr ()), w1) \<and>
    becomes (dir w) n (Some R') (dir w1)"
  proof (cases "m \<in> K")
    case True
    show ?thesis
    proof (cases "m \<in> S")
      case True
      with \<open>m \<in> K\<close> p m(1,3) Cons.prems(5,7) show ?thesis
        by (auto simp: reconcileUserRealmRole_def R'_def insert_absorb intro: becomes_refl)
    next
      case False
      with True p m(1,3) remove_role [OF Cons.prems(5-7)] show ?thesis
        by (simp add: reconcileUserRealmRole_def R'_def)
    qed
  next
    case False
    with m(2) have "m \<in> S" by blast
    with False p m(1) Cons.prems(3) add_role [OF Cons.prems(5-7), of m] show ?thesis
      by (auto simp: reconcileUserRealmRole_def R'_def)
  qed
  then obtain w1 where 1: "exec E (reconcileUserRealmRole kc realm n (krp_KcRole p) (krp_SpecRole p)) w = (Done (Inr ()), w1)"
    "becomes (dir w) n (Some R') (dir w1)" by blast
  have "\<exists>w'. exec E ?loop w1 = (Done (Inr ()), w') \<and>
    becomes (dir w1) n (Some ((R' - set order) \<union> (set order \<inter> S))) (dir w')"
    using Cons.prems 1(2) m(4) unambiguous_becomes [OF 1(2)]
    by (intro Cons.IH) (auto simp: becomes_def R'_def)
  moreover have "(R' - set order) \<union> (set order \<inter> S) = (R - set (m # order)) \<union> (set (m # order) \<inter> S)"
    using m(4) by (auto simp: R'_def)
  ultimately show ?case using 1 p(1) becomes_trans [OF 1(2)] by (auto simp: exec_check_err)
qed

text \<open>
  What a user holds after the reconciliation: what the resource asks for, and for a new user the
  roles the server gives to every account besides; a user it does not ask for is gone, unless
  it is a default user.
\<close>

lemma reconcileUser_exec:
  assumes p: "user_pair D S n p" and here: "n \<in> dom D \<or> n \<in> dom S" and plain: "plain_name n"
    and spec: "\<And>u. S n = Some u \<Longrightarrow> user_Username u = n \<and> account_name n \<and> list_all plain_char (user_Password u) \<and> set (user_Roles u) \<subseteq> dom (dr_roles (dir w))"
    and good: "plain_directory (dir w)" and one: "unambiguous matches (dir w) n" and D: "held (dir w) n = D n"
  shows "\<exists>w'. exec E (reconcileUser kc realm (kup_KcUser p) (kup_SpecUser p)) w = (Done (Inr ()), w') \<and>
    becomes (dir w) n (target (initial \<inter> dom (dr_roles (dir w))) D S n) (dir w')"
proof (cases "D n")
  case None
  with here obtain u where u: "S n = Some u" by auto
  with p None have "reconcileUser kc realm (kup_KcUser p) (kup_SpecUser p) = createUserWithRealmRoles kc realm u"
    by (cases u) (simp add: user_pair_def reconcileUser_def spec_keycloak_user_def)
  with createUserWithRealmRoles_exec [of w u] good one D None spec [OF u] u show ?thesis
    by (simp add: target_def)
next
  case (Some R)
  with p obtain v api where v: "kup_KcUser p = Some v" "ku_KeycloakApiUser v = Some api" "kau_UserName api = n"
    "set (kau_RealmRoles api) = R" by (auto simp: user_pair_def)
  have p': "kup_SpecUser p = map_option spec_keycloak_user (S n)" using p by (simp add: user_pair_def)
  show ?thesis
  proof (cases "S n")
    case None
    with v p' have c: "reconcileUser kc realm (kup_KcUser p) (kup_SpecUser p) =
        (if isDefaultUser n then Return (Inr ()) else bind (deleteUser kc realm n) (\<lambda>_. Return (Inr ())))"
      by (simp add: reconcileUser_def)
    show ?thesis
    proof (cases "isDefaultUser n")
      case True
      with None Some D good show ?thesis by (auto simp: c target_def intro: becomes_refl)
    next
      case False
      with None deleteUser_exec [OF good one] Some D show ?thesis by (force simp: c target_def exec_bind)
    qed
  next
    case (Some u)
    note Dn = \<open>D n = Some R\<close>
    let ?K = "R" and ?S = "set (user_Roles u)" and ?pairs = "pair_roles (kau_RealmRoles api) (user_Roles u)"
    obtain o1 w1 where 1: "env_RangeOrder E (map fst ?pairs) w = (o1, w1)" "dir w1 = dir w"
      using RangeOrder_dir [of "map fst ?pairs" w] by (metis prod.collapse)
    define order where "order = (if mset o1 = mset (map fst ?pairs) then o1 else map fst ?pairs)"
    have ms: "mset order = mset (map fst ?pairs)" by (simp add: order_def)
    have keys: "set order = ?K \<union> ?S"
      using pair_roles_keys(2) [of "kau_RealmRoles api" "user_Roles u"] v(4) mset_eq_setD [OF ms] by simp
    have dist: "distinct order" using pair_roles_keys(1) mset_eq_imp_distinct_iff [OF ms] by blast
    obtain a where a: "dr_accounts (dir w) n = Some a" "ac_roles a = R" using D Dn by (auto simp: held_account)
    have "?K \<union> ?S \<subseteq> dom (dr_roles (dir w))" using spec [OF Some] plain_directoryD(2) [OF good a(1)] a(2) by auto
    then have names: "\<forall>m \<in> set order. plain_name m \<and> (m \<in> ?K \<or> m \<in> ?S)"
      unfolding keys using plain_directoryD(1) [OF good] by blast
    have "\<exists>w'. exec E (for_each order (\<lambda>k. case map_of ?pairs k of None \<Rightarrow> Return (Inr ())
        | Some p \<Rightarrow> reconcileUserRealmRole kc realm n (krp_KcRole p) (krp_SpecRole p))) w1 = (Done (Inr ()), w') \<and>
      becomes (dir w1) n (Some ((R - set order) \<union> (set order \<inter> ?S))) (dir w')"
      by (rule reconcile_user_roles_exec [OF dist names])
         (use 1(2) spec [OF Some] pair_roles_lookup v(4) good one D Dn in auto)
    moreover have "(R - set order) \<union> (set order \<inter> ?S) = ?S" unfolding keys by blast
    ultimately obtain w' where 2: "exec E (for_each order (\<lambda>k. case map_of ?pairs k of None \<Rightarrow> Return (Inr ())
        | Some p \<Rightarrow> reconcileUserRealmRole kc realm n (krp_KcRole p) (krp_SpecRole p))) w1 = (Done (Inr ()), w')"
      "becomes (dir w) n (Some ?S) (dir w')" using 1(2) by auto
    have "reconcileUser kc realm (kup_KcUser p) (kup_SpecUser p) =
        for_each_pair ?pairs (\<lambda>q. reconcileUserRealmRole kc realm n (krp_KcRole q) (krp_SpecRole q))"
      using v(1-3) p' Some by (simp add: reconcileUser_def spec_keycloak_user_def)
    with 1(1) 2 Some Dn show ?thesis by (auto simp: for_each_pair_def target_def order_def)
  qed
qed

subsection \<open>All users\<close>

text \<open>The loop over the pairs, in any order.\<close>

lemma reconcile_users_loop:
  assumes "distinct order" and "\<forall>n \<in> set order. n \<in> dom D \<or> n \<in> dom S" and "\<forall>n \<in> N. plain_name n"
    and "set order \<subseteq> N" and "dom (held (dir w)) \<subseteq> N" and "\<forall>n \<in> N. \<forall>m \<in> N. matches n m \<longrightarrow> m = n"
    and "\<forall>u \<in> ran S. account_name (user_Username u) \<and> list_all plain_char (user_Password u) \<and> set (user_Roles u) \<subseteq> dom R" and "\<forall>n u. S n = Some u \<longrightarrow> user_Username u = n"
    and "pairs_ok D S pairs" and "plain_directory (dir w)" and "\<forall>n \<in> set order. held (dir w) n = D n" and "dr_roles (dir w) = R"
  shows "\<exists>w'. exec E (for_each order (\<lambda>k. case map_of pairs k of None \<Rightarrow> Return (Inr ())
        | Some p \<Rightarrow> reconcileUser kc realm (kup_KcUser p) (kup_SpecUser p))) w = (Done (Inr ()), w') \<and>
    plain_directory (dir w') \<and> dr_roles (dir w') = R \<and>
    held (dir w') = (\<lambda>n. if n \<in> set order then target (initial \<inter> dom R) D S n else held (dir w) n)"
  using assms
proof (induction order arbitrary: w)
  case (Cons n order)
  let ?loop = "for_each order (\<lambda>k. case map_of pairs k of None \<Rightarrow> Return (Inr ())
        | Some p \<Rightarrow> reconcileUser kc realm (kup_KcUser p) (kup_SpecUser p))"
  from pairs_okD [OF Cons.prems(9), of n] Cons.prems(2) obtain p where p: "map_of pairs n = Some p" "user_pair D S n p"
    by auto
  have one: "unambiguous matches (dir w) n"
    using Cons.prems(4-6) by (auto simp: unambiguous_def dom_held subset_iff)
  have "\<exists>w1. exec E (reconcileUser kc realm (kup_KcUser p) (kup_SpecUser p)) w = (Done (Inr ()), w1) \<and>
    becomes (dir w) n (target (initial \<inter> dom (dr_roles (dir w))) D S n) (dir w1)"
  proof (rule reconcileUser_exec [OF p(2)])
    show "user_Username u = n \<and> account_name n \<and> list_all plain_char (user_Password u) \<and> set (user_Roles u) \<subseteq> dom (dr_roles (dir w))"
      if "S n = Some u" for u
    proof -
      have "user_Username u = n" using Cons.prems(8) that by blast
      moreover have "u \<in> ran S" using that by (rule ranI)
      ultimately show ?thesis using Cons.prems(7,12) by blast
    qed
  qed (use Cons.prems one in auto)
  then obtain w1 where 1: "exec E (reconcileUser kc realm (kup_KcUser p) (kup_SpecUser p)) w = (Done (Inr ()), w1)"
    "plain_directory (dir w1)" "dr_roles (dir w1) = R" "held (dir w1) = (held (dir w))(n := target (initial \<inter> dom R) D S n)"
    using Cons.prems(12) by (auto simp: becomes_def)
  have "\<exists>w'. exec E ?loop w1 = (Done (Inr ()), w') \<and> plain_directory (dir w') \<and> dr_roles (dir w') = R \<and>
    held (dir w') = (\<lambda>m. if m \<in> set order then target (initial \<inter> dom R) D S m else held (dir w1) m)"
  proof (rule Cons.IH)
    show "dom (held (dir w1)) \<subseteq> N" using Cons.prems(4,5) unfolding 1(4) by (auto split: if_split_asm)
    show "\<forall>m \<in> set order. held (dir w1) m = D m" using Cons.prems(1,11) unfolding 1(4) by auto
  qed (use Cons.prems 1 in auto)
  then obtain w2 where 2: "exec E ?loop w1 = (Done (Inr ()), w2)" "plain_directory (dir w2)" "dr_roles (dir w2) = R"
    "held (dir w2) = (\<lambda>m. if m \<in> set order then target (initial \<inter> dom R) D S m else held (dir w1) m)" by blast
  have "held (dir w2) = (\<lambda>m. if m \<in> set (n # order) then target (initial \<inter> dom R) D S m else held (dir w) m)"
    unfolding 2(4) 1(4) by auto
  with 1(1) 2(1-3) p(1) show ?case by (auto simp: exec_check_err)
qed simp

text \<open>Loading the users gives each its pair, with the names of the roles it holds.\<close>

lemma load_users_exec:
  assumes "plain_directory (dir w)" and "map ku_KeycloakApiUser vs = map Some us"
    and "\<forall>u \<in> set us. kau_RealmRoles u = [] \<and> (\<exists>a. dr_accounts (dir w) (kau_UserName u) = Some a \<and> kau_ID u = ac_id a)"
    and "distinct (map fst m)"
  shows "\<exists>m' w'. exec E (load_users kc realm (map Some vs) m) w = (Done (Inr m'), w') \<and> dir w' = dir w \<and>
    distinct (map fst m') \<and> loaded (held (dir w)) (kau_UserName ` set us) m m'"
  using assms
proof (induction vs arbitrary: us m w)
  case Nil
  then show ?case by (simp add: loaded_def)
next
  case (Cons v vs)
  then obtain u us' where us: "us = u # us'" "ku_KeycloakApiUser v = Some u" "map ku_KeycloakApiUser vs = map Some us'"
    by (cases us) auto
  obtain a where a: "kau_RealmRoles u = []" "dr_accounts (dir w) (kau_UserName u) = Some a" "kau_ID u = ac_id a"
    using Cons.prems(3) us(1) by auto
  obtain rs w1 where 1: "exec E (kc_GetRealmRoleMappings kc (ac_id a) realm) w = (Done (Inr (map Some rs)), w1)"
    "kr_Name ` set rs = ac_roles a" "dir w1 = dir w" using Mappings [OF Cons.prems(1) a(2)] by blast
  define p where "p = \<lparr>kup_KcUser = Some (v\<lparr>ku_KeycloakApiUser := Some (u\<lparr>kau_RealmRoles := kau_RealmRoles u @ map kr_Name rs\<rparr>)\<rparr>),
      kup_SpecUser = None\<rparr>"
  let ?m = "AList.update (kau_UserName u) p m"
  have "\<exists>m' w'. exec E (load_users kc realm (map Some vs) ?m) w1 = (Done (Inr m'), w') \<and> dir w' = dir w1 \<and>
    distinct (map fst m') \<and> loaded (held (dir w1)) (kau_UserName ` set us') ?m m'"
    using Cons.prems us 1(3) by (intro Cons.IH) (auto intro: AList.distinct_update)
  then obtain m' w' where 2: "exec E (load_users kc realm (map Some vs) ?m) w1 = (Done (Inr m'), w')" "dir w' = dir w"
    "distinct (map fst m')" "loaded (held (dir w)) (kau_UserName ` set us') ?m m'" unfolding 1(3) by blast
  have "user_pair (held (dir w)) Map.empty (kau_UserName u) p"
    using a(1,2) 1(2) by (simp add: user_pair_def p_def held_def)
  from loaded_insert [OF this 2(4)] show ?case
    using 1(1) 2(1-3) a(3) us by (simp add: exec_check_err exec_bind role_names_exec p_def)
qed

lemma add_spec_users_exec: "exec E (add_spec_users (map Some us) m) w = (Done (fold add_spec_user us m), w)"
  by (induction us arbitrary: m) simp_all

lemma reconcileUsers_exec:
  assumes spec: "us_Users (ru_Spec ru) = map Some us" and realm: "ru_Realm ru = realm" and good: "plain_directory (dir w)"
    and page: "one_page (dom (dr_accounts (dir w)))"
    and plain: "\<forall>u \<in> set us. account_name (user_Username u) \<and> list_all plain_char (user_Password u) \<and>
        set (user_Roles u) \<subseteq> dom (dr_roles (dir w))"
    and names: "\<forall>n \<in> dom (dr_accounts (dir w)) \<union> user_Username ` set us. \<forall>m \<in> dom (dr_accounts (dir w)) \<union> user_Username ` set us.
        matches n m \<longrightarrow> m = n"
  shows "\<exists>w'. exec E (reconcileUsers kc ru) w = (Done (Inr ()), w') \<and> dr_roles (dir w') = dr_roles (dir w) \<and>
    held (dir w') = target (initial \<inter> dom (dr_roles (dir w))) (held (dir w)) (asked_for us) \<and> plain_directory (dir w')"
proof -
  let ?N = "dom (dr_accounts (dir w)) \<union> user_Username ` set us" and ?D = "held (dir w)" and ?S = "asked_for us"
  obtain vs api w1 where 1: "exec E (kc_ListUsers kc realm) w = (Done (Inr (map Some vs)), w1)"
    "map ku_KeycloakApiUser vs = map Some api" "lists_accounts api (dir w)" "dir w1 = dir w"
    using ListUsers [OF good page] by blast
  have "\<exists>m w'. exec E (load_users kc realm (map Some vs) []) w1 = (Done (Inr m), w') \<and> dir w' = dir w1 \<and>
    distinct (map fst m) \<and> loaded (held (dir w1)) (kau_UserName ` set api) [] m"
    by (rule load_users_exec [OF _ 1(2)]) (use good 1(3,4) in \<open>auto simp: lists_accounts_def\<close>)
  then obtain m w2 where 2: "exec E (load_users kc realm (map Some vs) []) w1 = (Done (Inr m), w2)" "dir w2 = dir w"
    "distinct (map fst m)" "loaded ?D (kau_UserName ` set api) [] m" unfolding 1(4) by blast
  have "pairs_ok ?D Map.empty m"
    using loaded_all 2(4) 1(3) by (simp add: lists_accounts_def dom_held)
  then have ok: "pairs_ok ?D ?S (fold add_spec_user us m)" using add_spec_users_ok by force
  let ?pairs = "fold add_spec_user us m"
  obtain o1 w3 where 3: "env_RangeOrder E (map fst ?pairs) w2 = (o1, w3)" "dir w3 = dir w"
    using RangeOrder_dir [of "map fst ?pairs" w2] 2(2) by (metis prod.collapse)
  define order where "order = (if mset o1 = mset (map fst ?pairs) then o1 else map fst ?pairs)"
  have ms: "mset order = mset (map fst ?pairs)" by (simp add: order_def)
  have keys: "set order = dom ?D \<union> dom ?S" using pairs_ok_keys [OF ok] mset_eq_setD [OF ms] by simp
  have dist: "distinct order" using add_spec_users_distinct [OF 2(3)] mset_eq_imp_distinct_iff [OF ms] by blast
  have S: "asked_for us n = Some u \<Longrightarrow> u \<in> set us \<and> user_Username u = n" for n u
    by (auto simp: asked_for_def dest: map_of_SomeD)
  have domS: "dom ?S \<subseteq> user_Username ` set us" using S by blast
  have "\<exists>w'. exec E (for_each order (\<lambda>k. case map_of ?pairs k of None \<Rightarrow> Return (Inr ())
        | Some p \<Rightarrow> reconcileUser kc realm (kup_KcUser p) (kup_SpecUser p))) w3 = (Done (Inr ()), w') \<and>
    plain_directory (dir w') \<and> dr_roles (dir w') = dr_roles (dir w) \<and>
    held (dir w') = (\<lambda>n. if n \<in> set order then target (initial \<inter> dom (dr_roles (dir w))) ?D ?S n else held (dir w3) n)"
  proof (rule reconcile_users_loop [OF dist, where N = ?N])
    show "\<forall>n \<in> ?N. plain_name n" using plain account_name_plain plain_directoryD(2) [OF good] by blast
    show "set order \<subseteq> ?N" using keys domS by (auto simp: dom_held)
    show "\<forall>u \<in> ran ?S. account_name (user_Username u) \<and> list_all plain_char (user_Password u) \<and> set (user_Roles u) \<subseteq> dom (dr_roles (dir w))"
      using plain S by (fastforce simp: ran_def)
  qed (use keys names ok good 3(2) S in \<open>auto simp: dom_held\<close>)
  then obtain w' where w': "exec E (for_each order (\<lambda>k. case map_of ?pairs k of None \<Rightarrow> Return (Inr ())
        | Some p \<Rightarrow> reconcileUser kc realm (kup_KcUser p) (kup_SpecUser p))) w3 = (Done (Inr ()), w')"
    "dr_roles (dir w') = dr_roles (dir w)"
    "held (dir w') = (\<lambda>n. if n \<in> set order then target (initial \<inter> dom (dr_roles (dir w))) ?D ?S n else ?D n)"
    "plain_directory (dir w')"
    unfolding 3(2) by blast
  have "held (dir w') = target (initial \<inter> dom (dr_roles (dir w))) ?D ?S"
    unfolding w'(3) keys by (rule ext) (auto simp: target_def domIff)
  moreover have "exec E (reconcileUsers kc ru) w = (Done (Inr ()), w')"
    using 1(1) 2(1) 3(1) w'(1) unfolding reconcileUsers_def for_each_pair_def realm spec order_def
    by (simp add: exec_check_err exec_bind add_spec_users_exec)
  ultimately show ?thesis using w'(2,4) by blast
qed

end

end
