(* ===== verification/UserServer.thy ===== *)
theory UserServer
  imports UserReconcile RoleServer
begin

text \<open>
  The users resource of Keycloak's REST interface: what the server does for each request the
  client sends about users and their roles. The client turns it into the contract of theory
  UserReconcile, and a reference server keeps it.
\<close>

subsection \<open>The server's side\<close>

definition users_url :: "Client \<Rightarrow> string \<Rightarrow> string" where
  "users_url c realm = cl_URL c @ realm_path realm @ ''/users''"

definition search_url :: "Client \<Rightarrow> string \<Rightarrow> string \<Rightarrow> string" where
  "search_url c realm n = users_url c realm @ ''?username='' @ n"

definition user_url :: "Client \<Rightarrow> string \<Rightarrow> string \<Rightarrow> string" where
  "user_url c realm i = users_url c realm @ ''/'' @ i"

definition mapping_url :: "Client \<Rightarrow> string \<Rightarrow> string \<Rightarrow> string" where
  "mapping_url c realm i = user_url c realm i @ ''/role-mappings/realm''"

lemmas user_url_defs = mapping_url_def user_url_def search_url_def users_url_def role_url_def roles_url_def
  admin_url_def realm_path_def role_mapping_path_def

text \<open>The accounts a search found.\<close>

definition found :: "(string \<Rightarrow> string \<Rightarrow> bool) \<Rightarrow> directory \<Rightarrow> string \<Rightarrow> KeycloakApiUser list \<Rightarrow> bool" where
  "found matches d n us \<longleftrightarrow>
     kau_UserName ` set us = {m \<in> dom (dr_accounts d). matches n m} \<and>
     (\<forall>u \<in> set us. \<exists>a. dr_accounts d (kau_UserName u) = Some a \<and> kau_ID u = ac_id a)"

locale rest_users = rest_server E dir
  for c :: Client and realm :: string and E :: "'w env" and dir :: "'w \<Rightarrow> directory"
    and matches :: "string \<Rightarrow> string \<Rightarrow> bool" and initial :: "string set" +
  assumes matches_itself: "matches n n"
    and GET_users: "rq_Method q = ''GET'' \<Longrightarrow> rq_URL q = users_url c realm \<Longrightarrow> plain_directory (dir w) \<Longrightarrow>
        one_page (dom (dr_accounts (dir w))) \<Longrightarrow>
        replies E dir q w (\<lambda>s. s = 200)
          (\<lambda>b. \<exists>vs us. Unmarshal (decode_slice (decode_ptr decode_KeycloakUser)) b = Inr (map Some vs) \<and>
             map ku_KeycloakApiUser vs = map Some us \<and> lists_accounts us (dir w)) (dir w)"
    and GET_search: "rq_Method q = ''GET'' \<Longrightarrow> rq_URL q = search_url c realm n \<Longrightarrow> plain_directory (dir w) \<Longrightarrow> plain_name n \<Longrightarrow>
        unambiguous matches (dir w) n \<Longrightarrow>
        replies E dir q w (\<lambda>s. s = 200)
          (\<lambda>b. \<exists>us. Unmarshal (decode_slice (decode_ptr decode_KeycloakApiUser)) b = Inr (map Some us) \<and>
             found matches (dir w) n us) (dir w)"
    and GET_mappings: "rq_Method q = ''GET'' \<Longrightarrow> rq_URL q = mapping_url c realm (ac_id a) \<Longrightarrow> plain_directory (dir w) \<Longrightarrow>
        dr_accounts (dir w) n = Some a \<Longrightarrow>
        replies E dir q w (\<lambda>s. s = 200)
          (\<lambda>b. \<exists>rs. Unmarshal (decode_slice (decode_ptr decode_KeycloakRole)) b = Inr (map Some rs) \<and> kr_Name ` set rs = ac_roles a)
          (dir w)"
    and GET_realm_role: "rq_Method q = ''GET'' \<Longrightarrow> rq_URL q = role_url c realm m \<Longrightarrow> plain_directory (dir w) \<Longrightarrow>
        dr_roles (dir w) m = Some i \<Longrightarrow>
        replies E dir q w (\<lambda>s. s = 200) (\<lambda>b. \<exists>r. Unmarshal decode_KeycloakRole b = Inr r \<and> kr_ID r = i) (dir w)"
    and POST_user: "rq_Method q = ''POST'' \<Longrightarrow> rq_URL q = users_url c realm \<Longrightarrow> plain_directory (dir w) \<Longrightarrow> rq_Body q = Some json \<Longrightarrow>
        json_parse json = Some (JObj kvs) \<Longrightarrow> map_of kvs ''username'' = Some (JStr n) \<Longrightarrow> account_name n \<Longrightarrow>
        dr_accounts (dir w) n = None \<Longrightarrow>
        \<exists>a. plain_name (ac_id a) \<and> ac_roles a = initial \<inter> dom (dr_roles (dir w)) \<and>
          replies E dir q w (\<lambda>s. s = 201) (\<lambda>b. True) (with_account (dir w) n (Some a))"
    and DELETE_user: "rq_Method q = ''DELETE'' \<Longrightarrow> rq_URL q = user_url c realm (ac_id a) \<Longrightarrow> plain_directory (dir w) \<Longrightarrow>
        dr_accounts (dir w) n = Some a \<Longrightarrow>
        replies E dir q w (\<lambda>s. s = 204) (\<lambda>b. True) (with_account (dir w) n None)"
    and POST_mapping: "rq_Method q = ''POST'' \<Longrightarrow> rq_URL q = mapping_url c realm (ac_id a) \<Longrightarrow> plain_directory (dir w) \<Longrightarrow>
        dr_accounts (dir w) n = Some a \<Longrightarrow> rq_Body q = Some json \<Longrightarrow>
        Unmarshal (decode_slice (decode_ptr decode_KeycloakRole)) json = Inr [Some r] \<Longrightarrow> dr_roles (dir w) (kr_Name r) = Some (kr_ID r) \<Longrightarrow>
        replies E dir q w (\<lambda>s. s = 204) (\<lambda>b. True) (with_account (dir w) n (Some (a\<lparr>ac_roles := insert (kr_Name r) (ac_roles a)\<rparr>)))"
    and DELETE_mapping: "rq_Method q = ''DELETE'' \<Longrightarrow> rq_URL q = mapping_url c realm (ac_id a) \<Longrightarrow> plain_directory (dir w) \<Longrightarrow>
        dr_accounts (dir w) n = Some a \<Longrightarrow> rq_Body q = Some json \<Longrightarrow>
        Unmarshal (decode_slice (decode_ptr decode_KeycloakRole)) json = Inr [Some r] \<Longrightarrow> dr_roles (dir w) (kr_Name r) = Some (kr_ID r) \<Longrightarrow>
        replies E dir q w (\<lambda>s. s = 204) (\<lambda>b. True) (with_account (dir w) n (Some (a\<lparr>ac_roles := ac_roles a - {kr_Name r}\<rparr>)))"
begin

lemma ListUsers_exec:
  assumes "plain_directory (dir w)" and "one_page (dom (dr_accounts (dir w)))"
  shows "\<exists>vs us w'. exec E (Client_ListUsers c realm) w = (Done (Inr (map Some vs)), w') \<and>
          map ku_KeycloakApiUser vs = map Some us \<and> lists_accounts us (dir w) \<and> dir w' = dir w"
proof -
  let ?f = "Unmarshal (decode_slice (decode_ptr decode_KeycloakUser))"
  have "replies E dir (get_request c (''realms/'' @ realm @ ''/users'')) w' (\<lambda>s. s = 200)
      (\<lambda>b. \<exists>vs us. ?f b = Inr (map Some vs) \<and> map ku_KeycloakApiUser vs = map Some us \<and> lists_accounts us (dir w)) (dir w)"
    if "dir w' = dir w" for w'
    using GET_users [of "get_request c (''realms/'' @ realm @ ''/users'')" w'] assms that by (simp add: user_url_defs)
  from list_all_of_exec [OF this, where w = w and name = "''users''" and f = ?f]
  obtain b vs us w' where "?f b = Inr (map Some vs)" "map ku_KeycloakApiUser vs = map Some us" "lists_accounts us (dir w)"
    "\<forall>x. ?f b = Inr x \<longrightarrow> exec E (list_all_of c (''realms/'' @ realm @ ''/users'') ''users'' ?f) w = (Done (Inr x), w')"
    "dir w' = dir w" by auto
  then show ?thesis unfolding Client_ListUsers_def by blast
qed

lemma FindUser_exec:
  assumes "plain_directory (dir w)" and "plain_name n" and "unambiguous matches (dir w) n"
  shows "\<exists>w'. (case dr_accounts (dir w) n of
      Some a \<Rightarrow> \<exists>u. exec E (Client_FindUserByUsername c n realm) w = (Done (Inr u), w') \<and> kau_ID u = ac_id a
    | None \<Rightarrow> \<exists>e. exec E (Client_FindUserByUsername c n realm) w = (Done (Inl e), w')) \<and> dir w' = dir w"
proof -
  let ?path = "''realms/'' @ realm @ ''/users?username='' @ n"
  define f :: "string \<Rightarrow> KeycloakApiUser option result" where
    "f = (\<lambda>body. case Unmarshal (decode_slice (decode_ptr decode_KeycloakApiUser)) body of
            Inl err \<Rightarrow> Inl err
          | Inr users \<Rightarrow> (case users of [] \<Rightarrow> Inr (Some zero_KeycloakApiUser) | u # us \<Rightarrow> Inr u))"
  have "replies E dir (get_request c ?path) w' (\<lambda>s. s = 200)
      (\<lambda>b. \<exists>us. Unmarshal (decode_slice (decode_ptr decode_KeycloakApiUser)) b = Inr (map Some us) \<and> found matches (dir w) n us) (dir w)"
    if "dir w' = dir w" for w'
    using GET_search [of "get_request c ?path" n w'] assms that by (simp add: user_url_defs)
  from get_exec [OF this, where w = w and name = "''user''" and f = f]
  obtain b us w' where b: "Unmarshal (decode_slice (decode_ptr decode_KeycloakApiUser)) b = Inr (map Some us)"
    "found matches (dir w) n us" "exec E (get c ?path ''user'' f) w = (Done (f b), w')" "dir w' = dir w" by auto
  show ?thesis
  proof (cases us)
    case Nil
    with b(2) matches_itself have "dr_accounts (dir w) n = None" by (auto simp: found_def)
    with b Nil show ?thesis
      by (intro exI [of _ w']) (simp add: Client_FindUserByUsername_def f_def [symmetric] exec_check_err, simp add: f_def zero_KeycloakApiUser_def)
  next
    case (Cons u vs)
    then have "kau_UserName u \<in> {m \<in> dom (dr_accounts (dir w)). matches n m}" using b(2) by (auto simp: found_def)
    then have "kau_UserName u = n" using assms(3) by (auto simp: unambiguous_def)
    then obtain a where a: "dr_accounts (dir w) n = Some a" "kau_ID u = ac_id a"
      using b(2) Cons by (auto simp: found_def)
    then have "kau_ID u \<noteq> ''''" using plain_directoryD(2) [OF assms(1) a(1)] plain_name_nonempty [of "ac_id a"] by simp
    with a b Cons show ?thesis
      by (intro exI [of _ w']) (simp add: Client_FindUserByUsername_def f_def [symmetric] exec_check_err, simp add: f_def)
  qed
qed

lemma Mappings_exec:
  assumes "plain_directory (dir w)" and "dr_accounts (dir w) n = Some a"
  shows "\<exists>rs w'. exec E (Client_GetRealmRoleMappings c (ac_id a) realm) w = (Done (Inr (map Some rs)), w') \<and>
          kr_Name ` set rs = ac_roles a \<and> dir w' = dir w"
proof -
  let ?f = "Unmarshal (decode_slice (decode_ptr decode_KeycloakRole))" and ?path = "role_mapping_path (ac_id a) realm"
  have "replies E dir (get_request c ?path) w' (\<lambda>s. s = 200)
      (\<lambda>b. \<exists>rs. ?f b = Inr (map Some rs) \<and> kr_Name ` set rs = ac_roles a) (dir w)" if "dir w' = dir w" for w'
    using GET_mappings [of "get_request c ?path" a w' n] assms that by (simp add: user_url_defs)
  from get_exec [OF this, where w = w and name = "''role-mapping''" and f = ?f] show ?thesis
    unfolding Client_GetRealmRoleMappings_def by fastforce
qed

lemma GetRole_id_exec:
  assumes "plain_directory (dir w)" and "dr_roles (dir w) m = Some i"
  shows "\<exists>r w'. exec E (Client_GetRole c m realm) w = (Done (Inr r), w') \<and> kr_ID r = i \<and> dir w' = dir w"
proof -
  let ?path = "''realms/'' @ realm @ ''/roles/'' @ m"
  have "replies E dir (get_request c ?path) w' (\<lambda>s. s = 200) (\<lambda>b. \<exists>r. Unmarshal decode_KeycloakRole b = Inr r \<and> kr_ID r = i) (dir w)"
    if "dir w' = dir w" for w'
    using GET_realm_role [of "get_request c ?path" m w' i] assms that by (simp add: user_url_defs)
  from get_exec [OF this, where w = w and name = "''role''" and f = "Unmarshal decode_KeycloakRole"]
  obtain r w' where "exec E (get c ?path ''role'' (Unmarshal decode_KeycloakRole)) w = (Done (Inr r), w')" "kr_ID r = i" "dir w' = dir w"
    by auto
  then show ?thesis by (simp add: Client_GetRole_def exec_check_err)
qed

lemma CreateUser_exec:
  assumes "plain_directory (dir w)" and "json_parse json = Some (JObj kvs)" and "map_of kvs ''username'' = Some (JStr n)"
    and "account_name n" and "dr_accounts (dir w) n = None"
  shows "\<exists>a w'. exec E (Client_CreateUser c json realm) w = (Done (Inr ()), w') \<and> plain_name (ac_id a) \<and>
          ac_roles a = initial \<inter> dom (dr_roles (dir w)) \<and> dir w' = with_account (dir w) n (Some a)"
proof -
  have "\<exists>w'. exec E (Client_CreateUser c json realm) w = (Done (Inr ()), w') \<and>
    (\<exists>a. plain_name (ac_id a) \<and> ac_roles a = initial \<inter> dom (dr_roles (dir w)) \<and> dir w' = with_account (dir w) n (Some a))"
    unfolding Client_CreateUser_def
  proof (rule create_exec)
    fix w' assume "dir w' = dir w"
    with POST_user [of "post_request c (''realms/'' @ realm @ ''/users'') json" w' json kvs n] assms
    show "\<exists>d. (\<exists>a. plain_name (ac_id a) \<and> ac_roles a = initial \<inter> dom (dr_roles (dir w)) \<and> d = with_account (dir w) n (Some a)) \<and>
        replies E dir (post_request c (''realms/'' @ realm @ ''/users'') json) w' (\<lambda>s. s = 201) (\<lambda>b. True) d"
      by (auto simp: user_url_defs)
  qed
  then show ?thesis by blast
qed

lemma DeleteUser_exec:
  assumes "plain_directory (dir w)" and "dr_accounts (dir w) n = Some a"
  shows "\<exists>w'. exec E (Client_DeleteUser c (ac_id a) realm) w = (Done (Inr ()), w') \<and> dir w' = with_account (dir w) n None"
  unfolding Client_DeleteUser_def
proof (rule delete_exec)
  fix w' assume "dir w' = dir w"
  with DELETE_user [of "delete_request c (''realms/'' @ realm @ ''/users/'' @ ac_id a)" a w' n] assms
  show "\<exists>d. d = with_account (dir w) n None \<and>
      replies E dir (delete_request c (''realms/'' @ realm @ ''/users/'' @ ac_id a)) w' (\<lambda>s. s = 204) (\<lambda>b. True) d"
    by (simp add: user_url_defs)
qed

lemma AddMapping_exec:
  assumes "plain_directory (dir w)" and "dr_accounts (dir w) n = Some a"
    and "Unmarshal (decode_slice (decode_ptr decode_KeycloakRole)) json = Inr [Some r]" and "dr_roles (dir w) (kr_Name r) = Some (kr_ID r)"
  shows "\<exists>w'. exec E (Client_CreateUserRealmRole c json (ac_id a) realm) w = (Done (Inr ()), w') \<and>
          dir w' = with_account (dir w) n (Some (a\<lparr>ac_roles := insert (kr_Name r) (ac_roles a)\<rparr>))"
  unfolding Client_CreateUserRealmRole_def
proof (rule create_exec)
  fix w' assume "dir w' = dir w"
  with POST_mapping [of "post_request c (role_mapping_path (ac_id a) realm) json" a w' n json r] assms
  show "\<exists>d. d = with_account (dir w) n (Some (a\<lparr>ac_roles := insert (kr_Name r) (ac_roles a)\<rparr>)) \<and>
      replies E dir (post_request c (role_mapping_path (ac_id a) realm) json) w' (\<lambda>s. s = 204) (\<lambda>b. True) d"
    by (simp add: user_url_defs)
qed

lemma RemoveMapping_exec:
  assumes "plain_directory (dir w)" and "dr_accounts (dir w) n = Some a"
    and "Unmarshal (decode_slice (decode_ptr decode_KeycloakRole)) json = Inr [Some r]" and "dr_roles (dir w) (kr_Name r) = Some (kr_ID r)"
  shows "\<exists>w'. exec E (Client_DeleteUserRealmRole c json (ac_id a) realm) w = (Done (Inr ()), w') \<and>
          dir w' = with_account (dir w) n (Some (a\<lparr>ac_roles := ac_roles a - {kr_Name r}\<rparr>))"
  unfolding Client_DeleteUserRealmRole_def
proof (rule deleteWithBody_exec)
  fix w' assume "dir w' = dir w"
  with DELETE_mapping [of "delete_body_request c (role_mapping_path (ac_id a) realm) json" a w' n json r] assms
  show "replies E dir (delete_body_request c (role_mapping_path (ac_id a) realm) json) w' (\<lambda>s. s = 204) (\<lambda>b. True)
      (with_account (dir w) n (Some (a\<lparr>ac_roles := ac_roles a - {kr_Name r}\<rparr>)))" by (simp add: user_url_defs)
qed

lemma FindUser_cases:
  assumes "plain_directory (dir w)" and "unambiguous matches (dir w) n"
  shows "dr_accounts (dir w) n = Some a \<Longrightarrow>
      \<exists>u w'. exec E (Client_FindUserByUsername c n realm) w = (Done (Inr u), w') \<and> kau_ID u = ac_id a \<and> dir w' = dir w"
    and "plain_name n \<Longrightarrow> dr_accounts (dir w) n = None \<Longrightarrow>
      \<exists>e w'. exec E (Client_FindUserByUsername c n realm) w = (Done (Inl e), w') \<and> dir w' = dir w"
  using FindUser_exec [OF assms(1) _ assms(2)] plain_directoryD(2) [OF assms(1)] by (force, force)

lemma client_users: "keycloak_users (client_interface c) realm E dir matches initial"
proof
qed (unfold client_interface_simps,
     (rule ListUsers_exec FindUser_cases Mappings_exec CreateUser_exec DeleteUser_exec GetRole_id_exec AddMapping_exec
        RemoveMapping_exec LookupEnv_keeps ReadFile_keeps RangeOrder_keeps; assumption)+)

end

sublocale rest_users \<subseteq> keycloak_users "client_interface c" realm E dir matches initial
  by (rule client_users)

subsection \<open>A reference server\<close>

definition account_id :: "string \<Rightarrow> string" where
  "account_id n = ''u-'' @ n"

definition realm_role_id :: "string \<Rightarrow> string" where
  "realm_role_id m = ''r-'' @ m"

definition dir_of :: "world \<Rightarrow> directory" where
  "dir_of w =
     \<lparr>dr_roles = (\<lambda>m. if m \<in> set (w_roles w) then Some (realm_role_id m) else None),
      dr_accounts = (\<lambda>n. map_option (\<lambda>rs. \<lparr>ac_id = account_id n, ac_roles = set rs\<rparr>) (map_of (w_accounts w) n))\<rparr>"

primrec contains :: "string \<Rightarrow> string \<Rightarrow> bool" where
  "contains n [] = (n = [])"
| "contains n (c # cs) = (starts_with n (c # cs) \<or> contains n cs)"

definition account_names :: "world \<Rightarrow> string list" where
  "account_names w = map fst (AList.clearjunk (w_accounts w))"

definition account_roles :: "world \<Rightarrow> string \<Rightarrow> string list" where
  "account_roles w n = (case map_of (w_accounts w) n of None \<Rightarrow> [] | Some rs \<Rightarrow> rs)"

definition account_object :: "string \<Rightarrow> text_object" where
  "account_object n = [(''id'', account_id n), (''username'', n)]"

definition realm_role_object :: "string \<Rightarrow> text_object" where
  "realm_role_object m = [(''id'', realm_role_id m), (''name'', m)]"

text \<open>The body of a request that maps one role of the realm, and of one that creates a user.\<close>

definition mapped_role :: "world \<Rightarrow> string option \<Rightarrow> string option" where
  "mapped_role w body =
     (case body of None \<Rightarrow> None
      | Some b \<Rightarrow> (case Unmarshal (decode_slice (decode_ptr decode_KeycloakRole)) b of
            Inr [Some r] \<Rightarrow> if kr_Name r \<in> set (w_roles w) \<and> kr_ID r = realm_role_id (kr_Name r) then Some (kr_Name r) else None
          | _ \<Rightarrow> None))"

definition new_user :: "string option \<Rightarrow> string option" where
  "new_user body =
     (case body of None \<Rightarrow> None
      | Some b \<Rightarrow> (case json_parse b of
            Some (JObj kvs) \<Rightarrow> (case map_of kvs ''username'' of Some (JStr n) \<Rightarrow> Some n | _ \<Rightarrow> None)
          | _ \<Rightarrow> None))"

definition set_account :: "string \<Rightarrow> string list \<Rightarrow> world \<Rightarrow> world" where
  "set_account n rs w = w\<lparr>w_accounts := AList.update n rs (w_accounts w)\<rparr>"

text \<open>Logging in gives the token of the client. A role that is deleted is taken from the accounts that have it.\<close>

definition delete_role :: "string \<Rightarrow> world \<Rightarrow> world" where
  "delete_role m w = w\<lparr>w_roles := filter (\<lambda>x. x \<noteq> m) (w_roles w),
     w_accounts := map (\<lambda>(n, rs). (n, filter (\<lambda>x. x \<noteq> m) rs)) (w_accounts w)\<rparr>"

definition users_http :: "Client \<Rightarrow> string \<Rightarrow> string list \<Rightarrow> Request \<Rightarrow> world \<Rightarrow> (int \<times> string) \<times> world" where
  "users_http c realm init q w =
     (let url = rq_URL q; base = users_url c realm; names = account_names w in
      if url = token_url c then ((200, object_text [(''access_token'', cl_token c)]), w)
      else if url = base then
        (if rq_Method q = ''GET'' then ((200, array_text (map account_object names)), w)
         else case new_user (rq_Body q) of
             None \<Rightarrow> ((400, ''''), w)
           | Some n \<Rightarrow> if n \<in> set names then ((409, ''''), w)
                       else ((201, ''''), set_account n (filter (\<lambda>r. r \<in> set (w_roles w)) init) w))
      else case find (\<lambda>n. url = user_url c realm (account_id n)) names of
        Some n \<Rightarrow> ((204, ''''), w\<lparr>w_accounts := AList.delete n (w_accounts w)\<rparr>)
      | None \<Rightarrow> (case find (\<lambda>n. url = mapping_url c realm (account_id n)) names of
          Some n \<Rightarrow>
            if rq_Method q = ''GET'' then ((200, array_text (map realm_role_object (account_roles w n))), w)
            else (case mapped_role w (rq_Body q) of
                None \<Rightarrow> ((404, ''''), w)
              | Some r \<Rightarrow> ((204, ''''), set_account n
                    (if rq_Method q = ''POST'' then r # account_roles w n else filter (\<lambda>x. x \<noteq> r) (account_roles w n)) w))
        | None \<Rightarrow> (case find (\<lambda>m. url = role_url c realm m) (w_roles w) of
            Some m \<Rightarrow> if rq_Method q = ''DELETE'' then ((204, ''''), delete_role m w) else ((200, object_text (realm_role_object m)), w)
          | None \<Rightarrow>
              if url = roles_url c realm then roles_http c realm q w
              else if starts_with (base @ ''?username='') url
              then ((200, array_text (map account_object (filter (contains (drop (length base + 10) url)) names))), w)
              else ((404, ''''), w))))"

lemma dir_of_simps [simp]:
  "dr_roles (dir_of w) m = (if m \<in> set (w_roles w) then Some (realm_role_id m) else None)"
  "dr_accounts (dir_of w) n = map_option (\<lambda>rs. \<lparr>ac_id = account_id n, ac_roles = set rs\<rparr>) (map_of (w_accounts w) n)"
  by (simp_all add: dir_of_def)

lemma account_names_set [simp]: "set (account_names w) = dom (dr_accounts (dir_of w))"
proof -
  have "dom (dr_accounts (dir_of w)) = dom (map_of (w_accounts w))" by (auto simp: dom_def)
  then show ?thesis by (simp add: account_names_def AList.dom_clearjunk dom_map_of_conv_image_fst)
qed

lemma account_names_distinct [simp]: "distinct (account_names w)"
  by (simp add: account_names_def AList.distinct_clearjunk)

lemma account_lookup:
  "dr_accounts (dir_of w) n = Some a \<Longrightarrow> ac_id a = account_id n \<and> ac_roles a = set (account_roles w n)"
  by (auto simp: account_roles_def)

lemma set_account_dir:
  "dir_of (set_account n rs w) = with_account (dir_of w) n (Some \<lparr>ac_id = account_id n, ac_roles = set rs\<rparr>)"
  by (auto simp: set_account_def dir_of_def with_account_def AList.update_conv' fun_eq_iff)

lemma delete_account_dir: "dir_of (w\<lparr>w_accounts := AList.delete n (w_accounts w)\<rparr>) = with_account (dir_of w) n None"
  by (auto simp: dir_of_def with_account_def AList.delete_conv' fun_eq_iff)

lemma find_eq [simp]: "find ((=) x) xs = (if x \<in> set xs then Some x else None)"
  by (induction xs) auto

lemma contains_itself: "contains n n"
  by (cases n) (simp_all add: starts_with_iff)

text \<open>The kinds of paths are told apart.\<close>

lemma plain_no_slash: "plain_name n \<Longrightarrow> CHR ''/'' \<notin> set n"
  unfolding plain_name_def list_all_iff
  by (auto simp: is_alnum_def Let_def char_code_def)

lemma path_cases [simp]:
  "user_url c realm i \<noteq> users_url c realm" "mapping_url c realm i \<noteq> users_url c realm"
  "search_url c realm n \<noteq> users_url c realm" "role_url c realm m \<noteq> users_url c realm"
  "role_url c realm m \<noteq> user_url c realm i" "role_url c realm m \<noteq> mapping_url c realm i"
  "search_url c realm n \<noteq> user_url c realm i" "search_url c realm n \<noteq> mapping_url c realm i"
  "search_url c realm n \<noteq> role_url c realm m" "roles_url c realm \<noteq> users_url c realm" "roles_url c realm \<noteq> user_url c realm i"
  "roles_url c realm \<noteq> mapping_url c realm i" "roles_url c realm \<noteq> role_url c realm m" "role_url c realm m \<noteq> roles_url c realm"
  "search_url c realm n \<noteq> roles_url c realm" "users_url c realm \<noteq> token_url c" "user_url c realm i \<noteq> token_url c"
  "mapping_url c realm i \<noteq> token_url c" "search_url c realm n \<noteq> token_url c" "role_url c realm m \<noteq> token_url c"
  "roles_url c realm \<noteq> token_url c"
  by (simp_all add: user_url_defs token_url_def authUrl_def)

lemma path_inject [simp]:
  "user_url c realm (account_id n) = user_url c realm (account_id n') \<longleftrightarrow> n = n'"
  "mapping_url c realm (account_id n) = mapping_url c realm (account_id n') \<longleftrightarrow> n = n'"
  "role_url c realm m = role_url c realm m' \<longleftrightarrow> m = m'"
  by (simp_all add: user_url_defs account_id_def)

lemma mapping_not_user: "plain_name n' \<Longrightarrow> mapping_url c realm (account_id n) \<noteq> user_url c realm (account_id n')"
  using plain_no_slash [of n'] by (auto simp: user_url_defs account_id_def)

lemma find_none: "(\<And>x. \<not> P x) \<Longrightarrow> find P xs = None"
  by (simp add: find_None_iff)

text \<open>What the server answers, by kind of request.\<close>

lemma users_http_base:
  "rq_URL q = users_url c realm \<Longrightarrow> rq_Method q = ''GET'' \<Longrightarrow>
     users_http c realm init q w = ((200, array_text (map account_object (account_names w))), w)"
  "rq_URL q = users_url c realm \<Longrightarrow> rq_Method q = ''POST'' \<Longrightarrow> new_user (rq_Body q) = Some n \<Longrightarrow> n \<notin> set (account_names w) \<Longrightarrow>
     users_http c realm init q w = ((201, ''''), set_account n (filter (\<lambda>r. r \<in> set (w_roles w)) init) w)"
  by (simp_all add: users_http_def Let_def del: account_names_set)

lemma users_http_user:
  assumes "rq_URL q = user_url c realm (account_id n)" and "n \<in> set (account_names w)"
  shows "users_http c realm init q w = ((204, ''''), w\<lparr>w_accounts := AList.delete n (w_accounts w)\<rparr>)"
  using assms by (simp add: users_http_def Let_def del: account_names_set)

lemma users_http_mapping:
  assumes "rq_URL q = mapping_url c realm (account_id n)" and "n \<in> set (account_names w)" and "\<forall>x \<in> set (account_names w). plain_name x"
  shows "rq_Method q = ''GET'' \<Longrightarrow> users_http c realm init q w = ((200, array_text (map realm_role_object (account_roles w n))), w)"
    and "rq_Method q = ''POST'' \<Longrightarrow> mapped_role w (rq_Body q) = Some r \<Longrightarrow>
      users_http c realm init q w = ((204, ''''), set_account n (r # account_roles w n) w)"
    and "rq_Method q = ''DELETE'' \<Longrightarrow> mapped_role w (rq_Body q) = Some r \<Longrightarrow>
      users_http c realm init q w = ((204, ''''), set_account n (filter (\<lambda>x. x \<noteq> r) (account_roles w n)) w)"
proof -
  have 1: "find (\<lambda>x. mapping_url c realm (account_id n) = user_url c realm (account_id x)) (account_names w) = None"
    using assms(3) mapping_not_user unfolding find_None_iff by blast
  note [simp] = users_http_def Let_def assms(1,2) 1 and [simp del] = account_names_set
  show "rq_Method q = ''GET'' \<Longrightarrow> users_http c realm init q w = ((200, array_text (map realm_role_object (account_roles w n))), w)"
    by simp
  show "rq_Method q = ''POST'' \<Longrightarrow> mapped_role w (rq_Body q) = Some r \<Longrightarrow>
      users_http c realm init q w = ((204, ''''), set_account n (r # account_roles w n) w)" by simp
  show "rq_Method q = ''DELETE'' \<Longrightarrow> mapped_role w (rq_Body q) = Some r \<Longrightarrow>
      users_http c realm init q w = ((204, ''''), set_account n (filter (\<lambda>x. x \<noteq> r) (account_roles w n)) w)" by simp
qed

lemma users_http_role:
  assumes "rq_URL q = role_url c realm m"
  shows "m \<in> set (w_roles w) \<Longrightarrow> rq_Method q = ''GET'' \<Longrightarrow>
      users_http c realm init q w = ((200, object_text (realm_role_object m)), w)"
    and "m \<in> set (w_roles w) \<Longrightarrow> rq_Method q = ''DELETE'' \<Longrightarrow> users_http c realm init q w = ((204, ''''), delete_role m w)"
    and "m \<notin> set (w_roles w) \<Longrightarrow> users_http c realm init q w = ((404, ''''), w)"
proof -
  note [simp] = assms users_http_def Let_def find_none
  show "m \<in> set (w_roles w) \<Longrightarrow> rq_Method q = ''GET'' \<Longrightarrow>
      users_http c realm init q w = ((200, object_text (realm_role_object m)), w)" by simp
  show "m \<in> set (w_roles w) \<Longrightarrow> rq_Method q = ''DELETE'' \<Longrightarrow> users_http c realm init q w = ((204, ''''), delete_role m w)"
    by simp
  have "\<not> starts_with (users_url c realm @ ''?username='') (role_url c realm m)"
    by (auto simp: starts_with_iff user_url_defs)
  then show "m \<notin> set (w_roles w) \<Longrightarrow> users_http c realm init q w = ((404, ''''), w)" by simp
qed

lemma users_http_roles: "rq_URL q = roles_url c realm \<Longrightarrow> users_http c realm init q w = roles_http c realm q w"
  by (simp add: users_http_def Let_def find_none)

lemma users_http_search:
  assumes "rq_URL q = search_url c realm n"
  shows "users_http c realm init q w = ((200, array_text (map account_object (filter (contains n) (account_names w)))), w)"
proof -
  have "starts_with (users_url c realm @ ''?username='') (search_url c realm n)"
    "drop (length (users_url c realm) + 10) (search_url c realm n) = n"
    by (simp_all add: search_url_def starts_with_iff)
  with assms show ?thesis by (simp add: users_http_def Let_def find_none)
qed

text \<open>The texts of the server, decoded.\<close>

definition listed_account :: "string \<Rightarrow> KeycloakApiUser" where
  "listed_account n = zero_KeycloakApiUser\<lparr>kau_ID := account_id n, kau_UserName := n\<rparr>"

lemma plain_objects:
  "plain_name n \<Longrightarrow> plain_object (account_object n)" "plain_name n \<Longrightarrow> plain_object (realm_role_object n)"
  using plain_name_chars
  by (simp_all add: plain_object_def account_object_def realm_role_object_def account_id_def realm_role_id_def
      plain_char_def char_code_def)

lemma decode_account_values:
  "decode_KeycloakApiUser (object_value (account_object n)) = Inr (listed_account n)"
  "decode_KeycloakUser (object_value (account_object n)) = Inr (zero_KeycloakUser\<lparr>ku_KeycloakApiUser := Some (listed_account n)\<rparr>)"
  "decode_KeycloakRole (object_value (realm_role_object n)) = Inr (zero_KeycloakRole\<lparr>kr_ID := realm_role_id n, kr_Name := n\<rparr>)"
  by (simp_all add: decode_KeycloakApiUser_def decode_KeycloakUser_def decode_KeycloakRole_def object_value_def
      account_object_def realm_role_object_def listed_account_def store_struct_def KeycloakApiUser_fields_def
      KeycloakUser_fields_def KeycloakRole_fields_def find_field_def store_string_def promote_def
      zero_KeycloakUser_def)

lemma decode_accounts:
  assumes "\<forall>n \<in> set ns. plain_name n"
  shows "Unmarshal (decode_slice (decode_ptr decode_KeycloakUser)) (array_text (map account_object ns)) =
      Inr (map (\<lambda>n. Some (zero_KeycloakUser\<lparr>ku_KeycloakApiUser := Some (listed_account n)\<rparr>)) ns)"
    and "Unmarshal (decode_slice (decode_ptr decode_KeycloakApiUser)) (array_text (map account_object ns)) =
      Inr (map (\<lambda>n. Some (listed_account n)) ns)"
    and "Unmarshal (decode_slice (decode_ptr decode_KeycloakRole)) (array_text (map realm_role_object ns)) =
      Inr (map (\<lambda>n. Some (zero_KeycloakRole\<lparr>kr_ID := realm_role_id n, kr_Name := n\<rparr>)) ns)"
  using assms by (auto intro!: decode_array simp: list_all_iff plain_objects decode_account_values)

definition users_site :: "Client \<Rightarrow> string \<Rightarrow> string list \<Rightarrow> site" where
  "users_site c realm init = \<lparr>s_vars = sample_vars,
     s_files = [(''t/role.json'', role_json), (''t/user.json'', user_json), (''t/user-role.json'', user_role_json_template)],
     s_yaml = (\<lambda>t. Inl (ErrorString ''yaml'')), s_http = users_http c realm init\<rparr>"

lemma users_site_replies:
  assumes "users_http c realm init q w = ((s, b), w')" and "P s" and "Q b" and "dir_of w' = d"
  shows "replies (cluster (users_site c realm init)) dir_of q w P Q d"
proof -
  have "dir_of (w'\<lparr>w_body := b\<rparr>) = d" using assms(4) by (simp add: dir_of_def)
  with assms(1-3) show ?thesis by (simp add: replies_def cluster_def users_site_def)
qed

lemma new_userI: "json_parse json = Some (JObj kvs) \<Longrightarrow> map_of kvs ''username'' = Some (JStr n) \<Longrightarrow> new_user (Some json) = Some n"
  by (simp add: new_user_def)

lemma mapped_roleI:
  "Unmarshal (decode_slice (decode_ptr decode_KeycloakRole)) json = Inr [Some r] \<Longrightarrow>
     dr_roles (dir_of w) (kr_Name r) = Some (kr_ID r) \<Longrightarrow> mapped_role w (Some json) = Some (kr_Name r)"
  by (auto simp: mapped_role_def split: if_split_asm)

lemma stored_account:
  assumes "dr_accounts (dir_of w) n = Some a"
  shows "n \<in> set (account_names w)" and "a = \<lparr>ac_id = account_id n, ac_roles = set (account_roles w n)\<rparr>"
  using assms by (auto simp: account_roles_def)

lemma held_role_plain:
  assumes "plain_directory d" and "dr_accounts d n = Some a" and "m \<in> ac_roles a"
  shows "plain_name m"
proof -
  from plain_directoryD(2) [OF assms(1,2)] assms(3) obtain i where "dr_roles d m = Some i" by blast
  from plain_directoryD(1) [OF assms(1) this] show ?thesis by simp
qed

lemma dir_of_update: "dir_of (w\<lparr>w_body := b\<rparr>) = dir_of w" "dir_of (w\<lparr>w_rand := i\<rparr>) = dir_of w"
  by (simp_all add: dir_of_def)

interpretation user_server: rest_users c realm "cluster (users_site c realm init)" dir_of contains "set init" for c realm init
proof
  fix q :: Request and w n a m i json r and kvs :: "(string \<times> json) list"
  note site = users_site_replies
  have names: "plain_directory (dir_of w) \<Longrightarrow> \<forall>x \<in> set (account_names w). plain_name x"
    using plain_directoryD(2) by fastforce
  show "contains n n" by (rule contains_itself)
  show "replies (cluster (users_site c realm init)) dir_of q w (\<lambda>s. s = 200)
      (\<lambda>b. \<exists>vs us. Unmarshal (decode_slice (decode_ptr decode_KeycloakUser)) b = Inr (map Some vs) \<and>
             map ku_KeycloakApiUser vs = map Some us \<and> lists_accounts us (dir_of w)) (dir_of w)"
    if "rq_Method q = ''GET''" "rq_URL q = users_url c realm" "plain_directory (dir_of w)"
  proof (rule site [OF users_http_base(1) [OF that(2,1)]])
    let ?us = "map listed_account (account_names w)"
    let ?vs = "map (\<lambda>n. zero_KeycloakUser\<lparr>ku_KeycloakApiUser := Some (listed_account n)\<rparr>) (account_names w)"
    have "lists_accounts ?us (dir_of w)"
      by (auto simp: lists_accounts_def listed_account_def zero_KeycloakApiUser_def comp_def image_image)
    moreover have "map ku_KeycloakApiUser ?vs = map Some ?us" by simp
    moreover have "Unmarshal (decode_slice (decode_ptr decode_KeycloakUser)) (array_text (map account_object (account_names w))) = Inr (map Some ?vs)"
      using decode_accounts(1) [OF names [OF that(3)]] by (simp add: comp_def)
    ultimately show "\<exists>vs us. Unmarshal (decode_slice (decode_ptr decode_KeycloakUser)) (array_text (map account_object (account_names w))) =
        Inr (map Some vs) \<and> map ku_KeycloakApiUser vs = map Some us \<and> lists_accounts us (dir_of w)" by blast
  qed simp_all
  show "replies (cluster (users_site c realm init)) dir_of q w (\<lambda>s. s = 200)
      (\<lambda>b. \<exists>us. Unmarshal (decode_slice (decode_ptr decode_KeycloakApiUser)) b = Inr (map Some us) \<and> found contains (dir_of w) n us) (dir_of w)"
    if "rq_URL q = search_url c realm n" "plain_directory (dir_of w)"
  proof (rule site [OF users_http_search [OF that(1)]])
    let ?ns = "filter (contains n) (account_names w)"
    have "found contains (dir_of w) n (map listed_account ?ns)"
      by (auto simp: found_def listed_account_def zero_KeycloakApiUser_def image_image)
    moreover have "Unmarshal (decode_slice (decode_ptr decode_KeycloakApiUser)) (array_text (map account_object ?ns)) = Inr (map Some (map listed_account ?ns))"
      using decode_accounts(2) [of ?ns] names [OF that(2)] by (simp add: comp_def)
    ultimately show "\<exists>us. Unmarshal (decode_slice (decode_ptr decode_KeycloakApiUser)) (array_text (map account_object ?ns)) = Inr (map Some us) \<and>
        found contains (dir_of w) n us" by blast
  qed simp_all
  show "replies (cluster (users_site c realm init)) dir_of q w (\<lambda>s. s = 200)
      (\<lambda>b. \<exists>r. Unmarshal decode_KeycloakRole b = Inr r \<and> kr_ID r = i) (dir_of w)"
    if "rq_URL q = role_url c realm m" "rq_Method q = ''GET''" "plain_directory (dir_of w)" "dr_roles (dir_of w) m = Some i"
  proof (rule site [OF users_http_role(1) [OF that(1) _ that(2)]])
    show "\<exists>r. Unmarshal decode_KeycloakRole (object_text (realm_role_object m)) = Inr r \<and> kr_ID r = i"
      using that(4) plain_directoryD(1) [OF that(3,4)]
      by (simp add: decode_object plain_objects decode_account_values split: if_split_asm)
  qed (use that(4) in \<open>simp_all split: if_split_asm\<close>)
  show "\<exists>a. plain_name (ac_id a) \<and> ac_roles a = set init \<inter> dom (dr_roles (dir_of w)) \<and>
      replies (cluster (users_site c realm init)) dir_of q w (\<lambda>s. s = 201) (\<lambda>b. True) (with_account (dir_of w) n (Some a))"
    if "rq_Method q = ''POST''" "rq_URL q = users_url c realm" "rq_Body q = Some json" "json_parse json = Some (JObj kvs)"
      "map_of kvs ''username'' = Some (JStr n)" "account_name n" "dr_accounts (dir_of w) n = None"
  proof (intro exI conjI)
    let ?rs = "filter (\<lambda>r. r \<in> set (w_roles w)) init"
    show "plain_name (ac_id \<lparr>ac_id = account_id n, ac_roles = set ?rs\<rparr>)"
      using account_name_plain [OF that(6)] by (simp add: plain_name_def account_id_def is_alnum_def char_code_def)
    show "replies (cluster (users_site c realm init)) dir_of q w (\<lambda>s. s = 201) (\<lambda>b. True)
        (with_account (dir_of w) n (Some \<lparr>ac_id = account_id n, ac_roles = set ?rs\<rparr>))"
      by (rule site [OF users_http_base(2) [OF that(2,1)]]) (use that(3-5,7) in \<open>simp_all add: new_userI set_account_dir domIff\<close>)
  qed (auto simp: dom_def)
  show "replies (cluster (users_site c realm init)) dir_of q w (\<lambda>s. s = 204) (\<lambda>b. True) (with_account (dir_of w) n None)"
    if "rq_URL q = user_url c realm (ac_id a)" "dr_accounts (dir_of w) n = Some a"
    by (rule site [OF users_http_user]) (use that stored_account [OF that(2)] in \<open>simp_all add: delete_account_dir\<close>)
  show "replies (cluster (users_site c realm init)) dir_of q w (\<lambda>s. s = 200)
      (\<lambda>b. \<exists>rs. Unmarshal (decode_slice (decode_ptr decode_KeycloakRole)) b = Inr (map Some rs) \<and> kr_Name ` set rs = ac_roles a) (dir_of w)"
    if "rq_Method q = ''GET''" "rq_URL q = mapping_url c realm (ac_id a)" "plain_directory (dir_of w)" "dr_accounts (dir_of w) n = Some a"
  proof (rule site [OF users_http_mapping(1) [OF _ stored_account(1) [OF that(4)] names [OF that(3)] that(1)]])
    have "\<forall>m \<in> set (account_roles w n). plain_name m"
      using held_role_plain [OF that(3,4)] stored_account(2) [OF that(4)] by simp
    then show "\<exists>rs. Unmarshal (decode_slice (decode_ptr decode_KeycloakRole)) (array_text (map realm_role_object (account_roles w n))) =
        Inr (map Some rs) \<and> kr_Name ` set rs = ac_roles a"
      using stored_account(2) [OF that(4)]
      by (intro exI [of _ "map (\<lambda>m. zero_KeycloakRole\<lparr>kr_ID := realm_role_id m, kr_Name := m\<rparr>) (account_roles w n)"])
         (simp add: decode_accounts(3) comp_def image_image)
  qed (use that(2) stored_account(2) [OF that(4)] in simp_all)
  show "replies (cluster (users_site c realm init)) dir_of q w (\<lambda>s. s = 204) (\<lambda>b. True)
      (with_account (dir_of w) n (Some (a\<lparr>ac_roles := insert (kr_Name r) (ac_roles a)\<rparr>)))"
    if "rq_Method q = ''POST''" "rq_URL q = mapping_url c realm (ac_id a)" "plain_directory (dir_of w)" "dr_accounts (dir_of w) n = Some a"
      "rq_Body q = Some json" "Unmarshal (decode_slice (decode_ptr decode_KeycloakRole)) json = Inr [Some r]" "dr_roles (dir_of w) (kr_Name r) = Some (kr_ID r)"
    by (rule site [OF users_http_mapping(2) [OF _ stored_account(1) [OF that(4)] names [OF that(3)] that(1), where r = "kr_Name r"]])
       (use that(2,5-) mapped_roleI [OF that(6,7)] stored_account(2) [OF that(4)] in \<open>simp_all add: set_account_dir\<close>)
  show "replies (cluster (users_site c realm init)) dir_of q w (\<lambda>s. s = 204) (\<lambda>b. True)
      (with_account (dir_of w) n (Some (a\<lparr>ac_roles := ac_roles a - {kr_Name r}\<rparr>)))"
    if "rq_Method q = ''DELETE''" "rq_URL q = mapping_url c realm (ac_id a)" "plain_directory (dir_of w)" "dr_accounts (dir_of w) n = Some a"
      "rq_Body q = Some json" "Unmarshal (decode_slice (decode_ptr decode_KeycloakRole)) json = Inr [Some r]" "dr_roles (dir_of w) (kr_Name r) = Some (kr_ID r)"
    by (rule site [OF users_http_mapping(3) [OF _ stored_account(1) [OF that(4)] names [OF that(3)] that(1), where r = "kr_Name r"]])
       (use that(2,5-) mapped_roleI [OF that(6,7)] stored_account(2) [OF that(4)] in \<open>simp_all add: set_account_dir set_diff_eq\<close>)
qed (simp_all add: cluster_def dir_of_update)

interpretation user_files: user_templates "cluster (users_site c realm init)" "''t''" for c realm init
  by unfold_locales (simp_all add: cluster_def users_site_def sample_vars_def)

interpretation user_loop: user_reconciler "client_interface c" realm "cluster (users_site c realm init)" dir_of contains "set init" "''t''"
  for c realm init
  by unfold_locales

subsection \<open>The reconciliation of users\<close>



end
