(* ===== verification/RealmReconcile.thy ===== *)
theory RealmReconcile
  imports UserServer
begin


text \<open>
  Roles and users of one realm together: the phase Reconcile of an RhpamUser resource first brings the
  roles in line, then the users. The server keeps both in one directory; deleting a role takes
  it from the accounts. \<^theory_text>\<open>rest_realm\<close> adds the requests about roles to the contract of
  theory UserServer; it gives the contract of theory RoleServer with the directory as the state.
\<close>

subsection \<open>Roles of the directory\<close>

definition without_role :: "directory \<Rightarrow> string \<Rightarrow> directory" where
  "without_role d n = \<lparr>dr_roles = (dr_roles d)(n := None),
     dr_accounts = (\<lambda>m. map_option (\<lambda>a. a\<lparr>ac_roles := ac_roles a - {n}\<rparr>) (dr_accounts d m))\<rparr>"

definition role_names_of :: "directory \<Rightarrow> string set" where
  "role_names_of d = dom (dr_roles d)"

definition role_added :: "string \<Rightarrow> directory \<Rightarrow> directory \<Rightarrow> bool" where
  "role_added n d d' \<longleftrightarrow> plain_name n \<and> (\<exists>i. plain_name i \<and> d' = d\<lparr>dr_roles := (dr_roles d)(n \<mapsto> i)\<rparr>)"

definition role_removed :: "string \<Rightarrow> directory \<Rightarrow> directory \<Rightarrow> bool" where
  "role_removed n d d' \<longleftrightarrow> d' = without_role d n"

lemma without_role_simps [simp]:
  "dr_roles (without_role d n) = (dr_roles d)(n := None)"
  "held (without_role d n) m = map_option (\<lambda>R. R - {n}) (held d m)"
  "dr_accounts (without_role d n) m = map_option (\<lambda>a. a\<lparr>ac_roles := ac_roles a - {n}\<rparr>) (dr_accounts d m)"
  by (simp_all add: without_role_def held_def option.map_comp comp_def)

lemma held_more_roles [simp]: "held (d\<lparr>dr_roles := r\<rparr>) = held d"
  by (rule ext) (simp add: held_def)

lemma plain_role_added: "role_added n d d' \<Longrightarrow> plain_directory d \<Longrightarrow> plain_directory d'"
  by (fastforce simp: role_added_def plain_directory_def split: if_split_asm)

lemma plain_without_role: "plain_directory d \<Longrightarrow> plain_directory (without_role d n)"
  unfolding plain_directory_def by (fastforce split: if_split_asm)

lemma held_roles: "plain_directory d \<Longrightarrow> held d n = Some R \<Longrightarrow> R \<subseteq> role_names_of d"
  using plain_directoryD(2) by (fastforce simp: held_def role_names_of_def)

text \<open>What a sequence of edits does to the accounts: they lose the roles that are gone.\<close>

lemma edits_directory:
  assumes "edits role_added role_removed keep d d'" and "plain_directory d"
  shows "plain_directory d' \<and> role_names_of d' - keep \<subseteq> role_names_of d \<and>
    held d' = (\<lambda>n. map_option (\<lambda>R. R \<inter> (keep \<union> role_names_of d')) (held d n))"
  using assms(1) unfolding edits_def
proof (induction rule: rtranclp_induct)
  case base
  have "map_option (\<lambda>R. R \<inter> (keep \<union> role_names_of d)) (held d n) = held d n" for n
    using held_roles [OF assms(2), of n] by (cases "dr_accounts d n") (auto simp: held_def)
  with assms(2) show ?case by simp
next
  case (step d1 d2)
  then obtain n where n: "if n \<in> keep then role_added n d1 d2 else role_removed n d1 d2" by blast
  from step.IH have p: "plain_directory d1" and sub: "role_names_of d1 - keep \<subseteq> role_names_of d"
    and h: "held d1 = (\<lambda>n. map_option (\<lambda>R. R \<inter> (keep \<union> role_names_of d1)) (held d n))" by auto
  show ?case
  proof (cases "n \<in> keep")
    case True
    with n obtain i where d2: "d2 = d1\<lparr>dr_roles := (dr_roles d1)(n \<mapsto> i)\<rparr>" and a: "role_added n d1 d2"
      by (auto simp: role_added_def)
    then have "role_names_of d2 = insert n (role_names_of d1)" by (simp add: role_names_of_def)
    moreover have "keep \<union> insert n X = keep \<union> X" for X using True by auto
    ultimately show ?thesis using plain_role_added [OF a p] sub True by (auto simp: d2 h)
  next
    case False
    with n have d2: "d2 = without_role d1 n" by (simp add: role_removed_def)
    then have r: "role_names_of d2 = role_names_of d1 - {n}" by (simp add: role_names_of_def)
    have "held d2 x = map_option (\<lambda>R. R \<inter> (keep \<union> role_names_of d2)) (held d x)" for x
      using False by (cases "dr_accounts d x") (auto simp: d2 h r [unfolded d2] held_def [of d])
    then show ?thesis using plain_without_role [OF p] sub by (auto simp: d2 r [unfolded d2])
  qed
qed

subsection \<open>The contract of the server\<close>

locale rest_realm = rest_users +
  assumes GET_role_list: "rq_Method q = ''GET'' \<Longrightarrow> rq_URL q = roles_url c realm \<Longrightarrow> \<forall>n \<in> role_names_of (dir w). plain_name n \<Longrightarrow>
        replies E dir q w (\<lambda>s. s = 200)
          (\<lambda>b. \<exists>rs. Unmarshal (decode_slice (decode_ptr decode_KeycloakRole)) b = Inr (map Some rs) \<and> kr_Name ` set rs = role_names_of (dir w))
          (dir w)"
    and GET_one_role: "rq_Method q = ''GET'' \<Longrightarrow> rq_URL q = role_url c realm n \<Longrightarrow> plain_name n \<Longrightarrow>
        replies E dir q w (\<lambda>s. s = (if n \<in> role_names_of (dir w) then 200 else 404))
          (\<lambda>b. n \<in> role_names_of (dir w) \<longrightarrow> (\<exists>r. Unmarshal decode_KeycloakRole b = Inr r)) (dir w)"
    and POST_new_role: "rq_Method q = ''POST'' \<Longrightarrow> rq_URL q = roles_url c realm \<Longrightarrow> rq_Body q = Some json \<Longrightarrow>
        Unmarshal decode_KeycloakRole json = Inr r \<Longrightarrow> plain_name (kr_Name r) \<Longrightarrow> kr_Name r \<notin> role_names_of (dir w) \<Longrightarrow>
        \<exists>i. plain_name i \<and> replies E dir q w (\<lambda>s. s = 201) (\<lambda>b. True) ((dir w)\<lparr>dr_roles := (dr_roles (dir w))(kr_Name r \<mapsto> i)\<rparr>)"
    and DELETE_old_role: "rq_Method q = ''DELETE'' \<Longrightarrow> rq_URL q = role_url c realm n \<Longrightarrow> plain_name n \<Longrightarrow> n \<in> role_names_of (dir w) \<Longrightarrow>
        replies E dir q w (\<lambda>s. s = 204) (\<lambda>b. True) (without_role (dir w) n)"

sublocale rest_realm \<subseteq> realm_roles: rest_roles c realm E dir role_names_of role_added role_removed
proof
  fix n s s' q w json r
  show "role_added n s s' \<Longrightarrow> role_names_of s' = insert n (role_names_of s)"
    by (auto simp: role_added_def role_names_of_def)
  show "role_removed n s s' \<Longrightarrow> role_names_of s' = role_names_of s - {n}"
    by (auto simp: role_removed_def role_names_of_def)
  show "rq_Method q = ''POST'' \<Longrightarrow> rq_URL q = roles_url c realm \<Longrightarrow> rq_Body q = Some json \<Longrightarrow>
        Unmarshal decode_KeycloakRole json = Inr r \<Longrightarrow> plain_name (kr_Name r) \<Longrightarrow> kr_Name r \<notin> role_names_of (dir w) \<Longrightarrow>
        \<exists>s. role_added (kr_Name r) (dir w) s \<and> replies E dir q w (\<lambda>s. s = 201) (\<lambda>b. True) s"
    using POST_new_role [of q json r w] by (auto simp: role_added_def)
  show "rq_Method q = ''DELETE'' \<Longrightarrow> rq_URL q = role_url c realm n \<Longrightarrow> plain_name n \<Longrightarrow> n \<in> role_names_of (dir w) \<Longrightarrow>
        \<exists>s. role_removed n (dir w) s \<and> replies E dir q w (\<lambda>s. s = 204) (\<lambda>b. True) s"
    using DELETE_old_role [of q n w] by (auto simp: role_removed_def)
qed (rule GET_role_list GET_one_role; assumption)+

subsection \<open>Roles, then users\<close>

locale realm_reconciler = rest_realm + role_templates E path + user_templates E path for path :: string
begin

lemma roles_reconciled: "role_reconciler (client_interface c) realm E dir role_names_of role_added role_removed path"
  by unfold_locales

lemma users_reconciled: "user_reconciler (client_interface c) realm E dir matches initial path"
  by unfold_locales

lemma realm_exec:
  assumes roles: "us_Roles (ru_Spec ru) = map Some ss" and users: "us_Users (ru_Spec ru) = map Some us" and realm: "ru_Realm ru = realm"
    and good: "plain_directory (dir w)" and page: "one_page (dom (dr_accounts (dir w)))"
    and plain: "\<forall>s \<in> set ss. plain_name (role_Name s)"
    and spec: "\<forall>u \<in> set us. account_name (user_Username u) \<and> list_all plain_char (user_Password u) \<and>
        set (user_Roles u) \<subseteq> role_Name ` set ss \<union> (role_names_of (dir w) \<inter> set defaultRoles)"
    and names: "\<forall>n \<in> dom (dr_accounts (dir w)) \<union> user_Username ` set us. \<forall>m \<in> dom (dr_accounts (dir w)) \<union> user_Username ` set us.
        matches n m \<longrightarrow> m = n"
  shows "\<exists>w1 w2. exec E (reconcileRoles (client_interface c) ru) w = (Done (Inr ()), w1) \<and>
    exec E (reconcileUsers (client_interface c) ru) w1 = (Done (Inr ()), w2) \<and>
    role_names_of (dir w2) = role_Name ` set ss \<union> (role_names_of (dir w) \<inter> set defaultRoles) \<and>
    held (dir w2) = target (initial \<inter> role_names_of (dir w2))
      (\<lambda>n. map_option (\<lambda>R. R \<inter> (role_Name ` set ss \<union> set defaultRoles)) (held (dir w) n)) (asked_for us) \<and>
    plain_directory (dir w2)"
proof -
  let ?keep = "role_Name ` set ss \<union> set defaultRoles"
  have "\<forall>n \<in> role_Name ` set ss \<union> role_names_of (dir w). plain_name n"
    using plain plain_directoryD(1) [OF good] by (auto simp: role_names_of_def)
  then obtain w1 where w1: "exec E (reconcileRoles (client_interface c) ru) w = (Done (Inr ()), w1)"
      and e: "edits role_added role_removed ?keep (dir w) (dir w1)"
      and r1: "role_names_of (dir w1) = role_Name ` set ss \<union> (role_names_of (dir w) \<inter> set defaultRoles)"
    using role_reconciler.reconcileRoles_exec [OF roles_reconciled roles realm, of w] by blast
  from edits_directory [OF e good] have good1: "plain_directory (dir w1)"
    and h: "held (dir w1) = (\<lambda>n. map_option (\<lambda>R. R \<inter> (?keep \<union> role_names_of (dir w1))) (held (dir w) n))" by auto
  have "?keep \<union> role_names_of (dir w1) = ?keep" by (auto simp: r1)
  with h have h1: "held (dir w1) = (\<lambda>n. map_option (\<lambda>R. R \<inter> ?keep) (held (dir w) n))" by simp
  then have accounts: "dom (dr_accounts (dir w1)) = dom (dr_accounts (dir w))" by (auto simp: dom_held)
  have "\<forall>u \<in> set us. account_name (user_Username u) \<and> list_all plain_char (user_Password u) \<and> set (user_Roles u) \<subseteq> dom (dr_roles (dir w1))"
    using spec r1 by (auto simp: role_names_of_def)
  from user_reconciler.reconcileUsers_exec [OF users_reconciled users realm good1 page [folded accounts] this] names
  obtain w2 where "exec E (reconcileUsers (client_interface c) ru) w1 = (Done (Inr ()), w2)" "dr_roles (dir w2) = dr_roles (dir w1)"
    "held (dir w2) = target (initial \<inter> dom (dr_roles (dir w1))) (held (dir w1)) (asked_for us)" "plain_directory (dir w2)"
    unfolding accounts by blast
  with w1 r1 h1 show ?thesis by (auto simp: role_names_of_def)
qed

end

subsection \<open>The reference server\<close>

lemma dir_of_delete_role: "dir_of (delete_role m w) = without_role (dir_of w) m"
proof -
  have "map_of (map (\<lambda>(n, rs). (n, filter (\<lambda>x. x \<noteq> m) rs)) as) n = map_option (filter (\<lambda>x. x \<noteq> m)) (map_of as n)"
    for as :: "(string \<times> string list) list" and n
    by (induction as) auto
  then show ?thesis
    by (auto simp: dir_of_def delete_role_def without_role_def fun_eq_iff option.map_comp comp_def set_diff_eq)
qed

lemma dir_of_new_role:
  "dir_of (w\<lparr>w_roles := w_roles w @ [n]\<rparr>) = (dir_of w)\<lparr>dr_roles := (dr_roles (dir_of w))(n \<mapsto> realm_role_id n)\<rparr>"
  by (auto simp: dir_of_def fun_eq_iff)

lemma role_names_dir_of [simp]: "role_names_of (dir_of w) = set (w_roles w)"
  by (auto simp: role_names_of_def split: if_split_asm)

lemma plain_realm_role_id: "plain_name n \<Longrightarrow> plain_name (realm_role_id n)"
  by (simp add: plain_name_def realm_role_id_def is_alnum_def char_code_def)

interpretation realm_server: rest_realm c realm "cluster (users_site c realm init)" dir_of contains "set init" for c realm init
proof
  fix q :: Request and w n json r
  note site = users_site_replies
  let ?E = "cluster (users_site c realm init)"
  show "replies ?E dir_of q w (\<lambda>s. s = 200)
      (\<lambda>b. \<exists>rs. Unmarshal (decode_slice (decode_ptr decode_KeycloakRole)) b = Inr (map Some rs) \<and> kr_Name ` set rs = role_names_of (dir_of w))
      (dir_of w)"
    if "rq_Method q = ''GET''" "rq_URL q = roles_url c realm" "\<forall>n \<in> role_names_of (dir_of w). plain_name n"
  proof (rule site)
    show "users_http c realm init q w = ((200, array_text (map role_object (w_roles w))), w)"
      using that(1,2) by (simp add: users_http_roles roles_http_def)
    show "\<exists>rs. Unmarshal (decode_slice (decode_ptr decode_KeycloakRole)) (array_text (map role_object (w_roles w))) = Inr (map Some rs) \<and>
        kr_Name ` set rs = role_names_of (dir_of w)"
      using that(3) by (intro exI [of _ "map (\<lambda>n. zero_KeycloakRole\<lparr>kr_Name := n\<rparr>) (w_roles w)"])
        (simp add: decode_roles comp_def image_image)
  qed simp_all
  show "replies ?E dir_of q w (\<lambda>s. s = (if n \<in> role_names_of (dir_of w) then 200 else 404))
      (\<lambda>b. n \<in> role_names_of (dir_of w) \<longrightarrow> (\<exists>r. Unmarshal decode_KeycloakRole b = Inr r)) (dir_of w)"
    if "rq_Method q = ''GET''" "rq_URL q = role_url c realm n" "plain_name n"
  proof (cases "n \<in> set (w_roles w)")
    case True
    show ?thesis
    proof (rule site [OF users_http_role(1) [OF that(2) True that(1)]])
      show "n \<in> role_names_of (dir_of w) \<longrightarrow> (\<exists>r. Unmarshal decode_KeycloakRole (object_text (realm_role_object n)) = Inr r)"
        using that(3) by (simp add: decode_object plain_objects decode_account_values)
    qed (simp_all add: True)
  next
    case False
    show ?thesis by (rule site [OF users_http_role(3) [OF that(2) False]]) (simp_all add: False)
  qed
  show "\<exists>i. plain_name i \<and> replies ?E dir_of q w (\<lambda>s. s = 201) (\<lambda>b. True)
      ((dir_of w)\<lparr>dr_roles := (dr_roles (dir_of w))(kr_Name r \<mapsto> i)\<rparr>)"
    if "rq_Method q = ''POST''" "rq_URL q = roles_url c realm" "rq_Body q = Some json" "Unmarshal decode_KeycloakRole json = Inr r"
      "plain_name (kr_Name r)" "kr_Name r \<notin> role_names_of (dir_of w)"
  proof (intro exI conjI)
    show "plain_name (realm_role_id (kr_Name r))" by (rule plain_realm_role_id [OF that(5)])
    show "replies ?E dir_of q w (\<lambda>s. s = 201) (\<lambda>b. True) ((dir_of w)\<lparr>dr_roles := (dr_roles (dir_of w))(kr_Name r \<mapsto> realm_role_id (kr_Name r))\<rparr>)"
    proof (rule site)
      show "users_http c realm init q w = ((201, ''''), w\<lparr>w_roles := w_roles w @ [kr_Name r]\<rparr>)"
        using that by (simp add: users_http_roles roles_http_def)
    qed (simp_all add: dir_of_new_role)
  qed
  show "replies ?E dir_of q w (\<lambda>s. s = 204) (\<lambda>b. True) (without_role (dir_of w) n)"
    if "rq_Method q = ''DELETE''" "rq_URL q = role_url c realm n" "n \<in> role_names_of (dir_of w)"
    by (rule site [OF users_http_role(2) [OF that(2) _ that(1)]]) (use that(3) in \<open>simp_all add: dir_of_delete_role\<close>)
qed

interpretation realm_files: role_templates "cluster (users_site c realm init)" "''t''" for c realm init
  by unfold_locales (simp_all add: cluster_def users_site_def sample_vars_def)

interpretation realm_loop: realm_reconciler c realm "cluster (users_site c realm init)" dir_of contains "set init" "''t''"
  for c realm init
  by unfold_locales

subsection \<open>The phase Reconcile\<close>


definition realm_client :: Client where
  "realm_client = \<lparr>cl_URL = ''https://sso'', cl_token = ''t''\<rparr>"

definition realm_world :: world where
  "realm_world = (sample_world [] [])\<lparr>w_roles := [''admin'', ''guest''],
     w_accounts := [(''adminuser'', [''admin'', ''guest'']), (''kim'', [''guest''])]\<rparr>"

lemma realm_world_logs_in:
  "\<exists>ph' b. exec (cluster (users_site realm_client realm init)) (User_authenticatedClient ph) realm_world =
     (Done (Inr (client_interface realm_client), ph'), realm_world\<lparr>w_body := b\<rparr>)"
proof -
  have "plain_object [(''access_token'', ''t'')]" by code_simp
  then have "Unmarshal decode_TokenResponse (object_text [(''access_token'', ''t'')]) = Inr (zero_TokenResponse\<lparr>tr_AccessToken := ''t''\<rparr>)"
    by (simp add: decode_object decode_TokenResponse_def object_value_def store_struct_def TokenResponse_fields_def
        find_field_def store_string_def)
  then show ?thesis
    by (simp add: User_authenticatedClient_def authenticatedClient_def readSSOSecret_def ReadSSOSecret_def Getenv_def
        AuthenticatedClient_def login_def exec_bind exec_check_err cluster_def users_site_def sample_vars_def realm_world_def
        sample_world_def sample_secret_def lookup_object_def store_key_def object_key_def key_of_def answer_def factory_of_secret_def
        users_http_def token_url_def realm_client_def empty_ObjectMeta_def Let_def zero_TokenResponse_def)
qed

text \<open>The resource of the examples: the role auditor and the user jo.\<close>

definition realm_spec_users :: "User list" where
  "realm_spec_users = [\<lparr>user_Username = ''jo'', user_Password = ''pw'', user_Roles = [''auditor'']\<rparr>]"

lemma realm_world_simps:
  "w_roles realm_world = [''admin'', ''guest'']"
  "w_accounts realm_world = [(''adminuser'', [''admin'', ''guest'']), (''kim'', [''guest''])]"
  by (simp_all add: realm_world_def)

lemma realm_world_plain:
  "list_all plain_name [''admin'', ''guest'', ''auditor'', ''jo'', ''kim'', ''adminuser'', ''r-admin'', ''r-guest'', ''u-adminuser'', ''u-kim'']"
  "list_all plain_char ''pw''" "account_name ''jo''"
  by code_simp+

lemma realm_world_ready:
  defines "u \<equiv> sample_user PhaseReconcile ''r1'' [] None" and "d \<equiv> dir_of realm_world"
  shows "plain_directory d" and "one_page (dom (dr_accounts d) \<union> user_Username ` set realm_spec_users)"
    and "us_Roles (ru_Spec u) = map Some [\<lparr>role_Name = ''auditor''\<rparr>]" and "us_Users (ru_Spec u) = map Some realm_spec_users"
    and "ru_Realm u = ''r1''" and "\<forall>s \<in> set [\<lparr>role_Name = ''auditor''\<rparr>]. plain_name (role_Name s)"
    and "\<forall>u \<in> set realm_spec_users. account_name (user_Username u) \<and> list_all plain_char (user_Password u) \<and>
      set (user_Roles u) \<subseteq> role_Name ` set [\<lparr>role_Name = ''auditor''\<rparr>] \<union> (role_names_of d \<inter> set defaultRoles)"
    and "\<forall>n \<in> dom (dr_accounts d) \<union> user_Username ` set realm_spec_users.
      \<forall>m \<in> dom (dr_accounts d) \<union> user_Username ` set realm_spec_users. contains n m \<longrightarrow> m = n"
    and "role_Name ` set [\<lparr>role_Name = ''auditor''\<rparr>] \<union> (role_names_of d \<inter> set defaultRoles) = {''auditor'', ''admin''}"
    and "held d ''adminuser'' = Some {''admin'', ''guest''}" and "held d ''kim'' = Some {''guest''}" and "held d ''jo'' = None"
proof -
  show "plain_directory d"
    using realm_world_plain by (auto simp: d_def realm_world_simps plain_directory_def realm_role_id_def account_id_def split: if_split_asm)
  have names: "dom (dr_accounts d) \<union> user_Username ` set realm_spec_users = {''adminuser'', ''kim'', ''jo''}"
    by (auto simp: d_def realm_world_simps realm_spec_users_def dom_def split: if_split_asm)
  show "one_page (dom (dr_accounts d) \<union> user_Username ` set realm_spec_users)"
    unfolding names by (simp add: one_page_def)
  show "\<forall>n \<in> dom (dr_accounts d) \<union> user_Username ` set realm_spec_users.
      \<forall>m \<in> dom (dr_accounts d) \<union> user_Username ` set realm_spec_users. contains n m \<longrightarrow> m = n"
    unfolding names by simp
  show "role_Name ` set [\<lparr>role_Name = ''auditor''\<rparr>] \<union> (role_names_of d \<inter> set defaultRoles) = {''auditor'', ''admin''}"
    by (auto simp: d_def realm_world_simps defaultRoles_def)
qed (use realm_world_plain in \<open>auto simp: u_def d_def sample_user_def realm_world_simps realm_spec_users_def held_def\<close>)


end
