(* ===== verification/Convergence.thy ===== *)
theory Convergence
  imports RealmReconcile
begin

text \<open>
  Reconciling the same RhpamUser again and again. The first round leaves new accounts the roles that the
  server gives to every account; the second takes them away, because the account is then compared
  with the resource; after that nothing changes.
\<close>

primrec again :: "'w env \<Rightarrow> 'a io \<Rightarrow> nat \<Rightarrow> 'w \<Rightarrow> 'w" where
  "again E m 0 w = w"
| "again E m (Suc n) w = snd (exec E m (again E m n w))"

lemma dom_target: "dom (target I D S) \<subseteq> dom D \<union> dom S"
  by (auto simp: target_def split: option.split_asm if_split_asm)

lemma target_again:
  "target J (\<lambda>n. map_option (\<lambda>R. R \<inter> K) (target I (\<lambda>n. map_option (\<lambda>R. R \<inter> K) (D n)) S n)) S =
     target {} (\<lambda>n. map_option (\<lambda>R. R \<inter> K) (D n)) S"
  by (rule ext) (auto simp: target_def option.map_comp comp_def split: option.split)

context realm_reconciler
begin

lemma settles:
  assumes spec: "us_Roles (ru_Spec ru) = map Some ss" "us_Users (ru_Spec ru) = map Some us" "ru_Realm ru = realm"
    and good: "plain_directory (dir w)" and page: "one_page (dom (dr_accounts (dir w)) \<union> user_Username ` set us)"
    and plain: "\<forall>s \<in> set ss. plain_name (role_Name s)"
    and users: "\<forall>u \<in> set us. account_name (user_Username u) \<and> list_all plain_char (user_Password u) \<and>
        set (user_Roles u) \<subseteq> role_Name ` set ss \<union> (role_names_of (dir w) \<inter> set defaultRoles)"
    and names: "\<forall>n \<in> dom (dr_accounts (dir w)) \<union> user_Username ` set us. \<forall>m \<in> dom (dr_accounts (dir w)) \<union> user_Username ` set us.
        matches n m \<longrightarrow> m = n"
  defines "K \<equiv> role_Name ` set ss \<union> set defaultRoles"
  defines "D \<equiv> \<lambda>n. map_option (\<lambda>R. R \<inter> K) (held (dir w) n)"
    and "round \<equiv> reconcile_with (client_interface c) ru"
  shows "fst (exec E round (again E round n w)) = Done (Inr ru) \<and>
    role_names_of (dir (again E round (Suc n) w)) = role_Name ` set ss \<union> (role_names_of (dir w) \<inter> set defaultRoles) \<and>
    held (dir (again E round (Suc n) w)) =
      target (if n = 0 then initial \<inter> role_names_of (dir (again E round (Suc n) w)) else {}) D (asked_for us) \<and>
    plain_directory (dir (again E round (Suc n) w))"
proof -
  have rounds: "exec E round v = (Done (Inr ru), v2)"
    if "exec E (reconcileRoles (client_interface c) ru) v = (Done (Inr ()), v1)"
      "exec E (reconcileUsers (client_interface c) ru) v1 = (Done (Inr ()), v2)" for v v1 v2
    using that by (simp add: round_def reconcile_with_def exec_check_err)
  show ?thesis
proof (induction n)
  case 0
  from realm_exec [OF spec good one_page_subset [OF page Un_upper1] plain users names, folded K_def, folded D_def]
  obtain w2 where "exec E round w = (Done (Inr ru), w2)"
    "role_names_of (dir w2) = role_Name ` set ss \<union> (role_names_of (dir w) \<inter> set defaultRoles)"
    "held (dir w2) = target (initial \<inter> role_names_of (dir w2)) D (asked_for us)" "plain_directory (dir w2)"
    by (elim exE conjE) (rule that, erule rounds, assumption+)
  then show ?case by simp
next
  case (Suc n)
  let ?w = "again E round (Suc n) w" and ?R = "role_Name ` set ss \<union> (role_names_of (dir w) \<inter> set defaultRoles)"
  have R: "role_names_of (dir ?w) = ?R" and H: "\<exists>I. held (dir ?w) = target I D (asked_for us)" and p: "plain_directory (dir ?w)"
    using Suc by blast+
  have same: "role_Name ` set ss \<union> (role_names_of (dir ?w) \<inter> set defaultRoles) = ?R" unfolding R by auto
  have "dom (asked_for us) \<subseteq> user_Username ` set us" by (auto simp: asked_for_def dest!: map_of_SomeD)
  moreover have "dom D = dom (dr_accounts (dir w))" by (auto simp: D_def dom_held)
  moreover obtain I where "held (dir ?w) = target I D (asked_for us)" using H by blast
  ultimately have sub: "dom (dr_accounts (dir ?w)) \<union> user_Username ` set us \<subseteq> dom (dr_accounts (dir w)) \<union> user_Username ` set us"
    using dom_target [of I D "asked_for us"] unfolding dom_held [of "dir ?w"] by (simp only:) blast
  have names': "\<forall>n \<in> dom (dr_accounts (dir ?w)) \<union> user_Username ` set us.
      \<forall>m \<in> dom (dr_accounts (dir ?w)) \<union> user_Username ` set us. matches n m \<longrightarrow> m = n"
    by (intro ballI impI) (rule names [rule_format]; (erule subsetD [OF sub] | assumption))
  have page': "one_page (dom (dr_accounts (dir ?w)))"
    by (rule one_page_subset [OF page]) (use sub in blast)
  from realm_exec [OF spec p page' plain users [folded same] names', unfolded same, folded K_def]
  obtain w2 where w2: "exec E round ?w = (Done (Inr ru), w2)" "role_names_of (dir w2) = ?R" "plain_directory (dir w2)"
    "held (dir w2) = target (initial \<inter> role_names_of (dir w2)) (\<lambda>n. map_option (\<lambda>R. R \<inter> K) (held (dir ?w) n)) (asked_for us)"
    by (elim exE conjE) (rule that, erule rounds, assumption+)
  moreover from H have "held (dir w2) = target {} D (asked_for us)"
    unfolding w2(4) D_def by (auto simp: target_again)
  ultimately show ?case by simp
qed
qed

end



end
