(* ===== verification/DroppedErrors.thy ===== *)
theory DroppedErrors
  imports RhpamuserProperties KeycloakProperties RealmReconcile
begin

text \<open>
  Errors of Keycloak that the phases of an RhpamUser lose: \<^theory_text>\<open>Deprovision\<close> never looks at the error
  of listing the roles, and \<^theory_text>\<open>reconcileUser\<close> drops the error of deleting a user.
\<close>

lemma delete_custom_unlisted:
  assumes "runs (kc_ListUsers kc realm) t1 (Done (Inr users))"
    and "runs (for_each users (delete_custom_user kc realm)) t2 (Done (Inr ()))"
    and "runs (kc_ListRoles kc realm) t3 (Done (Inl err))"
  shows "runs (delete_custom kc realm) (t1 @ t2 @ t3) (Done (Inr ()))"
proof -
  have "runs (bind (kc_ListRoles kc realm) (\<lambda>r. for_each (case r of Inl _ \<Rightarrow> [] | Inr roles \<Rightarrow> roles)
      (delete_custom_role kc realm))) t3 (Done (Inr ()))"
    by (rule runs_bindI [OF assms(3), of _ "[]", unfolded append_Nil2]) simp
  with assms(1,2) show ?thesis
    unfolding delete_custom_def runs_check_done_iff by blast
qed

lemma removal_reports_nothing:
  "runs (reconcileUser kc realm kcUser None) t (Done r) \<Longrightarrow> r = Inr ()"
  by (auto simp: reconcileUser_def deref_def runs_bind_iff split: option.split_asm if_split_asm)

text \<open>
  C19. Two errors are lost when an RhpamUser is served. If the roles of the realm cannot be listed, the
  deprovisioning deletes no role at all and nevertheless succeeds: the resource is marked
  deprovisioned, from which it is released. And the removal of an account that the resource does not
  mention never reports an error, whatever Keycloak answers.
\<close>

theorem lost_errors:
  assumes "runs (User_authenticatedClient ph) t0 (Done (Inr kc, ph'))"
    and "runs (kc_ListUsers kc (ru_Realm u)) t1 (Done (Inr users))"
    and "runs (for_each users (delete_custom_user kc (ru_Realm u))) t2 (Done (Inr ()))"
    and "runs (kc_ListRoles kc (ru_Realm u)) t3 (Done (Inl err))"
  shows "runs (User_Deprovision ph u) (t0 @ t1 @ t2 @ t3) (Done ((set_user_phase PhaseDeprovisioned u, None), ph')) \<and>
    (\<forall>kcUser t r. runs (reconcileUser kc (ru_Realm u) kcUser None) t (Done r) \<longrightarrow> r = Inr ())"
proof
  have "runs (bind (delete_custom kc (ru_Realm u)) (\<lambda>d. case d of
      Inl err \<Rightarrow> Return ((u, Some err), ph') | Inr _ \<Rightarrow> Return ((set_user_phase PhaseDeprovisioned u, None), ph')))
    (t1 @ t2 @ t3) (Done ((set_user_phase PhaseDeprovisioned u, None), ph'))"
    by (rule runs_bindI [OF delete_custom_unlisted [OF assms(2-4)], of _ "[]", unfolded append_Nil2]) simp
  then show "runs (User_Deprovision ph u) (t0 @ t1 @ t2 @ t3) (Done ((set_user_phase PhaseDeprovisioned u, None), ph'))"
    unfolding User_Deprovision_def by (intro runs_bindI [OF assms(1)]) simp
qed (blast intro: removal_reports_nothing)

definition refused :: "string \<Rightarrow> event list" where
  "refused path = [ENewRequest ''GET'' (admin_url realm_client path) (Inr ()),
     EHttpDo (get_request realm_client path) (Inr (response 403)), ECloseBody]"

text \<open>Keycloak lists no user and refuses to list the roles.\<close>

lemma lost_errors_witness:
  "\<exists>t ph'. runs (User_Deprovision User_NewPhaseHandler (sample_user PhaseReconcile ''r1'' [RhpamFinalizer] (Some ''now'')))
     (t @ [ENewRequest ''GET'' (admin_url realm_client ''realms/r1/users'') (Inr ()),
           EHttpDo (get_request realm_client ''realms/r1/users'') (Inr (response 200)),
           EReadBody (Inr ''[]''), ECloseBody] @ refused ''realms/r1/roles'')
     (Done ((sample_user PhaseDeprovisioned ''r1'' [RhpamFinalizer] (Some ''now''), None), ph'))"
proof -
  let ?u = "sample_user PhaseReconcile ''r1'' [RhpamFinalizer] (Some ''now'')" and ?kc = "client_interface realm_client"
  let ?t1 = "[ENewRequest ''GET'' (admin_url realm_client ''realms/r1/users'') (Inr ()),
           EHttpDo (get_request realm_client ''realms/r1/users'') (Inr (response 200)),
           EReadBody (Inr ''[]''), ECloseBody]"
  have realm: "ru_Realm ?u = ''r1''" by (simp add: sample_user_def)
  have "Unmarshal (decode_slice (decode_ptr decode_KeycloakUser)) ''[]'' = Inr []" by code_simp
  then have users: "runs (kc_ListUsers ?kc (ru_Realm ?u)) ?t1 (Done (Inr []))"
    by (simp add: realm Client_ListUsers_def list_all_of_def get_request_def response_def)
  have roles: "\<exists>err. runs (kc_ListRoles ?kc (ru_Realm ?u)) (refused ''realms/r1/roles'') (Done (Inl err))"
    by (simp add: realm refused_def Client_ListRoles_def list_all_of_def get_request_def response_def)
  obtain t0 ph' where login: "runs (User_authenticatedClient User_NewPhaseHandler) t0 (Done (Inr ?kc, ph'))"
    using realm_world_logs_in [of "''r1''" "[]" User_NewPhaseHandler] exec_runs by (metis fst_conv)
  have none: "runs (for_each [] (delete_custom_user ?kc (ru_Realm ?u))) [] (Done (Inr ()))" by simp
  have "set_user_phase PhaseDeprovisioned ?u = sample_user PhaseDeprovisioned ''r1'' [RhpamFinalizer] (Some ''now'')"
    by (simp add: sample_user_def setter_defs)
  with roles lost_errors [OF login users none] show ?thesis by fastforce
qed

end
