(* ===== verification/WorkBounds.thy ===== *)
theory WorkBounds
  imports RhpamdevProperties
begin


text \<open>
  How much one reconciliation of an RhpamDev can ask of Keycloak and of the API server, in any
  environment: \<^theory_text>\<open>at_most f n m\<close> bounds the calls of one kind that a run of \<^theory_text>\<open>m\<close> makes,
  and the bounds add up along the code.
\<close>

definition at_most :: "(event list \<Rightarrow> 'b list) \<Rightarrow> nat \<Rightarrow> 'a io \<Rightarrow> bool" where
  "at_most f n m \<longleftrightarrow> (\<forall>t out. runs m t out \<longrightarrow> length (f t) \<le> n)"

definition counts :: "(event list \<Rightarrow> 'b list) \<Rightarrow> bool" where
  "counts f \<longleftrightarrow> (f [] = [] \<and> (\<forall>t u. f (t @ u) = f t @ f u))"

lemma counts_calls [simp]: "counts requests" "counts created" "counts deleted" "counts dev_writes" "counts user_writes"
  by (simp_all add: counts_def)

lemma at_mostI: "(\<And>t out. runs m t out \<Longrightarrow> length (f t) \<le> n) \<Longrightarrow> at_most f n m"
  by (simp add: at_most_def)

lemma at_mostD: "at_most f n m \<Longrightarrow> runs m t out \<Longrightarrow> length (f t) \<le> n"
  unfolding at_most_def by blast

lemma at_most_mono: "at_most f k m \<Longrightarrow> k \<le> n \<Longrightarrow> at_most f n m"
  by (auto simp: at_most_def intro: le_trans)

lemma at_most_Return [simp]: "counts f \<Longrightarrow> at_most f n (Return a)"
  by (auto simp: at_most_def counts_def)

lemma at_most_Panic [simp]: "counts f \<Longrightarrow> at_most f n (Panic s)"
  by (auto simp: at_most_def counts_def)

lemma at_most_none:
  assumes "guarantees P m Q" and "\<And>t. list_all P t \<Longrightarrow> f t = []"
  shows "at_most f n m"
  using assms runs_list_all by (fastforce simp: at_most_def)

lemma at_most_bind:
  assumes "counts f" and "at_most f n m" and "guarantees P m R" and "\<And>x. R x \<Longrightarrow> at_most f k (g x)"
  shows "at_most f (n + k) (bind m g)"
proof (rule at_mostI)
  fix t out
  assume "runs (bind m g) t out"
  then consider x t1 t2 where "runs m t1 (Done x)" "runs (g x) t2 out" "t = t1 @ t2" | s where "runs m t (Panicked s)"
    by (auto simp: runs_bind_iff)
  then show "length (f t) \<le> n + k"
  proof cases
    case 1
    with at_mostD [OF assms(2)] at_mostD [OF assms(4)] runs_result [OF assms(3)] assms(1)
    show ?thesis by (fastforce simp: counts_def intro: add_mono)
  qed (use at_mostD [OF assms(2)] in \<open>fastforce intro: trans_le_add1\<close>)
qed

lemma at_most_bind_any:
  assumes "counts f" and "at_most f n m" and "\<And>x. at_most f k (g x)"
  shows "at_most f (n + k) (bind m g)"
  by (rule at_most_bind [OF assms(1,2), where P = "\<lambda>_. True" and R = "\<lambda>_. True"])
     (simp_all add: assms(3) guarantees_def list_all_iff)

lemma at_most_then:
  assumes "counts f" and "at_most f n m" and "\<And>x. at_most f 0 (g x)"
  shows "at_most f n (bind m g)"
  using at_most_bind_any [OF assms] by simp

lemma at_most_check:
  assumes "counts f" and "at_most f n m" and "\<And>x. at_most f k (g x)"
  shows "at_most f (n + k) (check_err h m g)"
  unfolding check_err_def
  by (rule at_most_bind_any [OF assms(1,2)]) (auto split: sum.split simp: assms(1,3))

lemma at_most_writes:
  assumes "\<And>u. at_most f n (g u)" and "\<And>u t. f (EUpdateRhpamDev d u # t) = f t"
  shows "at_most f n (UpdateRhpamDev d g)"
  using at_mostD [OF assms(1)] assms(2) by (auto intro!: at_mostI)

lemma at_most_for_each:
  assumes "counts f" and "\<And>x. at_most f n (g x)"
  shows "at_most f (n * length xs) (for_each xs g)"
proof (induction xs)
  case (Cons x xs)
  from at_most_check [OF assms(1) assms(2) Cons] show ?case by simp
qed (simp add: assms(1))

subsection \<open>Keycloak\<close>

text \<open>Every method of the client sends one request.\<close>

lemma methods_send_one:
  "at_most requests 1 (create c j p n s)" "at_most requests 1 (get c p n f)" "at_most requests 1 (delete c p n)"
  "at_most requests 1 (list_all_of c p n f)"
  by (auto simp: at_most_def request_defs runs_branch_iff split: if_splits)

lemma methods_create_nothing:
  "at_most created 0 (create c j p n s)" "at_most created 0 (get c p n f)" "at_most created 0 (delete c p n)"
  "at_most created 0 (list_all_of c p n f)"
  by (auto simp: at_most_def request_defs runs_branch_iff split: if_splits)

lemma login_sends_one: "at_most requests 1 (Dev_authenticatedClient ph)" "at_most created 0 (Dev_authenticatedClient ph)"
  by (auto simp: at_most_def Dev_authenticatedClient_def authenticatedClient_def readSSOSecret_def ReadSSOSecret_def Getenv_def
      AuthenticatedClient_def login_def Let_def runs_bind_iff runs_check_err_iff runs_branch_iff split: if_splits)

text \<open>Reading a template or the clock asks nobody.\<close>

lemma reading_asks_nobody:
  "at_most requests 0 (generateToken n)" "at_most created 0 (generateToken n)"
  "at_most requests 0 NewRealmHelper" "at_most created 0 NewRealmHelper"
  "at_most requests 0 (LoadRealmTemplate h a)" "at_most created 0 (LoadRealmTemplate h a)"
  "at_most requests 0 (LoadRealmClientTemplate h b)" "at_most created 0 (LoadRealmClientTemplate h b)"
  "at_most requests 0 newConfigmapHelper" "at_most created 0 newConfigmapHelper"
  "at_most requests 0 (ConfigmapHelper_data c names)" "at_most created 0 (ConfigmapHelper_data c names)"
  "at_most requests 0 (find_client_id cs i)" "at_most created 0 (find_client_id cs i)"
proof -
  show "at_most requests 0 (generateToken n)" "at_most created 0 (generateToken n)"
    by (rule at_most_none [OF generateToken_internal]; simp)+
  show "at_most requests 0 (ConfigmapHelper_data c names)" "at_most created 0 (ConfigmapHelper_data c names)"
    unfolding ConfigmapHelper_data_def by (rule at_most_none [OF data_loop_internal]; simp)+
  show "at_most requests 0 (find_client_id cs i)" "at_most created 0 (find_client_id cs i)"
    by (induction cs) (auto simp: deref_def split: option.split)
qed (auto simp: at_most_def NewRealmHelper_def templatePath_def Getenv_def LoadRealmTemplate_def LoadRealmClientTemplate_def
      loadTemplate_render newConfigmapHelper_def runs_bind_iff runs_branch_iff split: if_splits)

lemma installing_asks:
  "at_most requests 0 (createSecret ph d name data)" "at_most created 1 (createSecret ph d name data)"
  "at_most requests 0 (createConfigmap ph d name data)" "at_most created 1 (createConfigmap ph d name data)"
  by (auto simp: at_most_def createSecret_def createConfigmap_def Let_def runs_branch_iff)

lemma createResource_asks: "at_most requests 0 (createResource ph d res)" "at_most created 1 (createResource ph d res)"
proof -
  have "at_most requests 0 (newResourceHelper d)" "at_most created 0 (newResourceHelper d)"
    by (rule at_most_none [OF newResourceHelper_internal]; simp)+
  moreover have "at_most requests 0 (ResourceHelper_createResource h res)" "at_most created 0 (ResourceHelper_createResource h res)" for h
    by (rule at_most_none [OF ResourceHelper_createResource_internal]; simp)+
  moreover have "at_most requests 0 (GetObject g k (\<lambda>r. case r of Inr _ \<Rightarrow> Return (Inr ()) | Inl err \<Rightarrow>
        if \<not> IsNotFound err then Return (Inl (e err)) else (case q of Inl err \<Rightarrow> Return (Inl (e' err))
        | Inr ob \<Rightarrow> CreateObject ob (\<lambda>r. case r of Inl err \<Rightarrow> Return (Inl (e'' err)) | Inr _ \<Rightarrow> Return (Inr ())))))"
    "at_most created 1 (GetObject g k (\<lambda>r. case r of Inr _ \<Rightarrow> Return (Inr ()) | Inl err \<Rightarrow>
        if \<not> IsNotFound err then Return (Inl (e err)) else (case q of Inl err \<Rightarrow> Return (Inl (e' err))
        | Inr ob \<Rightarrow> CreateObject ob (\<lambda>r. case r of Inl err \<Rightarrow> Return (Inl (e'' err)) | Inr _ \<Rightarrow> Return (Inr ())))))"
    for g k e e' e'' and q :: "Object result"
    by (auto simp: at_most_def runs_branch_iff split: if_splits)
  ultimately show "at_most requests 0 (createResource ph d res)" "at_most created 1 (createResource ph d res)"
    unfolding createResource_def
    by - (rule at_most_mono, (rule at_most_check at_most_bind_any counts_calls | assumption)+, simp)+
qed

lemma createResources_asks:
  "at_most requests 0 (createResources ph d ress)" "at_most created (length ress) (createResources ph d ress)"
  using at_most_for_each [OF counts_calls(1) createResource_asks(1)] at_most_for_each [OF counts_calls(2) createResource_asks(2)]
  by (simp_all add: createResources_def)

lemma at_most_done: "counts f \<Longrightarrow> at_most f 0 (Return a)"
  by simp

lemmas asks = methods_send_one methods_create_nothing reading_asks_nobody installing_asks createResources_asks

lemma phases_create:
  "at_most created 1 (Dev_Prepare ph d)" "at_most created 5 (InstallDatabase ph d)" "at_most created 4 (InstallBusinessCentral ph d)"
  "at_most created 3 (InstallKieServer ph d)"
  "at_most requests 0 (Dev_Prepare ph d)" "at_most requests 0 (InstallDatabase ph d)" "at_most requests 0 (InstallBusinessCentral ph d)"
  "at_most requests 0 (InstallKieServer ph d)"
  unfolding Dev_Prepare_def InstallDatabase_def InstallBusinessCentral_def InstallKieServer_def Let_def
  by (rule at_most_mono, (rule at_most_check at_most_bind_any counts_calls asks at_most_done)+, simp)+

lemma getClientSecret_asks:
  "at_most requests 2 (getClientSecret (client_interface c) realm i)" "at_most created 0 (getClientSecret (client_interface c) realm i)"
  unfolding getClientSecret_def client_interface_simps Client_ListClients_def Client_GetClientSecret_def
  by (rule at_most_mono, (rule at_most_check at_most_bind_any counts_calls asks at_most_done)+, simp)+

lemma createRealmClient_asks:
  "at_most requests 1 (createRealmClient (client_interface c) h realm ps)" "at_most created 0 (createRealmClient (client_interface c) h realm ps)"
  unfolding createRealmClient_def client_interface_simps Client_CreateClient_def
  by (rule at_most_mono, (rule at_most_check at_most_bind_any counts_calls asks at_most_done)+, simp)+

lemma provision_with_asks:
  "at_most requests 8 (provision_with ph (client_interface c) d)" "at_most created 2 (provision_with ph (client_interface c) d)"
  unfolding provision_with_def client_interface_simps Client_CreateRealm_def Let_def createRealmSecret_def
  by (rule at_most_mono, (rule at_most_check at_most_bind_any counts_calls asks getClientSecret_asks createRealmClient_asks at_most_done)+, simp)+

text \<open>Who is logged in uses the methods of the client.\<close>

lemma authenticated_client:
  "guarantees (\<lambda>_. True) (Dev_authenticatedClient ph) (\<lambda>(r, ph'). \<forall>kc. r = Inr kc \<longrightarrow> (\<exists>c. kc = client_interface c))"
  by (auto simp: guarantees_def list_all_iff Dev_authenticatedClient_def authenticatedClient_def AuthenticatedClient_def
      runs_bind_iff runs_check_err_iff runs_branch_iff split: sum.splits)

lemma ProvisionRealm_asks: "at_most requests 9 (ProvisionRealm ph d)" "at_most created 2 (ProvisionRealm ph d)"
proof -
  let ?rest = "\<lambda>x (r, ph). case r of Inl err \<Rightarrow> Return (Inl err, ph)
     | Inr ssoClient \<Rightarrow> bind (provision_with ph ssoClient x) (\<lambda>res. Return (res, ph))"
  have "at_most requests 8 (?rest x v)" "at_most created 2 (?rest x v)"
    if "case v of (r, ph') \<Rightarrow> \<forall>kc. r = Inr kc \<longrightarrow> (\<exists>c. kc = client_interface c)"
    for x and v :: "KeycloakInterface result \<times> DevPhaseHandler"
    using that by (auto split: sum.split prod.split intro!: at_most_then provision_with_asks)
  note rest = this
  have "at_most requests (1 + 8) (bind (Dev_authenticatedClient ph) (?rest x))" for x
    by (rule at_most_bind [OF counts_calls(1) login_sends_one(1) authenticated_client]) (rule rest)
  moreover have "at_most created (0 + 2) (bind (Dev_authenticatedClient ph) (?rest x))" for x
    by (rule at_most_bind [OF counts_calls(2) login_sends_one(2) authenticated_client]) (rule rest)
  ultimately show "at_most requests 9 (ProvisionRealm ph d)" "at_most created 2 (ProvisionRealm ph d)"
    unfolding ProvisionRealm_def update_dropping_error_def by (simp_all add: at_most_writes numeral_2_eq_2)
qed

subsection \<open>One reconciliation\<close>

lemma handleResult_asks:
  "at_most requests 0 (bind (Dev_handleResult r) (\<lambda>res. Return (res, h)))"
  "at_most created 0 (bind (Dev_handleResult r) (\<lambda>res. Return (res, h)))"
  by (auto simp: at_most_def Dev_handleResult_def runs_bind_iff runs_branch_iff)

lemma handled_asks:
  assumes "at_most f n m" and "counts f" and "\<And>r. at_most f 0 (bind (Dev_handleResult r) (\<lambda>res. Return (res, h)))"
  shows "at_most f n (bind m (\<lambda>r. bind (Dev_handleResult r) (\<lambda>res. Return (res, h))))"
  by (rule at_most_then [OF assms(2,1,3)])

lemma ProvisionRealm_handled_asks:
  "at_most requests 9 (bind (ProvisionRealm ph d) (\<lambda>(r, ph). bind (Dev_handleResult r) (\<lambda>res. Return (res, ph))))"
  "at_most created 2 (bind (ProvisionRealm ph d) (\<lambda>(r, ph). bind (Dev_handleResult r) (\<lambda>res. Return (res, ph))))"
  by (rule at_most_then [OF _ ProvisionRealm_asks(1)] at_most_then [OF _ ProvisionRealm_asks(2)];
      auto simp: handleResult_asks split: prod.split)+

lemma WaitForDatabase_asks:
  "at_most requests 0 (bind (WaitForDatabase d) (\<lambda>r. case r of
          Inr (False, rhpamState) \<Rightarrow> Return ((\<lparr>rr_Requeue = True\<rparr>, None), ph)
        | Inr (True, rhpamState) \<Rightarrow> bind (Dev_handleResult (Inr rhpamState)) (\<lambda>res. Return (res, ph))
        | Inl err \<Rightarrow> bind (Dev_handleResult (Inl err)) (\<lambda>res. Return (res, ph))))"
  "at_most created 0 (bind (WaitForDatabase d) (\<lambda>r. case r of
          Inr (False, rhpamState) \<Rightarrow> Return ((\<lparr>rr_Requeue = True\<rparr>, None), ph)
        | Inr (True, rhpamState) \<Rightarrow> bind (Dev_handleResult (Inr rhpamState)) (\<lambda>res. Return (res, ph))
        | Inl err \<Rightarrow> bind (Dev_handleResult (Inl err)) (\<lambda>res. Return (res, ph))))"
proof -
  let ?f = "\<lambda>r. case r of
          Inr (False, rhpamState) \<Rightarrow> Return ((\<lparr>rr_Requeue = True\<rparr>, None), ph)
        | Inr (True, rhpamState) \<Rightarrow> bind (Dev_handleResult (Inr rhpamState)) (\<lambda>res. Return (res, ph))
        | Inl err \<Rightarrow> bind (Dev_handleResult (Inl err)) (\<lambda>res. Return (res, ph))"
  have "at_most requests 0 (WaitForDatabase d)" "at_most created 0 (WaitForDatabase d)"
    by (auto simp: at_most_def WaitForDatabase_def isDatabaseReady_def runs_check_err_iff runs_branch_iff)
  moreover have "at_most requests 0 (?f r)" "at_most created 0 (?f r)" for r :: "(bool \<times> RhpamDev) result"
    by (auto simp: handleResult_asks split: sum.split prod.split bool.split)
  ultimately show "at_most requests 0 (bind (WaitForDatabase d) ?f)" and "at_most created 0 (bind (WaitForDatabase d) ?f)"
    by (blast intro: at_most_then counts_calls)+
qed

lemma phase_asks:
  "at_most created 5 (Dev_reconcile_phase ph d)"
  "at_most requests (if dev_Phase d = PhaseAccepted then 9 else 0) (Dev_reconcile_phase ph d)"
  unfolding Dev_reconcile_phase_def Let_def
  by (auto intro!: handled_asks at_most_mono [OF ProvisionRealm_handled_asks(2)] ProvisionRealm_handled_asks(1) WaitForDatabase_asks
      phases_create at_most_mono [OF phases_create(1)] at_most_mono [OF phases_create(3)] at_most_mono [OF phases_create(4)]
      at_most_mono [OF WaitForDatabase_asks(2)] at_most_mono [OF handleResult_asks(2)]
      handleResult_asks simp: phase_consts)

text \<open>Outside deletion nothing is deleted and no RhpamUser is written.\<close>

lemma handleResult_keeps:
  "at_most deleted 0 (bind (Dev_handleResult r) (\<lambda>res. Return (res, h)))"
  "at_most user_writes 0 (bind (Dev_handleResult r) (\<lambda>res. Return (res, h)))"
  by (auto simp: at_most_def Dev_handleResult_def runs_bind_iff runs_branch_iff)

lemma handled_keeps:
  assumes "guarantees keeps_resources m Q"
  shows "at_most deleted 0 (bind m (\<lambda>r. bind (Dev_handleResult r) (\<lambda>res. Return (res, h))))"
    and "at_most user_writes 0 (bind m (\<lambda>r. bind (Dev_handleResult r) (\<lambda>res. Return (res, h))))"
  by (rule at_most_then; simp add: handleResult_keeps at_most_none [OF assms])+

lemma phase_keeps:
  assumes "runs (Dev_reconcile_phase ph d) t out"
  shows "deleted t = [] \<and> user_writes t = []"
  using assms
proof (cases rule: Dev_reconcile_phase_cases)
  case init
  have "guarantees keeps_resources (Return (Dev_Initialize d)) (\<lambda>_. True)" by simp
  from at_mostD [OF handled_keeps(1) [OF this] init(2)] at_mostD [OF handled_keeps(2) [OF this] init(2)] show ?thesis by simp
next
  case provision
  from provision(2) show ?thesis by (rule provisioning_runs) auto
next
  case wait
  let ?f = "\<lambda>r. case r of
          Inr (False, rhpamState) \<Rightarrow> Return ((\<lparr>rr_Requeue = True\<rparr>, None), ph)
        | Inr (True, rhpamState) \<Rightarrow> bind (Dev_handleResult (Inr rhpamState)) (\<lambda>res. Return (res, ph))
        | Inl err \<Rightarrow> bind (Dev_handleResult (Inl err)) (\<lambda>res. Return (res, ph))"
  have "at_most deleted 0 (WaitForDatabase d)" "at_most user_writes 0 (WaitForDatabase d)"
    by (rule at_most_none [OF WaitForDatabase_quiet]; simp)+
  moreover have "at_most deleted 0 (?f r)" "at_most user_writes 0 (?f r)" for r :: "(bool \<times> RhpamDev) result"
    by (auto simp: handleResult_keeps split: sum.split prod.split bool.split)
  ultimately have "at_most deleted 0 (bind (WaitForDatabase d) ?f)" and "at_most user_writes 0 (bind (WaitForDatabase d) ?f)"
    by (blast intro: at_most_then counts_calls)+
  from at_mostD [OF this(1) wait(2)] at_mostD [OF this(2) wait(2)] show ?thesis by simp
next
  case (move m p)
  from at_mostD [OF handled_keeps(1) [OF move(3)] move(4)] at_mostD [OF handled_keeps(2) [OF move(3)] move(4)]
  show ?thesis by simp
qed simp

subsection \<open>Deletion\<close>

text \<open>The users that the API server listed in a run; a deletion writes each of them at most once.\<close>

primrec listed_users :: "event list \<Rightarrow> RhpamUser list" where
  "listed_users [] = []"
| "listed_users (ev # tr) =
     (case ev of EListRhpamUser ns r \<Rightarrow> (case r of Inl e \<Rightarrow> listed_users tr | Inr us \<Rightarrow> us @ listed_users tr)
      | _ \<Rightarrow> listed_users tr)"

lemma listed_users_append [simp]: "listed_users (t @ u) = listed_users t @ listed_users u"
  by (induction t) (auto split: event.split sum.split)

definition writes_listed :: "'a io \<Rightarrow> bool" where
  "writes_listed m \<longleftrightarrow> (\<forall>t out. runs m t out \<longrightarrow> length (user_writes t) \<le> length (listed_users t))"

lemma writes_listedI: "(\<And>t out. runs m t out \<Longrightarrow> length (user_writes t) \<le> length (listed_users t)) \<Longrightarrow> writes_listed m"
  by (simp add: writes_listed_def)

lemma writes_listedD: "writes_listed m \<Longrightarrow> runs m t out \<Longrightarrow> length (user_writes t) \<le> length (listed_users t)"
  unfolding writes_listed_def by blast

lemma writes_listed_none: "at_most user_writes 0 m \<Longrightarrow> writes_listed m"
  by (rule writes_listedI) (drule (1) at_mostD, simp)

lemma writes_listed_bind:
  assumes "writes_listed m" and "guarantees P m R" and "\<And>x. R x \<Longrightarrow> writes_listed (g x)"
  shows "writes_listed (bind m g)"
proof (rule writes_listedI)
  fix t out
  assume "runs (bind m g) t out"
  then consider x t1 t2 where "runs m t1 (Done x)" "runs (g x) t2 out" "t = t1 @ t2" | s where "runs m t (Panicked s)"
    by (auto simp: runs_bind_iff)
  then show "length (user_writes t) \<le> length (listed_users t)"
  proof cases
    case 1
    with writes_listedD [OF assms(1) 1(1)] writes_listedD [OF assms(3) 1(2)] runs_result [OF assms(2) 1(1)] show ?thesis by simp
  qed (rule writes_listedD [OF assms(1)])
qed

lemma writes_listed_bind_any: "writes_listed m \<Longrightarrow> (\<And>x. writes_listed (g x)) \<Longrightarrow> writes_listed (bind m g)"
  by (rule writes_listed_bind [where P = "\<lambda>_. True" and R = "\<lambda>_. True"]) (simp_all add: guarantees_def list_all_iff)

lemma retire_listed:
  "writes_listed (ListRhpamUser ns (\<lambda>r. case r of Inl err \<Rightarrow> Return (Inl err)
     | Inr items \<Rightarrow> retire_users realm items (delete_assets ns as (Return x))))"
proof (rule writes_listedI)
  fix t out
  assume "runs (ListRhpamUser ns (\<lambda>r. case r of Inl err \<Rightarrow> Return (Inl err)
     | Inr items \<Rightarrow> retire_users realm items (delete_assets ns as (Return x)))) t out"
  then consider e where "t = [EListRhpamUser ns (Inl e)]"
    | us t' where "t = EListRhpamUser ns (Inr us) # t'" "runs (retire_users realm us (delete_assets ns as (Return x))) t' out"
    by (auto simp: runs_branch_iff)
  then show "length (user_writes t) \<le> length (listed_users t)"
  proof cases
    case (2 us t')
    from 2(2) have "user_writes t' = map (set_user_phase PhaseDeprovisioned) (filter (\<lambda>u. ru_Realm u = realm) us)"
      by (rule retire_users_runs) (erule delete_assets_runs, simp)
    with 2(1) show ?thesis by (simp add: trans_le_add1)
  qed simp
qed

lemma deletion_writes_listed: "writes_listed (Dev_reconcile_deletion ph d)"
proof -
  have quiet_delete: "at_most user_writes 0 (delete c p n)" for c p n
    by (auto simp: at_most_def request_defs runs_branch_iff split: if_splits)
  have step: "writes_listed (deprovision_with (client_interface c) d)" for c
    unfolding deprovision_with_def client_interface_simps Client_DeleteRealm_def check_err_def
    by (rule writes_listed_bind_any [OF writes_listed_none [OF quiet_delete]])
       (auto split: sum.split intro: retire_listed writes_listed_none)
  have step': "writes_listed (bind (deprovision_with (client_interface c) d) (\<lambda>res. Return (res, h)))" for c and h :: DevPhaseHandler
    by (rule writes_listed_bind_any [OF step]) (rule writes_listed_none, simp)
  have "at_most user_writes 0 (Dev_authenticatedClient ph)"
    by (rule at_most_none [OF Dev_authenticatedClient_quiet]) simp
  then have "writes_listed (Dev_Deprovision ph d)"
    unfolding Dev_Deprovision_def
    by (intro writes_listed_bind [OF writes_listed_none authenticated_client])
       (auto split: sum.split prod.split intro: step' writes_listed_none)
  then show ?thesis
    unfolding Dev_reconcile_deletion_def
    by (intro writes_listed_bind_any) (auto split: prod.split intro: writes_listed_none handleResult_keeps)
qed


lemma retire_users_asks:
  "at_most requests n k \<Longrightarrow> at_most requests n (retire_users realm us k)"
  "at_most created n k \<Longrightarrow> at_most created n (retire_users realm us k)"
  "at_most deleted n k \<Longrightarrow> at_most deleted n (retire_users realm us k)"
  "at_most dev_writes n k \<Longrightarrow> at_most dev_writes n (retire_users realm us k)"
  by (induction us; auto intro!: at_mostI dest: at_mostD)+

lemma delete_assets_asks:
  "at_most requests n k \<Longrightarrow> at_most requests n (delete_assets ns as k)"
  "at_most created n k \<Longrightarrow> at_most created n (delete_assets ns as k)"
  "at_most deleted n k \<Longrightarrow> at_most deleted (n + length as) (delete_assets ns as k)"
  "at_most dev_writes n k \<Longrightarrow> at_most dev_writes n (delete_assets ns as k)"
  by (induction as; fastforce intro!: at_mostI dest: at_mostD)+

lemma at_most_list:
  assumes "\<And>r. at_most f n (g r)" and "\<And>r t. f (EListRhpamUser ns r # t) = f t"
  shows "at_most f n (ListRhpamUser ns g)"
  using at_mostD [OF assms(1)] assms(2) by (auto intro!: at_mostI)

lemma at_most_case_result: "(\<And>e. at_most f n (g e)) \<Longrightarrow> (\<And>x. at_most f n (h x)) \<Longrightarrow> at_most f n (case r of Inl e \<Rightarrow> g e | Inr x \<Rightarrow> h x)"
  by (cases r) simp_all

lemma deprovision_with_asks:
  "at_most requests 1 (deprovision_with (client_interface c) d)" "at_most created 0 (deprovision_with (client_interface c) d)"
  "at_most deleted 15 (deprovision_with (client_interface c) d)" "at_most dev_writes 0 (deprovision_with (client_interface c) d)"
proof -
  have q: "at_most deleted 0 (delete c p n)" "at_most dev_writes 0 (delete c p n)" for p n
    by (auto simp: at_most_def request_defs runs_branch_iff split: if_splits)
  have list: "requests (EListRhpamUser ns r # t) = requests t" "created (EListRhpamUser ns r # t) = created t"
    "deleted (EListRhpamUser ns r # t) = deleted t" "dev_writes (EListRhpamUser ns r # t) = dev_writes t" for ns r t by simp_all
  note rules = at_most_check list counts_calls methods_send_one methods_create_nothing q at_most_list at_most_case_result retire_users_asks
    delete_assets_asks at_most_done at_most_Return
  have "length deprovision_assets = 15" by (simp add: deprovision_assets_def)
  then show "at_most requests 1 (deprovision_with (client_interface c) d)" "at_most created 0 (deprovision_with (client_interface c) d)"
    "at_most deleted 15 (deprovision_with (client_interface c) d)" "at_most dev_writes 0 (deprovision_with (client_interface c) d)"
    unfolding deprovision_with_def client_interface_simps Client_DeleteRealm_def
    by - (rule at_most_mono, (rule rules)+, simp)+
qed

lemma deletion_asks:
  "at_most requests 2 (Dev_reconcile_deletion ph d)" "at_most created 0 (Dev_reconcile_deletion ph d)"
  "at_most deleted 15 (Dev_reconcile_deletion ph d)" "at_most dev_writes 1 (Dev_reconcile_deletion ph d)"
proof -
  let ?rest = "\<lambda>(r, ph). case r of Inl err \<Rightarrow> Return (Inl err, ph)
     | Inr ssoClient \<Rightarrow> bind (deprovision_with ssoClient d) (\<lambda>res. Return (res, ph))"
  have login: "at_most deleted 0 (Dev_authenticatedClient ph)" "at_most dev_writes 0 (Dev_authenticatedClient ph)"
    by (rule at_most_none [OF Dev_authenticatedClient_quiet]; simp)+
  have rest: "at_most requests 1 (?rest v)" "at_most created 0 (?rest v)" "at_most deleted 15 (?rest v)" "at_most dev_writes 0 (?rest v)"
    if "case v of (r, ph') \<Rightarrow> \<forall>kc. r = Inr kc \<longrightarrow> (\<exists>c. kc = client_interface c)"
    for v :: "KeycloakInterface result \<times> DevPhaseHandler"
    using that
    by (auto split: sum.split prod.split intro!: at_most_then deprovision_with_asks deprovision_with_asks(1) [unfolded One_nat_def])
  note logged_in = at_most_bind [OF _ _ authenticated_client, where g = ?rest]
  have "at_most requests (1 + 1) (Dev_Deprovision ph d)" "at_most created (0 + 0) (Dev_Deprovision ph d)"
    "at_most deleted (0 + 15) (Dev_Deprovision ph d)" "at_most dev_writes (0 + 0) (Dev_Deprovision ph d)"
    unfolding Dev_Deprovision_def by (rule logged_in, simp, rule login_sends_one login, rule rest, assumption)+
  moreover have "at_most deleted 0 (Dev_handleResult r)" "at_most dev_writes 1 (Dev_handleResult r)" for r
    by (auto simp: at_most_def Dev_handleResult_def runs_bind_iff runs_branch_iff)
  note parts = calculation this
  show "at_most requests 2 (Dev_reconcile_deletion ph d)" "at_most created 0 (Dev_reconcile_deletion ph d)"
    "at_most deleted 15 (Dev_reconcile_deletion ph d)"
    unfolding Dev_reconcile_deletion_def
    by (insert parts, auto intro!: at_most_then handleResult_asks split: prod.split simp: numeral_2_eq_2 simp del: One_nat_def)
  have "at_most dev_writes (0 + 1) (Dev_reconcile_deletion ph d)"
    unfolding Dev_reconcile_deletion_def
    by (rule at_most_bind_any) (insert parts, auto intro!: at_most_then split: prod.split simp del: One_nat_def)
  then show "at_most dev_writes 1 (Dev_reconcile_deletion ph d)" by simp
qed

subsection \<open>The bounds\<close>

text \<open>
  C18. One reconciliation does a bounded amount of work, whatever the environment answers. Outside
  deletion it writes the RhpamDev at most twice, creates at most five objects, sends at most nine
  requests, and requests only in phase "accepted", deletes nothing and writes no RhpamUser. In
  deletion it writes the RhpamDev at most once, creates nothing, sends at most two requests, asks
  for at most fifteen deletions, and writes at most as many RhpamUsers as the API server listed.
\<close>

theorem reconciliation_is_bounded:
  assumes "runs (Dev_Reconcile r req) (e # EGetRhpamDev req (Inr d) # t) out"
  shows "if om_DeletionTimestamp (dev_ObjectMeta d) = None
    then length (dev_writes t) \<le> 2 \<and> length (created t) \<le> 5 \<and>
      length (requests t) \<le> (if dev_Phase d = PhaseAccepted then 9 else 0) \<and> deleted t = [] \<and> user_writes t = []
    else length (dev_writes t) \<le> 1 \<and> created t = [] \<and> length (requests t) \<le> 2 \<and> length (deleted t) \<le> 15 \<and>
      length (user_writes t) \<le> length (listed_users t)"
proof -
  from Dev_Reconcile_found [OF assms] obtain out' where
    run: "runs (if om_DeletionTimestamp (dev_ObjectMeta d) \<noteq> None
             then Dev_reconcile_deletion (rd_phaseHandler r) d else Dev_reconcile_phase (rd_phaseHandler r) d) t out'"
    by blast
  show ?thesis
  proof (cases "om_DeletionTimestamp (dev_ObjectMeta d) = None")
    case True
    with run have phase: "runs (Dev_reconcile_phase (rd_phaseHandler r) d) t out'" by simp
    have "length (map dev_Phase (dev_writes t)) \<le> length (dev_path (dev_Phase d))"
      using Dev_reconcile_phase_follows [OF phase] unfolding follows_def starts_with_iff by auto
    moreover have "length (dev_path p) \<le> 2" for p by (simp add: dev_path_def)
    ultimately show ?thesis
      using True at_mostD [OF phase_asks(1) phase] at_mostD [OF phase_asks(2) phase] phase_keeps [OF phase]
      by (simp add: le_trans)
  next
    case False
    with run have run': "runs (Dev_reconcile_deletion (rd_phaseHandler r) d) t out'" by simp
    note asked = at_mostD [OF deletion_asks(1) run'] at_mostD [OF deletion_asks(2) run'] at_mostD [OF deletion_asks(3) run']
      at_mostD [OF deletion_asks(4) run'] writes_listedD [OF deletion_writes_listed run']
    from False asked show ?thesis by (simp only: if_False le_zero_eq length_0_conv simp_thms)
  qed
qed

lemma reconciliation_is_bounded_witness:
  "length (created (drop 2 (sample_trace (sample_dev PhasePrepare ''r'' [RhpamFinalizer] None)))) \<le> 5 \<and>
   deleted (drop 2 (sample_trace (sample_dev PhasePrepare ''r'' [RhpamFinalizer] None))) = [] \<and>
   length (deleted (drop 2 (sample_trace (sample_dev PhaseComplete ''r'' [RhpamFinalizer] (Some ''now''))))) \<le> 15"
proof -
  let ?d = "sample_dev PhasePrepare ''r'' [RhpamFinalizer] None" and ?e = "sample_dev PhaseComplete ''r'' [RhpamFinalizer] (Some ''now'')"
  have t: "sample_trace ?d = watch_event ''ns'' # EGetRhpamDev sample_request (Inr ?d) # drop 2 (sample_trace ?d)"
    "sample_trace ?e = watch_event ''ns'' # EGetRhpamDev sample_request (Inr ?e) # drop 2 (sample_trace ?e)"
    by code_simp+
  have "runs (Dev_Reconcile sample_reconciler sample_request)
      (watch_event ''ns'' # EGetRhpamDev sample_request (Inr ?d) # drop 2 (sample_trace ?d)) (sample_outcome ?d)"
    by (subst t(1) [symmetric]) (rule sample_runs)
  moreover have "runs (Dev_Reconcile sample_reconciler sample_request)
      (watch_event ''ns'' # EGetRhpamDev sample_request (Inr ?e) # drop 2 (sample_trace ?e)) (sample_outcome ?e)"
    by (subst t(2) [symmetric]) (rule sample_runs)
  ultimately show ?thesis
    using reconciliation_is_bounded by (fastforce simp: sample_defs)
qed

end
