(* ===== verification/InstallationLive.thy ===== *)
theory InstallationLive
  imports RhpamdevProvision ResourceTemplates
begin

text \<open>
  The installation comes to its end: against an API server and files that behave, the operator
  keeps itself going from the phase "prepare" to "complete" and then stays there, provided the
  database gets ready at some time. \<^theory_text>\<open>dev_store\<close> extends the contract of the object
  store by the custom resources: an update of the version that is stored is accepted and
  stored, and no other call of an installation changes them.
\<close>

subsection \<open>The calls of an installation\<close>

definition installing :: "event \<Rightarrow> bool" where
  "installing ev = (case ev of EGetObject g k r \<Rightarrow> True | ECreateObject ob r \<Rightarrow> True | _ \<Rightarrow> internal ev)"

lemma installing_simps [simp]:
  "installing (EGetObject g k r)" "installing (ECreateObject ob c)" "internal ev \<Longrightarrow> installing ev"
  by (auto simp: installing_def split: event.splits)

lemma internal_installingD: "guarantees internal m Q \<Longrightarrow> guarantees installing m (\<lambda>_. True)"
  by (erule guarantees_mono) simp_all

lemma createSecret_installing: "guarantees installing (createSecret ph cr name data) (\<lambda>_. True)"
  by (auto simp: createSecret_def Let_def split: sum.splits)

lemma createConfigmap_installing: "guarantees installing (createConfigmap ph cr name data) (\<lambda>_. True)"
  by (auto simp: createConfigmap_def Let_def split: sum.splits)

lemma createResource_installing: "guarantees installing (createResource ph cr res) (\<lambda>_. True)"
  unfolding createResource_split
  by (rule guarantees_check_err [OF internal_installingD [OF templated_internal]])
     (auto simp: ensure_object_def split: sum.splits)

lemma createResources_installing: "guarantees installing (createResources ph cr ress) (\<lambda>_. True)"
  unfolding createResources_def by (rule guarantees_for_each, rule createResource_installing)

lemma InstallDatabase_installing: "guarantees installing (InstallDatabase ph cr) (\<lambda>_. True)"
proof -
  have "guarantees internal newConfigmapHelper (\<lambda>_. True)"
    by (auto simp: newConfigmapHelper_def Getenv_def)
  note this [THEN internal_installingD]
  then show ?thesis
    unfolding InstallDatabase_def Let_def ConfigmapHelper_data_def
    by (intro guarantees_bind [OF internal_installingD [OF generateToken_internal]] guarantees_bind [OF \<open>guarantees installing newConfigmapHelper _\<close>]
          guarantees_check_err [OF createSecret_installing] guarantees_check_err [OF internal_installingD [OF data_loop_internal]]
          guarantees_check_err [OF createConfigmap_installing] guarantees_check_err [OF createResources_installing]) auto
qed

lemma random_runes_done: "\<exists>s w'. exec E (random_runes n) w = (Done s, w')"
proof (induction n arbitrary: w)
  case (Suc n)
  obtain i w1 where "env_RandIntn E (length letterRunes) w = (i, w1)" by fastforce
  with Suc [of w1] show ?case by (auto simp: exec_bind)
qed simp

subsection \<open>The contract\<close>

text \<open>What an installation reads of a custom resource.\<close>

definition same_install :: "RhpamDev \<Rightarrow> RhpamDev \<Rightarrow> bool" where
  "same_install cr d \<longleftrightarrow>
     dev_Spec d = dev_Spec cr \<and> dev_key d = dev_key cr \<and> om_UID (dev_ObjectMeta d) = om_UID (dev_ObjectMeta cr) \<and>
     om_DeletionTimestamp (dev_ObjectMeta d) = om_DeletionTimestamp (dev_ObjectMeta cr)"

lemma same_install_refl [simp]: "same_install cr cr" by (simp add: same_install_def)

lemma same_install_trans: "same_install cr d \<Longrightarrow> same_install d e \<Longrightarrow> same_install cr e"
  by (simp add: same_install_def)

lemma same_install_Namespace: "same_install cr d \<Longrightarrow> dev_Namespace d = dev_Namespace cr"
  by (simp add: same_install_def dev_key_def key_of_def)

lemma templated_same: "same_install cr d \<Longrightarrow> exec E (templated d res) w = exec E (templated cr res) w"
proof -
  assume s: "same_install cr d"
  then have p: "template_params d = template_params cr"
    using same_install_Namespace [OF s] by (simp add: template_params_def same_install_def)
  show "exec E (templated d res) w = exec E (templated cr res) w"
    by (simp add: templated_def newResourceHelper_def newTemplateHelper_def Getenv_def ResourceHelper_createResource_def p
        split: prod.split)
qed

lemma SetControllerReference_same:
  assumes "same_install cr d"
  shows "SetControllerReference d ob s = SetControllerReference cr ob s"
proof -
  have "NewControllerRef (dev_ObjectMeta d) = NewControllerRef (dev_ObjectMeta cr)"
    using assms by (simp add: NewControllerRef_def same_install_def dev_key_def key_of_def fun_eq_iff)
  then show ?thesis unfolding SetControllerReference_def by (simp only:)
qed

lemma installs_same:
  assumes "same_install cr d" and "installs E ph cr tob res"
  shows "installs E ph d tob res"
  using assms by (simp add: installs_def templated_same [OF assms(1)] same_install_Namespace [OF assms(1)]
      SetControllerReference_same [OF assms(1)])

locale dev_store = object_store E objs for E :: "'w env" and objs :: "'w \<Rightarrow> store" +
  fixes devs :: "'w \<Rightarrow> NamespacedName \<Rightarrow> RhpamDev option"
  assumes get_dev: "devs w k = Some d \<Longrightarrow> fst (env_GetRhpamDev E k w) = Inr d"
    and get_dev_keeps: "devs (snd (env_GetRhpamDev E k w)) = devs w" "objs (snd (env_GetRhpamDev E k w)) = objs w"
    and update_dev: "devs w (dev_key d) = Some d0 \<Longrightarrow> om_ResourceVersion (dev_ObjectMeta d) = om_ResourceVersion (dev_ObjectMeta d0) \<Longrightarrow>
        om_DeletionTimestamp (dev_ObjectMeta d) = None \<Longrightarrow>
        \<exists>d'. fst (env_UpdateRhpamDev E d w) = Inr d' \<and> devs (snd (env_UpdateRhpamDev E d w)) = (devs w)(dev_key d \<mapsto> d') \<and>
          same_install d d' \<and> dev_Status d' = dev_Status d"
    and update_dev_keeps: "objs (snd (env_UpdateRhpamDev E d w)) = objs w"
    and LookupEnv_devs: "devs (snd (env_LookupEnv E v w)) = devs w"
    and ReadFile_devs: "devs (snd (env_ReadFile E f w)) = devs w"
    and YamlUnmarshal_devs: "devs (snd (env_YamlUnmarshal E f w)) = devs w"
    and TimeNow_devs: "devs (snd (env_TimeNow E w)) = devs w"
    and RandSeed_devs: "devs (env_RandSeed E s w) = devs w"
    and RandIntn_devs: "devs (snd (env_RandIntn E n w)) = devs w"
    and RangeOrder_devs: "devs (snd (env_RangeOrder E ks w)) = devs w"
    and GetObject_devs: "devs (snd (env_GetObject E g k w)) = devs w"
    and CreateObject_devs: "devs (snd (env_CreateObject E ob w)) = devs w"
begin

lemmas keep_devs = LookupEnv_devs ReadFile_devs YamlUnmarshal_devs TimeNow_devs RandSeed_devs RandIntn_devs RangeOrder_devs
  GetObject_devs CreateObject_devs

lemma installing_keeps_devs: "list_all installing (trace_of E m w) \<Longrightarrow> devs (snd (exec E m w)) = devs w"
proof (induction m arbitrary: w)
qed (simp_all add: prod.case_eq_if installing_def internal_def keep_devs)

lemma installing_devs:
  assumes "guarantees installing m Q" and "exec E m w = (out, w')"
  shows "devs w' = devs w"
  using installing_keeps_devs [OF runs_list_all [OF assms(1) exec_runs], of w] assms(2) by simp

text \<open>The part of Reconcile before the switch reads the resource and changes nothing.\<close>

lemma Reconcile_found:
  assumes "devs w (dev_key d) = Some d" and "om_DeletionTimestamp (dev_ObjectMeta d) = None"
    and "fst (env_LookupEnv E ''WATCH_NAMESPACE'' w) = Some (dev_Namespace d)"
  defines "v \<equiv> snd (env_GetRhpamDev E (dev_key d) (snd (env_LookupEnv E ''WATCH_NAMESPACE'' w)))"
  shows "devs v = devs w \<and> objs v = objs w \<and>
    exec E (Dev_Reconcile r (dev_key d)) w =
      (case exec E (Dev_reconcile_phase (rd_phaseHandler r) d) v of
         (Done (res, h), w2) \<Rightarrow> (Done (res, r\<lparr>rd_phaseHandler := h\<rparr>), w2) | (Panicked s, w2) \<Rightarrow> (Panicked s, w2))"
proof -
  obtain w1 where 1: "env_LookupEnv E ''WATCH_NAMESPACE'' w = (Some (dev_Namespace d), w1)"
    using assms(3) by (metis prod.collapse)
  then have s1: "devs w1 = devs w" "objs w1 = objs w"
    using LookupEnv_devs [of "''WATCH_NAMESPACE''" w] LookupEnv_keeps [of "''WATCH_NAMESPACE''" w] by simp_all
  obtain w2 where 2: "env_GetRhpamDev E (dev_key d) w1 = (Inr d, w2)"
    using get_dev [of w1 "dev_key d" d] assms(1) s1(1) by (metis prod.collapse)
  then have s2: "devs w2 = devs w" "objs w2 = objs w"
    using get_dev_keeps [of "dev_key d" w1] s1 by simp_all
  have "v = w2" using 1 2 by (simp add: v_def)
  with 1 2 s2 assms(2) show ?thesis
    by (simp add: Dev_Reconcile_def GetWatchNamespace_def exec_bind dev_key_def key_of_def split: prod.split outcome.split)
qed

end

text \<open>The files and variables of an installation, and what its templates stand for.\<close>

locale installation = dev_store E objs devs
  for E :: "'w env" and objs :: "'w \<Rightarrow> store" and devs :: "'w \<Rightarrow> NamespacedName \<Rightarrow> RhpamDev option" +
  fixes ph :: DevPhaseHandler and cr :: RhpamDev and tob :: "Resource \<Rightarrow> Object" and path :: string
  assumes watched: "fst (env_LookupEnv E ''WATCH_NAMESPACE'' w) = Some (dev_Namespace cr)"
    and scripts: "fst (env_LookupEnv E ''RESOURCE_PATH'' w) = Some path" "path \<noteq> ''''"
      "f \<in> set initConfigmapResources \<Longrightarrow> \<exists>s. fst (env_ReadFile E (path @ ''/'' @ f) w) = Inr s"
    and templates: "res \<in> set operator_resources \<Longrightarrow> installs E ph cr tob res"
    and database: "ob_TypeMeta (tob DatabaseDeploymentConfigResource) = gvk_DeploymentConfig"
    and living: "om_DeletionTimestamp (dev_ObjectMeta cr) = None"
begin

text \<open>Objects stay, and those of a list are there afterwards.\<close>

definition put :: "Resource list \<Rightarrow> 'w \<Rightarrow> 'w \<Rightarrow> bool" where
  "put ress w w' \<longleftrightarrow>
     devs w' = devs w \<and> dom (objs w) \<subseteq> dom (objs w') \<and> (\<forall>res \<in> set ress. store_key (tob res) \<in> dom (objs w'))"

lemma put_trans: "put xs w w' \<Longrightarrow> put ys w' w'' \<Longrightarrow> put (xs @ ys) w w''"
  unfolding put_def by (metis (no_types, lifting) UnE set_append subset_trans subsetD)

lemma put_same: "devs w' = devs w \<Longrightarrow> objs w' = objs w \<Longrightarrow> put [] w w'"
  by (simp add: put_def)

lemma createResources_put:
  assumes "same_install cr d" and "set ress \<subseteq> set operator_resources"
  shows "\<exists>w'. exec E (createResources ph d ress) w = (Done (Inr ()), w') \<and> put ress w w'"
proof -
  obtain out w' where e: "exec E (createResources ph d ress) w = (out, w')" by fastforce
  have "\<forall>res \<in> set ress. installs E ph d tob res"
    using assms templates installs_same by blast
  note c = install_complete [OF this e]
  have "put ress w w'"
    using installing_devs [OF createResources_installing e] c(2,3) by (fastforce simp: put_def)
  with c(1) e show ?thesis by blast
qed

text \<open>A secret or a config map: looked up, and created when missing.\<close>

lemma create_if_missing:
  assumes "k = object_key ob"
  shows "\<exists>w'. exec E (GetObject (ob_TypeMeta ob) k (\<lambda>r. case r of
        Inr _ \<Rightarrow> Return (Inr ())
      | Inl _ \<Rightarrow> CreateObject ob (\<lambda>r. case r of Inl err \<Rightarrow> Return (Inl err) | Inr _ \<Rightarrow> Return (Inr ())))) w =
      (Done (Inr ()), w') \<and> put [] w w'"
proof (cases "objs w (store_key ob)")
  case (Some x)
  with get_present [of w "ob_TypeMeta ob" k x] get_keeps [of "ob_TypeMeta ob" k w] GetObject_devs [of "ob_TypeMeta ob" k w] assms
  show ?thesis by (auto simp: store_key_def put_def split: prod.split)
next
  case None
  obtain r w1 where 1: "env_GetObject E (ob_TypeMeta ob) k w = (r, w1)" by fastforce
  with None get_absent [of w "ob_TypeMeta ob" k] assms obtain e where e: "r = Inl e" by (auto simp: store_key_def)
  have w1: "objs w1 = objs w" "devs w1 = devs w"
    using 1 get_keeps [of "ob_TypeMeta ob" k w] GetObject_devs [of "ob_TypeMeta ob" k w] by simp_all
  obtain c w2 where 2: "env_CreateObject E ob w1 = (c, w2)" by fastforce
  with create_absent [of w1 ob] None w1(1) obtain x where "c = Inr x" "objs w2 = (objs w)(store_key ob \<mapsto> ob)" by auto
  with 1 2 e w1 CreateObject_devs [of ob w1] show ?thesis by (auto simp: put_def)
qed

lemma own_if_possible_key:
  "ob_TypeMeta (own_if_possible d ob s) = ob_TypeMeta ob" "object_key (own_if_possible d ob s) = object_key ob"
  using owned_simps(2) [of "\<lparr>dph_scheme = s, dph_keycloakFactory = NewKeycloakFactory\<rparr>" d ob]
  by (simp_all add: owned_def store_key_def)

lemma createSecret_put: "\<exists>w'. exec E (createSecret ph d name data) w = (Done (Inr ()), w') \<and> put [] w w'"
proof -
  let ?ob = "\<lparr>ob_TypeMeta = gvk_Secret, ob_ObjectMeta = labelled_meta d name, ob_Payload = SecretData data ''Opaque''\<rparr>"
  have "key_of (dev_Namespace d) name = object_key (own_if_possible d ?ob (dph_scheme ph))"
    unfolding own_if_possible_key by (simp add: object_key_def labelled_meta_def key_of_def)
  from create_if_missing [OF this, of w] show ?thesis by (simp add: createSecret_def own_if_possible_key Let_def)
qed

lemma createConfigmap_put: "\<exists>w'. exec E (createConfigmap ph d name data) w = (Done (Inr ()), w') \<and> put [] w w'"
proof -
  let ?ob = "\<lparr>ob_TypeMeta = gvk_ConfigMap, ob_ObjectMeta = labelled_meta d name, ob_Payload = ConfigMapData data\<rparr>"
  have "key_of (dev_Namespace d) name = object_key (own_if_possible d ?ob (dph_scheme ph))"
    unfolding own_if_possible_key by (simp add: object_key_def labelled_meta_def key_of_def)
  from create_if_missing [OF this, of w] show ?thesis by (simp add: createConfigmap_def own_if_possible_key Let_def)
qed

text \<open>Calls of the process alone change nothing.\<close>

lemma internal_put: "guarantees internal m Q \<Longrightarrow> exec E m w = (out, w') \<Longrightarrow> put [] w w'"
  using guaranteed_internal_keeps [of m Q w] installing_devs [OF internal_installingD, of m Q w out w']
  by (intro put_same) auto

lemma generateToken_put: "\<exists>s w'. exec E (generateToken n) w = (Done s, w') \<and> put [] w w'"
proof -
  obtain t w1 where "env_TimeNow E w = (t, w1)" by fastforce
  with random_runes_done [of E n "env_RandSeed E t w1"] obtain s w' where e: "exec E (generateToken n) w = (Done s, w')"
    by (auto simp: generateToken_def)
  with internal_put [OF generateToken_internal e] show ?thesis by blast
qed

lemma data_loop_done:
  "set fs \<subseteq> set initConfigmapResources \<Longrightarrow> \<exists>m w'. exec E (data_loop \<lparr>ch_resourcePath = path\<rparr> fs acc) w = (Done (Inr m), w')"
proof (induction fs arbitrary: acc w)
  case (Cons f fs)
  obtain s w1 where "env_ReadFile E (path @ ''/'' @ f) w = (Inr s, w1)"
    using scripts(3) [of f w] Cons.prems by (metis list.set_intros(1) prod.collapse subsetD)
  with Cons.IH [of "AList.update f s acc" w1] Cons.prems show ?case
    by (auto simp: loadFile_def exec_check_err)
qed simp

lemma configmap_data_put:
  "\<exists>m w'. exec E (bind newConfigmapHelper (\<lambda>c. ConfigmapHelper_data c initConfigmapResources)) w = (Done (Inr m), w') \<and> put [] w w'"
proof -
  obtain w1 where 1: "env_LookupEnv E ''RESOURCE_PATH'' w = (Some path, w1)"
    using scripts(1) [of w] by (metis prod.collapse)
  obtain m w' where 2: "exec E (data_loop \<lparr>ch_resourcePath = path\<rparr> initConfigmapResources []) w1 = (Done (Inr m), w')"
    using data_loop_done [of initConfigmapResources] by blast
  have "put [] w w1" using 1 LookupEnv_keeps [of "''RESOURCE_PATH''" w] LookupEnv_devs [of "''RESOURCE_PATH''" w]
    by (intro put_same) auto
  with 1 2 internal_put [OF data_loop_internal 2] put_trans [of "[]" w w1 "[]" w'] scripts(2)
  show ?thesis by (auto simp: newConfigmapHelper_def Getenv_def ConfigmapHelper_data_def exec_bind)
qed

subsection \<open>The phases\<close>

lemma moved_same [simp]: "same_install d (moved p d)"
  by (simp add: same_install_def dev_key_def)

lemma Dev_Prepare_put:
  assumes "same_install cr d"
  shows "\<exists>w'. exec E (Dev_Prepare ph d) w = (Done (Inr (moved PhasePrepared d)), w') \<and> put [ServiceAccountResource] w w'"
  using createResources_put [OF assms, of "[ServiceAccountResource]" w]
  by (auto simp: Dev_Prepare_def exec_check_err moved_def operator_resources_def)

lemma InstallDatabase_put:
  assumes "same_install cr d"
  shows "\<exists>w'. exec E (InstallDatabase ph d) w = (Done (Inr (moved PhaseDatabaseInstalled d)), w') \<and>
    put [DatabasePvcResource, DatabaseServiceResource, DatabaseDeploymentConfigResource] w w'"
proof -
  let ?ress = "[DatabasePvcResource, DatabaseServiceResource, DatabaseDeploymentConfigResource]"
  obtain u w1 where 1: "exec E (generateToken 4) w = (Done u, w1)" "put [] w w1" using generateToken_put by blast
  obtain p w2 where 2: "exec E (generateToken 10) w1 = (Done p, w2)" "put [] w1 w2" using generateToken_put by blast
  obtain w3 where 3: "exec E (createSecret ph d DatabaseCredentialsSecret
      [(''database-user'', ''user'' @ u), (''database-password'', p), (''database-name'', DatabaseName)]) w2 = (Done (Inr ()), w3)" "put [] w2 w3"
    using createSecret_put by blast
  obtain m w4 where 4: "exec E (bind newConfigmapHelper (\<lambda>c. ConfigmapHelper_data c initConfigmapResources)) w3 = (Done (Inr m), w4)" "put [] w3 w4"
    using configmap_data_put by blast
  obtain w5 where 5: "exec E (createConfigmap ph d DatabaseInitConfigmap m) w4 = (Done (Inr ()), w5)" "put [] w4 w5"
    using createConfigmap_put by blast
  obtain w6 where 6: "exec E (createResources ph d ?ress) w5 = (Done (Inr ()), w6)" "put ?ress w5 w6"
    using createResources_put [OF assms, of ?ress] by (auto simp: operator_resources_def)
  have c: "bind newConfigmapHelper (\<lambda>h. check (ConfigmapHelper_data h initConfigmapResources) f) =
      check (bind newConfigmapHelper (\<lambda>h. ConfigmapHelper_data h initConfigmapResources)) f" for f :: "_ \<Rightarrow> RhpamDev result io"
    by (simp add: check_err_def)
  have "put ?ress w w6"
    using put_trans [OF put_trans [OF put_trans [OF put_trans [OF put_trans [OF 1(2) 2(2)] 3(2)] 4(2)] 5(2)] 6(2)] by simp
  with 1(1) 2(1) 3(1) 4(1) 5(1) 6(1) show ?thesis
    by (simp add: InstallDatabase_def Let_def c exec_bind [of E "generateToken _"] exec_check_err moved_def)
qed

lemma InstallBusinessCentral_put:
  assumes "same_install cr d"
  shows "\<exists>w'. exec E (InstallBusinessCentral ph d) w = (Done (Inr (moved PhaseBusinessCentralInstalled d)), w') \<and>
    put [BusinessCentralPvcResource, BusinessCentralServiceResource, BusinessCentralRouteResource, BusinessCentralDeploymentResource] w w'"
  using createResources_put [OF assms, of "[BusinessCentralPvcResource, BusinessCentralServiceResource, BusinessCentralRouteResource,
      BusinessCentralDeploymentResource]" w]
  by (auto simp: InstallBusinessCentral_def exec_check_err moved_def operator_resources_def)

lemma InstallKieServer_put:
  assumes "same_install cr d"
  shows "\<exists>w'. exec E (InstallKieServer ph d) w = (Done (Inr (moved PhaseComplete d)), w') \<and>
    put [KieServerServiceResource, KieServerRouteResource, KieServerDeploymentResource] w w'"
  using createResources_put [OF assms, of "[KieServerServiceResource, KieServerRouteResource, KieServerDeploymentResource]" w]
  by (auto simp: InstallKieServer_def exec_check_err moved_def operator_resources_def)

subsection \<open>One reconciliation\<close>

text \<open>The resource is stored in a phase; the database is there and ready, or there and not.\<close>

definition stored :: "StatusPhase \<Rightarrow> 'w \<Rightarrow> bool" where
  "stored p w \<longleftrightarrow> (\<exists>d. devs w (dev_key cr) = Some d \<and> dev_Phase d = p \<and> same_install cr d)"

definition database_key :: "TypeMeta \<times> NamespacedName" where
  "database_key = (gvk_DeploymentConfig, key_of (dev_Namespace cr) DatabaseDeployment)"

lemma database_resource: "store_key (tob DatabaseDeploymentConfigResource) = database_key"
proof -
  have "installs E ph cr tob DatabaseDeploymentConfigResource" by (rule templates) (simp add: operator_resources_def)
  then show ?thesis
    using database by (simp add: installs_def store_key_def database_key_def DatabaseDeploymentConfigResource_def)
qed

lemma handleResult_stores:
  assumes "devs w (dev_key cr) = Some d" and "same_install cr d"
  shows "\<exists>w'. exec E (Dev_handleResult (Inr (moved p d))) w = (Done (\<lparr>rr_Requeue = True\<rparr>, None), w') \<and>
    stored p w' \<and> objs w' = objs w"
proof -
  have k: "dev_key (moved p d) = dev_key cr" using assms(2) by (simp add: same_install_def dev_key_def)
  have "om_DeletionTimestamp (dev_ObjectMeta (moved p d)) = None" using assms(2) living by (simp add: same_install_def)
  from update_dev [of w "moved p d" d, unfolded k, OF assms(1) _ this] obtain d' where
    u: "fst (env_UpdateRhpamDev E (moved p d) w) = Inr d'" "devs (snd (env_UpdateRhpamDev E (moved p d) w)) = (devs w)(dev_key cr \<mapsto> d')"
      "same_install (moved p d) d'" "dev_Status d' = dev_Status (moved p d)" by auto
  obtain w' where w': "env_UpdateRhpamDev E (moved p d) w = (Inr d', w')" using u(1) by (metis prod.collapse)
  have "same_install cr d'" using assms(2) u(3) same_install_trans moved_same by blast
  with w' u update_dev_keeps [of "moved p d" w] show ?thesis
    by (auto simp: Dev_handleResult_def stored_def)
qed

lemma Reconcile_reads:
  assumes "devs w (dev_key cr) = Some d" and "same_install cr d" and r: "rd_phaseHandler r = ph"
  shows "\<exists>w1. devs w1 = devs w \<and> objs w1 = objs w \<and>
    exec E (Dev_Reconcile r (dev_key cr)) w =
      (case exec E (Dev_reconcile_phase ph d) w1 of
         (Done (res, h), w2) \<Rightarrow> (Done (res, r\<lparr>rd_phaseHandler := h\<rparr>), w2) | (Panicked s, w2) \<Rightarrow> (Panicked s, w2))"
proof -
  have d: "dev_key d = dev_key cr" "om_DeletionTimestamp (dev_ObjectMeta d) = None"
    using assms(2) living by (simp_all add: same_install_def)
  with Reconcile_found [of w d r] assms(1) r watched [of w] same_install_Namespace [OF assms(2)] show ?thesis
    by auto
qed

text \<open>A phase that installs something moves on, and the result asks for another reconciliation.\<close>

lemma phase_moves_on:
  assumes "stored p w" and r: "rd_phaseHandler r = ph"
    and phase: "\<And>d. dev_Phase d = p \<Longrightarrow> Dev_reconcile_phase ph d = bind (m d) (\<lambda>x. bind (Dev_handleResult x) (\<lambda>res. Return (res, ph)))"
    and moves: "\<And>d w. same_install cr d \<Longrightarrow> \<exists>w'. exec E (m d) w = (Done (Inr (moved q d)), w') \<and> put ress w w'"
  shows "\<exists>w'. exec E (Dev_Reconcile r (dev_key cr)) w = (Done ((\<lparr>rr_Requeue = True\<rparr>, None), r), w') \<and>
    stored q w' \<and> dom (objs w) \<subseteq> dom (objs w') \<and> (\<forall>res \<in> set ress. store_key (tob res) \<in> dom (objs w'))"
proof -
  from assms(1) obtain d where d: "devs w (dev_key cr) = Some d" "dev_Phase d = p" "same_install cr d" by (auto simp: stored_def)
  obtain w1 where w1: "devs w1 = devs w" "objs w1 = objs w"
    "exec E (Dev_Reconcile r (dev_key cr)) w =
      (case exec E (Dev_reconcile_phase ph d) w1 of
         (Done (res, h), w2) \<Rightarrow> (Done (res, r\<lparr>rd_phaseHandler := h\<rparr>), w2) | (Panicked s, w2) \<Rightarrow> (Panicked s, w2))"
    using Reconcile_reads [OF d(1,3) r] by blast
  obtain w2 where w2: "exec E (m d) w1 = (Done (Inr (moved q d)), w2)" "put ress w1 w2" using moves [OF d(3)] by blast
  then have "devs w2 (dev_key cr) = Some d" using d(1) w1(1) by (simp add: put_def)
  then obtain w3 where w3: "exec E (Dev_handleResult (Inr (moved q d))) w2 = (Done (\<lparr>rr_Requeue = True\<rparr>, None), w3)"
    "stored q w3" "objs w3 = objs w2" using handleResult_stores [OF _ d(3)] by blast
  have "r\<lparr>rd_phaseHandler := ph\<rparr> = r" using r by simp
  with w1 w2 w3 phase [OF d(2)] show ?thesis by (auto simp: exec_bind put_def)
qed

lemma Prepare_moves_on:
  assumes "stored PhasePrepare w" and "rd_phaseHandler r = ph"
  shows "\<exists>w'. exec E (Dev_Reconcile r (dev_key cr)) w = (Done ((\<lparr>rr_Requeue = True\<rparr>, None), r), w') \<and>
    stored PhasePrepared w' \<and> dom (objs w) \<subseteq> dom (objs w') \<and> (\<forall>res \<in> set [ServiceAccountResource]. store_key (tob res) \<in> dom (objs w'))"
  by (rule phase_moves_on [OF assms _ Dev_Prepare_put]) (simp_all add: Dev_reconcile_phase_def phase_consts)

lemma Prepared_moves_on:
  assumes "stored PhasePrepared w" and "rd_phaseHandler r = ph"
  shows "\<exists>w'. exec E (Dev_Reconcile r (dev_key cr)) w = (Done ((\<lparr>rr_Requeue = True\<rparr>, None), r), w') \<and>
    stored PhaseDatabaseInstalled w' \<and> dom (objs w) \<subseteq> dom (objs w') \<and>
    (\<forall>res \<in> set [DatabasePvcResource, DatabaseServiceResource, DatabaseDeploymentConfigResource]. store_key (tob res) \<in> dom (objs w'))"
  by (rule phase_moves_on [OF assms _ InstallDatabase_put]) (simp_all add: Dev_reconcile_phase_def phase_consts)

lemma DatabaseInstalled_moves_on:
  assumes "stored PhaseDatabaseInstalled w" and "rd_phaseHandler r = ph"
  shows "\<exists>w'. exec E (Dev_Reconcile r (dev_key cr)) w = (Done ((\<lparr>rr_Requeue = True\<rparr>, None), r), w') \<and>
    stored PhaseBusinessCentralInstalled w' \<and> dom (objs w) \<subseteq> dom (objs w') \<and>
    (\<forall>res \<in> set [BusinessCentralPvcResource, BusinessCentralServiceResource, BusinessCentralRouteResource, BusinessCentralDeploymentResource].
       store_key (tob res) \<in> dom (objs w'))"
  by (rule phase_moves_on [OF assms _ InstallBusinessCentral_put]) (simp_all add: Dev_reconcile_phase_def phase_consts)

lemma DatabaseReady_moves_on:
  assumes "stored PhaseDatabaseReady w" and "rd_phaseHandler r = ph"
  shows "\<exists>w'. exec E (Dev_Reconcile r (dev_key cr)) w = (Done ((\<lparr>rr_Requeue = True\<rparr>, None), r), w') \<and>
    stored PhaseComplete w' \<and> dom (objs w) \<subseteq> dom (objs w') \<and>
    (\<forall>res \<in> set [KieServerServiceResource, KieServerRouteResource, KieServerDeploymentResource]. store_key (tob res) \<in> dom (objs w'))"
  by (rule phase_moves_on [OF assms _ InstallKieServer_put]) (simp_all add: Dev_reconcile_phase_def phase_consts)

text \<open>Waiting: the database decides.\<close>

lemma BusinessCentralInstalled_waits:
  assumes "stored PhaseBusinessCentralInstalled w" and r: "rd_phaseHandler r = ph" and "objs w database_key = Some ob"
  shows "\<exists>w'. exec E (Dev_Reconcile r (dev_key cr)) w = (Done ((\<lparr>rr_Requeue = True\<rparr>, None), r), w') \<and>
    stored (if ready_replicas (ob_Payload ob) = 1 then PhaseDatabaseReady else PhaseBusinessCentralInstalled) w' \<and> objs w' = objs w"
proof -
  from assms(1) obtain d where d: "devs w (dev_key cr) = Some d" "dev_Phase d = PhaseBusinessCentralInstalled" "same_install cr d"
    by (auto simp: stored_def)
  obtain w1 where w1: "devs w1 = devs w" "objs w1 = objs w"
    "exec E (Dev_Reconcile r (dev_key cr)) w =
      (case exec E (Dev_reconcile_phase ph d) w1 of
         (Done (res, h), w2) \<Rightarrow> (Done (res, r\<lparr>rd_phaseHandler := h\<rparr>), w2) | (Panicked s, w2) \<Rightarrow> (Panicked s, w2))"
    using Reconcile_reads [OF d(1,3) r] by blast
  let ?k = "key_of (dev_Namespace d) DatabaseDeployment"
  have k: "?k = key_of (dev_Namespace cr) DatabaseDeployment" using same_install_Namespace [OF d(3)] by simp
  have "fst (env_GetObject E gvk_DeploymentConfig ?k w1) = Inr ob"
    using assms(3) w1(2) unfolding k by (intro get_present) (simp add: database_key_def)
  then obtain w2 where w2: "env_GetObject E gvk_DeploymentConfig ?k w1 = (Inr ob, w2)" by (metis prod.collapse)
  then have s2: "devs w2 = devs w" "objs w2 = objs w"
    using w1 get_keeps [of gvk_DeploymentConfig ?k w1] GetObject_devs [of gvk_DeploymentConfig ?k w1] by simp_all
  have R: "r\<lparr>rd_phaseHandler := ph\<rparr> = r" using r by simp
  have wait: "exec E (WaitForDatabase d) w1 = (Done (Inr (ready_replicas (ob_Payload ob) = 1,
      if ready_replicas (ob_Payload ob) = 1 then moved PhaseDatabaseReady d else d)), w2)"
    using w2 by (simp add: WaitForDatabase_def isDatabaseReady_def exec_check_err moved_def)
  show ?thesis
  proof (cases "ready_replicas (ob_Payload ob) = 1")
    case True
    obtain w3 where w3: "exec E (Dev_handleResult (Inr (moved PhaseDatabaseReady d))) w2 = (Done (\<lparr>rr_Requeue = True\<rparr>, None), w3)"
      "stored PhaseDatabaseReady w3" "objs w3 = objs w2" using handleResult_stores [OF _ d(3), of w2] d(1) s2(1) by auto
    with True w1(3) wait s2 R d(2) show ?thesis
      by (simp add: Dev_reconcile_phase_def phase_consts exec_bind)
  next
    case False
    with w1(3) wait s2 R d show ?thesis
      by (auto simp: Dev_reconcile_phase_def phase_consts exec_bind stored_def)
  qed
qed

text \<open>A complete installation is left alone.\<close>

lemma Complete_rests:
  assumes "stored PhaseComplete w" and r: "rd_phaseHandler r = ph"
  shows "\<exists>w'. exec E (Dev_Reconcile r (dev_key cr)) w = (Done ((\<lparr>rr_Requeue = False\<rparr>, None), r), w') \<and>
    stored PhaseComplete w' \<and> objs w' = objs w"
proof -
  from assms(1) obtain d where d: "devs w (dev_key cr) = Some d" "dev_Phase d = PhaseComplete" "same_install cr d"
    by (auto simp: stored_def)
  have "r\<lparr>rd_phaseHandler := ph\<rparr> = r" using r by simp
  with Reconcile_reads [OF d(1,3) r] d show ?thesis
    by (auto simp: Dev_reconcile_phase_def phase_consts stored_def)
qed

end

subsection \<open>Reconciling until there is nothing left to do\<close>

text \<open>
  A round: the cluster does its own work, and the resource is reconciled if the last
  reconciliation asked for it or failed.
\<close>

definition round :: "'w env \<Rightarrow> ('w \<Rightarrow> 'w) \<Rightarrow> NamespacedName \<Rightarrow> ReconcileRhpamDev \<times> bool \<times> 'w \<Rightarrow> ReconcileRhpamDev \<times> bool \<times> 'w" where
  "round E settle k s = (case s of (r, again, w) \<Rightarrow>
     if again then
       (case exec E (Dev_Reconcile r k) (settle w) of
          (Done ((res, err), r'), w') \<Rightarrow> (r', rr_Requeue res \<or> err \<noteq> None, w')
        | (Panicked _, w') \<Rightarrow> (r, False, w'))
     else (r, False, settle w))"

definition rounds :: "'w env \<Rightarrow> ('w \<Rightarrow> 'w) \<Rightarrow> NamespacedName \<Rightarrow> nat \<Rightarrow> ReconcileRhpamDev \<times> bool \<times> 'w \<Rightarrow> ReconcileRhpamDev \<times> bool \<times> 'w" where
  "rounds E settle k n = round E settle k ^^ n"

lemma rounds_simps: "rounds E settle k 0 s = s" "rounds E settle k (Suc n) s = round E settle k (rounds E settle k n s)"
  by (simp_all add: rounds_def)

context installation
begin

lemmas moves_on = Prepare_moves_on Prepared_moves_on DatabaseInstalled_moves_on DatabaseReady_moves_on

text \<open>A state of the rounds: the handler as it was, the phase, and what is installed.\<close>

definition reached :: "StatusPhase \<Rightarrow> Resource list \<Rightarrow> bool \<Rightarrow> ReconcileRhpamDev \<times> bool \<times> 'w \<Rightarrow> bool" where
  "reached p ress again s \<longleftrightarrow>
     (case s of (r, b, w) \<Rightarrow> rd_phaseHandler r = ph \<and> b = again \<and> stored p w \<and>
        (\<forall>res \<in> set ress. store_key (tob res) \<in> dom (objs w)))"

end

locale settled_installation = installation E objs devs ph cr tob path
  for E :: "'w env" and objs :: "'w \<Rightarrow> store" and devs :: "'w \<Rightarrow> NamespacedName \<Rightarrow> RhpamDev option"
    and ph :: DevPhaseHandler and cr :: RhpamDev and tob :: "Resource \<Rightarrow> Object" and path :: string +
  fixes settle :: "'w \<Rightarrow> 'w"
  assumes settle_devs: "devs (settle w) = devs w"
    and settle_objs: "dom (objs w) \<subseteq> dom (objs (settle w))"
begin

abbreviation one_round :: "ReconcileRhpamDev \<times> bool \<times> 'w \<Rightarrow> ReconcileRhpamDev \<times> bool \<times> 'w" where
  "one_round \<equiv> round E settle (dev_key cr)"

lemma stored_settle [simp]: "stored p (settle w) \<longleftrightarrow> stored p w"
  by (simp add: stored_def settle_devs)

lemma round_reaches:
  assumes "reached p xs True s"
    and "\<And>r w. stored p w \<Longrightarrow> rd_phaseHandler r = ph \<Longrightarrow> \<forall>res \<in> set xs. store_key (tob res) \<in> dom (objs w) \<Longrightarrow> w = settle (snd (snd s)) \<Longrightarrow>
      \<exists>w'. exec E (Dev_Reconcile r (dev_key cr)) w = (Done ((\<lparr>rr_Requeue = b\<rparr>, None), r), w') \<and>
        stored q w' \<and> dom (objs w) \<subseteq> dom (objs w') \<and> (\<forall>res \<in> set ys. store_key (tob res) \<in> dom (objs w'))"
  shows "reached q (xs @ ys) b (one_round s)"
proof -
  obtain r w where s: "s = (r, True, w)" "rd_phaseHandler r = ph" "stored p w" "\<forall>res \<in> set xs. store_key (tob res) \<in> dom (objs w)"
    using assms(1) by (auto simp: reached_def)
  then have xs: "\<forall>res \<in> set xs. store_key (tob res) \<in> dom (objs (settle w))" using settle_objs by blast
  have "stored p (settle w)" "settle w = settle (snd (snd s))" using s by simp_all
  from assms(2) [OF this(1) s(2) xs this(2)]
  obtain w' where w': "exec E (Dev_Reconcile r (dev_key cr)) (settle w) = (Done ((\<lparr>rr_Requeue = b\<rparr>, None), r), w')"
    "stored q w'" "dom (objs (settle w)) \<subseteq> dom (objs w')" "\<forall>res \<in> set ys. store_key (tob res) \<in> dom (objs w')"
    by blast
  have "\<forall>res \<in> set (xs @ ys). store_key (tob res) \<in> dom (objs w')" using xs w'(3,4) unfolding set_append by blast
  with s(1,2) w'(1,2) show ?thesis by (simp add: reached_def round_def)
qed

lemma round_installs:
  assumes "\<And>r w. stored p w \<Longrightarrow> rd_phaseHandler r = ph \<Longrightarrow>
      \<exists>w'. exec E (Dev_Reconcile r (dev_key cr)) w = (Done ((\<lparr>rr_Requeue = True\<rparr>, None), r), w') \<and>
        stored q w' \<and> dom (objs w) \<subseteq> dom (objs w') \<and> (\<forall>res \<in> set ys. store_key (tob res) \<in> dom (objs w'))"
    and "reached p xs True s"
  shows "reached q (xs @ ys) True (one_round s)"
  by (rule round_reaches [OF assms(2)]) (rule assms(1))

definition ready :: "ReconcileRhpamDev \<times> bool \<times> 'w \<Rightarrow> bool" where
  "ready s \<longleftrightarrow> (\<exists>ob. objs (settle (snd (snd s))) database_key = Some ob \<and> ready_replicas (ob_Payload ob) = 1)"

lemma round_waits:
  assumes "reached PhaseBusinessCentralInstalled xs True s" and "DatabaseDeploymentConfigResource \<in> set xs"
  shows "reached (if ready s then PhaseDatabaseReady else PhaseBusinessCentralInstalled) xs True (one_round s)"
proof -
  have "reached (if ready s then PhaseDatabaseReady else PhaseBusinessCentralInstalled) (xs @ []) True (one_round s)"
  proof (rule round_reaches [OF assms(1)])
    fix r :: ReconcileRhpamDev and w
    assume w: "stored PhaseBusinessCentralInstalled w" "rd_phaseHandler r = ph" "w = settle (snd (snd s))"
      and "\<forall>res \<in> set xs. store_key (tob res) \<in> dom (objs w)"
    then obtain ob where ob: "objs w database_key = Some ob" using assms(2) by (auto simp: database_resource [symmetric])
    from BusinessCentralInstalled_waits [OF w(1,2) ob] ob w(3)
    show "\<exists>w'. exec E (Dev_Reconcile r (dev_key cr)) w = (Done ((\<lparr>rr_Requeue = True\<rparr>, None), r), w') \<and>
        stored (if ready s then PhaseDatabaseReady else PhaseBusinessCentralInstalled) w' \<and> dom (objs w) \<subseteq> dom (objs w') \<and>
        (\<forall>res \<in> set []. store_key (tob res) \<in> dom (objs w'))"
      by (auto simp: ready_def)
  qed
  then show ?thesis by simp
qed

lemma round_rests: "reached PhaseComplete xs True s \<Longrightarrow> reached PhaseComplete xs False (one_round s)"
  using round_reaches [of PhaseComplete xs s False PhaseComplete "[]"] Complete_rests by fastforce

lemma round_over: "reached PhaseComplete xs False s \<Longrightarrow> reached PhaseComplete xs False (one_round s)"
proof -
  assume "reached PhaseComplete xs False s"
  then obtain r w where s: "s = (r, False, w)" "rd_phaseHandler r = ph" "stored PhaseComplete w" "\<forall>res \<in> set xs. store_key (tob res) \<in> dom (objs w)"
    by (auto simp: reached_def)
  then have "\<forall>res \<in> set xs. store_key (tob res) \<in> dom (objs (settle w))" using settle_objs by blast
  with s show "reached PhaseComplete xs False (one_round s)" by (simp add: reached_def round_def)
qed

lemma rounds_complete:
  assumes "stored PhasePrepare w" and "rd_phaseHandler r = ph"
    and "\<And>n. \<exists>m \<ge> n. ready (rounds E settle (dev_key cr) m (r, True, w))"
  shows "\<exists>N. \<forall>n \<ge> N. reached PhaseComplete operator_resources False (rounds E settle (dev_key cr) n (r, True, w))"
proof -
  define R where "R n = rounds E settle (dev_key cr) n (r, True, w)" for n
  have step: "R (Suc n) = one_round (R n)" for n by (simp add: R_def rounds_simps)
  let ?xs = "[ServiceAccountResource, DatabasePvcResource, DatabaseServiceResource, DatabaseDeploymentConfigResource,
      BusinessCentralPvcResource, BusinessCentralServiceResource, BusinessCentralRouteResource, BusinessCentralDeploymentResource]"
  have "reached PhasePrepare [] True (R 0)" using assms(1,2) by (simp add: R_def rounds_simps reached_def)
  from round_installs [OF moves_on(1) this] have "reached PhasePrepared [ServiceAccountResource] True (R 1)" by (simp add: step)
  from round_installs [OF moves_on(2) this] have "reached PhaseDatabaseInstalled [ServiceAccountResource, DatabasePvcResource,
      DatabaseServiceResource, DatabaseDeploymentConfigResource] True (R 2)" by (simp add: step numeral_2_eq_2)
  from round_installs [OF moves_on(3) this] have bc: "reached PhaseBusinessCentralInstalled ?xs True (R 3)"
    by (simp add: step numeral_3_eq_3 numeral_2_eq_2)
  define m where "m = (LEAST m. 3 \<le> m \<and> ready (R m))"
  have m: "3 \<le> m \<and> ready (R m)" unfolding m_def
    by (rule LeastI_ex) (use assms(3) [of 3] in \<open>auto simp: R_def\<close>)
  have "3 + i \<le> m \<Longrightarrow> reached PhaseBusinessCentralInstalled ?xs True (R (3 + i))" for i
  proof (induction i)
    case 0
    with bc show ?case by simp
  next
    case (Suc i)
    then have "\<not> ready (R (3 + i))" using not_less_Least [of "3 + i" "\<lambda>m. 3 \<le> m \<and> ready (R m)"] by (simp add: m_def)
    with Suc round_waits [of ?xs "R (3 + i)"] have "reached PhaseBusinessCentralInstalled ?xs True (one_round (R (3 + i)))"
      by simp
    then show ?case unfolding step [symmetric] add_Suc_right .
  qed
  from this [of "m - 3"] m have "reached PhaseBusinessCentralInstalled ?xs True (R m)" by simp
  from round_waits [OF this] m have "reached PhaseDatabaseReady ?xs True (R (Suc m))" by (simp add: step)
  from round_installs [OF moves_on(4) this] have "reached PhaseComplete operator_resources True (R (Suc (Suc m)))"
    by (simp add: step operator_resources_def)
  from round_rests [OF this] have over: "reached PhaseComplete operator_resources False (R (Suc (Suc (Suc m))))" by (simp add: step)
  have "reached PhaseComplete operator_resources False (R (Suc (Suc (Suc m)) + i))" for i
    by (induction i) (use over round_over in \<open>auto simp: step\<close>)
  then have "\<forall>n \<ge> Suc (Suc (Suc m)). reached PhaseComplete operator_resources False (R n)"
    using le_Suc_ex by blast
  then show ?thesis unfolding R_def by blast
qed

end

subsection \<open>The reference cluster\<close>

definition stored_dev :: "world \<Rightarrow> NamespacedName \<Rightarrow> RhpamDev option" where
  "stored_dev w k = find (\<lambda>d. dev_key d = k) (w_devs w)"

lemma stored_dev_map:
  assumes "stored_dev w (dev_key d) \<noteq> None"
  shows "stored_dev (w\<lparr>w_devs := map (\<lambda>x. if dev_key x = dev_key d then d else x) (w_devs w)\<rparr>) = (stored_dev w)(dev_key d \<mapsto> d)"
proof
  fix k
  have "find (\<lambda>x. dev_key x = k) (map (\<lambda>x. if dev_key x = dev_key d then d else x) ds) =
      (if k = dev_key d then (if find (\<lambda>x. dev_key x = k) ds = None then None else Some d) else find (\<lambda>x. dev_key x = k) ds)" for ds
    by (induction ds) auto
  with assms show "stored_dev (w\<lparr>w_devs := map (\<lambda>x. if dev_key x = dev_key d then d else x) (w_devs w)\<rparr>) k =
      ((stored_dev w)(dev_key d \<mapsto> d)) k"
    by (auto simp: stored_dev_def)
qed

interpretation cluster_devs: dev_store "cluster s" lookup_object stored_dev for s
proof
  fix w k d d0
  show "stored_dev w k = Some d \<Longrightarrow> fst (env_GetRhpamDev (cluster s) k w) = Inr d"
    by (simp add: cluster_def stored_dev_def answer_def)
  show "\<exists>d'. fst (env_UpdateRhpamDev (cluster s) d w) = Inr d' \<and>
      stored_dev (snd (env_UpdateRhpamDev (cluster s) d w)) = (stored_dev w)(dev_key d \<mapsto> d') \<and>
      same_install d d' \<and> dev_Status d' = dev_Status d"
    if "stored_dev w (dev_key d) = Some d0" "om_DeletionTimestamp (dev_ObjectMeta d) = None"
  proof -
    have "dev_key d \<in> set (map dev_key (w_devs w))"
      using that(1) by (auto simp: stored_dev_def find_Some_iff image_iff) (metis nth_mem)
    with that stored_dev_map [of w d] show ?thesis by (simp add: cluster_def update_dev_def)
  qed
qed (simp_all add: cluster_def stored_dev_def lookup_object_def update_dev_def fun_eq_iff)

text \<open>
  A site for an installation: templates that are their own names, and a YAML reader that knows
  the object of each. The cluster makes the database ready as soon as it works on it.
\<close>

definition install_object :: "Resource \<Rightarrow> Object" where
  "install_object res =
     \<lparr>ob_TypeMeta = (if res = DatabaseDeploymentConfigResource then gvk_DeploymentConfig
        else \<lparr>tm_Kind = res_template res, tm_APIVersion = ''v1''\<rparr>),
      ob_ObjectMeta = empty_ObjectMeta\<lparr>om_Name := res_name res, om_Namespace := ''ns''\<rparr>,
      ob_Payload = DeploymentConfigStatus 0\<rparr>"

definition install_site :: site where
  "install_site =
     \<lparr>s_vars = [(''WATCH_NAMESPACE'', ''ns''), (''TEMPLATE_PATH'', ''t''), (''RESOURCE_PATH'', ''r'')],
      s_files = map (\<lambda>res. (''t/'' @ res_template res @ ''.yaml'', res_template res)) operator_resources @
        map (\<lambda>f. (''r/'' @ f, f)) initConfigmapResources,
      s_yaml = (\<lambda>t. case find (\<lambda>res. res_template res = t) operator_resources of
          None \<Rightarrow> Inl (ErrorString ''yaml'') | Some res \<Rightarrow> Inr (install_object res)),
      s_http = sample_http\<rparr>"

definition install_settle :: "world \<Rightarrow> world" where
  "install_settle w =
     w\<lparr>w_objects := (install_object DatabaseDeploymentConfigResource)\<lparr>ob_Payload := DeploymentConfigStatus 1\<rparr> # w_objects w\<rparr>"

abbreviation install_dev :: RhpamDev where
  "install_dev \<equiv> sample_dev PhasePrepare ''r'' [] None"

lemma install_templates:
  "list_all (\<lambda>res. res_template res \<noteq> '''' \<and> no_action (res_template res) \<and>
     map_of (s_files install_site) (''t/'' @ res_template res @ ''.yaml'') = Some (res_template res) \<and>
     s_yaml install_site (res_template res) = Inr (install_object res)) operator_resources"
  unfolding operator_resources_def list.pred_inject
  by (simp add: install_site_def operator_resources_def initConfigmapResources_def resource_defs template_names
      PostgresqlJbpmSchema_def PostgresqlJbpmLoTriggerClob_def QuartzTablesPostgresql_def ScriptCreateDatabase_def
      ScriptWaitForPostgresql_def)

lemma install_installs:
  assumes "res \<in> set operator_resources"
  shows "installs (cluster install_site) (Dev_NewPhaseHandler sample_scheme) install_dev install_object res"
proof -
  have t: "res_template res \<noteq> ''''" "no_action (res_template res)"
    "map_of (s_files install_site) (''t/'' @ res_template res @ ''.yaml'') = Some (res_template res)"
    "s_yaml install_site (res_template res) = Inr (install_object res)"
    using install_templates assms by (simp_all add: list_all_iff)
  have r: "render (res_template res) d = Inr (res_template res)" for d
    using Parse_unparse [of "[Text (res_template res)]"] t(1,2) by (simp add: render_def)
  have "fst (exec (cluster install_site) (templated install_dev res) w) = Done (Inr (install_object res))" for w
    using r t(3,4) by (simp add: templated_def newResourceHelper_def newTemplateHelper_def Getenv_def ResourceHelper_createResource_def
        loadYamlTemplate_render check_err_def cluster_def install_site_def)
  then show ?thesis
    unfolding installs_def
    by (auto simp: install_object_def sample_defs object_key_def key_of_def SetControllerReference_def Dev_NewPhaseHandler_def)
qed

interpretation sample_installation: settled_installation "cluster install_site" lookup_object stored_dev
  "Dev_NewPhaseHandler sample_scheme" install_dev install_object "''r''" install_settle
proof
  fix w f res
  show "f \<in> set initConfigmapResources \<Longrightarrow> \<exists>s. fst (env_ReadFile (cluster install_site) (''r'' @ ''/'' @ f) w) = Inr s"
    by (auto simp: cluster_def install_site_def operator_resources_def initConfigmapResources_def)
  show "res \<in> set operator_resources \<Longrightarrow>
      installs (cluster install_site) (Dev_NewPhaseHandler sample_scheme) install_dev install_object res"
    by (rule install_installs)
  show "dom (lookup_object w) \<subseteq> dom (lookup_object (install_settle w))"
    by (auto simp: install_settle_def lookup_object_def)
qed (simp_all add: cluster_def install_site_def sample_defs install_object_def install_settle_def stored_dev_def fun_eq_iff)

text \<open>
  C3. The installation is live. Against an API server that accepts updates of the stored version,
  with templates and scripts that can be read and a cluster that does its own work between the
  reconciliations, keeping the objects: if the database is ready again and again, then a
  resource stored in phase "prepare" is reconciled, because each reconciliation asks for the
  next one, until after some round it is complete for ever, all eleven resources are in place,
  and no further reconciliation is asked for.
\<close>

theorem installation_completes:
  assumes "settled_installation E objs devs ph cr tob path settle"
    and "devs w (dev_key cr) = Some cr" and "dev_Phase cr = PhasePrepare" and "rd_phaseHandler r = ph"
    and "\<And>n. \<exists>m \<ge> n. \<exists>ob. objs (settle (snd (snd (rounds E settle (dev_key cr) m (r, True, w)))))
          (gvk_DeploymentConfig, key_of (dev_Namespace cr) DatabaseDeployment) = Some ob \<and> ready_replicas (ob_Payload ob) = 1"
  shows "\<exists>N. \<forall>n \<ge> N. \<exists>r' w' d. rounds E settle (dev_key cr) n (r, True, w) = (r', False, w') \<and>
    devs w' (dev_key cr) = Some d \<and> dev_Phase d = PhaseComplete \<and>
    (\<forall>res \<in> set operator_resources. objs w' (store_key (tob res)) \<noteq> None)"
proof -
  note L = assms(1)
  then have I: "installation E objs devs ph cr tob path" by (rule settled_installation.axioms)
  have "installation.stored devs cr PhasePrepare w"
    unfolding installation.stored_def [OF I] using assms(2,3) by simp
  moreover have "\<exists>m \<ge> n. settled_installation.ready objs cr settle (rounds E settle (dev_key cr) m (r, True, w))" for n
    using assms(5) [of n] unfolding settled_installation.ready_def [OF L] installation.database_key_def [OF I] .
  ultimately obtain N where N: "\<forall>n \<ge> N. installation.reached objs devs ph cr tob PhaseComplete operator_resources False
      (rounds E settle (dev_key cr) n (r, True, w))"
    using settled_installation.rounds_complete [OF L _ assms(4)] by blast
  then have "\<exists>r' w' d. rounds E settle (dev_key cr) n (r, True, w) = (r', False, w') \<and>
      devs w' (dev_key cr) = Some d \<and> dev_Phase d = PhaseComplete \<and>
      (\<forall>res \<in> set operator_resources. objs w' (store_key (tob res)) \<noteq> None)" if "n \<ge> N" for n
    using that unfolding installation.reached_def [OF I] installation.stored_def [OF I] by (fastforce split: prod.splits)
  then show ?thesis by blast
qed

lemma installation_completes_witness:
  "\<exists>n r' w' d. rounds (cluster install_site) install_settle (dev_key install_dev) n
      (\<lparr>rd_phaseHandler = Dev_NewPhaseHandler sample_scheme\<rparr>, True, sample_world [install_dev] []) = (r', False, w') \<and>
    stored_dev w' (dev_key install_dev) = Some d \<and> dev_Phase d = PhaseComplete \<and>
    lookup_object w' (store_key (install_object KieServerDeploymentResource)) \<noteq> None"
proof -
  let ?r = "\<lparr>rd_phaseHandler = Dev_NewPhaseHandler sample_scheme\<rparr>" and ?w = "sample_world [install_dev] []"
  have w: "stored_dev ?w (dev_key install_dev) = Some install_dev" by (simp add: stored_dev_def sample_world_def)
  have "\<exists>ob. lookup_object (install_settle v) (gvk_DeploymentConfig, key_of (dev_Namespace install_dev) DatabaseDeployment) = Some ob \<and>
      ready_replicas (ob_Payload ob) = 1" for v
    by (simp add: lookup_object_def install_settle_def install_object_def store_key_def object_key_def key_of_def
        DatabaseDeploymentConfigResource_def sample_defs)
  then obtain N where N: "\<forall>n \<ge> N. \<exists>r' w' d. rounds (cluster install_site) install_settle (dev_key install_dev) n (?r, True, ?w) = (r', False, w') \<and>
      stored_dev w' (dev_key install_dev) = Some d \<and> dev_Phase d = PhaseComplete \<and>
      (\<forall>res \<in> set operator_resources. lookup_object w' (store_key (install_object res)) \<noteq> None)"
    using installation_completes [OF sample_installation.settled_installation_axioms w, of ?r] by (auto simp: sample_dev_def)
  have "KieServerDeploymentResource \<in> set operator_resources" by (simp add: operator_resources_def)
  with N [rule_format, of N] show ?thesis by blast
qed

end
