(* ===== verification/MemoryCopies.thy ===== *)
theory MemoryCopies
  imports ApiTypes
begin


text \<open>
  Go's memory as far as deep copies need it, and what it means to copy a value deeply. The rest
  of the development has values only; here a pointer, a slice and a map are addresses, so that
  two values can share cells. \<^theory_text>\<open>deep_copy\<close> is the contract of a copying function: the copy
  reads as the original and lives in fresh cells. Pointers, slices and pairs of copies are copied
  deeply when their parts are.
\<close>

subsection \<open>Memory\<close>

type_synonym addr = nat

text \<open>A slice points into an array. Its capacity plays no part: nothing here appends.\<close>

record slice =
  sl_array :: addr
  sl_offset :: nat
  sl_len :: nat

text \<open>
  The structs that hold pointers, as they lie in memory; the others hold strings only and are the
  records of theory ApiTypes.
\<close>

record OwnerReference_mem =
  orm_APIVersion :: string
  orm_Kind :: string
  orm_Name :: string
  orm_UID :: string
  orm_Controller :: "addr option"
  orm_BlockOwnerDeletion :: "addr option"

record ObjectMeta_mem =
  omm_Name :: string
  omm_Namespace :: string
  omm_UID :: string
  omm_ResourceVersion :: string
  omm_Labels :: "addr option"
  omm_Finalizers :: "slice option"
  omm_OwnerReferences :: "slice option"
  omm_DeletionTimestamp :: "addr option"

record ListMeta =
  lm_SelfLink :: string
  lm_ResourceVersion :: string
  lm_Continue :: string

record RhpamDev_mem =
  devm_TypeMeta :: TypeMeta
  devm_ObjectMeta :: ObjectMeta_mem
  devm_Spec :: RhpamDevSpec
  devm_Status :: RhpamDevStatus

record RhpamDevList_mem =
  dlm_TypeMeta :: TypeMeta
  dlm_ListMeta :: ListMeta
  dlm_Items :: "slice option"

record User_mem =
  userm_Username :: string
  userm_Password :: string
  userm_Roles :: "slice option"

record RhpamUserSpec_mem =
  usm_Roles :: "slice option"
  usm_Users :: "slice option"

record RhpamUser_mem =
  rum_TypeMeta :: TypeMeta
  rum_ObjectMeta :: ObjectMeta_mem
  rum_Spec :: RhpamUserSpec_mem
  rum_Status :: RhpamUserStatus

record RhpamUserList_mem =
  ulm_TypeMeta :: TypeMeta
  ulm_ListMeta :: ListMeta
  ulm_Items :: "slice option"

named_theorems cell_readers \<open>how a cell is read as a value of one type\<close>

text \<open>What one address can hold: a value of a type, an array, or the entries of a map.\<close>

datatype cell =
    BoolCell bool
  | TimeCell string
  | MapCell "(string \<times> string) list"
  | StringArray "string list"
  | OwnerArray "OwnerReference_mem list"
  | RolePointers "addr option list"
  | UserPointers "addr option list"
  | DevArray "RhpamDev_mem list"
  | RhpamUserArray "RhpamUser_mem list"
  | RoleCell Role
  | UserCell User_mem
  | DatabaseConfigCell RhpamDatabaseConfig
  | BusinessCentralConfigCell RhpamBusinessCentralConfig
  | KieServerConfigCell RhpamKieServerConfig
  | ConfigCell RhpamConfig
  | DevSpecCell RhpamDevSpec
  | DevStatusCell RhpamDevStatus
  | DevCell RhpamDev_mem
  | DevListCell RhpamDevList_mem
  | UserSpecCell RhpamUserSpec_mem
  | UserStatusCell RhpamUserStatus
  | RhpamUserCell RhpamUser_mem
  | RhpamUserListCell RhpamUserList_mem

type_synonym cells = "addr \<rightharpoonup> cell"

text \<open>
  Reading a cell as a value of one type: the source is typed, so a cell is only read as what it
  was written as.
\<close>

definition bool_in :: "cell \<Rightarrow> bool option" where
  [cell_readers]: "bool_in c = (case c of BoolCell v \<Rightarrow> Some v | _ \<Rightarrow> None)"
definition time_in :: "cell \<Rightarrow> string option" where
  [cell_readers]: "time_in c = (case c of TimeCell v \<Rightarrow> Some v | _ \<Rightarrow> None)"
definition map_in :: "cell \<Rightarrow> ((string \<times> string) list) option" where
  [cell_readers]: "map_in c = (case c of MapCell v \<Rightarrow> Some v | _ \<Rightarrow> None)"
definition strings_in :: "cell \<Rightarrow> (string list) option" where
  [cell_readers]: "strings_in c = (case c of StringArray v \<Rightarrow> Some v | _ \<Rightarrow> None)"
definition owners_in :: "cell \<Rightarrow> (OwnerReference_mem list) option" where
  [cell_readers]: "owners_in c = (case c of OwnerArray v \<Rightarrow> Some v | _ \<Rightarrow> None)"
definition role_pointers_in :: "cell \<Rightarrow> (addr option list) option" where
  [cell_readers]: "role_pointers_in c = (case c of RolePointers v \<Rightarrow> Some v | _ \<Rightarrow> None)"
definition user_pointers_in :: "cell \<Rightarrow> (addr option list) option" where
  [cell_readers]: "user_pointers_in c = (case c of UserPointers v \<Rightarrow> Some v | _ \<Rightarrow> None)"
definition devs_in :: "cell \<Rightarrow> (RhpamDev_mem list) option" where
  [cell_readers]: "devs_in c = (case c of DevArray v \<Rightarrow> Some v | _ \<Rightarrow> None)"
definition rhpam_users_in :: "cell \<Rightarrow> (RhpamUser_mem list) option" where
  [cell_readers]: "rhpam_users_in c = (case c of RhpamUserArray v \<Rightarrow> Some v | _ \<Rightarrow> None)"
definition role_in :: "cell \<Rightarrow> Role option" where
  [cell_readers]: "role_in c = (case c of RoleCell v \<Rightarrow> Some v | _ \<Rightarrow> None)"
definition user_in :: "cell \<Rightarrow> User_mem option" where
  [cell_readers]: "user_in c = (case c of UserCell v \<Rightarrow> Some v | _ \<Rightarrow> None)"
definition database_config_in :: "cell \<Rightarrow> RhpamDatabaseConfig option" where
  [cell_readers]: "database_config_in c = (case c of DatabaseConfigCell v \<Rightarrow> Some v | _ \<Rightarrow> None)"
definition business_central_config_in :: "cell \<Rightarrow> RhpamBusinessCentralConfig option" where
  [cell_readers]: "business_central_config_in c = (case c of BusinessCentralConfigCell v \<Rightarrow> Some v | _ \<Rightarrow> None)"
definition kie_server_config_in :: "cell \<Rightarrow> RhpamKieServerConfig option" where
  [cell_readers]: "kie_server_config_in c = (case c of KieServerConfigCell v \<Rightarrow> Some v | _ \<Rightarrow> None)"
definition config_in :: "cell \<Rightarrow> RhpamConfig option" where
  [cell_readers]: "config_in c = (case c of ConfigCell v \<Rightarrow> Some v | _ \<Rightarrow> None)"
definition dev_spec_in :: "cell \<Rightarrow> RhpamDevSpec option" where
  [cell_readers]: "dev_spec_in c = (case c of DevSpecCell v \<Rightarrow> Some v | _ \<Rightarrow> None)"
definition dev_status_in :: "cell \<Rightarrow> RhpamDevStatus option" where
  [cell_readers]: "dev_status_in c = (case c of DevStatusCell v \<Rightarrow> Some v | _ \<Rightarrow> None)"
definition dev_in :: "cell \<Rightarrow> RhpamDev_mem option" where
  [cell_readers]: "dev_in c = (case c of DevCell v \<Rightarrow> Some v | _ \<Rightarrow> None)"
definition dev_list_in :: "cell \<Rightarrow> RhpamDevList_mem option" where
  [cell_readers]: "dev_list_in c = (case c of DevListCell v \<Rightarrow> Some v | _ \<Rightarrow> None)"
definition user_spec_in :: "cell \<Rightarrow> RhpamUserSpec_mem option" where
  [cell_readers]: "user_spec_in c = (case c of UserSpecCell v \<Rightarrow> Some v | _ \<Rightarrow> None)"
definition user_status_in :: "cell \<Rightarrow> RhpamUserStatus option" where
  [cell_readers]: "user_status_in c = (case c of UserStatusCell v \<Rightarrow> Some v | _ \<Rightarrow> None)"
definition rhpam_user_in :: "cell \<Rightarrow> RhpamUser_mem option" where
  [cell_readers]: "rhpam_user_in c = (case c of RhpamUserCell v \<Rightarrow> Some v | _ \<Rightarrow> None)"
definition rhpam_user_list_in :: "cell \<Rightarrow> RhpamUserList_mem option" where
  [cell_readers]: "rhpam_user_list_in c = (case c of RhpamUserListCell v \<Rightarrow> Some v | _ \<Rightarrow> None)"

text \<open>The kinds of cells: what is written is read back.\<close>

locale cell_kind =
  fixes wrap :: "'v \<Rightarrow> cell" and unwrap :: "cell \<Rightarrow> 'v option"
  assumes unwrap_wrap: "unwrap (wrap v) = Some v"

subsection \<open>Operations on memory\<close>

text \<open>
  \<^theory_text>\<open>reserve\<close> is the allocation of new and make: the address is taken, and its cell appears
  when the copy is complete; nothing reads the zero value in between. An operation on memory
  has no result when it reads an address that holds nothing of the type.
\<close>

record memory =
  mem_cells :: cells
  mem_next :: addr

type_synonym 'a mem = "memory \<Rightarrow> ('a \<times> memory) option"

definition mreturn :: "'a \<Rightarrow> 'a mem" where
  "mreturn v = (\<lambda>m. Some (v, m))"

definition mbind :: "'a mem \<Rightarrow> ('a \<Rightarrow> 'b mem) \<Rightarrow> 'b mem" where
  "mbind f g = (\<lambda>m. case f m of None \<Rightarrow> None | Some (v, m') \<Rightarrow> g v m')"

definition reserve :: "addr mem" where
  "reserve = (\<lambda>m. Some (mem_next m, m\<lparr>mem_next := Suc (mem_next m)\<rparr>))"

definition load :: "(cell \<Rightarrow> 'v option) \<Rightarrow> addr \<Rightarrow> 'v mem" where
  "load unwrap a = (\<lambda>m. case Option.bind (mem_cells m a) unwrap of None \<Rightarrow> None | Some v \<Rightarrow> Some (v, m))"

definition store_cell :: "addr \<Rightarrow> cell \<Rightarrow> unit mem" where
  "store_cell a c = (\<lambda>m. Some ((), m\<lparr>mem_cells := (mem_cells m)(a \<mapsto> c)\<rparr>))"

text \<open>A pointer: when it is not nil, a new cell with the deep copy of what it points to.\<close>

definition copy_pointer :: "('v \<Rightarrow> cell) \<Rightarrow> (cell \<Rightarrow> 'v option) \<Rightarrow> ('v \<Rightarrow> 'v mem) \<Rightarrow> addr option \<Rightarrow> addr option mem" where
  "copy_pointer wrap unwrap copy p = (case p of None \<Rightarrow> mreturn None
   | Some a \<Rightarrow> mbind reserve (\<lambda>b. mbind (load unwrap a) (\<lambda>v. mbind (copy v) (\<lambda>v'.
       mbind (store_cell b (wrap v')) (\<lambda>_. mreturn (Some b))))))"

text \<open>The loop over the elements, in the order of their indices.\<close>

primrec copy_elements :: "('v \<Rightarrow> 'v mem) \<Rightarrow> 'v list \<Rightarrow> 'v list mem" where
  "copy_elements copy [] = mreturn []"
| "copy_elements copy (v # vs) =
     mbind (copy v) (\<lambda>v'. mbind (copy_elements copy vs) (\<lambda>vs'. mreturn (v' # vs')))"

definition elements :: "slice \<Rightarrow> 'v list \<Rightarrow> 'v list" where
  "elements s vs = take (sl_len s) (drop (sl_offset s) vs)"

text \<open>A slice: when it is not nil, a new array of its length with the deep copies of its elements.\<close>

definition copy_slice :: "('v list \<Rightarrow> cell) \<Rightarrow> (cell \<Rightarrow> 'v list option) \<Rightarrow> ('v \<Rightarrow> 'v mem) \<Rightarrow> slice option \<Rightarrow> slice option mem" where
  "copy_slice wrap unwrap copy p = (case p of None \<Rightarrow> mreturn None
   | Some s \<Rightarrow> mbind reserve (\<lambda>b. mbind (load unwrap (sl_array s)) (\<lambda>vs.
       mbind (copy_elements copy (elements s vs)) (\<lambda>vs'. mbind (store_cell b (wrap vs')) (\<lambda>_.
       mreturn (Some \<lparr>sl_array = b, sl_offset = 0, sl_len = sl_len s\<rparr>))))))"

text \<open>Two fields, one after the other.\<close>

definition copy_both :: "('a \<Rightarrow> 'a mem) \<Rightarrow> ('b \<Rightarrow> 'b mem) \<Rightarrow> 'a \<times> 'b \<Rightarrow> ('a \<times> 'b) mem" where
  "copy_both f g p = mbind (f (fst p)) (\<lambda>v. mbind (g (snd p)) (\<lambda>w. mreturn (v, w)))"

lemma mbind_mreturn [simp]: "mbind (mreturn v) f = f v"
  by (simp add: mbind_def mreturn_def)

lemma mbind_assoc [simp]: "mbind (mbind f g) k = mbind f (\<lambda>v. mbind (g v) k)"
  by (rule ext) (simp add: mbind_def split: option.splits prod.splits)

subsection \<open>What a value in memory denotes\<close>

text \<open>
  A value in memory is read as a value without addresses, if everything it points to is there;
  its footprint is the list of the addresses read. A nil slice and an empty one denote the same list.
\<close>

type_synonym ('v, 'x) reading = "cells \<Rightarrow> 'v \<Rightarrow> 'x option"
type_synonym 'v footprint = "cells \<Rightarrow> 'v \<Rightarrow> addr list"

definition read_plain :: "('v, 'v) reading" where
  "read_plain cs v = Some v"
definition at_plain :: "'v footprint" where
  "at_plain cs v = []"

definition read_pointer :: "(cell \<Rightarrow> 'v option) \<Rightarrow> ('v, 'x) reading \<Rightarrow> (addr option, 'x option) reading" where
  "read_pointer unwrap rd cs p = (case p of None \<Rightarrow> Some None
   | Some a \<Rightarrow> (case Option.bind (cs a) unwrap of None \<Rightarrow> None | Some v \<Rightarrow> map_option Some (rd cs v)))"
definition at_pointer :: "(cell \<Rightarrow> 'v option) \<Rightarrow> 'v footprint \<Rightarrow> addr option footprint" where
  "at_pointer unwrap fp cs p = (case p of None \<Rightarrow> []
   | Some a \<Rightarrow> a # (case Option.bind (cs a) unwrap of None \<Rightarrow> [] | Some v \<Rightarrow> fp cs v))"

definition read_elements :: "('v, 'x) reading \<Rightarrow> ('v list, 'x list) reading" where
  "read_elements rd cs vs = those (map (rd cs) vs)"
definition at_elements :: "'v footprint \<Rightarrow> 'v list footprint" where
  "at_elements fp cs vs = concat (map (fp cs) vs)"

definition read_slice :: "(cell \<Rightarrow> 'v list option) \<Rightarrow> ('v, 'x) reading \<Rightarrow> (slice option, 'x list) reading" where
  "read_slice unwrap rd cs p = (case p of None \<Rightarrow> Some []
   | Some s \<Rightarrow> (case Option.bind (cs (sl_array s)) unwrap of None \<Rightarrow> None
      | Some vs \<Rightarrow> if sl_offset s + sl_len s \<le> length vs then read_elements rd cs (elements s vs) else None))"
definition at_slice :: "(cell \<Rightarrow> 'v list option) \<Rightarrow> 'v footprint \<Rightarrow> slice option footprint" where
  "at_slice unwrap fp cs p = (case p of None \<Rightarrow> []
   | Some s \<Rightarrow> sl_array s # (case Option.bind (cs (sl_array s)) unwrap of None \<Rightarrow> [] | Some vs \<Rightarrow> at_elements fp cs (elements s vs)))"

definition read_both :: "('a, 'x) reading \<Rightarrow> ('b, 'y) reading \<Rightarrow> ('a \<times> 'b, 'x \<times> 'y) reading" where
  "read_both rd rd' cs p = (case rd cs (fst p) of None \<Rightarrow> None | Some x \<Rightarrow> map_option (Pair x) (rd' cs (snd p)))"
definition at_both :: "'a footprint \<Rightarrow> 'b footprint \<Rightarrow> ('a \<times> 'b) footprint" where
  "at_both fp fp' cs p = fp cs (fst p) @ fp' cs (snd p)"

lemma those_eq_Some: "those os = Some xs \<longleftrightarrow> os = map Some xs"
  by (induction os arbitrary: xs) (auto split: option.splits simp: Cons_eq_map_conv)

subsection \<open>Deep copies\<close>

text \<open>Memory whose addresses from \<^theory_text>\<open>mem_next\<close> on are free, and memory that has only grown.\<close>

definition sound_memory :: "memory \<Rightarrow> bool" where
  "sound_memory m \<longleftrightarrow> (\<forall>a \<ge> mem_next m. mem_cells m a = None)"

definition grown :: "memory \<Rightarrow> memory \<Rightarrow> bool" where
  "grown m m' \<longleftrightarrow> sound_memory m' \<and> mem_next m \<le> mem_next m' \<and> (\<forall>a < mem_next m. mem_cells m' a = mem_cells m a)"

lemma grown_trans [trans]: "grown m m' \<Longrightarrow> grown m' m'' \<Longrightarrow> grown m m''"
  by (simp add: grown_def)

lemma grown_refl: "sound_memory m \<Longrightarrow> grown m m"
  by (simp add: grown_def)

lemma grown_sound: "grown m m' \<Longrightarrow> sound_memory m'"
  by (simp add: grown_def)

locale readable =
  fixes rd :: "('v, 'x) reading" and fp :: "'v footprint"
  assumes read_frame: "(\<And>a. a \<in> set (fp cs v) \<Longrightarrow> cs' a = cs a) \<Longrightarrow> rd cs' v = rd cs v"
    and at_frame: "(\<And>a. a \<in> set (fp cs v) \<Longrightarrow> cs' a = cs a) \<Longrightarrow> fp cs' v = fp cs v"
    and allocated: "rd cs v = Some x \<Longrightarrow> set (fp cs v) \<subseteq> dom cs"
begin

lemma old_addresses:
  assumes "sound_memory m" and "rd (mem_cells m) v = Some x"
  shows "set (fp (mem_cells m) v) \<subseteq> {..<mem_next m}"
proof
  fix a
  assume "a \<in> set (fp (mem_cells m) v)"
  with allocated [OF assms(2)] have "mem_cells m a \<noteq> None" by auto
  with assms(1) show "a \<in> {..<mem_next m}" by (auto simp: sound_memory_def not_less [symmetric])
qed

lemma still_there:
  assumes "sound_memory m" and "rd (mem_cells m) v = Some x" and "grown m m'"
  shows "rd (mem_cells m') v = Some x" and "fp (mem_cells m') v = fp (mem_cells m) v"
proof -
  have same: "mem_cells m' a = mem_cells m a" if "a \<in> set (fp (mem_cells m) v)" for a
    using old_addresses [OF assms(1,2)] that assms(3) by (auto simp: grown_def)
  show "rd (mem_cells m') v = Some x" using read_frame [OF same] assms(2) by simp
  show "fp (mem_cells m') v = fp (mem_cells m) v" using at_frame [OF same] .
qed

end

text \<open>Memory has grown by a value that denotes this one, all of it in new cells.\<close>

definition copied :: "('v, 'x) reading \<Rightarrow> 'v footprint \<Rightarrow> memory \<Rightarrow> 'x \<Rightarrow> ('v \<times> memory) option \<Rightarrow> bool" where
  "copied rd fp m x r \<longleftrightarrow> (\<exists>v' m'. r = Some (v', m') \<and> grown m m' \<and> rd (mem_cells m') v' = Some x \<and>
     set (fp (mem_cells m') v') \<subseteq> {mem_next m..<mem_next m'})"

lemma copiedI:
  "grown m m' \<Longrightarrow> rd (mem_cells m') v' = Some x \<Longrightarrow> set (fp (mem_cells m') v') \<subseteq> {mem_next m..<mem_next m'} \<Longrightarrow>
     copied rd fp m x (Some (v', m'))"
  by (auto simp: copied_def)

lemma copiedE:
  assumes "copied rd fp m x r"
  obtains v' m' where "r = Some (v', m')" and "grown m m'" and "rd (mem_cells m') v' = Some x"
    and "set (fp (mem_cells m') v') \<subseteq> {mem_next m..<mem_next m'}"
  using assms by (auto simp: copied_def)

locale deep_copy = readable +
  fixes copy :: "'a \<Rightarrow> 'a mem"
  assumes copies: "sound_memory m \<Longrightarrow> rd (mem_cells m) v = Some x \<Longrightarrow> copied rd fp m x (copy v m)"
begin

text \<open>Original and copy are independent: what is done to the one does not show in the other.\<close>

lemma independent:
  assumes "sound_memory m" and "rd (mem_cells m) v = Some x"
  shows "\<exists>v' m'. copy v m = Some (v', m') \<and> sound_memory m' \<and>
    (\<forall>cs. (\<forall>a. a \<notin> set (fp (mem_cells m') v') \<longrightarrow> cs a = mem_cells m' a) \<longrightarrow> rd cs v = Some x) \<and>
    (\<forall>cs. (\<forall>a. a \<notin> set (fp (mem_cells m) v) \<longrightarrow> cs a = mem_cells m' a) \<longrightarrow> rd cs v' = Some x)"
proof -
  obtain v' m' where c: "copy v m = Some (v', m')" and g: "grown m m'" and r: "rd (mem_cells m') v' = Some x"
    and f: "set (fp (mem_cells m') v') \<subseteq> {mem_next m..<mem_next m'}"
    using copies [OF assms] by (rule copiedE)
  note old = old_addresses [OF assms] and there = still_there [OF assms g]
  have "rd cs v = Some x" if "\<forall>a. a \<notin> set (fp (mem_cells m') v') \<longrightarrow> cs a = mem_cells m' a" for cs
  proof -
    have "cs a = mem_cells m' a" if "a \<in> set (fp (mem_cells m') v)" for a
      using that \<open>\<forall>a. a \<notin> set (fp (mem_cells m') v') \<longrightarrow> cs a = mem_cells m' a\<close> old f there(2) by fastforce
    from read_frame [OF this] there(1) show ?thesis by simp
  qed
  moreover have "rd cs v' = Some x" if "\<forall>a. a \<notin> set (fp (mem_cells m) v) \<longrightarrow> cs a = mem_cells m' a" for cs
  proof -
    have "cs a = mem_cells m' a" if "a \<in> set (fp (mem_cells m') v')" for a
      using that \<open>\<forall>a. a \<notin> set (fp (mem_cells m) v) \<longrightarrow> cs a = mem_cells m' a\<close> old f by fastforce
    from read_frame [OF this] r show ?thesis by simp
  qed
  ultimately show ?thesis using c grown_sound [OF g] by blast
qed

end

subsection \<open>Deep copies from deep copies\<close>

lemma deep_copyI:
  assumes "readable rd fp"
    and "\<And>m v x. sound_memory m \<Longrightarrow> rd (mem_cells m) v = Some x \<Longrightarrow> copied rd fp m x (copy v m)"
  shows "deep_copy rd fp copy"
  using assms by (simp add: deep_copy_def deep_copy_axioms_def)

lemma deep_copy_readable: "deep_copy rd fp copy \<Longrightarrow> readable rd fp"
  by (simp add: deep_copy_def)

lemma deep_copy_plain: "deep_copy read_plain at_plain mreturn"
  by (rule deep_copyI) (unfold_locales, auto simp: read_plain_def at_plain_def mreturn_def grown_refl copied_def)

lemma same_reading:
  assumes "readable rd fp" and "\<forall>a \<in> set (fp cs v). cs' a = cs a"
  shows "rd cs' v = rd cs v" and "fp cs' v = fp cs v"
  using readable.read_frame [OF assms(1), of cs v cs'] readable.at_frame [OF assms(1), of cs v cs'] assms(2)
  by auto

lemma in_memory: "readable rd fp \<Longrightarrow> rd cs v = Some x \<Longrightarrow> a \<in> set (fp cs v) \<Longrightarrow> \<exists>c. cs a = Some c"
  using readable.allocated by fastforce

text \<open>What a reserved address is filled with when the copy of its content is complete.\<close>

lemma filled:
  assumes "sound_memory m" and "readable rd fp" and "copied rd fp (m\<lparr>mem_next := Suc (mem_next m)\<rparr>) y r"
  obtains v m' where "r = Some (v, m')" and "grown m (m'\<lparr>mem_cells := (mem_cells m')(mem_next m \<mapsto> wrap v)\<rparr>)"
    and "rd ((mem_cells m')(mem_next m \<mapsto> wrap v)) v = Some y"
    and "set (fp ((mem_cells m')(mem_next m \<mapsto> wrap v)) v) \<subseteq> {mem_next m..<mem_next m'}"
    and "mem_next m < mem_next m'"
proof -
  obtain v m' where r: "r = Some (v, m')" and g: "grown (m\<lparr>mem_next := Suc (mem_next m)\<rparr>) m'"
      and y: "rd (mem_cells m') v = Some y" and f: "set (fp (mem_cells m') v) \<subseteq> {Suc (mem_next m)..<mem_next m'}"
    using assms(3) by (rule copiedE) simp
  let ?cs = "(mem_cells m')(mem_next m \<mapsto> wrap v)"
  have "rd ?cs v = rd (mem_cells m') v" and same: "fp ?cs v = fp (mem_cells m') v"
    by (rule same_reading [OF assms(2)], use f in auto)+
  moreover have "grown m (m'\<lparr>mem_cells := ?cs\<rparr>)" and "mem_next m < mem_next m'"
    using assms(1) g by (auto simp: grown_def sound_memory_def)
  moreover have "set (fp ?cs v) \<subseteq> {mem_next m..<mem_next m'}" using f by (auto simp: same)
  ultimately show thesis using that r y by simp
qed

lemma sound_reserve: "sound_memory m \<Longrightarrow> sound_memory (m\<lparr>mem_next := Suc (mem_next m)\<rparr>)"
  by (auto simp: sound_memory_def)

lemmas mem_ops = reserve_def load_def store_cell_def mbind_def mreturn_def

lemma readable_pointer:
  assumes "readable rd fp"
  shows "readable (read_pointer unwrap rd) (at_pointer unwrap fp)"
proof
  fix cs cs' :: cells and p
  assume same: "\<And>a. a \<in> set (at_pointer unwrap fp cs p) \<Longrightarrow> cs' a = cs a"
  show "read_pointer unwrap rd cs' p = read_pointer unwrap rd cs p"
    using same by (cases p) (auto simp: read_pointer_def at_pointer_def same_reading [OF assms, of cs _ cs'] split: option.splits)
  show "at_pointer unwrap fp cs' p = at_pointer unwrap fp cs p"
    using same by (cases p) (auto simp: at_pointer_def same_reading [OF assms, of cs _ cs'] split: option.splits)
next
  fix cs :: cells and p x
  assume "read_pointer unwrap rd cs p = Some x"
  then show "set (at_pointer unwrap fp cs p) \<subseteq> dom cs"
    by (cases p) (auto simp: read_pointer_def at_pointer_def split: option.splits dest: in_memory [OF assms])
qed

lemma deep_copy_pointer:
  assumes "cell_kind wrap unwrap" and "deep_copy rd fp copy"
  shows "deep_copy (read_pointer unwrap rd) (at_pointer unwrap fp) (copy_pointer wrap unwrap copy)"
proof (rule deep_copyI)
  show "readable (read_pointer unwrap rd) (at_pointer unwrap fp)"
    by (rule readable_pointer [OF deep_copy_readable [OF assms(2)]])
next
  fix m p x
  assume s: "sound_memory m" and r: "read_pointer unwrap rd (mem_cells m) p = Some x"
  show "copied (read_pointer unwrap rd) (at_pointer unwrap fp) m x (copy_pointer wrap unwrap copy p m)"
  proof (cases p)
    case None
    with r s show ?thesis
      by (auto simp: copy_pointer_def read_pointer_def at_pointer_def mreturn_def grown_refl copied_def)
  next
    case (Some a)
    let ?m = "m\<lparr>mem_next := Suc (mem_next m)\<rparr>"
    obtain v y where v: "Option.bind (mem_cells m a) unwrap = Some v" and y: "rd (mem_cells ?m) v = Some y" "x = Some y"
      using r Some by (auto simp: read_pointer_def split: option.splits)
    note R = deep_copy_readable [OF assms(2)]
    obtain v' m' where c: "copy v ?m = Some (v', m')" and g: "grown m (m'\<lparr>mem_cells := (mem_cells m')(mem_next m \<mapsto> wrap v')\<rparr>)"
        and "rd ((mem_cells m')(mem_next m \<mapsto> wrap v')) v' = Some y"
        and "set (fp ((mem_cells m')(mem_next m \<mapsto> wrap v')) v') \<subseteq> {mem_next m..<mem_next m'}"
        and "mem_next m < mem_next m'"
      by (rule filled [where wrap = wrap, OF s R deep_copy.copies [OF assms(2) sound_reserve [OF s] y(1)]])
    then have "copied (read_pointer unwrap rd) (at_pointer unwrap fp) m x
        (Some (Some (mem_next m), m'\<lparr>mem_cells := (mem_cells m')(mem_next m \<mapsto> wrap v')\<rparr>))"
      using y(2) cell_kind.unwrap_wrap [OF assms(1)] by (intro copiedI) (auto simp: read_pointer_def at_pointer_def)
    then show ?thesis using Some v c by (simp add: copy_pointer_def mem_ops)
  qed
qed

lemma readable_elements:
  assumes "readable rd fp"
  shows "readable (read_elements rd) (at_elements fp)"
proof
  fix cs cs' :: cells and vs
  assume same: "\<And>a. a \<in> set (at_elements fp cs vs) \<Longrightarrow> cs' a = cs a"
  then have each: "\<forall>a \<in> set (fp cs v). cs' a = cs a" if "v \<in> set vs" for v
    using that by (auto simp: at_elements_def)
  show "read_elements rd cs' vs = read_elements rd cs vs"
    unfolding read_elements_def by (rule arg_cong [where f = those], rule map_cong [OF refl]) (rule same_reading [OF assms each])
  show "at_elements fp cs' vs = at_elements fp cs vs"
    unfolding at_elements_def by (rule arg_cong [where f = concat], rule map_cong [OF refl]) (rule same_reading [OF assms each])
next
  fix cs :: cells and vs xs
  assume "read_elements rd cs vs = Some xs"
  then have m: "map (rd cs) vs = map Some xs" by (simp add: read_elements_def those_eq_Some)
  have "set (fp cs v) \<subseteq> dom cs" if "v \<in> set vs" for v
  proof -
    have "rd cs v \<in> set (map Some xs)" using that by (simp flip: m)
    then obtain x where "rd cs v = Some x" by auto
    then show ?thesis by (rule readable.allocated [OF assms])
  qed
  then show "set (at_elements fp cs vs) \<subseteq> dom cs" by (auto simp: at_elements_def)
qed

lemma readable_both:
  assumes "readable rd fp" and "readable rd' fp'"
  shows "readable (read_both rd rd') (at_both fp fp')"
proof
  fix cs cs' :: cells and p
  assume "\<And>a. a \<in> set (at_both fp fp' cs p) \<Longrightarrow> cs' a = cs a"
  then have "\<forall>a \<in> set (fp cs (fst p)). cs' a = cs a" and "\<forall>a \<in> set (fp' cs (snd p)). cs' a = cs a"
    by (auto simp: at_both_def)
  note same = same_reading [OF assms(1) this(1)] same_reading [OF assms(2) this(2)]
  show "read_both rd rd' cs' p = read_both rd rd' cs p" by (simp add: read_both_def same split: option.split)
  show "at_both fp fp' cs' p = at_both fp fp' cs p" by (simp add: at_both_def same)
next
  fix cs :: cells and p x
  assume "read_both rd rd' cs p = Some x"
  then show "set (at_both fp fp' cs p) \<subseteq> dom cs"
    by (auto simp: read_both_def at_both_def split: option.splits dest: in_memory [OF assms(1)] in_memory [OF assms(2)])
qed

text \<open>Two copies made one after the other: the second leaves the first alone.\<close>

lemma copied_both:
  assumes "readable rd fp" and "copied rd fp m x (f m)" and "\<And>m'. grown m m' \<Longrightarrow> copied rd' fp' m' y (g m')"
  shows "copied (read_both rd rd') (at_both fp fp') m (x, y) (mbind f (\<lambda>v. mbind g (\<lambda>w. mreturn (v, w))) m)"
proof -
  obtain v1 m1 where 1: "f m = Some (v1, m1)" "grown m m1" "rd (mem_cells m1) v1 = Some x"
      "set (fp (mem_cells m1) v1) \<subseteq> {mem_next m..<mem_next m1}"
    using assms(2) by (rule copiedE)
  obtain v2 m2 where 2: "g m1 = Some (v2, m2)" "grown m1 m2" "rd' (mem_cells m2) v2 = Some y"
      "set (fp' (mem_cells m2) v2) \<subseteq> {mem_next m1..<mem_next m2}"
    using assms(3) [OF 1(2)] by (rule copiedE)
  note there = readable.still_there [OF assms(1) grown_sound [OF 1(2)] 1(3) 2(2)]
  have "mem_next m \<le> mem_next m1" "mem_next m1 \<le> mem_next m2" using 1(2) 2(2) by (simp_all add: grown_def)
  with there 1(4) 2(3,4) have "copied (read_both rd rd') (at_both fp fp') m (x, y) (Some ((v1, v2), m2))"
    by (intro copiedI grown_trans [OF 1(2) 2(2)]) (auto simp: read_both_def at_both_def)
  with 1(1) 2(1) show ?thesis by (simp add: mbind_def mreturn_def)
qed

lemma deep_copy_both:
  assumes "deep_copy rd fp f" and "deep_copy rd' fp' g"
  shows "deep_copy (read_both rd rd') (at_both fp fp') (copy_both f g)"
proof (rule deep_copyI)
  show "readable (read_both rd rd') (at_both fp fp')"
    by (intro readable_both deep_copy_readable [OF assms(1)] deep_copy_readable [OF assms(2)])
next
  fix m p z
  assume s: "sound_memory m" and "read_both rd rd' (mem_cells m) p = Some z"
  then obtain x y where z: "z = (x, y)" and x: "rd (mem_cells m) (fst p) = Some x" and y: "rd' (mem_cells m) (snd p) = Some y"
    by (auto simp: read_both_def split: option.splits)
  show "copied (read_both rd rd') (at_both fp fp') m z (copy_both f g p m)"
    unfolding copy_both_def z
  proof (rule copied_both [OF deep_copy_readable [OF assms(1)]])
    show "copied rd fp m x (f (fst p) m)" by (rule deep_copy.copies [OF assms(1) s x])
    show "copied rd' fp' m' y (g (snd p) m')" if "grown m m'" for m'
      using readable.still_there(1) [OF deep_copy_readable [OF assms(2)] s y that]
      by (rule deep_copy.copies [OF assms(2) grown_sound [OF that]])
  qed
qed

text \<open>A struct is copied deeply when the tuple of its pointer fields is and the other fields are kept.\<close>

lemma deep_copy_struct:
  assumes "deep_copy rd fp copy" and "\<And>v. copy' v = mbind (copy (get v)) (\<lambda>w. mreturn (put w v))"
    and "\<And>cs v. rd' cs v = map_option (denote v) (rd cs (get v))" and "\<And>cs v. fp' cs v = fp cs (get v)"
    and "\<And>v w. get (put w v) = w" and "\<And>v w. denote (put w v) = denote v"
  shows "deep_copy rd' fp' copy'"
proof (rule deep_copyI)
  note R = deep_copy_readable [OF assms(1)]
  show "readable rd' fp'"
  proof
    fix cs cs' :: cells and v
    assume "\<And>a. a \<in> set (fp' cs v) \<Longrightarrow> cs' a = cs a"
    then have "\<forall>a \<in> set (fp cs (get v)). cs' a = cs a" by (simp add: assms(4))
    from same_reading [OF R this] show "rd' cs' v = rd' cs v" and "fp' cs' v = fp' cs v"
      by (simp_all add: assms(3,4))
  next
    fix cs :: cells and v x
    assume "rd' cs v = Some x"
    then show "set (fp' cs v) \<subseteq> dom cs" by (auto simp: assms(3,4) dest: in_memory [OF R])
  qed
next
  fix m v x
  assume s: "sound_memory m" and "rd' (mem_cells m) v = Some x"
  then obtain y where y: "rd (mem_cells m) (get v) = Some y" and x: "x = denote v y" by (auto simp: assms(3))
  obtain w m' where "copy (get v) m = Some (w, m')" "grown m m'" "rd (mem_cells m') w = Some y"
      "set (fp (mem_cells m') w) \<subseteq> {mem_next m..<mem_next m'}"
    using deep_copy.copies [OF assms(1) s y] by (rule copiedE)
  then show "copied rd' fp' m x (copy' v m)"
    unfolding assms(2) by (simp add: mbind_def mreturn_def copiedI assms(3-6) x)
qed

lemma deep_copy_elements:
  assumes "deep_copy rd fp copy"
  shows "deep_copy (read_elements rd) (at_elements fp) (copy_elements copy)"
proof (rule deep_copyI)
  note R = deep_copy_readable [OF assms]
  show "readable (read_elements rd) (at_elements fp)" by (rule readable_elements [OF R])
  fix m vs xs
  assume "sound_memory m" and "read_elements rd (mem_cells m) vs = Some xs"
  then show "copied (read_elements rd) (at_elements fp) m xs (copy_elements copy vs m)"
  proof (induction vs arbitrary: m xs)
    case Nil
    then show ?case by (simp add: read_elements_def at_elements_def mreturn_def copiedI grown_refl)
  next
    case (Cons v vs)
    then obtain y ys where xs: "xs = y # ys" and y: "rd (mem_cells m) v = Some y" and ys: "read_elements rd (mem_cells m) vs = Some ys"
      by (auto simp: read_elements_def split: option.splits)
    have "copied (read_both rd (read_elements rd)) (at_both fp (at_elements fp)) m (y, ys)
        (mbind (copy v) (\<lambda>v. mbind (copy_elements copy vs) (\<lambda>w. mreturn (v, w))) m)"
    proof (rule copied_both [OF R])
      show "copied rd fp m y (copy v m)" by (rule deep_copy.copies [OF assms Cons.prems(1) y])
      show "copied (read_elements rd) (at_elements fp) m' ys (copy_elements copy vs m')" if "grown m m'" for m'
        using Cons.IH [OF grown_sound [OF that]] readable.still_there(1) [OF readable_elements [OF R] Cons.prems(1) ys that] by simp
    qed
    then obtain p m' where run: "mbind (copy v) (\<lambda>v. mbind (copy_elements copy vs) (\<lambda>w. mreturn (v, w))) m = Some (p, m')"
        and g: "grown m m'" and read: "read_both rd (read_elements rd) (mem_cells m') p = Some (y, ys)"
        and f: "set (at_both fp (at_elements fp) (mem_cells m') p) \<subseteq> {mem_next m..<mem_next m'}"
      by (rule copiedE)
    have "read_elements rd (mem_cells m') (fst p # snd p) = Some xs"
      using read by (auto simp: read_both_def read_elements_def xs split: option.splits)
    moreover have "at_elements fp (mem_cells m') (fst p # snd p) = at_both fp (at_elements fp) (mem_cells m') p"
      by (simp add: at_both_def at_elements_def)
    moreover have "copy_elements copy (v # vs) m = Some (fst p # snd p, m')"
      using run by (auto simp: mbind_def mreturn_def split: option.splits prod.splits)
    ultimately show ?case using g f by (simp add: copiedI)
  qed
qed

lemma readable_slice:
  assumes "readable rd fp"
  shows "readable (read_slice unwrap rd) (at_slice unwrap fp)"
proof
  note R = readable_elements [OF assms]
  fix cs cs' :: cells and p
  assume same: "\<And>a. a \<in> set (at_slice unwrap fp cs p) \<Longrightarrow> cs' a = cs a"
  show "read_slice unwrap rd cs' p = read_slice unwrap rd cs p"
    using same by (cases p) (auto simp: read_slice_def at_slice_def same_reading [OF R, of cs _ cs'] split: option.splits)
  show "at_slice unwrap fp cs' p = at_slice unwrap fp cs p"
    using same by (cases p) (auto simp: at_slice_def same_reading [OF R, of cs _ cs'] split: option.splits)
next
  fix cs :: cells and p x
  assume "read_slice unwrap rd cs p = Some x"
  then show "set (at_slice unwrap fp cs p) \<subseteq> dom cs"
    by (cases p) (auto simp: read_slice_def at_slice_def split: option.splits if_splits dest: in_memory [OF readable_elements [OF assms]])
qed

lemma elements_length: "sl_offset s + sl_len s \<le> length vs \<Longrightarrow> length (elements s vs) = sl_len s"
  by (simp add: elements_def)

lemma read_elements_length: "read_elements rd cs vs = Some xs \<Longrightarrow> length xs = length vs"
  by (auto simp: read_elements_def those_eq_Some dest: map_eq_imp_length_eq)

lemma deep_copy_slice:
  assumes "cell_kind wrap unwrap" and "deep_copy rd fp copy"
  shows "deep_copy (read_slice unwrap rd) (at_slice unwrap fp) (copy_slice wrap unwrap copy)"
proof (rule deep_copyI)
  show "readable (read_slice unwrap rd) (at_slice unwrap fp)"
    by (rule readable_slice [OF deep_copy_readable [OF assms(2)]])
next
  fix m p xs
  assume s: "sound_memory m" and r: "read_slice unwrap rd (mem_cells m) p = Some xs"
  show "copied (read_slice unwrap rd) (at_slice unwrap fp) m xs (copy_slice wrap unwrap copy p m)"
  proof (cases p)
    case None
    with r s show ?thesis
      by (auto simp: copy_slice_def read_slice_def at_slice_def mreturn_def grown_refl copied_def)
  next
    case (Some sl)
    let ?m = "m\<lparr>mem_next := Suc (mem_next m)\<rparr>"
    obtain vs where v: "Option.bind (mem_cells m (sl_array sl)) unwrap = Some vs"
        and l: "sl_offset sl + sl_len sl \<le> length vs" and y: "read_elements rd (mem_cells ?m) (elements sl vs) = Some xs"
      using r Some by (auto simp: read_slice_def split: option.splits if_splits)
    note E = deep_copy_elements [OF assms(2)]
    let ?s = "\<lparr>sl_array = mem_next m, sl_offset = 0, sl_len = sl_len sl\<rparr>"
    obtain vs' m' where c: "copy_elements copy (elements sl vs) ?m = Some (vs', m')"
        and g: "grown m (m'\<lparr>mem_cells := (mem_cells m')(mem_next m \<mapsto> wrap vs')\<rparr>)"
        and read: "read_elements rd ((mem_cells m')(mem_next m \<mapsto> wrap vs')) vs' = Some xs"
        and f: "set (at_elements fp ((mem_cells m')(mem_next m \<mapsto> wrap vs')) vs') \<subseteq> {mem_next m..<mem_next m'}"
        and "mem_next m < mem_next m'"
      by (rule filled [where wrap = wrap, OF s deep_copy_readable [OF E] deep_copy.copies [OF E sound_reserve [OF s] y]])
    have n: "length vs' = sl_len sl"
      using read_elements_length [OF read] read_elements_length [OF y] elements_length [OF l] by simp
    then have "elements ?s vs' = vs'" by (simp add: elements_def)
    with n g read f \<open>mem_next m < mem_next m'\<close>
    have "copied (read_slice unwrap rd) (at_slice unwrap fp) m xs
        (Some (Some ?s, m'\<lparr>mem_cells := (mem_cells m')(mem_next m \<mapsto> wrap vs')\<rparr>))"
      using cell_kind.unwrap_wrap [OF assms(1)] by (intro copiedI) (auto simp: read_slice_def at_slice_def)
    then show ?thesis using Some v c by (simp add: copy_slice_def mem_ops)
  qed
qed

end
