(* ===== verification/DeepCopies.thy ===== *)
theory DeepCopies
  imports MemoryCopies
begin


text \<open>
  zz\_generated.deepcopy.go, and the vendored copies of the object metadata it calls. The
  receiver of a DeepCopyInto is read once at the beginning (\<^theory_text>\<open>*out = *in\<close>), so the method is a
  function from the struct read to the struct written to \<^theory_text>\<open>out\<close>; a DeepCopy takes
  and returns a pointer. The two controllers change the copy of the resource they fetched in
  place; that they can be modelled with values is the last property.
\<close>

subsection \<open>The structs that hold strings only\<close>

definition DeepCopyInto_RhpamBusinessCentralConfig :: "RhpamBusinessCentralConfig \<Rightarrow> RhpamBusinessCentralConfig mem" where
  "DeepCopyInto_RhpamBusinessCentralConfig i = mreturn i"

definition DeepCopy_RhpamBusinessCentralConfig :: "addr option \<Rightarrow> addr option mem" where
  "DeepCopy_RhpamBusinessCentralConfig =
     copy_pointer BusinessCentralConfigCell business_central_config_in DeepCopyInto_RhpamBusinessCentralConfig"

definition DeepCopyInto_RhpamConfig :: "RhpamConfig \<Rightarrow> RhpamConfig mem" where
  "DeepCopyInto_RhpamConfig i = mreturn (i\<lparr>cfg_DatabaseConfig := cfg_DatabaseConfig i,
     cfg_BusinessCentralConfig := cfg_BusinessCentralConfig i, cfg_KieServerConfig := cfg_KieServerConfig i\<rparr>)"

definition DeepCopy_RhpamConfig :: "addr option \<Rightarrow> addr option mem" where
  "DeepCopy_RhpamConfig = copy_pointer ConfigCell config_in DeepCopyInto_RhpamConfig"

definition DeepCopyInto_RhpamDatabaseConfig :: "RhpamDatabaseConfig \<Rightarrow> RhpamDatabaseConfig mem" where
  "DeepCopyInto_RhpamDatabaseConfig i = mreturn i"

definition DeepCopy_RhpamDatabaseConfig :: "addr option \<Rightarrow> addr option mem" where
  "DeepCopy_RhpamDatabaseConfig = copy_pointer DatabaseConfigCell database_config_in DeepCopyInto_RhpamDatabaseConfig"

definition DeepCopyInto_RhpamDevSpec :: "RhpamDevSpec \<Rightarrow> RhpamDevSpec mem" where
  "DeepCopyInto_RhpamDevSpec i = mreturn (i\<lparr>ds_Config := ds_Config i\<rparr>)"

definition DeepCopy_RhpamDevSpec :: "addr option \<Rightarrow> addr option mem" where
  "DeepCopy_RhpamDevSpec = copy_pointer DevSpecCell dev_spec_in DeepCopyInto_RhpamDevSpec"

definition DeepCopyInto_RhpamDevStatus :: "RhpamDevStatus \<Rightarrow> RhpamDevStatus mem" where
  "DeepCopyInto_RhpamDevStatus i = mreturn i"

definition DeepCopy_RhpamDevStatus :: "addr option \<Rightarrow> addr option mem" where
  "DeepCopy_RhpamDevStatus = copy_pointer DevStatusCell dev_status_in DeepCopyInto_RhpamDevStatus"

definition DeepCopyInto_RhpamKieServerConfig :: "RhpamKieServerConfig \<Rightarrow> RhpamKieServerConfig mem" where
  "DeepCopyInto_RhpamKieServerConfig i = mreturn i"

definition DeepCopy_RhpamKieServerConfig :: "addr option \<Rightarrow> addr option mem" where
  "DeepCopy_RhpamKieServerConfig = copy_pointer KieServerConfigCell kie_server_config_in DeepCopyInto_RhpamKieServerConfig"

definition DeepCopyInto_RhpamUserStatus :: "RhpamUserStatus \<Rightarrow> RhpamUserStatus mem" where
  "DeepCopyInto_RhpamUserStatus i = mreturn i"

definition DeepCopy_RhpamUserStatus :: "addr option \<Rightarrow> addr option mem" where
  "DeepCopy_RhpamUserStatus = copy_pointer UserStatusCell user_status_in DeepCopyInto_RhpamUserStatus"

definition DeepCopyInto_Role :: "Role \<Rightarrow> Role mem" where
  "DeepCopyInto_Role i = mreturn i"

definition DeepCopy_Role :: "addr option \<Rightarrow> addr option mem" where
  "DeepCopy_Role = copy_pointer RoleCell role_in DeepCopyInto_Role"

subsection \<open>Object metadata\<close>

text \<open>
  Of the metadata there are the fields of theory ApiTypes, those that the operator reads or writes;
  the library copies the others in the same ways.
\<close>

definition DeepCopyInto_OwnerReference :: "OwnerReference_mem \<Rightarrow> OwnerReference_mem mem" where
  "DeepCopyInto_OwnerReference i =
     mbind (copy_pointer BoolCell bool_in mreturn (orm_Controller i)) (\<lambda>c.
     mbind (copy_pointer BoolCell bool_in mreturn (orm_BlockOwnerDeletion i)) (\<lambda>b.
     mreturn (i\<lparr>orm_Controller := c, orm_BlockOwnerDeletion := b\<rparr>)))"

text \<open>The loop over a map that stores every entry in the new map.\<close>

definition copy_entries :: "(string \<times> string) list \<Rightarrow> (string \<times> string) list mem" where
  "copy_entries kvs = mreturn (fold (\<lambda>(key, val). AList.update key val) kvs [])"

definition DeepCopyInto_ObjectMeta :: "ObjectMeta_mem \<Rightarrow> ObjectMeta_mem mem" where
  "DeepCopyInto_ObjectMeta i =
     mbind (copy_pointer TimeCell time_in mreturn (omm_DeletionTimestamp i)) (\<lambda>d.
     mbind (copy_pointer MapCell map_in copy_entries (omm_Labels i)) (\<lambda>l.
     mbind (copy_slice OwnerArray owners_in DeepCopyInto_OwnerReference (omm_OwnerReferences i)) (\<lambda>refs.
     mbind (copy_slice StringArray strings_in mreturn (omm_Finalizers i)) (\<lambda>f.
     mreturn (i\<lparr>omm_DeletionTimestamp := d, omm_Labels := l, omm_OwnerReferences := refs, omm_Finalizers := f\<rparr>)))))"

subsection \<open>RhpamDev\<close>

definition DeepCopyInto_RhpamDev :: "RhpamDev_mem \<Rightarrow> RhpamDev_mem mem" where
  "DeepCopyInto_RhpamDev i = mbind (DeepCopyInto_ObjectMeta (devm_ObjectMeta i)) (\<lambda>om.
     mreturn (i\<lparr>devm_TypeMeta := devm_TypeMeta i, devm_ObjectMeta := om, devm_Spec := devm_Spec i, devm_Status := devm_Status i\<rparr>))"

definition DeepCopy_RhpamDev :: "addr option \<Rightarrow> addr option mem" where
  "DeepCopy_RhpamDev = copy_pointer DevCell dev_in DeepCopyInto_RhpamDev"

definition DeepCopyInto_RhpamDevList :: "RhpamDevList_mem \<Rightarrow> RhpamDevList_mem mem" where
  "DeepCopyInto_RhpamDevList i = mbind (copy_slice DevArray devs_in DeepCopyInto_RhpamDev (dlm_Items i)) (\<lambda>items.
     mreturn (i\<lparr>dlm_TypeMeta := dlm_TypeMeta i, dlm_ListMeta := dlm_ListMeta i, dlm_Items := items\<rparr>))"

definition DeepCopy_RhpamDevList :: "addr option \<Rightarrow> addr option mem" where
  "DeepCopy_RhpamDevList = copy_pointer DevListCell dev_list_in DeepCopyInto_RhpamDevList"

text \<open>A value of the interface runtime.Object that is not nil: a pointer to one of the types.\<close>

datatype runtime_Object = DevObject addr | DevListObject addr | RhpamUserObject addr | RhpamUserListObject addr

definition DeepCopyObject_RhpamDev :: "addr option \<Rightarrow> runtime_Object option mem" where
  "DeepCopyObject_RhpamDev p = mbind (DeepCopy_RhpamDev p) (\<lambda>c. case c of Some a \<Rightarrow> mreturn (Some (DevObject a)) | None \<Rightarrow> mreturn None)"

definition DeepCopyObject_RhpamDevList :: "addr option \<Rightarrow> runtime_Object option mem" where
  "DeepCopyObject_RhpamDevList p =
     mbind (DeepCopy_RhpamDevList p) (\<lambda>c. case c of Some a \<Rightarrow> mreturn (Some (DevListObject a)) | None \<Rightarrow> mreturn None)"

subsection \<open>RhpamUser\<close>

definition DeepCopyInto_User :: "User_mem \<Rightarrow> User_mem mem" where
  "DeepCopyInto_User i = mbind (copy_slice StringArray strings_in mreturn (userm_Roles i)) (\<lambda>roles.
     mreturn (i\<lparr>userm_Roles := roles\<rparr>))"

definition DeepCopy_User :: "addr option \<Rightarrow> addr option mem" where
  "DeepCopy_User = copy_pointer UserCell user_in DeepCopyInto_User"

definition DeepCopyInto_RhpamUserSpec :: "RhpamUserSpec_mem \<Rightarrow> RhpamUserSpec_mem mem" where
  "DeepCopyInto_RhpamUserSpec i =
     mbind (copy_slice RolePointers role_pointers_in (copy_pointer RoleCell role_in mreturn) (usm_Roles i)) (\<lambda>roles.
     mbind (copy_slice UserPointers user_pointers_in (copy_pointer UserCell user_in DeepCopyInto_User) (usm_Users i)) (\<lambda>users.
     mreturn (i\<lparr>usm_Roles := roles, usm_Users := users\<rparr>)))"

definition DeepCopy_RhpamUserSpec :: "addr option \<Rightarrow> addr option mem" where
  "DeepCopy_RhpamUserSpec = copy_pointer UserSpecCell user_spec_in DeepCopyInto_RhpamUserSpec"

definition DeepCopyInto_RhpamUser :: "RhpamUser_mem \<Rightarrow> RhpamUser_mem mem" where
  "DeepCopyInto_RhpamUser i =
     mbind (DeepCopyInto_ObjectMeta (rum_ObjectMeta i)) (\<lambda>om. mbind (DeepCopyInto_RhpamUserSpec (rum_Spec i)) (\<lambda>spec.
     mreturn (i\<lparr>rum_TypeMeta := rum_TypeMeta i, rum_ObjectMeta := om, rum_Spec := spec, rum_Status := rum_Status i\<rparr>)))"

definition DeepCopy_RhpamUser :: "addr option \<Rightarrow> addr option mem" where
  "DeepCopy_RhpamUser = copy_pointer RhpamUserCell rhpam_user_in DeepCopyInto_RhpamUser"

definition DeepCopyInto_RhpamUserList :: "RhpamUserList_mem \<Rightarrow> RhpamUserList_mem mem" where
  "DeepCopyInto_RhpamUserList i = mbind (copy_slice RhpamUserArray rhpam_users_in DeepCopyInto_RhpamUser (ulm_Items i)) (\<lambda>items.
     mreturn (i\<lparr>ulm_TypeMeta := ulm_TypeMeta i, ulm_ListMeta := ulm_ListMeta i, ulm_Items := items\<rparr>))"

definition DeepCopy_RhpamUserList :: "addr option \<Rightarrow> addr option mem" where
  "DeepCopy_RhpamUserList = copy_pointer RhpamUserListCell rhpam_user_list_in DeepCopyInto_RhpamUserList"

definition DeepCopyObject_RhpamUser :: "addr option \<Rightarrow> runtime_Object option mem" where
  "DeepCopyObject_RhpamUser p = mbind (DeepCopy_RhpamUser p) (\<lambda>c. case c of Some a \<Rightarrow> mreturn (Some (RhpamUserObject a)) | None \<Rightarrow> mreturn None)"

definition DeepCopyObject_RhpamUserList :: "addr option \<Rightarrow> runtime_Object option mem" where
  "DeepCopyObject_RhpamUserList p =
     mbind (DeepCopy_RhpamUserList p) (\<lambda>c. case c of Some a \<Rightarrow> mreturn (Some (RhpamUserListObject a)) | None \<Rightarrow> mreturn None)"

subsection \<open>What the structs in memory denote\<close>

text \<open>
  The denotations are the records of theory ApiTypes; the lists of resources are added here. A
  map is a list of entries with different keys.
\<close>

record RhpamDevList =
  dl_TypeMeta :: TypeMeta
  dl_ListMeta :: ListMeta
  dl_Items :: "RhpamDev list"

record RhpamUserList =
  ul_TypeMeta :: TypeMeta
  ul_ListMeta :: ListMeta
  ul_Items :: "RhpamUser list"

definition read_entries :: "((string \<times> string) list, (string \<times> string) list) reading" where
  "read_entries cs kvs = (if distinct (map fst kvs) then Some kvs else None)"

definition owner_fields :: "OwnerReference_mem \<Rightarrow> addr option \<times> addr option" where
  "owner_fields v = (orm_Controller v, orm_BlockOwnerDeletion v)"
definition denote_OwnerReference :: "OwnerReference_mem \<Rightarrow> bool option \<times> bool option \<Rightarrow> OwnerReference" where
  "denote_OwnerReference v = (\<lambda>(c, b). \<lparr>or_APIVersion = orm_APIVersion v, or_Kind = orm_Kind v, or_Name = orm_Name v, or_UID = orm_UID v,
     or_Controller = c, or_BlockOwnerDeletion = b\<rparr>)"
definition read_OwnerReference :: "(OwnerReference_mem, OwnerReference) reading" where
  "read_OwnerReference cs v =
     map_option (denote_OwnerReference v)
     (read_both (read_pointer bool_in read_plain) (read_pointer bool_in read_plain) cs (owner_fields v))"
definition at_OwnerReference :: "OwnerReference_mem footprint" where
  "at_OwnerReference cs v = at_both (at_pointer bool_in at_plain) (at_pointer bool_in at_plain) cs (owner_fields v)"

definition meta_fields :: "ObjectMeta_mem \<Rightarrow> addr option \<times> addr option \<times> slice option \<times> slice option" where
  "meta_fields v = (omm_DeletionTimestamp v, omm_Labels v, omm_OwnerReferences v, omm_Finalizers v)"
definition denote_ObjectMeta :: "ObjectMeta_mem \<Rightarrow> string option \<times> (string \<times> string) list option \<times> OwnerReference list \<times> string list \<Rightarrow> ObjectMeta" where
  "denote_ObjectMeta v = (\<lambda>(d, l, refs, f). \<lparr>om_Name = omm_Name v, om_Namespace = omm_Namespace v, om_UID = omm_UID v,
     om_ResourceVersion = omm_ResourceVersion v, om_Labels = (case l of None \<Rightarrow> [] | Some kvs \<Rightarrow> kvs),
     om_Finalizers = f,
     om_OwnerReferences = refs, om_DeletionTimestamp = d\<rparr>)"
definition read_ObjectMeta :: "(ObjectMeta_mem, ObjectMeta) reading" where
  "read_ObjectMeta cs v =
     map_option (denote_ObjectMeta v)
     (read_both (read_pointer time_in read_plain) (read_both (read_pointer map_in read_entries)
       (read_both (read_slice owners_in read_OwnerReference) (read_slice strings_in read_plain))) cs (meta_fields v))"
definition at_ObjectMeta :: "ObjectMeta_mem footprint" where
  "at_ObjectMeta cs v = at_both (at_pointer time_in at_plain) (at_both (at_pointer map_in at_plain)
     (at_both (at_slice owners_in at_OwnerReference) (at_slice strings_in at_plain))) cs (meta_fields v)"

definition denote_RhpamDev :: "RhpamDev_mem \<Rightarrow> ObjectMeta \<Rightarrow> RhpamDev" where
  "denote_RhpamDev v = (\<lambda>om. \<lparr>dev_TypeMeta = devm_TypeMeta v, dev_ObjectMeta = om, dev_Spec = devm_Spec v, dev_Status = devm_Status v\<rparr>)"
definition read_RhpamDev :: "(RhpamDev_mem, RhpamDev) reading" where
  "read_RhpamDev cs v = map_option (denote_RhpamDev v) (read_ObjectMeta cs (devm_ObjectMeta v))"
definition at_RhpamDev :: "RhpamDev_mem footprint" where
  "at_RhpamDev cs v = at_ObjectMeta cs (devm_ObjectMeta v)"

definition denote_RhpamDevList :: "RhpamDevList_mem \<Rightarrow> RhpamDev list \<Rightarrow> RhpamDevList" where
  "denote_RhpamDevList v = (\<lambda>items. \<lparr>dl_TypeMeta = dlm_TypeMeta v, dl_ListMeta = dlm_ListMeta v, dl_Items = items\<rparr>)"
definition read_RhpamDevList :: "(RhpamDevList_mem, RhpamDevList) reading" where
  "read_RhpamDevList cs v = map_option (denote_RhpamDevList v)
     (read_slice devs_in read_RhpamDev cs (dlm_Items v))"
definition at_RhpamDevList :: "RhpamDevList_mem footprint" where
  "at_RhpamDevList cs v = at_slice devs_in at_RhpamDev cs (dlm_Items v)"

definition denote_User :: "User_mem \<Rightarrow> string list \<Rightarrow> User" where
  "denote_User v = (\<lambda>roles. \<lparr>user_Username = userm_Username v, user_Password = userm_Password v, user_Roles = roles\<rparr>)"
definition read_User :: "(User_mem, User) reading" where
  "read_User cs v = map_option (denote_User v)
     (read_slice strings_in read_plain cs (userm_Roles v))"
definition at_User :: "User_mem footprint" where
  "at_User cs v = at_slice strings_in at_plain cs (userm_Roles v)"

definition denote_RhpamUserSpec :: "RhpamUserSpec_mem \<Rightarrow> Role option list \<times> User option list \<Rightarrow> RhpamUserSpec" where
  "denote_RhpamUserSpec v = (\<lambda>(roles, users). \<lparr>us_Roles = roles, us_Users = users\<rparr>)"
definition read_RhpamUserSpec :: "(RhpamUserSpec_mem, RhpamUserSpec) reading" where
  "read_RhpamUserSpec cs v = map_option (denote_RhpamUserSpec v)
     (read_both (read_slice role_pointers_in (read_pointer role_in read_plain))
        (read_slice user_pointers_in (read_pointer user_in read_User)) cs (usm_Roles v, usm_Users v))"
definition at_RhpamUserSpec :: "RhpamUserSpec_mem footprint" where
  "at_RhpamUserSpec cs v = at_both (at_slice role_pointers_in (at_pointer role_in at_plain))
     (at_slice user_pointers_in (at_pointer user_in at_User)) cs (usm_Roles v, usm_Users v)"

definition denote_RhpamUser :: "RhpamUser_mem \<Rightarrow> ObjectMeta \<times> RhpamUserSpec \<Rightarrow> RhpamUser" where
  "denote_RhpamUser v = (\<lambda>(om, spec). \<lparr>ru_TypeMeta = rum_TypeMeta v, ru_ObjectMeta = om, ru_Spec = spec, ru_Status = rum_Status v\<rparr>)"
definition read_RhpamUser :: "(RhpamUser_mem, RhpamUser) reading" where
  "read_RhpamUser cs v = map_option (denote_RhpamUser v) (read_both read_ObjectMeta read_RhpamUserSpec cs (rum_ObjectMeta v, rum_Spec v))"
definition at_RhpamUser :: "RhpamUser_mem footprint" where
  "at_RhpamUser cs v = at_both at_ObjectMeta at_RhpamUserSpec cs (rum_ObjectMeta v, rum_Spec v)"

definition denote_RhpamUserList :: "RhpamUserList_mem \<Rightarrow> RhpamUser list \<Rightarrow> RhpamUserList" where
  "denote_RhpamUserList v = (\<lambda>items. \<lparr>ul_TypeMeta = ulm_TypeMeta v, ul_ListMeta = ulm_ListMeta v, ul_Items = items\<rparr>)"
definition read_RhpamUserList :: "(RhpamUserList_mem, RhpamUserList) reading" where
  "read_RhpamUserList cs v = map_option (denote_RhpamUserList v)
     (read_slice rhpam_users_in read_RhpamUser cs (ulm_Items v))"
definition at_RhpamUserList :: "RhpamUserList_mem footprint" where
  "at_RhpamUserList cs v = at_slice rhpam_users_in at_RhpamUser cs (ulm_Items v)"

subsection \<open>Every copy is deep\<close>

interpretation bool_cell: cell_kind BoolCell bool_in by unfold_locales (simp add: cell_readers)
interpretation time_cell: cell_kind TimeCell time_in by unfold_locales (simp add: cell_readers)
interpretation map_cell: cell_kind MapCell map_in by unfold_locales (simp add: cell_readers)
interpretation strings_cell: cell_kind StringArray strings_in by unfold_locales (simp add: cell_readers)
interpretation owners_cell: cell_kind OwnerArray owners_in by unfold_locales (simp add: cell_readers)
interpretation role_pointers_cell: cell_kind RolePointers role_pointers_in by unfold_locales (simp add: cell_readers)
interpretation user_pointers_cell: cell_kind UserPointers user_pointers_in by unfold_locales (simp add: cell_readers)
interpretation devs_cell: cell_kind DevArray devs_in by unfold_locales (simp add: cell_readers)
interpretation rhpam_users_cell: cell_kind RhpamUserArray rhpam_users_in by unfold_locales (simp add: cell_readers)
interpretation role_cell: cell_kind RoleCell role_in by unfold_locales (simp add: cell_readers)
interpretation user_cell: cell_kind UserCell user_in by unfold_locales (simp add: cell_readers)
interpretation dev_cell: cell_kind DevCell dev_in by unfold_locales (simp add: cell_readers)
interpretation dev_list_cell: cell_kind DevListCell dev_list_in by unfold_locales (simp add: cell_readers)
interpretation user_spec_cell: cell_kind UserSpecCell user_spec_in by unfold_locales (simp add: cell_readers)
interpretation rhpam_user_cell: cell_kind RhpamUserCell rhpam_user_in by unfold_locales (simp add: cell_readers)
interpretation rhpam_user_list_cell: cell_kind RhpamUserListCell rhpam_user_list_in by unfold_locales (simp add: cell_readers)
interpretation database_config_cell: cell_kind DatabaseConfigCell database_config_in by unfold_locales (simp add: cell_readers)
interpretation business_central_config_cell: cell_kind BusinessCentralConfigCell business_central_config_in by unfold_locales (simp add: cell_readers)
interpretation kie_server_config_cell: cell_kind KieServerConfigCell kie_server_config_in by unfold_locales (simp add: cell_readers)
interpretation config_cell: cell_kind ConfigCell config_in by unfold_locales (simp add: cell_readers)
interpretation dev_spec_cell: cell_kind DevSpecCell dev_spec_in by unfold_locales (simp add: cell_readers)
interpretation dev_status_cell: cell_kind DevStatusCell dev_status_in by unfold_locales (simp add: cell_readers)
interpretation user_status_cell: cell_kind UserStatusCell user_status_in by unfold_locales (simp add: cell_readers)

text \<open>The methods of the structs without pointers return the struct they read.\<close>

lemma plain_copies:
  "DeepCopyInto_RhpamBusinessCentralConfig = mreturn" "DeepCopyInto_RhpamDatabaseConfig = mreturn"
  "DeepCopyInto_RhpamKieServerConfig = mreturn" "DeepCopyInto_RhpamConfig = mreturn" "DeepCopyInto_RhpamDevSpec = mreturn"
  "DeepCopyInto_RhpamDevStatus = mreturn" "DeepCopyInto_RhpamUserStatus = mreturn" "DeepCopyInto_Role = mreturn"
  by (simp_all add: fun_eq_iff DeepCopyInto_RhpamBusinessCentralConfig_def DeepCopyInto_RhpamDatabaseConfig_def
      DeepCopyInto_RhpamKieServerConfig_def DeepCopyInto_RhpamConfig_def DeepCopyInto_RhpamDevSpec_def
      DeepCopyInto_RhpamDevStatus_def DeepCopyInto_RhpamUserStatus_def DeepCopyInto_Role_def)

interpretation RhpamBusinessCentralConfig_copy: deep_copy "read_pointer business_central_config_in read_plain" "at_pointer business_central_config_in at_plain" DeepCopy_RhpamBusinessCentralConfig
  unfolding DeepCopy_RhpamBusinessCentralConfig_def plain_copies by (rule deep_copy_pointer [OF business_central_config_cell.cell_kind_axioms deep_copy_plain])

interpretation RhpamConfig_copy: deep_copy "read_pointer config_in read_plain" "at_pointer config_in at_plain" DeepCopy_RhpamConfig
  unfolding DeepCopy_RhpamConfig_def plain_copies by (rule deep_copy_pointer [OF config_cell.cell_kind_axioms deep_copy_plain])

interpretation RhpamDatabaseConfig_copy: deep_copy "read_pointer database_config_in read_plain" "at_pointer database_config_in at_plain" DeepCopy_RhpamDatabaseConfig
  unfolding DeepCopy_RhpamDatabaseConfig_def plain_copies by (rule deep_copy_pointer [OF database_config_cell.cell_kind_axioms deep_copy_plain])

interpretation RhpamDevSpec_copy: deep_copy "read_pointer dev_spec_in read_plain" "at_pointer dev_spec_in at_plain" DeepCopy_RhpamDevSpec
  unfolding DeepCopy_RhpamDevSpec_def plain_copies by (rule deep_copy_pointer [OF dev_spec_cell.cell_kind_axioms deep_copy_plain])

interpretation RhpamDevStatus_copy: deep_copy "read_pointer dev_status_in read_plain" "at_pointer dev_status_in at_plain" DeepCopy_RhpamDevStatus
  unfolding DeepCopy_RhpamDevStatus_def plain_copies by (rule deep_copy_pointer [OF dev_status_cell.cell_kind_axioms deep_copy_plain])

interpretation RhpamKieServerConfig_copy: deep_copy "read_pointer kie_server_config_in read_plain" "at_pointer kie_server_config_in at_plain" DeepCopy_RhpamKieServerConfig
  unfolding DeepCopy_RhpamKieServerConfig_def plain_copies by (rule deep_copy_pointer [OF kie_server_config_cell.cell_kind_axioms deep_copy_plain])

interpretation RhpamUserStatus_copy: deep_copy "read_pointer user_status_in read_plain" "at_pointer user_status_in at_plain" DeepCopy_RhpamUserStatus
  unfolding DeepCopy_RhpamUserStatus_def plain_copies by (rule deep_copy_pointer [OF user_status_cell.cell_kind_axioms deep_copy_plain])

interpretation Role_copy: deep_copy "read_pointer role_in read_plain" "at_pointer role_in at_plain" DeepCopy_Role
  unfolding DeepCopy_Role_def plain_copies by (rule deep_copy_pointer [OF role_cell.cell_kind_axioms deep_copy_plain])

lemma fold_update_fresh:
  "distinct (map fst (acc @ kvs)) \<Longrightarrow> fold (\<lambda>(k, v). AList.update k v) kvs acc = acc @ kvs"
proof (induction kvs arbitrary: acc)
  case (Cons kv kvs)
  obtain k v where kv: "kv = (k, v)" by fastforce
  from Cons.prems have "k \<notin> fst ` set acc" by (auto simp: kv)
  then have "AList.update k v acc = acc @ [(k, v)]" by (induction acc) auto
  with Cons.IH [of "acc @ [(k, v)]"] Cons.prems show ?case by (simp add: kv)
qed simp

lemma deep_copy_entries: "deep_copy read_entries at_plain copy_entries"
  by (rule deep_copyI, unfold_locales)
     (auto simp: read_entries_def at_plain_def copy_entries_def fold_update_fresh [of "[]", simplified] mreturn_def
        grown_refl copied_def split: if_splits)

lemma deep_copy_OwnerReference: "deep_copy read_OwnerReference at_OwnerReference DeepCopyInto_OwnerReference"
proof (rule deep_copy_struct [where denote = denote_OwnerReference and get = owner_fields])
  show "deep_copy (read_both (read_pointer bool_in read_plain) (read_pointer bool_in read_plain))
      (at_both (at_pointer bool_in at_plain) (at_pointer bool_in at_plain))
      (copy_both (copy_pointer BoolCell bool_in mreturn) (copy_pointer BoolCell bool_in mreturn))"
    by (intro deep_copy_both deep_copy_pointer bool_cell.cell_kind_axioms deep_copy_plain)
  show "DeepCopyInto_OwnerReference v = mbind (copy_both (copy_pointer BoolCell bool_in mreturn) (copy_pointer BoolCell bool_in mreturn) (owner_fields v))
      (\<lambda>w. mreturn ((\<lambda>w v. v\<lparr>orm_Controller := fst w, orm_BlockOwnerDeletion := snd w\<rparr>) w v))" for v
    by (simp add: DeepCopyInto_OwnerReference_def copy_both_def owner_fields_def)
qed (simp_all add: denote_OwnerReference_def read_OwnerReference_def at_OwnerReference_def owner_fields_def)

lemma deep_copy_ObjectMeta: "deep_copy read_ObjectMeta at_ObjectMeta DeepCopyInto_ObjectMeta"
proof (rule deep_copy_struct [where denote = denote_ObjectMeta and get = meta_fields])
  show "deep_copy (read_both (read_pointer time_in read_plain) (read_both (read_pointer map_in read_entries)
       (read_both (read_slice owners_in read_OwnerReference) (read_slice strings_in read_plain))))
      (at_both (at_pointer time_in at_plain) (at_both (at_pointer map_in at_plain)
       (at_both (at_slice owners_in at_OwnerReference) (at_slice strings_in at_plain))))
      (copy_both (copy_pointer TimeCell time_in mreturn) (copy_both (copy_pointer MapCell map_in copy_entries)
       (copy_both (copy_slice OwnerArray owners_in DeepCopyInto_OwnerReference) (copy_slice StringArray strings_in mreturn))))"
    by (intro deep_copy_both deep_copy_pointer deep_copy_slice time_cell.cell_kind_axioms map_cell.cell_kind_axioms
        owners_cell.cell_kind_axioms strings_cell.cell_kind_axioms deep_copy_entries deep_copy_OwnerReference deep_copy_plain)
  show "DeepCopyInto_ObjectMeta v = mbind (copy_both (copy_pointer TimeCell time_in mreturn) (copy_both (copy_pointer MapCell map_in copy_entries)
       (copy_both (copy_slice OwnerArray owners_in DeepCopyInto_OwnerReference) (copy_slice StringArray strings_in mreturn))) (meta_fields v))
      (\<lambda>w. mreturn ((\<lambda>w v. v\<lparr>omm_DeletionTimestamp := fst w, omm_Labels := fst (snd w), omm_OwnerReferences := fst (snd (snd w)),
         omm_Finalizers := snd (snd (snd w))\<rparr>) w v))" for v
    by (simp add: DeepCopyInto_ObjectMeta_def copy_both_def meta_fields_def)
qed (simp_all add: denote_ObjectMeta_def read_ObjectMeta_def at_ObjectMeta_def meta_fields_def)

lemma deep_copy_RhpamDev: "deep_copy read_RhpamDev at_RhpamDev DeepCopyInto_RhpamDev"
  by (rule deep_copy_struct [where denote = denote_RhpamDev and get = devm_ObjectMeta and put = "\<lambda>w v. v\<lparr>devm_ObjectMeta := w\<rparr>", OF deep_copy_ObjectMeta])
     (simp_all add: denote_RhpamDev_def DeepCopyInto_RhpamDev_def read_RhpamDev_def at_RhpamDev_def)

lemma deep_copy_RhpamDevList: "deep_copy read_RhpamDevList at_RhpamDevList DeepCopyInto_RhpamDevList"
  by (rule deep_copy_struct [where denote = denote_RhpamDevList and get = dlm_Items and put = "\<lambda>w v. v\<lparr>dlm_Items := w\<rparr>",
        OF deep_copy_slice [OF devs_cell.cell_kind_axioms deep_copy_RhpamDev]])
     (simp_all add: denote_RhpamDevList_def DeepCopyInto_RhpamDevList_def read_RhpamDevList_def at_RhpamDevList_def)

lemma deep_copy_User: "deep_copy read_User at_User DeepCopyInto_User"
  by (rule deep_copy_struct [where denote = denote_User and get = userm_Roles and put = "\<lambda>w v. v\<lparr>userm_Roles := w\<rparr>",
        OF deep_copy_slice [OF strings_cell.cell_kind_axioms deep_copy_plain]])
     (simp_all add: denote_User_def DeepCopyInto_User_def read_User_def at_User_def)

lemma deep_copy_RhpamUserSpec: "deep_copy read_RhpamUserSpec at_RhpamUserSpec DeepCopyInto_RhpamUserSpec"
  by (rule deep_copy_struct [where denote = denote_RhpamUserSpec and get = "\<lambda>v. (usm_Roles v, usm_Users v)" and put = "\<lambda>w v. v\<lparr>usm_Roles := fst w, usm_Users := snd w\<rparr>",
        OF deep_copy_both [OF
          deep_copy_slice [OF role_pointers_cell.cell_kind_axioms deep_copy_pointer [OF role_cell.cell_kind_axioms deep_copy_plain]]
          deep_copy_slice [OF user_pointers_cell.cell_kind_axioms deep_copy_pointer [OF user_cell.cell_kind_axioms deep_copy_User]]]])
     (simp_all add: denote_RhpamUserSpec_def DeepCopyInto_RhpamUserSpec_def read_RhpamUserSpec_def at_RhpamUserSpec_def copy_both_def)

lemma deep_copy_RhpamUser: "deep_copy read_RhpamUser at_RhpamUser DeepCopyInto_RhpamUser"
  by (rule deep_copy_struct [where denote = denote_RhpamUser and get = "\<lambda>v. (rum_ObjectMeta v, rum_Spec v)" and put = "\<lambda>w v. v\<lparr>rum_ObjectMeta := fst w, rum_Spec := snd w\<rparr>",
        OF deep_copy_both [OF deep_copy_ObjectMeta deep_copy_RhpamUserSpec]])
     (simp_all add: denote_RhpamUser_def DeepCopyInto_RhpamUser_def read_RhpamUser_def at_RhpamUser_def copy_both_def split_def)

lemma deep_copy_RhpamUserList: "deep_copy read_RhpamUserList at_RhpamUserList DeepCopyInto_RhpamUserList"
  by (rule deep_copy_struct [where denote = denote_RhpamUserList and get = ulm_Items and put = "\<lambda>w v. v\<lparr>ulm_Items := w\<rparr>",
        OF deep_copy_slice [OF rhpam_users_cell.cell_kind_axioms deep_copy_RhpamUser]])
     (simp_all add: denote_RhpamUserList_def DeepCopyInto_RhpamUserList_def read_RhpamUserList_def at_RhpamUserList_def)

interpretation RhpamDev_copy: deep_copy "read_pointer dev_in read_RhpamDev" "at_pointer dev_in at_RhpamDev" DeepCopy_RhpamDev
  unfolding DeepCopy_RhpamDev_def by (rule deep_copy_pointer [OF dev_cell.cell_kind_axioms deep_copy_RhpamDev])

interpretation RhpamDevList_copy: deep_copy "read_pointer dev_list_in read_RhpamDevList" "at_pointer dev_list_in at_RhpamDevList" DeepCopy_RhpamDevList
  unfolding DeepCopy_RhpamDevList_def by (rule deep_copy_pointer [OF dev_list_cell.cell_kind_axioms deep_copy_RhpamDevList])

interpretation User_copy: deep_copy "read_pointer user_in read_User" "at_pointer user_in at_User" DeepCopy_User
  unfolding DeepCopy_User_def by (rule deep_copy_pointer [OF user_cell.cell_kind_axioms deep_copy_User])

interpretation RhpamUserSpec_copy: deep_copy "read_pointer user_spec_in read_RhpamUserSpec" "at_pointer user_spec_in at_RhpamUserSpec" DeepCopy_RhpamUserSpec
  unfolding DeepCopy_RhpamUserSpec_def by (rule deep_copy_pointer [OF user_spec_cell.cell_kind_axioms deep_copy_RhpamUserSpec])

interpretation RhpamUser_copy: deep_copy "read_pointer rhpam_user_in read_RhpamUser" "at_pointer rhpam_user_in at_RhpamUser" DeepCopy_RhpamUser
  unfolding DeepCopy_RhpamUser_def by (rule deep_copy_pointer [OF rhpam_user_cell.cell_kind_axioms deep_copy_RhpamUser])

interpretation RhpamUserList_copy: deep_copy "read_pointer rhpam_user_list_in read_RhpamUserList" "at_pointer rhpam_user_list_in at_RhpamUserList" DeepCopy_RhpamUserList
  unfolding DeepCopy_RhpamUserList_def by (rule deep_copy_pointer [OF rhpam_user_list_cell.cell_kind_axioms deep_copy_RhpamUserList])

subsection \<open>Copies of the custom resources\<close>

definition rhpam_user_at :: "(addr option, RhpamUser option) reading" where
  "rhpam_user_at = read_pointer rhpam_user_in read_RhpamUser"
definition rhpam_user_cells :: "addr option footprint" where
  "rhpam_user_cells = at_pointer rhpam_user_in at_RhpamUser"
definition dev_at :: "(addr option, RhpamDev option) reading" where
  "dev_at = read_pointer dev_in read_RhpamDev"

text \<open>A resource in memory: its role and user are behind pointers, the user's roles in an array.\<close>

definition sample_memory :: memory where
  "sample_memory = \<lparr>mem_cells = [
     0 \<mapsto> RhpamUserCell \<lparr>rum_TypeMeta = \<lparr>tm_Kind = ''RhpamUser'', tm_APIVersion = ''v1alpha1''\<rparr>,
       rum_ObjectMeta = \<lparr>omm_Name = ''users'', omm_Namespace = ''ns'', omm_UID = '''', omm_ResourceVersion = ''1'', omm_Labels = None,
         omm_Finalizers = Some \<lparr>sl_array = 1, sl_offset = 0, sl_len = 1\<rparr>, omm_OwnerReferences = None, omm_DeletionTimestamp = None\<rparr>,
       rum_Spec = \<lparr>usm_Roles = Some \<lparr>sl_array = 2, sl_offset = 0, sl_len = 2\<rparr>, usm_Users = Some \<lparr>sl_array = 3, sl_offset = 0, sl_len = 1\<rparr>\<rparr>,
       rum_Status = \<lparr>ust_Phase = PhaseAccepted, ust_Realm = ''r1''\<rparr>\<rparr>,
     1 \<mapsto> StringArray [RhpamFinalizer], 2 \<mapsto> RolePointers [Some 4, None], 3 \<mapsto> UserPointers [Some 5],
     4 \<mapsto> RoleCell \<lparr>role_Name = ''auditor''\<rparr>,
     5 \<mapsto> UserCell \<lparr>userm_Username = ''kim'', userm_Password = ''pw'', userm_Roles = Some \<lparr>sl_array = 6, sl_offset = 1, sl_len = 1\<rparr>\<rparr>,
     6 \<mapsto> StringArray [''admin'', ''auditor'']], mem_next = 7\<rparr>"

definition sample_resource :: RhpamUser where
  "sample_resource = \<lparr>ru_TypeMeta = \<lparr>tm_Kind = ''RhpamUser'', tm_APIVersion = ''v1alpha1''\<rparr>,
     ru_ObjectMeta = \<lparr>om_Name = ''users'', om_Namespace = ''ns'', om_UID = '''', om_ResourceVersion = ''1'', om_Labels = [],
       om_Finalizers = [RhpamFinalizer], om_OwnerReferences = [], om_DeletionTimestamp = None\<rparr>,
     ru_Spec = \<lparr>us_Roles = [Some \<lparr>role_Name = ''auditor''\<rparr>, None],
       us_Users = [Some \<lparr>user_Username = ''kim'', user_Password = ''pw'', user_Roles = [''auditor'']\<rparr>]\<rparr>,
     ru_Status = \<lparr>ust_Phase = PhaseAccepted, ust_Realm = ''r1''\<rparr>\<rparr>"

lemmas reading_defs = read_pointer_def read_slice_def read_elements_def read_both_def read_plain_def elements_def
  at_pointer_def at_slice_def at_elements_def at_both_def at_plain_def

lemma sample_memory_sound: "sound_memory sample_memory"
  by (simp add: sound_memory_def sample_memory_def)

lemma sample_memory_read: "rhpam_user_at (mem_cells sample_memory) (Some 0) = Some (Some sample_resource)"
  by (simp add: rhpam_user_at_def sample_memory_def sample_resource_def reading_defs cell_readers read_RhpamUser_def
      denote_RhpamUser_def read_ObjectMeta_def denote_ObjectMeta_def meta_fields_def read_RhpamUserSpec_def
      denote_RhpamUserSpec_def read_User_def denote_User_def numeral_2_eq_2)

text \<open>
  C39. The copy of an RhpamUser resource shares no memory with the resource: it reads as the
  resource did, whatever becomes of the cells of the copy leaves the resource as it was, and
  whatever becomes of the cells of the resource leaves the copy. Copying never follows a
  dangling pointer.
\<close>

theorem RhpamUser_copy_is_independent:
  assumes "sound_memory m" and "rhpam_user_at (mem_cells m) p = Some x"
  shows "\<exists>q m'. DeepCopy_RhpamUser p m = Some (q, m') \<and> sound_memory m' \<and>
    (\<forall>cs. (\<forall>a. a \<notin> set (rhpam_user_cells (mem_cells m') q) \<longrightarrow> cs a = mem_cells m' a) \<longrightarrow> rhpam_user_at cs p = Some x) \<and>
    (\<forall>cs. (\<forall>a. a \<notin> set (rhpam_user_cells (mem_cells m) p) \<longrightarrow> cs a = mem_cells m' a) \<longrightarrow> rhpam_user_at cs q = Some x)"
  using RhpamUser_copy.independent assms unfolding rhpam_user_at_def rhpam_user_cells_def by blast

lemma RhpamUser_copy_is_independent_witness:
  "\<exists>q m'. DeepCopy_RhpamUser (Some 0) sample_memory = Some (q, m') \<and>
     rhpam_user_at ((mem_cells m')(0 := None)) q = Some (Some sample_resource)"
proof -
  have "0 \<in> set (rhpam_user_cells (mem_cells sample_memory) (Some 0))"
    by (simp add: rhpam_user_cells_def at_pointer_def)
  then have "\<forall>a. a \<notin> set (rhpam_user_cells (mem_cells sample_memory) (Some 0)) \<longrightarrow> (cs(0 := None)) a = cs a" for cs :: cells
    by auto
  with RhpamUser_copy_is_independent [OF sample_memory_sound sample_memory_read] show ?thesis by blast
qed

text \<open>Cells of an object's metadata are of other kinds than the resource that holds it.\<close>

definition never_at :: "('v, 'x) reading \<Rightarrow> 'v footprint \<Rightarrow> cell \<Rightarrow> bool" where
  "never_at rd fp c \<longleftrightarrow> (\<forall>cs v x. rd cs v = Some x \<longrightarrow> (\<forall>a \<in> set (fp cs v). cs a \<noteq> Some c))"

lemma never_atI: "(\<And>cs v x a. rd cs v = Some x \<Longrightarrow> a \<in> set (fp cs v) \<Longrightarrow> cs a \<noteq> Some c) \<Longrightarrow> never_at rd fp c"
  by (auto simp: never_at_def)

lemma never_atD: "never_at rd fp c \<Longrightarrow> rd cs v = Some x \<Longrightarrow> a \<in> set (fp cs v) \<Longrightarrow> cs a \<noteq> Some c"
  by (auto simp: never_at_def)

lemma never_at_plain: "never_at rd at_plain c"
  by (simp add: never_at_def at_plain_def)

lemma never_at_pointer:
  assumes "unwrap c = None" and "never_at rd fp c"
  shows "never_at (read_pointer unwrap rd) (at_pointer unwrap fp) c"
  using assms by (auto simp: never_at_def read_pointer_def at_pointer_def split: option.splits)

lemma never_at_both:
  assumes "never_at rd fp c" and "never_at rd' fp' c"
  shows "never_at (read_both rd rd') (at_both fp fp') c"
  by (rule never_atI) (auto simp: read_both_def at_both_def split: option.splits dest: never_atD [OF assms(1)] never_atD [OF assms(2)])

lemma never_at_slice:
  assumes "unwrap c = None" and "never_at rd fp c"
  shows "never_at (read_slice unwrap rd) (at_slice unwrap fp) c"
proof -
  have "cs a \<noteq> Some c" if "map (rd cs) vs = map Some xs" and "v \<in> set vs" and "a \<in> set (fp cs v)" for cs vs xs v a
  proof -
    have "rd cs v \<in> set (map Some xs)" using that(2) by (simp flip: that(1))
    with assms(2) that(3) show ?thesis by (auto simp: never_at_def)
  qed
  note each = this
  show ?thesis
  proof (rule never_atI)
    fix cs p xs a
    assume r: "read_slice unwrap rd cs p = Some xs" and a: "a \<in> set (at_slice unwrap fp cs p)"
    then obtain s where p: "p = Some s" by (cases p) (auto simp: at_slice_def)
    with r obtain vs where v: "Option.bind (cs (sl_array s)) unwrap = Some vs" and m: "map (rd cs) (elements s vs) = map Some xs"
      by (auto simp: read_slice_def read_elements_def those_eq_Some split: option.splits if_splits)
    from a p v consider "a = sl_array s" | w where "w \<in> set (elements s vs)" "a \<in> set (fp cs w)"
      by (auto simp: at_slice_def at_elements_def)
    then show "cs a \<noteq> Some c"
    proof cases
      case 1
      with v assms(1) show ?thesis by auto
    next
      case 2
      then show ?thesis using each [OF m] by blast
    qed
  qed
qed

lemma never_at_mono: "never_at rd fp c \<Longrightarrow> (\<And>cs v. rd' cs v = map_option (g v) (rd cs (f v))) \<Longrightarrow>
    (\<And>cs v. fp' cs v = fp cs (f v)) \<Longrightarrow> never_at rd' fp' c"
  by (auto simp: never_at_def)

lemma no_dev_in_metadata: "never_at read_ObjectMeta at_ObjectMeta (DevCell v)"
proof (rule never_at_mono [where f = meta_fields and g = denote_ObjectMeta])
  have "never_at read_OwnerReference at_OwnerReference (DevCell v)"
    by (rule never_at_mono [where f = owner_fields and g = denote_OwnerReference
          and rd = "read_both (read_pointer bool_in read_plain) (read_pointer bool_in read_plain)"
          and fp = "at_both (at_pointer bool_in at_plain) (at_pointer bool_in at_plain)"])
       (intro never_at_both never_at_pointer never_at_plain,
        simp_all add: cell_readers read_OwnerReference_def at_OwnerReference_def)
  then show "never_at (read_both (read_pointer time_in read_plain) (read_both (read_pointer map_in read_entries)
       (read_both (read_slice owners_in read_OwnerReference) (read_slice strings_in read_plain))))
      (at_both (at_pointer time_in at_plain) (at_both (at_pointer map_in at_plain)
       (at_both (at_slice owners_in at_OwnerReference) (at_slice strings_in at_plain)))) (DevCell v)"
    by (intro never_at_both never_at_pointer never_at_slice never_at_plain) (simp_all add: cell_readers)
qed (simp_all add: read_ObjectMeta_def at_ObjectMeta_def)

text \<open>Giving an object new finalizers in a new array changes nothing else of its metadata.\<close>

lemma read_new_finalizers:
  assumes "read_ObjectMeta cs v = Some om" and "\<forall>a \<in> set (at_ObjectMeta cs v). cs' a = cs a"
    and "cs' n = Some (StringArray fs)"
  shows "read_ObjectMeta cs' (v\<lparr>omm_Finalizers := Some \<lparr>sl_array = n, sl_offset = 0, sl_len = length fs\<rparr>\<rparr>) =
    Some (om\<lparr>om_Finalizers := fs\<rparr>)"
proof -
  have "read_ObjectMeta cs' v = Some om"
    using same_reading(1) [OF deep_copy_readable [OF deep_copy_ObjectMeta] assms(2)] assms(1) by simp
  moreover have "read_slice strings_in read_plain cs' (Some \<lparr>sl_array = n, sl_offset = 0, sl_len = length fs\<rparr>) = Some fs"
    by (simp add: assms(3) read_slice_def cell_readers elements_def read_elements_def those_eq_Some read_plain_def)
  ultimately show ?thesis
    by (auto simp: read_ObjectMeta_def denote_ObjectMeta_def meta_fields_def read_both_def split: option.splits)
qed

text \<open>
  C40. Changing a copied RhpamDev in place, as Reconcile does with the status and the
  finalizers, is the update of a value that the other theories take it for: afterwards the copy
  denotes the updated resource, and the resource that was fetched is what it was.
\<close>

theorem in_place_changes_are_value_updates:
  assumes "sound_memory m" and "dev_at (mem_cells m) (Some a) = Some (Some d)"
  shows "\<exists>b v m'. DeepCopy_RhpamDev (Some a) m = Some (Some b, m') \<and> mem_cells m' b = Some (DevCell v) \<and>
    (let cs = (mem_cells m')(mem_next m' \<mapsto> StringArray fs, b \<mapsto> DevCell (v\<lparr>devm_Status := s,
       devm_ObjectMeta := (devm_ObjectMeta v)\<lparr>omm_Finalizers := Some \<lparr>sl_array = mem_next m', sl_offset = 0, sl_len = length fs\<rparr>\<rparr>\<rparr>))
     in dev_at cs (Some b) = Some (Some (d\<lparr>dev_Status := s, dev_ObjectMeta := (dev_ObjectMeta d)\<lparr>om_Finalizers := fs\<rparr>\<rparr>)) \<and>
        dev_at cs (Some a) = Some (Some d))"
proof -
  obtain q m' where c: "DeepCopy_RhpamDev (Some a) m = Some (q, m')" and g: "grown m m'"
      and r: "dev_at (mem_cells m') q = Some (Some d)" and f: "set (at_pointer dev_in at_RhpamDev (mem_cells m') q) \<subseteq> {mem_next m..<mem_next m'}"
    using RhpamDev_copy.copies assms unfolding dev_at_def by (metis copiedE)
  from r obtain b v where q: "q = Some b" and v: "mem_cells m' b = Some (DevCell v)" and read: "read_RhpamDev (mem_cells m') v = Some d"
    by (auto simp: dev_at_def read_pointer_def cell_readers split: option.splits cell.splits Option.bind_splits)
  let ?v = "v\<lparr>devm_Status := s, devm_ObjectMeta := (devm_ObjectMeta v)\<lparr>omm_Finalizers := Some \<lparr>sl_array = mem_next m', sl_offset = 0, sl_len = length fs\<rparr>\<rparr>\<rparr>"
  obtain cs where cs: "cs = (mem_cells m')(mem_next m' \<mapsto> StringArray fs, b \<mapsto> DevCell ?v)" by simp
  from f q v have b: "b \<in> {mem_next m..<mem_next m'}" and meta: "set (at_ObjectMeta (mem_cells m') (devm_ObjectMeta v)) \<subseteq> {mem_next m..<mem_next m'}"
    by (auto simp: at_pointer_def at_RhpamDev_def cell_readers)
  obtain om where om: "read_ObjectMeta (mem_cells m') (devm_ObjectMeta v) = Some om" and d: "d = denote_RhpamDev v om"
    using read by (auto simp: read_RhpamDev_def)
  have "x \<noteq> b" if "x \<in> set (at_ObjectMeta (mem_cells m') (devm_ObjectMeta v))" for x
    using no_dev_in_metadata [of v] om v that unfolding never_at_def by blast
  with meta have "\<forall>x \<in> set (at_ObjectMeta (mem_cells m') (devm_ObjectMeta v)). cs x = mem_cells m' x"
    by (auto simp: cs)
  moreover have "cs (mem_next m') = Some (StringArray fs)" using b by (simp add: cs)
  ultimately have "read_ObjectMeta cs (devm_ObjectMeta ?v) = Some (om\<lparr>om_Finalizers := fs\<rparr>)"
    using read_new_finalizers [OF om] by simp
  then have "read_RhpamDev cs ?v = Some (d\<lparr>dev_Status := s, dev_ObjectMeta := (dev_ObjectMeta d)\<lparr>om_Finalizers := fs\<rparr>\<rparr>)"
    by (simp add: d read_RhpamDev_def denote_RhpamDev_def)
  moreover have "cs b = Some (DevCell ?v)" by (simp add: cs)
  ultimately have "dev_at cs (Some b) = Some (Some (d\<lparr>dev_Status := s, dev_ObjectMeta := (dev_ObjectMeta d)\<lparr>om_Finalizers := fs\<rparr>\<rparr>))"
    by (simp add: dev_at_def read_pointer_def cell_readers)
  moreover have "dev_at cs (Some a) = Some (Some d)"
  proof -
    note there = RhpamDev_copy.still_there [OF assms(1) assms(2) [unfolded dev_at_def] g]
    have "\<forall>x \<in> set (at_pointer dev_in at_RhpamDev (mem_cells m') (Some a)). cs x = mem_cells m' x"
      using RhpamDev_copy.old_addresses [OF assms(1) assms(2) [unfolded dev_at_def]] b g
      unfolding there(2) by (auto simp: cs grown_def)
    from same_reading(1) [OF RhpamDev_copy.readable_axioms this] there(1) show ?thesis by (simp add: dev_at_def)
  qed
  ultimately show ?thesis using c q v unfolding Let_def cs by blast
qed

definition sample_dev_memory :: memory where
  "sample_dev_memory = \<lparr>mem_cells = [
     0 \<mapsto> DevCell \<lparr>devm_TypeMeta = \<lparr>tm_Kind = ''RhpamDev'', tm_APIVersion = ''v1alpha1''\<rparr>,
       devm_ObjectMeta = \<lparr>omm_Name = ''dev'', omm_Namespace = ''ns'', omm_UID = '''', omm_ResourceVersion = ''1'', omm_Labels = Some 2,
         omm_Finalizers = Some \<lparr>sl_array = 1, sl_offset = 0, sl_len = 1\<rparr>, omm_OwnerReferences = None, omm_DeletionTimestamp = Some 3\<rparr>,
       devm_Spec = \<lparr>ds_Domain = ''d'', ds_Config = \<lparr>cfg_DatabaseConfig = \<lparr>dbc_PersistentVolumeCapacity = '''', dbc_MaxConnections = '''',
           dbc_SharedBuffers = '''', dbc_MaxPreparedTransactions = '''', dbc_MemoryLimit = ''''\<rparr>,
         cfg_BusinessCentralConfig = \<lparr>bcc_PersistentVolumeCapacity = '''', bcc_CpuRequest = '''', bcc_CpuLimit = '''', bcc_MemoryRequest = '''',
           bcc_MemoryLimit = '''', bcc_GcMaxMetaSize = '''', bcc_KieMBeans = '''', bcc_JavaOptsAppend = ''''\<rparr>,
         cfg_KieServerConfig = \<lparr>ksc_CpuRequest = '''', ksc_CpuLimit = '''', ksc_MemoryRequest = '''', ksc_MemoryLimit = '''', ksc_GcMaxMetaSize = '''',
           ksc_KieMBeans = '''', ksc_KieServerId = '''', ksc_DroolsFilterClasses = '''', ksc_BypassAuthUser = ''''\<rparr>\<rparr>\<rparr>,
       devm_Status = \<lparr>dst_Phase = PhaseComplete, dst_Version = ''1'', dst_Realm = ''r1''\<rparr>\<rparr>,
     1 \<mapsto> StringArray [RhpamFinalizer], 2 \<mapsto> MapCell [(''app'', ''rhpam'')], 3 \<mapsto> TimeCell ''now''], mem_next = 4\<rparr>"

lemma in_place_changes_are_value_updates_witness:
  "\<exists>b v m' d. DeepCopy_RhpamDev (Some 0) sample_dev_memory = Some (Some b, m') \<and> mem_cells m' b = Some (DevCell v) \<and>
    (let cs = (mem_cells m')(mem_next m' \<mapsto> StringArray [], b \<mapsto> DevCell (v\<lparr>devm_Status := \<lparr>dst_Phase = PhaseDeprovisioned, dst_Version = ''1'', dst_Realm = ''r1''\<rparr>,
       devm_ObjectMeta := (devm_ObjectMeta v)\<lparr>omm_Finalizers := Some \<lparr>sl_array = mem_next m', sl_offset = 0, sl_len = length ([] :: string list)\<rparr>\<rparr>\<rparr>))
     in dev_at cs (Some b) = Some (Some (d\<lparr>dev_Status := \<lparr>dst_Phase = PhaseDeprovisioned, dst_Version = ''1'', dst_Realm = ''r1''\<rparr>, dev_ObjectMeta := (dev_ObjectMeta d)\<lparr>om_Finalizers := []\<rparr>\<rparr>)) \<and>
        dev_at cs (Some 0) = Some (Some d) \<and> om_DeletionTimestamp (dev_ObjectMeta d) = Some ''now'')"
proof -
  have "sound_memory sample_dev_memory" by (simp add: sound_memory_def sample_dev_memory_def)
  moreover have "\<exists>d. dev_at (mem_cells sample_dev_memory) (Some 0) = Some (Some d) \<and> om_DeletionTimestamp (dev_ObjectMeta d) = Some ''now''"
    by (simp add: dev_at_def sample_dev_memory_def reading_defs cell_readers read_RhpamDev_def denote_RhpamDev_def
        read_ObjectMeta_def denote_ObjectMeta_def meta_fields_def read_entries_def)
  then obtain d where "dev_at (mem_cells sample_dev_memory) (Some 0) = Some (Some d)" "om_DeletionTimestamp (dev_ObjectMeta d) = Some ''now''"
    by blast
  ultimately show ?thesis
    using in_place_changes_are_value_updates [of sample_dev_memory 0 d "[]" "\<lparr>dst_Phase = PhaseDeprovisioned, dst_Version = ''1'', dst_Realm = ''r1''\<rparr>"] unfolding Let_def by blast
qed

end
