(* ===== verification/RealmProvisioning.thy ===== *)
theory RealmProvisioning
  imports RealmTemplates RhpamdevProvision RestExec RoleReconcile InstallationLive
begin

text \<open>
  Provisioning the realm of an RhpamDev on a server that behaves like Keycloak. The server keeps, for every
  realm, the clients by their names, each with an identifier, a secret and what was asked for. The
  contract speaks of the JSON that is sent, so the templates are part of what is shown: the realm
  that exists afterwards has the three clients with the addresses of this installation, and the
  secrets in the cluster hold what the server made up for them.
\<close>

subsection \<open>The server\<close>

record kc_client =
  kcc_id :: string
  kcc_secret :: string
  kcc_settings :: KeycloakApiClient

type_synonym realms = "string \<Rightarrow> (string \<Rightarrow> kc_client option) option"

definition lists_clients :: "KeycloakApiClient list \<Rightarrow> (string \<Rightarrow> kc_client option) \<Rightarrow> bool" where
  "lists_clients as m \<longleftrightarrow> (\<lambda>a. (kac_ClientID a, kac_ID a)) ` set as = {(n, kcc_id k) | n k. m n = Some k}"

text \<open>Clients with identifiers of their own; what a client of an installation looks like, and the secret about it.\<close>

definition identified :: "(string \<Rightarrow> kc_client option) \<Rightarrow> bool" where
  "identified m \<longleftrightarrow> (\<forall>n k. m n = Some k \<longrightarrow> plain_name n) \<and>
     (\<forall>n k n' k'. m n = Some k \<longrightarrow> m n' = Some k' \<longrightarrow> kcc_id k' = kcc_id k \<longrightarrow> n' = n)"

definition plain_realms :: "realms \<Rightarrow> bool" where
  "plain_realms R \<longleftrightarrow> (\<forall>r \<in> dom R. plain_name r)"

lemma plain_realms_new: "plain_realms R \<Longrightarrow> plain_name r \<Longrightarrow> plain_realms (R(r \<mapsto> m))"
  by (simp add: plain_realms_def)

lemma identified_new: "identified m \<Longrightarrow> plain_name a \<Longrightarrow> \<forall>n k'. m n = Some k' \<longrightarrow> kcc_id k' \<noteq> kcc_id k \<Longrightarrow> identified (m(a \<mapsto> k))"
  unfolding identified_def by (auto split: if_split_asm) metis+

definition client_of :: "string \<Rightarrow> string \<Rightarrow> bool \<Rightarrow> bool \<Rightarrow> kc_client \<Rightarrow> bool" where
  "client_of i u b p k \<longleftrightarrow> (let a = kcc_settings k in
     kac_ClientID a = i \<and> kac_RootURL a = u \<and> kac_AdminURL a = u \<and> kac_RedirectUris a = [u @ ''/*''] \<and> kac_WebOrigins a = [u] \<and>
     kac_BearerOnly a = b \<and> kac_PublicClient a = p \<and> kac_Enabled a)"

definition realm_secret :: "DevPhaseHandler \<Rightarrow> RhpamDev \<Rightarrow> string \<Rightarrow> string \<Rightarrow> string \<Rightarrow> string \<Rightarrow> Object" where
  "realm_secret ph d name realm client secret = owned ph d (secret_object d name
     [(''sso-url'', kf_AdminUrl (dph_keycloakFactory ph) @ ''/auth''), (''realm'', realm), (''client'', client), (''client-secret'', secret)])"

text \<open>
  What a provisioning leaves: the realm with its three clients beside those that the server makes, and
  the secrets of the two servers, with what the server made up for their clients.
\<close>

definition provisioned ::
  "(string \<Rightarrow> kc_client option) \<Rightarrow> DevPhaseHandler \<Rightarrow> RhpamDev \<Rightarrow> string \<Rightarrow> realms \<times> store \<Rightarrow> realms \<times> store \<Rightarrow> bool" where
  "provisioned builtin ph d r before after \<longleftrightarrow> (\<exists>b k x.
     client_of ''rhpambc'' (client_root_url d BusinessCentralDeployment) False False b \<and>
     client_of ''rhpamks'' (client_root_url d KieServerDeployment) True False k \<and>
     client_of ''rhpamks-direct'' (client_root_url d KieServerDeployment) False True x \<and>
     fst after = (fst before)(r \<mapsto> builtin(''rhpambc'' \<mapsto> b, ''rhpamks'' \<mapsto> k, ''rhpamks-direct'' \<mapsto> x)) \<and>
     snd after = (snd before)
       ((gvk_Secret, key_of (dev_Namespace d) BusinessCentralRealmSecret) \<mapsto>
           realm_secret ph d BusinessCentralRealmSecret r ''rhpambc'' (kcc_secret b),
        (gvk_Secret, key_of (dev_Namespace d) KieServerRealmSecret) \<mapsto>
           realm_secret ph d KieServerRealmSecret r ''rhpamks'' (kcc_secret k)))"

text \<open>When a resource can be provisioned: plain names, a fresh realm, and no secret in the way.\<close>

definition provisionable :: "(string \<Rightarrow> kc_client option) \<Rightarrow> RhpamDev \<Rightarrow> realms \<times> store \<Rightarrow> bool" where
  "provisionable builtin d s \<longleftrightarrow>
     plain_name (dev_Name d) \<and> list_all plain_char (client_root_url d BusinessCentralDeployment) \<and>
     list_all plain_char (client_root_url d KieServerDeployment) \<and>
     (\<forall>t. fst s (dev_Name d @ ''-'' @ t) = None) \<and> plain_realms (fst s) \<and>
     snd s (gvk_Secret, key_of (dev_Namespace d) BusinessCentralRealmSecret) = None \<and>
     snd s (gvk_Secret, key_of (dev_Namespace d) KieServerRealmSecret) = None \<and>
     identified builtin \<and> builtin ''rhpambc'' = None \<and> builtin ''rhpamks'' = None \<and> builtin ''rhpamks-direct'' = None"

lemma provisioning_same:
  assumes "same_install d e"
  shows "client_root_url e dep = client_root_url d dep" and "dev_Name e = dev_Name d"
    and "realm_secret ph e name realm client secret = realm_secret ph d name realm client secret"
    and "provisionable builtin e s = provisionable builtin d s" and "provisioned builtin ph e r s s' = provisioned builtin ph d r s s'"
proof -
  have n: "dev_Namespace e = dev_Namespace d" by (rule same_install_Namespace [OF assms])
  show u: "client_root_url e dep = client_root_url d dep" for dep
    using assms by (simp add: client_root_url_def n same_install_def)
  show "dev_Name e = dev_Name d" using assms by (simp add: same_install_def dev_key_def key_of_def)
  then show "provisionable builtin e s = provisionable builtin d s" by (simp add: provisionable_def u n)
  show r: "realm_secret ph e name realm client secret = realm_secret ph d name realm client secret" for name realm client secret
    by (simp add: realm_secret_def owned_def own_if_possible_def SetControllerReference_same [OF assms] secret_object_def labelled_meta_def n)
  show "provisioned builtin ph e r s s' = provisioned builtin ph d r s s'" by (simp add: provisioned_def u n r)
qed

definition realms_url :: "Client \<Rightarrow> string" where
  "realms_url c = admin_url c ''realms''"

definition clients_url :: "Client \<Rightarrow> string \<Rightarrow> string" where
  "clients_url c r = admin_url c (''realms/'' @ r @ ''/clients'')"

definition secret_url :: "Client \<Rightarrow> string \<Rightarrow> string \<Rightarrow> string" where
  "secret_url c r i = admin_url c (client_secret_path i r)"

locale realm_provider = dev_store E objs devs + http: rest_server E "\<lambda>w. (kc w, objs w, devs w)"
  for E :: "'w env" and objs :: "'w \<Rightarrow> store" and devs :: "'w \<Rightarrow> NamespacedName \<Rightarrow> RhpamDev option" and kc :: "'w \<Rightarrow> realms" +
  fixes c :: Client and builtin :: "string \<Rightarrow> kc_client option" and path admin pass sso_ns sso_name :: string
  assumes POST_realm: "rq_Method q = ''POST'' \<Longrightarrow> rq_URL q = realms_url c \<Longrightarrow> rq_Body q = Some json \<Longrightarrow>
        json_parse json = Some (JObj kvs) \<Longrightarrow> map_of kvs ''realm'' = Some (JStr r) \<Longrightarrow> plain_name r \<Longrightarrow> kc w r = None \<Longrightarrow>
        replies E (\<lambda>w. (kc w, objs w, devs w)) q w (\<lambda>s. s = 201) (\<lambda>b. True) ((kc w)(r \<mapsto> builtin), objs w, devs w)"
    and POST_client: "rq_Method q = ''POST'' \<Longrightarrow> rq_URL q = clients_url c r \<Longrightarrow> rq_Body q = Some json \<Longrightarrow>
        Unmarshal decode_KeycloakClient json = Inr x \<Longrightarrow> kcl_KeycloakApiClient x = Some a \<Longrightarrow> plain_name (kac_ClientID a) \<Longrightarrow>
        kc w r = Some m \<Longrightarrow> m (kac_ClientID a) = None \<Longrightarrow>
        \<exists>i s. (\<forall>n k. m n = Some k \<longrightarrow> kcc_id k \<noteq> i) \<and>
          replies E (\<lambda>w. (kc w, objs w, devs w)) q w (\<lambda>s. s = 201) (\<lambda>b. True)
            ((kc w)(r \<mapsto> m(kac_ClientID a \<mapsto> \<lparr>kcc_id = i, kcc_secret = s, kcc_settings = a\<rparr>)), objs w, devs w)"
    and GET_clients: "rq_Method q = ''GET'' \<Longrightarrow> rq_URL q = clients_url c r \<Longrightarrow> kc w r = Some m \<Longrightarrow> identified m \<Longrightarrow>
        replies E (\<lambda>w. (kc w, objs w, devs w)) q w (\<lambda>s. s = 200)
          (\<lambda>b. \<exists>ks as. Unmarshal (decode_slice (decode_ptr decode_KeycloakClient)) b = Inr (map Some ks) \<and>
             map kcl_KeycloakApiClient ks = map Some as \<and> lists_clients as m) (kc w, objs w, devs w)"
    and GET_client_secret: "rq_Method q = ''GET'' \<Longrightarrow> rq_URL q = secret_url c r (kcc_id k) \<Longrightarrow> kc w r = Some m \<Longrightarrow> m n = Some k \<Longrightarrow>
        identified m \<Longrightarrow> plain_realms (kc w) \<Longrightarrow>
        replies E (\<lambda>w. (kc w, objs w, devs w)) q w (\<lambda>s. s = 200)
          (\<lambda>b. \<exists>res. Unmarshal decode_string_map b = Inr res \<and> map_of res ''value'' = Some (kcc_secret k)) (kc w, objs w, devs w)"
    and POST_token: "rq_Method q = ''POST'' \<Longrightarrow> rq_URL q = token_url c \<Longrightarrow>
        rq_Body q = Some (form_Encode [(''username'', admin), (''password'', pass), (''client_id'', ''admin-cli''), (''grant_type'', ''password'')]) \<Longrightarrow>
        replies E (\<lambda>w. (kc w, objs w, devs w)) q w (\<lambda>s. s = 200)
          (\<lambda>b. \<exists>tok. Unmarshal decode_TokenResponse b = Inr tok \<and> tr_Error tok = '''' \<and> tr_AccessToken tok = cl_token c)
          (kc w, objs w, devs w)"
    and sso_variables: "fst (env_LookupEnv E ''SSO_NAMESPACE'' w) = Some sso_ns" "sso_ns \<noteq> ''''"
      "fst (env_LookupEnv E ''SSO_ADMIN_CREDENTIALS_SECRET'' w) = Some sso_name" "sso_name \<noteq> ''''"
    and other_calls_kc: "kc (snd (env_TimeNow E w)) = kc w" "kc (env_RandSeed E sd w) = kc w" "kc (snd (env_RandIntn E lim w)) = kc w"
      "kc (snd (env_YamlUnmarshal E txt w)) = kc w" "kc (snd (env_GetObject E g nn w)) = kc w" "kc (snd (env_CreateObject E ob w)) = kc w"
      "kc (snd (env_UpdateRhpamDev E d w)) = kc w" "kc (snd (env_GetRhpamDev E nn w)) = kc w"
    and template_path: "fst (env_LookupEnv E ''TEMPLATE_PATH'' w) = Some path" "path \<noteq> ''''"
    and realm_template: "fst (env_ReadFile E (path @ ''/realm.json'') w) = Inr (unparse realm_json)"
    and client_template: "fst (env_ReadFile E (path @ ''/realm-client.json'') w) = Inr (unparse realm_client_json)"
begin

abbreviation st :: "'w \<Rightarrow> realms \<times> store \<times> (NamespacedName \<Rightarrow> RhpamDev option)" where
  "st w \<equiv> (kc w, objs w, devs w)"

lemma internal_st: "list_all internal (trace_of E m w) \<Longrightarrow> st (snd (exec E m w)) = st w"
proof (induction m arbitrary: w)
qed (use http.LookupEnv_keeps http.ReadFile_keeps http.RangeOrder_keeps in
  \<open>simp_all add: prod.case_eq_if internal_def process_keeps keep_devs other_calls_kc\<close>)

lemma internal_exec: "guarantees internal m Q \<Longrightarrow> exec E m w = (out, w') \<Longrightarrow> st w' = st w"
  using internal_st [OF runs_list_all [OF _ exec_runs], of m Q w] by simp

subsection \<open>The requests of a provisioning\<close>

lemma CreateRealm_exec:
  assumes "json_parse json = Some (JObj kvs)" and "map_of kvs ''realm'' = Some (JStr r)" and "plain_name r" and "kc w r = None"
  shows "\<exists>w'. exec E (Client_CreateRealm c json) w = (Done (Inr ()), w') \<and> st w' = ((kc w)(r \<mapsto> builtin), objs w, devs w)"
  unfolding Client_CreateRealm_def
proof (rule http.create_exec [where P = "\<lambda>s. s = ((kc w)(r \<mapsto> builtin), objs w, devs w)"])
  fix w'
  assume "st w' = st w"
  then have k: "kc w' = kc w" "objs w' = objs w" "devs w' = devs w" by simp_all
  have "replies E st (post_request c ''realms'' json) w' (\<lambda>s. s = 201) (\<lambda>b. True) ((kc w')(r \<mapsto> builtin), objs w', devs w')"
    by (rule POST_realm [OF _ _ _ assms(1-3)]) (simp_all add: k assms(4) realms_url_def)
  then show "\<exists>d. d = ((kc w)(r \<mapsto> builtin), objs w, devs w) \<and>
      replies E st (post_request c ''realms'' json) w' (\<lambda>s. s = 201) (\<lambda>b. True) d"
    unfolding k by blast
qed

lemma CreateClient_exec:
  assumes "Unmarshal decode_KeycloakClient json = Inr x" and "kcl_KeycloakApiClient x = Some a" and "plain_name (kac_ClientID a)"
    and "kc w r = Some m" and "m (kac_ClientID a) = None"
  shows "\<exists>w' k. exec E (Client_CreateClient c json r) w = (Done (Inr ()), w') \<and>
    kcc_settings k = a \<and> (\<forall>n k'. m n = Some k' \<longrightarrow> kcc_id k' \<noteq> kcc_id k) \<and>
    st w' = ((kc w)(r \<mapsto> m(kac_ClientID a \<mapsto> k)), objs w, devs w)"
proof -
  let ?P = "\<lambda>s. \<exists>k. kcc_settings k = a \<and> (\<forall>n k'. m n = Some k' \<longrightarrow> kcc_id k' \<noteq> kcc_id k) \<and>
    s = ((kc w)(r \<mapsto> m(kac_ClientID a \<mapsto> k)), objs w, devs w)"
  have "\<exists>w'. exec E (create c json (''realms/'' @ r @ ''/clients'') ''client'' 201) w = (Done (Inr ()), w') \<and> ?P (st w')"
  proof (rule http.create_exec [where P = ?P])
    fix w'
    assume "st w' = st w"
    then have k: "kc w' = kc w" "objs w' = objs w" "devs w' = devs w" by simp_all
    from POST_client [of "post_request c (''realms/'' @ r @ ''/clients'') json" r json x a w' m, OF _ _ _ assms(1-3)] assms(4,5)
    obtain i s where i: "\<forall>n k. m n = Some k \<longrightarrow> kcc_id k \<noteq> i"
      "replies E st (post_request c (''realms/'' @ r @ ''/clients'') json) w' (\<lambda>s. s = 201) (\<lambda>b. True)
         ((kc w')(r \<mapsto> m(kac_ClientID a \<mapsto> \<lparr>kcc_id = i, kcc_secret = s, kcc_settings = a\<rparr>)), objs w', devs w')"
      by (auto simp: k clients_url_def)
    from i(2) have "replies E st (post_request c (''realms/'' @ r @ ''/clients'') json) w' (\<lambda>s. s = 201) (\<lambda>b. True)
         ((kc w)(r \<mapsto> m(kac_ClientID a \<mapsto> \<lparr>kcc_id = i, kcc_secret = s, kcc_settings = a\<rparr>)), objs w, devs w)"
      unfolding k .
    with i(1) show "\<exists>d. ?P d \<and> replies E st (post_request c (''realms/'' @ r @ ''/clients'') json) w' (\<lambda>s. s = 201) (\<lambda>b. True) d"
      by (intro exI [of _ "((kc w)(r \<mapsto> m(kac_ClientID a \<mapsto> \<lparr>kcc_id = i, kcc_secret = s, kcc_settings = a\<rparr>)), objs w, devs w)"] conjI
          exI [of _ "\<lparr>kcc_id = i, kcc_secret = s, kcc_settings = a\<rparr>"]) simp_all
  qed
  then show ?thesis unfolding Client_CreateClient_def by blast
qed

text \<open>The identifier of a client is found by its name, and its secret by the identifier.\<close>

lemma find_client_id_exec:
  assumes "map kcl_KeycloakApiClient ks = map Some as"
    and "\<forall>a \<in> set as. kac_ClientID a = n \<longrightarrow> kac_ID a = i" and "\<exists>a \<in> set as. kac_ClientID a = n"
  shows "exec E (find_client_id (map Some ks) n) w = (Done i, w)"
  using assms
proof (induction ks arbitrary: as)
  case (Cons k ks)
  then obtain a as' where "as = a # as'" "kcl_KeycloakApiClient k = Some a" "map kcl_KeycloakApiClient ks = map Some as'"
    by (cases as) auto
  with Cons show ?case by (cases "kac_ClientID a = n") (auto simp: deref_def)
qed simp

lemma getClientSecret_exec:
  assumes "kc w r = Some m" and "m n = Some k" and "identified m" and "plain_realms (kc w)"
  shows "\<exists>w'. exec E (getClientSecret (client_interface c) r n) w = (Done (Inr (kcc_secret k)), w') \<and> st w' = st w"
proof -
  have clients: "replies E st (get_request c (''realms/'' @ r @ ''/clients'')) w' (\<lambda>s. s = 200)
      (\<lambda>b. \<exists>ks as. Unmarshal (decode_slice (decode_ptr decode_KeycloakClient)) b = Inr (map Some ks) \<and>
             map kcl_KeycloakApiClient ks = map Some as \<and> lists_clients as m) (st w)" if "st w' = st w" for w'
    using GET_clients [of "get_request c (''realms/'' @ r @ ''/clients'')" r w' m] assms(1,3) that by (simp add: clients_url_def)
  from http.list_all_of_exec [OF this, where name = "''clients''" and f = "Unmarshal (decode_slice (decode_ptr decode_KeycloakClient))"]
  obtain w1 ks as where b: "map kcl_KeycloakApiClient ks = map Some as" "lists_clients as m"
    and w1: "exec E (Client_ListClients c r) w = (Done (Inr (map Some ks)), w1)" "st w1 = st w"
    unfolding Client_ListClients_def by blast
  have in_list: "(kac_ClientID a, kac_ID a) \<in> {(n, kcc_id k) | n k. m n = Some k}" if "a \<in> set as" for a
    using b(2) that unfolding lists_clients_def by blast
  have "(n, kcc_id k) \<in> (\<lambda>a. (kac_ClientID a, kac_ID a)) ` set as"
    using b(2) assms(2) unfolding lists_clients_def by blast
  then have found: "exec E (find_client_id (map Some ks) n) w1 = (Done (kcc_id k), w1)"
    using in_list assms(2) by (intro find_client_id_exec [OF b(1)]) force+
  have "replies E st (get_request c (client_secret_path (kcc_id k) r)) w' (\<lambda>s. s = 200)
      (\<lambda>b. \<exists>res. Unmarshal decode_string_map b = Inr res \<and> map_of res ''value'' = Some (kcc_secret k)) (st w1)" if "st w' = st w1" for w'
  proof -
    have m: "kc w' r = Some m" using that w1(2) assms(1) by simp
    show ?thesis unfolding that [symmetric]
      using that w1(2) by (intro GET_client_secret [OF _ _ m assms(2,3)]) (simp_all add: assms(4) secret_url_def)
  qed
  from http.get_exec [OF this, where name = "''client-secret''" and f = "\<lambda>body. case Unmarshal decode_string_map body of
      Inl err \<Rightarrow> Inl err | Inr res \<Rightarrow> Inr (case map_of res ''value'' of None \<Rightarrow> '''' | Some v \<Rightarrow> v)"]
  obtain b res w2 where got: "Unmarshal decode_string_map b = Inr res" "map_of res ''value'' = Some (kcc_secret k)" "st w2 = st w1"
    "exec E (get c (client_secret_path (kcc_id k) r) ''client-secret'' (\<lambda>body. case Unmarshal decode_string_map body of
      Inl err \<Rightarrow> Inl err | Inr res \<Rightarrow> Inr (case map_of res ''value'' of None \<Rightarrow> '''' | Some v \<Rightarrow> v))) w1 =
      (Done (case Unmarshal decode_string_map b of
      Inl err \<Rightarrow> Inl err | Inr res \<Rightarrow> Inr (case map_of res ''value'' of None \<Rightarrow> '''' | Some v \<Rightarrow> v)), w2)"
    by blast
  then have "exec E (Client_GetClientSecret c (kcc_id k) r) w1 = (Done (Inr (kcc_secret k)), w2)"
    by (simp add: Client_GetClientSecret_def exec_check_err)
  with found got(3) w1 show ?thesis by (simp add: getClientSecret_def exec_check_err exec_bind)
qed

text \<open>A client is made from its template, and a realm secret is stored when there is none.\<close>

lemma template_exec:
  assumes "fst (env_ReadFile E (path @ ''/'' @ name @ ''.json'') w) = Inr tpl" and "render tpl d = Inr json"
  shows "\<exists>w'. exec E (loadTemplate name path d) w = (Done (Inr json), w') \<and> st w' = st w"
  using assms http.ReadFile_keeps [of "path @ ''/'' @ name @ ''.json''" w]
  by (cases "env_ReadFile E (path @ ''/'' @ name @ ''.json'') w") (simp add: loadTemplate_render)

lemma createRealmClient_exec:
  assumes "plain_name i" and "list_all plain_char (client_root_url rhpam dep)" and "kc w r = Some m" and "m i = None" and "identified m"
  shows "\<exists>w' k. exec E (createRealmClient (client_interface c) \<lparr>realmTemplatePath = path\<rparr> r
      (realm_client_params rhpam i dep (bool_text b) (bool_text p))) w = (Done (Inr ()), w') \<and>
    client_of i (client_root_url rhpam dep) b p k \<and> identified (m(i \<mapsto> k)) \<and> st w' = ((kc w)(r \<mapsto> m(i \<mapsto> k)), objs w, devs w)"
proof -
  let ?u = "client_root_url rhpam dep"
  obtain json where json: "render (unparse realm_client_json)
      (RealmClientParameters_fields (realm_client_params rhpam i dep (bool_text b) (bool_text p))) = Inr json"
    "json_parse json = Some (JObj (client_members i ?u b p))"
    using realm_client_json_value [OF plain_name_chars [OF assms(1)] assms(2)] by blast
  obtain x a where a: "Unmarshal decode_KeycloakClient json = Inr x" "kcl_KeycloakApiClient x = Some a" "kac_ClientID a = i"
    "client_of i ?u b p \<lparr>kcc_id = d, kcc_secret = s, kcc_settings = a\<rparr>" for d s
    using client_members_decode [of i ?u b p] json(2) by (auto simp: Unmarshal_def client_of_def)
  obtain w1 where w1: "exec E (LoadRealmClientTemplate \<lparr>realmTemplatePath = path\<rparr>
      (realm_client_params rhpam i dep (bool_text b) (bool_text p))) w = (Done (Inr json), w1)" "st w1 = st w"
    using template_exec [of "''realm-client''" w, OF _ json(1)] client_template [of w] by (auto simp: LoadRealmClientTemplate_def)
  with CreateClient_exec [OF a(1,2), of w1 r m] a(3) assms
  obtain w2 k where w2: "exec E (Client_CreateClient c json r) w1 = (Done (Inr ()), w2)" "kcc_settings k = a"
    "\<forall>n k'. m n = Some k' \<longrightarrow> kcc_id k' \<noteq> kcc_id k" "st w2 = ((kc w)(r \<mapsto> m(i \<mapsto> k)), objs w, devs w)" by auto
  have "client_of i ?u b p k" using a(4) w2(2) by (simp add: client_of_def)
  with w1 w2 identified_new [OF assms(5,1) w2(3)] show ?thesis
    by (intro exI [of _ w2] exI [of _ k]) (simp add: createRealmClient_def exec_check_err)
qed

lemma createSecret_stores:
  assumes "objs w (gvk_Secret, key_of (dev_Namespace d) name) = None"
  shows "\<exists>w'. exec E (createSecret ph d name data) w = (Done (Inr ()), w') \<and> kc w' = kc w \<and> devs w' = devs w \<and>
    objs w' = (objs w)((gvk_Secret, key_of (dev_Namespace d) name) \<mapsto> owned ph d (secret_object d name data))"
proof -
  let ?ob = "owned ph d (secret_object d name data)" and ?k = "key_of (dev_Namespace d) name"
  have key: "store_key ?ob = (gvk_Secret, ?k)"
    unfolding owned_simps by (simp add: store_key_def object_key_def secret_object_def labelled_meta_def key_of_def)
  obtain e w1 where w1: "env_GetObject E gvk_Secret ?k w = (Inl e, w1)"
    using get_absent [OF assms] by (metis prod.collapse)
  with get_keeps [of gvk_Secret ?k w] GetObject_devs [of gvk_Secret ?k w] other_calls_kc(5) [of gvk_Secret ?k w]
  have s1: "objs w1 = objs w" "devs w1 = devs w" "kc w1 = kc w" by simp_all
  have absent: "objs w1 (store_key ?ob) = None" using assms s1(1) key by simp
  obtain x w2 where w2: "env_CreateObject E ?ob w1 = (Inr x, w2)"
    using create_absent [OF absent] by (metis prod.collapse)
  with create_absent [OF absent] CreateObject_devs [of ?ob w1] other_calls_kc(6) [of ?ob w1] s1 key
  have "objs w2 = (objs w)((gvk_Secret, ?k) \<mapsto> ?ob)" "devs w2 = devs w" "kc w2 = kc w" by simp_all
  with w1 w2 show ?thesis
    by (simp add: createSecret_def Let_def secret_object_def owned_def)
qed

subsection \<open>All of it\<close>

lemma NewRealmHelper_exec: "\<exists>w'. exec E NewRealmHelper w = (Done \<lparr>realmTemplatePath = path\<rparr>, w') \<and> st w' = st w"
  using template_path(1) [of w] template_path(2) http.LookupEnv_keeps [of "''TEMPLATE_PATH''" w]
  by (cases "env_LookupEnv E ''TEMPLATE_PATH'' w") (simp add: NewRealmHelper_def templatePath_def Getenv_def exec_bind)

lemma generateToken_exec:
  "\<exists>s w'. exec E (generateToken n) w = (Done s, w') \<and> length s = n \<and> set s \<subseteq> set letterRunes \<and> st w' = st w"
proof -
  obtain t w1 where "env_TimeNow E w = (t, w1)" by fastforce
  then obtain s w' where e: "exec E (generateToken n) w = (Done s, w')"
    using random_runes_done [of E n "env_RandSeed E t w1"] by (auto simp: generateToken_def)
  have "runs (generateToken n) (trace_of E (generateToken n) w) (Done s)"
    using exec_runs [of "generateToken n" E w] e by simp
  from runs_result [OF generateToken_internal this] e internal_exec [OF generateToken_internal e] show ?thesis by blast
qed

lemma token_plain: "set s \<subseteq> set letterRunes \<Longrightarrow> plain_name n \<Longrightarrow> plain_name (n @ ''-'' @ s)"
proof -
  have "list_all (\<lambda>c. is_alnum c) letterRunes" by code_simp
  then show "set s \<subseteq> set letterRunes \<Longrightarrow> plain_name n \<Longrightarrow> plain_name (n @ ''-'' @ s)"
    by (auto simp: plain_name_def list_all_iff)
qed

lemma createRealmSecret_stores:
  assumes "objs w (gvk_Secret, key_of (dev_Namespace d) name) = None"
  shows "\<exists>w'. exec E (createRealmSecret ph d name (kf_AdminUrl (dph_keycloakFactory ph) @ ''/auth'') realm client secret) w = (Done (Inr ()), w') \<and>
    kc w' = kc w \<and> devs w' = devs w \<and>
    objs w' = (objs w)((gvk_Secret, key_of (dev_Namespace d) name) \<mapsto> realm_secret ph d name realm client secret)"
  unfolding createRealmSecret_def realm_secret_def by (rule createSecret_stores [OF assms])

lemma realm_and_clients:
  assumes name: "plain_name r" "kc w r = None"
    and urls: "list_all plain_char (client_root_url d BusinessCentralDeployment)" "list_all plain_char (client_root_url d KieServerDeployment)"
    and own: "identified builtin" "builtin ''rhpambc'' = None" "builtin ''rhpamks'' = None" "builtin ''rhpamks-direct'' = None"
  defines "helper \<equiv> \<lparr>realmTemplatePath = path\<rparr>"
  shows "\<exists>json w0 w1 w2 w3 w4 b k x.
    exec E (LoadRealmTemplate helper \<lparr>rp_RealmId = r\<rparr>) w = (Done (Inr json), w0) \<and>
    exec E (Client_CreateRealm c json) w0 = (Done (Inr ()), w1) \<and>
    exec E (createRealmClient (client_interface c) helper r
      (realm_client_params d ''rhpambc'' BusinessCentralDeployment ''false'' ''false'')) w1 = (Done (Inr ()), w2) \<and>
    exec E (createRealmClient (client_interface c) helper r
      (realm_client_params d ''rhpamks'' KieServerDeployment ''true'' ''false'')) w2 = (Done (Inr ()), w3) \<and>
    exec E (createRealmClient (client_interface c) helper r
      (realm_client_params d ''rhpamks-direct'' KieServerDeployment ''false'' ''true'')) w3 = (Done (Inr ()), w4) \<and>
    client_of ''rhpambc'' (client_root_url d BusinessCentralDeployment) False False b \<and>
    client_of ''rhpamks'' (client_root_url d KieServerDeployment) True False k \<and>
    client_of ''rhpamks-direct'' (client_root_url d KieServerDeployment) False True x \<and>
    identified (builtin(''rhpambc'' \<mapsto> b, ''rhpamks'' \<mapsto> k, ''rhpamks-direct'' \<mapsto> x)) \<and>
    st w4 = ((kc w)(r \<mapsto> builtin(''rhpambc'' \<mapsto> b, ''rhpamks'' \<mapsto> k, ''rhpamks-direct'' \<mapsto> x)), objs w, devs w)"
proof -
  obtain json where json: "render (unparse realm_json) (RealmParameters_fields \<lparr>rp_RealmId = r\<rparr>) = Inr json"
    "json_parse json = Some (JObj ((''id'', JStr r) # (''realm'', JStr r) # realm_settings))"
    using realm_json_value [OF plain_name_chars [OF name(1)]] by blast
  obtain w0 where w0: "exec E (LoadRealmTemplate helper \<lparr>rp_RealmId = r\<rparr>) w = (Done (Inr json), w0)" "st w0 = st w"
    using template_exec [of "''realm''" w, OF _ json(1)] realm_template [of w] by (auto simp: LoadRealmTemplate_def helper_def)
  obtain w1 where w1: "exec E (Client_CreateRealm c json) w0 = (Done (Inr ()), w1)" "st w1 = ((kc w)(r \<mapsto> builtin), objs w, devs w)"
    using CreateRealm_exec [OF json(2) _ name(1), of w0] w0(2) name(2) by auto
  have plain: "plain_name ''rhpambc''" "plain_name ''rhpamks''" "plain_name ''rhpamks-direct''" by code_simp+
  have texts: "''false'' = bool_text False" "''true'' = bool_text True" by (simp_all add: bool_text_def)
  obtain w2 b where w2: "exec E (createRealmClient (client_interface c) helper r
      (realm_client_params d ''rhpambc'' BusinessCentralDeployment ''false'' ''false'')) w1 = (Done (Inr ()), w2)"
    "client_of ''rhpambc'' (client_root_url d BusinessCentralDeployment) False False b" "identified (builtin(''rhpambc'' \<mapsto> b))"
    "st w2 = ((kc w)(r \<mapsto> builtin(''rhpambc'' \<mapsto> b)), objs w, devs w)"
    using createRealmClient_exec [OF plain(1) urls(1), of w1 r builtin False False] w1(2) own
    unfolding texts helper_def by auto
  obtain w3 k where w3: "exec E (createRealmClient (client_interface c) helper r
      (realm_client_params d ''rhpamks'' KieServerDeployment ''true'' ''false'')) w2 = (Done (Inr ()), w3)"
    "client_of ''rhpamks'' (client_root_url d KieServerDeployment) True False k" "identified (builtin(''rhpambc'' \<mapsto> b, ''rhpamks'' \<mapsto> k))"
    "st w3 = ((kc w)(r \<mapsto> builtin(''rhpambc'' \<mapsto> b, ''rhpamks'' \<mapsto> k)), objs w, devs w)"
    using createRealmClient_exec [OF plain(2) urls(2), of w2 r "builtin(''rhpambc'' \<mapsto> b)" True False] w2(3,4) own
    unfolding texts helper_def by auto
  obtain w4 x where w4: "exec E (createRealmClient (client_interface c) helper r
      (realm_client_params d ''rhpamks-direct'' KieServerDeployment ''false'' ''true'')) w3 = (Done (Inr ()), w4)"
    "client_of ''rhpamks-direct'' (client_root_url d KieServerDeployment) False True x"
    "identified (builtin(''rhpambc'' \<mapsto> b, ''rhpamks'' \<mapsto> k, ''rhpamks-direct'' \<mapsto> x))"
    "st w4 = ((kc w)(r \<mapsto> builtin(''rhpambc'' \<mapsto> b, ''rhpamks'' \<mapsto> k, ''rhpamks-direct'' \<mapsto> x)), objs w, devs w)"
    using createRealmClient_exec [OF plain(3) urls(2), of w3 r "builtin(''rhpambc'' \<mapsto> b, ''rhpamks'' \<mapsto> k)" False True] w3(3,4) own
    unfolding texts helper_def by auto
  from w0 w1 w2 w3 w4 show ?thesis by blast
qed

subsection \<open>Logging in\<close>

lemma login_exec:
  assumes "objs w (gvk_Secret, key_of sso_ns sso_name) = Some ob"
    and "factory_of_secret ob = \<lparr>kf_AdminUser = admin, kf_AdminPassword = pass, kf_AdminUrl = cl_URL c\<rparr>"
  shows "\<exists>w'. exec E (Dev_authenticatedClient ph) w =
      (Done (Inr (client_interface c), ph\<lparr>dph_keycloakFactory := factory_of_secret ob\<rparr>), w') \<and> st w' = st w"
proof -
  obtain w1 where 1: "env_LookupEnv E ''SSO_NAMESPACE'' w = (Some sso_ns, w1)" using sso_variables(1) by (metis prod.collapse)
  then have s1: "st w1 = st w" using http.LookupEnv_keeps [of "''SSO_NAMESPACE''" w] by simp
  obtain w2 where 2: "env_LookupEnv E ''SSO_ADMIN_CREDENTIALS_SECRET'' w1 = (Some sso_name, w2)"
    using sso_variables(3) by (metis prod.collapse)
  then have s2: "st w2 = st w" using http.LookupEnv_keeps [of "''SSO_ADMIN_CREDENTIALS_SECRET''" w1] s1 by simp
  let ?k = "key_of sso_ns sso_name"
  have "fst (env_GetObject E gvk_Secret ?k w2) = Inr ob" using assms(1) s2 by (intro get_present) simp
  then obtain w3 where 3: "env_GetObject E gvk_Secret ?k w2 = (Inr ob, w3)" by (metis prod.collapse)
  then have s3: "st w3 = st w"
    using get_keeps [of gvk_Secret ?k w2] GetObject_devs [of gvk_Secret ?k w2] other_calls_kc(5) [of gvk_Secret ?k w2] s2 by simp
  let ?body = "form_Encode [(''username'', admin), (''password'', pass), (''client_id'', ''admin-cli''), (''grant_type'', ''password'')]"
  let ?q = "\<lparr>rq_Method = ''POST'', rq_URL = token_url c, rq_Header = [(''Content-Type'', ''application/x-www-form-urlencoded'')],
    rq_Body = Some ?body\<rparr>"
  obtain w4 where 4: "env_NewRequest E ''POST'' (token_url c) w3 = (Inr (), w4)" "st w4 = st w3" using http.NewRequest_step by blast
  have "replies E st ?q w4 (\<lambda>s. s = 200)
      (\<lambda>b. \<exists>tok. Unmarshal decode_TokenResponse b = Inr tok \<and> tr_Error tok = '''' \<and> tr_AccessToken tok = cl_token c) (st w4)"
    by (rule POST_token) simp_all
  from http.reply [OF this] obtain res w5 b w6 tok where 5: "env_HttpDo E ?q w4 = (Inr res, w5)" "env_ReadBody E w5 = (Inr b, w6)"
    "Unmarshal decode_TokenResponse b = Inr tok" "tr_Error tok = ''''" "tr_AccessToken tok = cl_token c" "st w6 = st w4" by metis
  have c: "\<lparr>cl_URL = cl_URL c, cl_token = cl_token c\<rparr> = c" by simp
  show ?thesis
    using 1 2 3 4 5 s3 sso_variables(2,4) http.CloseBody_state [of w6] assms(2)
    by (simp add: Dev_authenticatedClient_def authenticatedClient_def readSSOSecret_def ReadSSOSecret_def Getenv_def exec_bind
        AuthenticatedClient_def exec_check_err login_def Let_def token_url_def c)
qed

subsection \<open>The phase\<close>

lemma provision_exec:
  assumes "provisionable builtin d (kc w, objs w)"
  shows "\<exists>w' t. exec E (provision_with ph (client_interface c) d) w =
      (Done (Inr (set_dev_version RhpamVersion (set_dev_realm (dev_Name d @ ''-'' @ t) (set_dev_phase PhaseRealmProvisioned d)))), w') \<and>
    length t = 6 \<and> set t \<subseteq> set letterRunes \<and> devs w' = devs w \<and>
    provisioned builtin ph d (dev_Name d @ ''-'' @ t) (kc w, objs w) (kc w', objs w')"
proof -
  let ?helper = "\<lparr>realmTemplatePath = path\<rparr>" and ?url = "kf_AdminUrl (dph_keycloakFactory ph) @ ''/auth''"
  from assms have name: "plain_name (dev_Name d)" "\<And>t. kc w (dev_Name d @ ''-'' @ t) = None" "plain_realms (kc w)"
    and urls: "list_all plain_char (client_root_url d BusinessCentralDeployment)" "list_all plain_char (client_root_url d KieServerDeployment)"
    and absent: "objs w (gvk_Secret, key_of (dev_Namespace d) BusinessCentralRealmSecret) = None"
      "objs w (gvk_Secret, key_of (dev_Namespace d) KieServerRealmSecret) = None"
    and own: "identified builtin" "builtin ''rhpambc'' = None" "builtin ''rhpamks'' = None" "builtin ''rhpamks-direct'' = None"
    by (simp_all add: provisionable_def)
  obtain v where v: "exec E NewRealmHelper w = (Done ?helper, v)" "st v = st w" using NewRealmHelper_exec by blast
  obtain t v1 where v1: "exec E (generateToken 6) v = (Done t, v1)" "length t = 6" "set t \<subseteq> set letterRunes" "st v1 = st w"
    using generateToken_exec [of 6 v] v(2) by auto
  let ?r = "dev_Name d @ ''-'' @ t"
  have "kc v1 ?r = None" using v1(4) name(2) by simp
  from realm_and_clients [OF token_plain [OF v1(3) name(1)] this urls own]
  obtain json w0 w1 w2 w3 w4 b k x where made:
    "exec E (LoadRealmTemplate ?helper \<lparr>rp_RealmId = ?r\<rparr>) v1 = (Done (Inr json), w0)"
    "exec E (Client_CreateRealm c json) w0 = (Done (Inr ()), w1)"
    "exec E (createRealmClient (client_interface c) ?helper ?r
      (realm_client_params d ''rhpambc'' BusinessCentralDeployment ''false'' ''false'')) w1 = (Done (Inr ()), w2)"
    "exec E (createRealmClient (client_interface c) ?helper ?r
      (realm_client_params d ''rhpamks'' KieServerDeployment ''true'' ''false'')) w2 = (Done (Inr ()), w3)"
    "exec E (createRealmClient (client_interface c) ?helper ?r
      (realm_client_params d ''rhpamks-direct'' KieServerDeployment ''false'' ''true'')) w3 = (Done (Inr ()), w4)"
    and clients: "client_of ''rhpambc'' (client_root_url d BusinessCentralDeployment) False False b"
    "client_of ''rhpamks'' (client_root_url d KieServerDeployment) True False k"
    "client_of ''rhpamks-direct'' (client_root_url d KieServerDeployment) False True x"
    and m: "identified (builtin(''rhpambc'' \<mapsto> b, ''rhpamks'' \<mapsto> k, ''rhpamks-direct'' \<mapsto> x))"
    and w4: "st w4 = ((kc w)(?r \<mapsto> builtin(''rhpambc'' \<mapsto> b, ''rhpamks'' \<mapsto> k, ''rhpamks-direct'' \<mapsto> x)), objs w, devs w)"
    unfolding v1(4) using v1(4) by (auto simp only: prod.inject)
  let ?m = "builtin(''rhpambc'' \<mapsto> b, ''rhpamks'' \<mapsto> k, ''rhpamks-direct'' \<mapsto> x)"
  have k4: "kc w4 ?r = Some ?m" using w4 by simp
  have p4: "plain_realms (kc w4)" using w4 plain_realms_new [OF name(3) token_plain [OF v1(3) name(1)]] by simp
  obtain w5 where w5: "exec E (getClientSecret (client_interface c) ?r ''rhpambc'') w4 = (Done (Inr (kcc_secret b)), w5)" "st w5 = st w4"
    using getClientSecret_exec [OF k4 _ m p4, of "''rhpambc''" b] by auto
  have "objs w5 (gvk_Secret, key_of (dev_Namespace d) BusinessCentralRealmSecret) = None" using absent(1) w4 w5(2) by simp
  from createRealmSecret_stores [OF this] obtain w6 where
    6: "exec E (createRealmSecret ph d BusinessCentralRealmSecret ?url ?r ''rhpambc'' (kcc_secret b)) w5 = (Done (Inr ()), w6)"
      "kc w6 = kc w5" "devs w6 = devs w5"
      "objs w6 = (objs w5)((gvk_Secret, key_of (dev_Namespace d) BusinessCentralRealmSecret) \<mapsto>
           realm_secret ph d BusinessCentralRealmSecret ?r ''rhpambc'' (kcc_secret b))" by blast
  then have w6: "kc w6 = kc w4" "devs w6 = devs w"
    "objs w6 = (objs w)((gvk_Secret, key_of (dev_Namespace d) BusinessCentralRealmSecret) \<mapsto>
           realm_secret ph d BusinessCentralRealmSecret ?r ''rhpambc'' (kcc_secret b))"
    using w5(2) w4 by simp_all
  have k6: "kc w6 ?r = Some ?m" and p6: "plain_realms (kc w6)" using k4 p4 w6(1) by simp_all
  obtain w7 where w7: "exec E (getClientSecret (client_interface c) ?r ''rhpamks'') w6 = (Done (Inr (kcc_secret k)), w7)" "st w7 = st w6"
    using getClientSecret_exec [OF k6 _ m p6, of "''rhpamks''" k] by auto
  have "key_of (dev_Namespace d) KieServerRealmSecret \<noteq> key_of (dev_Namespace d) BusinessCentralRealmSecret"
    by (simp add: key_of_def KieServerRealmSecret_def BusinessCentralRealmSecret_def)
  with absent(2) w7(2) w6(3) have "objs w7 (gvk_Secret, key_of (dev_Namespace d) KieServerRealmSecret) = None" by simp
  from createRealmSecret_stores [OF this] obtain w8 where
    w8: "exec E (createRealmSecret ph d KieServerRealmSecret ?url ?r ''rhpamks'' (kcc_secret k)) w7 = (Done (Inr ()), w8)"
      "kc w8 = kc w7" "devs w8 = devs w7"
      "objs w8 = (objs w7)((gvk_Secret, key_of (dev_Namespace d) KieServerRealmSecret) \<mapsto>
           realm_secret ph d KieServerRealmSecret ?r ''rhpamks'' (kcc_secret k))" by blast
  have "exec E (provision_with ph (client_interface c) d) w =
      (Done (Inr (set_dev_version RhpamVersion (set_dev_realm ?r (set_dev_phase PhaseRealmProvisioned d)))), w8)"
    using v(1) v1(1) made w5(1) 6(1) w7(1) w8(1) by (simp add: provision_with_def Let_def exec_bind exec_check_err)
  moreover have "provisioned builtin ph d ?r (kc w, objs w) (kc w8, objs w8)"
    unfolding provisioned_def using clients w4 w6 w7(2) w8 by auto
  ultimately show ?thesis using v1(2,3) w8(3) w7(2) w6(2) by auto
qed

text \<open>An update of a living resource is stored, and its status is what was written.\<close>

lemma update_exec:
  assumes "devs w (dev_key d) = Some d" and "om_DeletionTimestamp (dev_ObjectMeta d) = None"
    and "dev_key e = dev_key d" and "om_ResourceVersion (dev_ObjectMeta e) = om_ResourceVersion (dev_ObjectMeta d)"
    and "om_DeletionTimestamp (dev_ObjectMeta e) = None"
  shows "\<exists>e' w'. env_UpdateRhpamDev E e w = (Inr e', w') \<and> devs w' = (devs w)(dev_key d \<mapsto> e') \<and> same_install e e' \<and>
    dev_Status e' = dev_Status e \<and> objs w' = objs w \<and> kc w' = kc w"
proof -
  from update_dev [of w e d] assms obtain e' where
    u: "fst (env_UpdateRhpamDev E e w) = Inr e'" "devs (snd (env_UpdateRhpamDev E e w)) = (devs w)(dev_key d \<mapsto> e')"
      "same_install e e'" "dev_Status e' = dev_Status e" by auto
  obtain w' where "env_UpdateRhpamDev E e w = (Inr e', w')" using u(1) by (metis prod.collapse)
  with u update_dev_keeps [of e w] other_calls_kc(7) [of e w] show ?thesis by simp
qed

lemma accepted_exec:
  fixes r :: ReconcileRhpamDev
  assumes stored: "devs w (dev_key d) = Some d" "dev_Phase d = PhaseAccepted" "om_DeletionTimestamp (dev_ObjectMeta d) = None"
    and watched: "fst (env_LookupEnv E ''WATCH_NAMESPACE'' w) = Some (dev_Namespace d)"
    and admin: "objs w (gvk_Secret, key_of sso_ns sso_name) = Some ob"
      "factory_of_secret ob = \<lparr>kf_AdminUser = admin, kf_AdminPassword = pass, kf_AdminUrl = cl_URL c\<rparr>"
    and able: "provisionable builtin d (kc w, objs w)"
  defines "ph \<equiv> (rd_phaseHandler r)\<lparr>dph_keycloakFactory := factory_of_secret ob\<rparr>"
  shows "\<exists>w' d' t. exec E (Dev_Reconcile r (dev_key d)) w = (Done ((\<lparr>rr_Requeue = True\<rparr>, None), r\<lparr>rd_phaseHandler := ph\<rparr>), w') \<and>
    devs w' (dev_key d) = Some d' \<and> same_install d d' \<and> dev_Phase d' = PhaseRealmProvisioned \<and>
    dev_Realm d' = dev_Name d @ ''-'' @ t \<and> length t = 6 \<and> set t \<subseteq> set letterRunes \<and>
    provisioned builtin ph d (dev_Realm d') (kc w, objs w) (kc w', objs w')"
proof -
  define v where "v = snd (env_GetRhpamDev E (dev_key d) (snd (env_LookupEnv E ''WATCH_NAMESPACE'' w)))"
  note found = Reconcile_found [OF stored(1,3) watched, of r, folded v_def]
  have "kc v = kc w" using http.LookupEnv_keeps [of "''WATCH_NAMESPACE''" w] other_calls_kc(8) by (simp add: v_def)
  with found have v: "devs v = devs w" "objs v = objs w" "kc v = kc w" by simp_all
  let ?mark = "set_dev_phase PhaseRealmProvisioning d"
  obtain d1 v1 where 1: "env_UpdateRhpamDev E ?mark v = (Inr d1, v1)" "devs v1 = (devs v)(dev_key d \<mapsto> d1)" "same_install ?mark d1"
    "objs v1 = objs v" "kc v1 = kc v"
    using update_exec [of v d ?mark] stored v by (auto simp: dev_key_def)
  have same: "same_install d ?mark" by (simp add: same_install_def dev_key_def)
  note same1 = same_install_trans [OF same 1(3)]
  obtain v2 where 2: "exec E (Dev_authenticatedClient (rd_phaseHandler r)) v1 = (Done (Inr (client_interface c), ph), v2)" "st v2 = st v1"
    using login_exec [OF _ admin(2), of v1] admin(1) 1 v by (auto simp: ph_def)
  have "provisionable builtin d1 (kc v2, objs v2)"
    using able 1 2(2) v by (simp add: provisioning_same(4) [OF same1])
  from provision_exec [OF this, of ph] obtain v3 t where
    3: "exec E (provision_with ph (client_interface c) d1) v2 =
      (Done (Inr (set_dev_version RhpamVersion (set_dev_realm (dev_Name d1 @ ''-'' @ t) (set_dev_phase PhaseRealmProvisioned d1)))), v3)"
      "length t = 6" "set t \<subseteq> set letterRunes" "devs v3 = devs v2"
      "provisioned builtin ph d1 (dev_Name d1 @ ''-'' @ t) (kc v2, objs v2) (kc v3, objs v3)" by blast
  let ?done = "set_dev_version RhpamVersion (set_dev_realm (dev_Name d1 @ ''-'' @ t) (set_dev_phase PhaseRealmProvisioned d1))"
  have key: "dev_key d1 = dev_key d" "om_DeletionTimestamp (dev_ObjectMeta d1) = None" using same1 stored(3) by (simp_all add: same_install_def)
  have "devs v3 (dev_key d1) = Some d1" using 1 2(2) 3(4) key by simp
  then obtain d2 w' where 4: "env_UpdateRhpamDev E ?done v3 = (Inr d2, w')" "devs w' = (devs v3)(dev_key d1 \<mapsto> d2)" "same_install ?done d2"
    "dev_Status d2 = dev_Status ?done" "objs w' = objs v3" "kc w' = kc v3"
    using update_exec [of v3 d1 ?done] key(2) by (auto simp: dev_key_def)
  have "exec E (Dev_reconcile_phase (rd_phaseHandler r) d) v = (Done ((\<lparr>rr_Requeue = True\<rparr>, None), ph), w')"
    using 1(1) 2(1) 3(1) 4(1) stored(2)
    by (simp add: Dev_reconcile_phase_def phase_consts ProvisionRealm_def update_dropping_error_def exec_bind Dev_handleResult_def)
  with found have run: "exec E (Dev_Reconcile r (dev_key d)) w = (Done ((\<lparr>rr_Requeue = True\<rparr>, None), r\<lparr>rd_phaseHandler := ph\<rparr>), w')" by simp
  have "same_install d1 ?done" by (simp add: same_install_def dev_key_def)
  then have "same_install d d2" using same_install_trans same1 4(3) by blast
  moreover have "dev_Realm d2 = dev_Name d @ ''-'' @ t" "dev_Phase d2 = PhaseRealmProvisioned"
    using 4(4) provisioning_same(2) [OF same1] by simp_all
  moreover have "provisioned builtin ph d (dev_Name d @ ''-'' @ t) (kc w, objs w) (kc w', objs w')"
    using 3(5) 4(5,6) 1(4,5) 2(2) v provisioning_same(2,5) [OF same1] by simp
  ultimately show ?thesis using run 4(2) key(1) 3(2,3)
    by (intro exI [of _ w'] exI [of _ d2] exI [of _ t]) simp
qed

end

end
