(* ===== verification/ProvisionedRealm.thy ===== *)
theory ProvisionedRealm
  imports RealmProvisioning
begin

text \<open>
  A reference server for the provisioning of realms: it reads the requests as JSON, logs in with
  the credentials of the sample secret, keeps realms and clients in the world of theory Cluster, and
  answers from there. The contract of theory RealmProvisioning holds for it; then the property of the
  phase, and what it says of an installation of the examples.
\<close>

subsection \<open>The server\<close>

definition new_realm :: "string option \<Rightarrow> string option" where
  "new_realm body =
     (case body of None \<Rightarrow> None
      | Some b \<Rightarrow> (case json_parse b of
            Some (JObj kvs) \<Rightarrow> (case map_of kvs ''realm'' of Some (JStr r) \<Rightarrow> Some r | _ \<Rightarrow> None)
          | _ \<Rightarrow> None))"

definition new_client :: "string option \<Rightarrow> KeycloakApiClient option" where
  "new_client body =
     (case body of None \<Rightarrow> None
      | Some b \<Rightarrow> (case Unmarshal decode_KeycloakClient b of Inr x \<Rightarrow> kcl_KeycloakApiClient x | Inl _ \<Rightarrow> None))"

definition client_ident :: "string \<Rightarrow> string" where "client_ident n = ''c-'' @ n"

definition client_record :: "string \<Rightarrow> KeycloakApiClient \<Rightarrow> kc_client" where
  "client_record n a = \<lparr>kcc_id = client_ident n, kcc_secret = ''s-'' @ n, kcc_settings = a\<rparr>"

definition client_object :: "string \<Rightarrow> text_object" where
  "client_object n = [(''id'', client_ident n), (''clientId'', n)]"

definition server_clients :: "(string \<times> KeycloakApiClient) list" where
  "server_clients = [(''account'', zero_KeycloakApiClient\<lparr>kac_ClientID := ''account''\<rparr>)]"

definition clients_in :: "world \<Rightarrow> string \<Rightarrow> (string \<times> KeycloakApiClient) list" where
  "clients_in w r = (case map_of (w_realms w) r of None \<Rightarrow> [] | Some cs \<Rightarrow> cs)"

definition clients_of :: "(string \<times> KeycloakApiClient) list \<Rightarrow> string \<Rightarrow> kc_client option" where
  "clients_of cs n = map_option (client_record n) (map_of cs n)"

definition realms_of :: "world \<Rightarrow> realms" where
  "realms_of w r = map_option clients_of (map_of (w_realms w) r)"

definition admin_login :: string where
  "admin_login = form_Encode [(''username'', ''admin''), (''password'', ''pw''), (''client_id'', ''admin-cli''), (''grant_type'', ''password'')]"

definition realms_http :: "Client \<Rightarrow> Request \<Rightarrow> world \<Rightarrow> (int \<times> string) \<times> world" where
  "realms_http c q w =
     (let url = rq_URL q; realms = map fst (w_realms w) in
      if rq_Method q = ''POST'' then
        (if url = token_url c then
           (if rq_Body q = Some admin_login then ((200, object_text [(''access_token'', cl_token c)]), w)
            else ((401, object_text [(''error'', ''invalid_grant'')]), w))
         else if url = realms_url c then
           (case new_realm (rq_Body q) of None \<Rightarrow> ((400, ''''), w)
            | Some r \<Rightarrow> if r \<in> set realms then ((409, ''''), w)
                        else ((201, ''''), w\<lparr>w_realms := (r, server_clients) # w_realms w\<rparr>))
         else case find (\<lambda>r. url = clients_url c r) realms of
           None \<Rightarrow> ((404, ''''), w)
         | Some r \<Rightarrow> (case new_client (rq_Body q) of None \<Rightarrow> ((400, ''''), w)
             | Some a \<Rightarrow> if map_of (clients_in w r) (kac_ClientID a) \<noteq> None then ((409, ''''), w)
                 else ((201, ''''), w\<lparr>w_realms := AList.update r ((kac_ClientID a, a) # clients_in w r) (w_realms w)\<rparr>)))
      else (case find (\<lambda>r. url = clients_url c r) realms of
          Some r \<Rightarrow> ((200, array_text (map client_object (map fst (AList.clearjunk (clients_in w r))))), w)
        | None \<Rightarrow> (case find (\<lambda>(r, n). url = secret_url c r (client_ident n))
              (concat (map (\<lambda>r. map (\<lambda>(n, a). (r, n)) (clients_in w r)) realms)) of
            None \<Rightarrow> ((404, ''''), w)
          | Some (r, n) \<Rightarrow> ((200, object_text [(''type'', ''secret''), (''value'', ''s-'' @ n)]), w))))"

definition realms_site :: "Client \<Rightarrow> site" where
  "realms_site c = \<lparr>s_vars = sample_vars,
     s_files = [(''t/realm.json'', unparse realm_json), (''t/realm-client.json'', unparse realm_client_json)],
     s_yaml = (\<lambda>t. Inl (ErrorString ''yaml'')), s_http = realms_http c\<rparr>"

subsection \<open>Its addresses\<close>

lemma find_unique: "x \<in> set xs \<Longrightarrow> P x \<Longrightarrow> (\<And>y. y \<in> set xs \<Longrightarrow> P y \<Longrightarrow> y = x) \<Longrightarrow> find P xs = Some x"
proof (induction xs)
  case (Cons y ys)
  show ?case
  proof (cases "P y")
    case True
    then have "y = x" by (intro Cons.prems(3)) simp
    with True show ?thesis by simp
  next
    case False
    then have "x \<in> set ys" using Cons.prems(1,2) by fastforce
    then have "find P ys = Some x"
      by (rule Cons.IH [OF _ Cons.prems(2)]) (rule Cons.prems(3); simp)
    with False show ?thesis by simp
  qed
qed simp

lemma clients_url_inj [simp]: "clients_url c r = clients_url c r' \<longleftrightarrow> r = r'"
  by (simp add: clients_url_def admin_url_def)

lemma last_differs: "last s \<noteq> last t \<Longrightarrow> s \<noteq> t" by auto

lemma url_differs:
  "realms_url c \<noteq> token_url c" "clients_url c r \<noteq> token_url c" "clients_url c r \<noteq> realms_url c"
  "clients_url c r \<noteq> secret_url c r' i"
proof -
  show "realms_url c \<noteq> token_url c" "clients_url c r \<noteq> token_url c"
    by (simp_all add: realms_url_def clients_url_def admin_url_def token_url_def authUrl_def)
  show "clients_url c r \<noteq> realms_url c" by (simp add: realms_url_def clients_url_def admin_url_def)
  show "clients_url c r \<noteq> secret_url c r' i"
    by (rule last_differs) (simp add: clients_url_def secret_url_def admin_url_def client_secret_path_def)
qed

lemma no_slash: "plain_name n \<Longrightarrow> CHR ''/'' \<notin> set n"
  by (auto simp: plain_name_def list_all_iff is_alnum_def)

lemma takeWhile_upto: "x \<notin> set n \<Longrightarrow> takeWhile (\<lambda>c. c \<noteq> x) (n @ x # s) = n"
  by (induction n) auto

lemma secret_url_inj:
  assumes "plain_name r" and "plain_name r'" and "secret_url c r (client_ident n) = secret_url c r' (client_ident n')"
  shows "r = r' \<and> n = n'"
proof -
  from assms(3) have "r @ CHR ''/'' # ''clients/c-'' @ n = r' @ CHR ''/'' # ''clients/c-'' @ n'"
    by (simp add: secret_url_def admin_url_def client_secret_path_def client_ident_def flip: append_assoc)
  moreover have "takeWhile (\<lambda>c. c \<noteq> CHR ''/'') (n @ CHR ''/'' # s) = n" if "plain_name n" for n s
    by (rule takeWhile_upto [OF no_slash [OF that]])
  ultimately have "r = r'" using assms(1,2) by metis
  with \<open>r @ _ = r' @ _\<close> show ?thesis by simp
qed

subsection \<open>What it stores and answers\<close>

lemma realms_of_body [simp]: "realms_of (w\<lparr>w_body := b\<rparr>) = realms_of w" "lookup_object (w\<lparr>w_body := b\<rparr>) = lookup_object w"
  "stored_dev (w\<lparr>w_body := b\<rparr>) = stored_dev w"
  by (simp_all add: realms_of_def lookup_object_def stored_dev_def fun_eq_iff)

lemma realms_of_names [simp]: "r \<in> set (map fst (w_realms w)) \<longleftrightarrow> realms_of w r \<noteq> None"
  by (simp add: realms_of_def map_of_eq_None_iff)

lemma realms_of_clients: "realms_of w r = Some m \<Longrightarrow> m = clients_of (clients_in w r)"
  by (auto simp: realms_of_def clients_in_def)

lemma realms_of_new: "realms_of (w\<lparr>w_realms := (r, cs) # w_realms w\<rparr>) = (realms_of w)(r \<mapsto> clients_of cs)"
  by (auto simp: realms_of_def fun_eq_iff)

lemma clients_of_new: "clients_of ((n, a) # cs) = (clients_of cs)(n \<mapsto> client_record n a)"
  by (auto simp: clients_of_def fun_eq_iff)

lemma realms_of_update: "realms_of (w\<lparr>w_realms := AList.update r cs (w_realms w)\<rparr>) = (realms_of w)(r \<mapsto> clients_of cs)"
  by (auto simp: realms_of_def AList.update_conv' fun_eq_iff)

lemma elsewhere [simp]: "lookup_object (w\<lparr>w_realms := x\<rparr>) = lookup_object w" "stored_dev (w\<lparr>w_realms := x\<rparr>) = stored_dev w"
  by (simp_all add: lookup_object_def stored_dev_def fun_eq_iff)

lemma site_replies:
  assumes "realms_http c q w = ((s, b), w')" and "P s" and "Q b" and "(realms_of w', lookup_object w', stored_dev w') = d"
  shows "replies (cluster (realms_site c)) (\<lambda>w. (realms_of w, lookup_object w, stored_dev w)) q w P Q d"
  using assms by (auto simp: replies_def cluster_def realms_site_def)

text \<open>The list of clients and a secret, as the client reads them.\<close>

definition listed_client :: "string \<Rightarrow> KeycloakClient" where
  "listed_client n = zero_KeycloakClient\<lparr>kcl_KeycloakApiClient :=
     Some (zero_KeycloakApiClient\<lparr>kac_ID := client_ident n, kac_ClientID := n\<rparr>)\<rparr>"

lemma decode_client_object: "decode_KeycloakClient (object_value (client_object n)) = Inr (listed_client n)"
  by (simp add: decode_KeycloakClient_def object_value_def client_object_def store_struct_def KeycloakClient_fields_def promote_def
      KeycloakApiClient_fields_def find_field_def store_string_def listed_client_def zero_KeycloakClient_def)

lemma plain_client_object: "plain_name n \<Longrightarrow> plain_object (client_object n)"
  using plain_name_chars [of n] by (simp add: plain_object_def client_object_def client_ident_def plain_char_def char_code_def)

lemma decode_clients:
  assumes "\<forall>n \<in> set ns. plain_name n"
  shows "Unmarshal (decode_slice (decode_ptr decode_KeycloakClient)) (array_text (map client_object ns)) = Inr (map Some (map listed_client ns))"
proof -
  have "Unmarshal (decode_slice (decode_ptr decode_KeycloakClient)) (array_text (map client_object ns)) = Inr (map (\<lambda>n. Some (listed_client n)) ns)"
    by (rule decode_array) (use assms in \<open>auto simp: list_all_iff plain_client_object decode_client_object\<close>)
  then show ?thesis by (simp add: comp_def)
qed

lemma decode_secret:
  assumes "plain_name n"
  shows "\<exists>res. Unmarshal decode_string_map (object_text [(''type'', ''secret''), (''value'', ''s-'' @ n)]) = Inr res \<and>
    map_of res ''value'' = Some (''s-'' @ n)"
proof -
  have "plain_object [(''type'', ''secret''), (''value'', ''s-'' @ n)]"
    using plain_name_chars [OF assms] by (simp add: plain_object_def plain_char_def char_code_def)
  then show ?thesis
    by (simp add: decode_object decode_string_map_def object_value_def decode_string_def)
qed

lemma find_None_all: "(\<And>y. y \<in> set xs \<Longrightarrow> \<not> P y) \<Longrightarrow> find P xs = None"
  by (simp add: find_None_iff)

lemma find_realm:
  assumes "realms_of w r \<noteq> None"
  shows "find (\<lambda>r'. clients_url c r = clients_url c r') (map fst (w_realms w)) = Some r"
proof (rule find_unique)
  show "r \<in> set (map fst (w_realms w))" by (rule iffD2 [OF realms_of_names assms])
  show "y = r" if "clients_url c r = clients_url c y" for y using that by simp
qed (rule refl)

lemma realms_http_POST:
  assumes "rq_Method q = ''POST''"
  shows "rq_URL q = token_url c \<Longrightarrow> rq_Body q = Some admin_login \<Longrightarrow>
      realms_http c q w = ((200, object_text [(''access_token'', cl_token c)]), w)"
    and "rq_URL q = realms_url c \<Longrightarrow> new_realm (rq_Body q) = Some r \<Longrightarrow> realms_of w r = None \<Longrightarrow>
      realms_http c q w = ((201, ''''), w\<lparr>w_realms := (r, server_clients) # w_realms w\<rparr>)"
    and "rq_URL q = clients_url c r \<Longrightarrow> new_client (rq_Body q) = Some a \<Longrightarrow> realms_of w r = Some m \<Longrightarrow> m (kac_ClientID a) = None \<Longrightarrow>
      realms_http c q w = ((201, ''''), w\<lparr>w_realms := AList.update r ((kac_ClientID a, a) # clients_in w r) (w_realms w)\<rparr>)"
proof -
  note no = url_differs url_differs [symmetric]
  show "rq_URL q = token_url c \<Longrightarrow> rq_Body q = Some admin_login \<Longrightarrow>
      realms_http c q w = ((200, object_text [(''access_token'', cl_token c)]), w)"
    using assms by (simp add: realms_http_def)
  show "rq_URL q = realms_url c \<Longrightarrow> new_realm (rq_Body q) = Some r \<Longrightarrow> realms_of w r = None \<Longrightarrow>
      realms_http c q w = ((201, ''''), w\<lparr>w_realms := (r, server_clients) # w_realms w\<rparr>)"
    using assms realms_of_names [of r w] by (simp add: realms_http_def no del: realms_of_names)
  assume a: "rq_URL q = clients_url c r" "new_client (rq_Body q) = Some a" "realms_of w r = Some m" "m (kac_ClientID a) = None"
  have "find (\<lambda>r'. rq_URL q = clients_url c r') (map fst (w_realms w)) = Some r"
    unfolding a(1) by (rule find_realm) (simp add: a(3))
  moreover have "map_of (clients_in w r) (kac_ClientID a) = None"
    using a(4) realms_of_clients [OF a(3)] by (simp add: clients_of_def)
  ultimately show "realms_http c q w = ((201, ''''), w\<lparr>w_realms := AList.update r ((kac_ClientID a, a) # clients_in w r) (w_realms w)\<rparr>)"
    using assms a(1,2) by (simp add: realms_http_def no)
qed

lemma realms_http_GET:
  assumes "rq_Method q = ''GET''" and "realms_of w r = Some m"
  shows "rq_URL q = clients_url c r \<Longrightarrow>
      realms_http c q w = ((200, array_text (map client_object (map fst (AList.clearjunk (clients_in w r))))), w)"
    and "rq_URL q = secret_url c r (client_ident n) \<Longrightarrow> m n \<noteq> None \<Longrightarrow> plain_realms (realms_of w) \<Longrightarrow>
      realms_http c q w = ((200, object_text [(''type'', ''secret''), (''value'', ''s-'' @ n)]), w)"
proof -
  show "realms_http c q w = ((200, array_text (map client_object (map fst (AList.clearjunk (clients_in w r))))), w)"
    if "rq_URL q = clients_url c r"
  proof -
    have "find (\<lambda>r'. rq_URL q = clients_url c r') (map fst (w_realms w)) = Some r"
      unfolding that by (rule find_realm) (simp add: assms(2))
    with assms(1) show ?thesis by (simp add: realms_http_def)
  qed
  assume a: "rq_URL q = secret_url c r (client_ident n)" "m n \<noteq> None" "plain_realms (realms_of w)"
  have "find (\<lambda>r'. rq_URL q = clients_url c r') (map fst (w_realms w)) = None"
    by (rule find_None_all) (simp add: a(1) url_differs url_differs [symmetric])
  moreover
  let ?pairs = "concat (map (\<lambda>r. map (\<lambda>(n, a). (r, n)) (clients_in w r)) (map fst (w_realms w)))"
  have "find (\<lambda>(r, n). rq_URL q = secret_url c r (client_ident n)) ?pairs = Some (r, n)"
  proof (rule find_unique)
    have "r \<in> set (map fst (w_realms w))" by (rule iffD2 [OF realms_of_names]) (simp add: assms(2))
    moreover have "n \<in> fst ` set (clients_in w r)"
      using a(2) realms_of_clients [OF assms(2)] by (auto simp: clients_of_def map_of_eq_None_iff)
    ultimately show "(r, n) \<in> set ?pairs" by force
    fix y
    assume "y \<in> set ?pairs" and y: "case y of (r, n) \<Rightarrow> rq_URL q = secret_url c r (client_ident n)"
    then obtain r' n' where y': "y = (r', n')" "r' \<in> set (map fst (w_realms w))" by auto
    from y'(2) have "realms_of w r' \<noteq> None" by (rule iffD1 [OF realms_of_names])
    then have plain: "plain_name r" "plain_name r'" using a(3) assms(2) by (auto simp: plain_realms_def)
    have "secret_url c r (client_ident n) = secret_url c r' (client_ident n')" using y y'(1) a(1) by simp
    from secret_url_inj [OF plain this] y'(1) show "y = (r, n)" by simp
  qed (simp add: a(1))
  ultimately show "realms_http c q w = ((200, object_text [(''type'', ''secret''), (''value'', ''s-'' @ n)]), w)"
    using assms(1) by (simp add: realms_http_def)
qed

subsection \<open>The contract\<close>

definition sso_client :: Client where
  "sso_client = \<lparr>cl_URL = ''https://sso'', cl_token = ''t''\<rparr>"

interpretation realm_keycloak: realm_provider "cluster (realms_site sso_client)" lookup_object stored_dev realms_of sso_client
  "clients_of server_clients" "''t''" "''admin''" "''pw''" "''sso''" "''credential''"
proof
  fix q :: Request and w json kvs r x a m k n
  note site = site_replies
  let ?E = "cluster (realms_site sso_client)" and ?st = "\<lambda>w. (realms_of w, lookup_object w, stored_dev w)"
  show "replies ?E ?st q w (\<lambda>s. s = 201) (\<lambda>b. True) ((realms_of w)(r \<mapsto> clients_of server_clients), lookup_object w, stored_dev w)"
    if "rq_Method q = ''POST''" "rq_URL q = realms_url sso_client" "rq_Body q = Some json" "json_parse json = Some (JObj kvs)"
      "map_of kvs ''realm'' = Some (JStr r)" "realms_of w r = None"
    by (rule site [OF realms_http_POST(2) [OF that(1,2) _ that(6)]]) (use that in \<open>simp_all add: new_realm_def realms_of_new\<close>)
  show "\<exists>i s. (\<forall>n k. m n = Some k \<longrightarrow> kcc_id k \<noteq> i) \<and> replies ?E ?st q w (\<lambda>s. s = 201) (\<lambda>b. True)
      ((realms_of w)(r \<mapsto> m(kac_ClientID a \<mapsto> \<lparr>kcc_id = i, kcc_secret = s, kcc_settings = a\<rparr>)), lookup_object w, stored_dev w)"
    if "rq_Method q = ''POST''" "rq_URL q = clients_url sso_client r" "rq_Body q = Some json"
      "Unmarshal decode_KeycloakClient json = Inr x" "kcl_KeycloakApiClient x = Some a" "realms_of w r = Some m" "m (kac_ClientID a) = None"
  proof (intro exI conjI)
    have m: "m = clients_of (clients_in w r)" by (rule realms_of_clients [OF that(6)])
    then show "\<forall>n k. m n = Some k \<longrightarrow> kcc_id k \<noteq> client_ident (kac_ClientID a)"
      using that(7) by (auto simp: clients_of_def client_record_def client_ident_def)
    show "replies ?E ?st q w (\<lambda>s. s = 201) (\<lambda>b. True) ((realms_of w)(r \<mapsto> m(kac_ClientID a \<mapsto>
        \<lparr>kcc_id = client_ident (kac_ClientID a), kcc_secret = ''s-'' @ kac_ClientID a, kcc_settings = a\<rparr>)), lookup_object w, stored_dev w)"
      by (rule site [OF realms_http_POST(3) [OF that(1,2) _ that(6,7)]])
         (use that in \<open>simp_all add: new_client_def realms_of_update clients_of_new m client_record_def\<close>)
  qed
  show "replies ?E ?st q w (\<lambda>s. s = 200)
      (\<lambda>b. \<exists>ks as. Unmarshal (decode_slice (decode_ptr decode_KeycloakClient)) b = Inr (map Some ks) \<and>
         map kcl_KeycloakApiClient ks = map Some as \<and> lists_clients as m) (realms_of w, lookup_object w, stored_dev w)"
    if "rq_Method q = ''GET''" "rq_URL q = clients_url sso_client r" "realms_of w r = Some m" "identified m"
  proof (rule site [OF realms_http_GET(1) [OF that(1,3,2)]])
    define ns where "ns = map fst (AList.clearjunk (clients_in w r))"
    have m: "m = clients_of (clients_in w r)" by (rule realms_of_clients [OF that(3)])
    have ns: "set ns = dom m"
      by (simp add: ns_def AList.dom_clearjunk m clients_of_def dom_map_of_conv_image_fst dom_def map_of_eq_None_iff)
    then have "Unmarshal (decode_slice (decode_ptr decode_KeycloakClient)) (array_text (map client_object ns)) = Inr (map Some (map listed_client ns))"
      using that(4) by (intro decode_clients) (auto simp: identified_def)
    moreover have "map kcl_KeycloakApiClient (map listed_client ns) =
        map Some (map (\<lambda>n. zero_KeycloakApiClient\<lparr>kac_ID := client_ident n, kac_ClientID := n\<rparr>) ns)"
      by (simp add: listed_client_def)
    moreover have "lists_clients (map (\<lambda>n. zero_KeycloakApiClient\<lparr>kac_ID := client_ident n, kac_ClientID := n\<rparr>) ns) m"
      by (auto simp: lists_clients_def image_image ns zero_KeycloakApiClient_def m clients_of_def client_record_def)
    ultimately show "\<exists>ks as. Unmarshal (decode_slice (decode_ptr decode_KeycloakClient))
          (array_text (map client_object (map fst (AList.clearjunk (clients_in w r))))) = Inr (map Some ks) \<and>
         map kcl_KeycloakApiClient ks = map Some as \<and> lists_clients as m" unfolding ns_def by blast
  qed simp_all
  show "replies ?E ?st q w (\<lambda>s. s = 200)
      (\<lambda>b. \<exists>res. Unmarshal decode_string_map b = Inr res \<and> map_of res ''value'' = Some (kcc_secret k)) (realms_of w, lookup_object w, stored_dev w)"
    if "rq_Method q = ''GET''" "rq_URL q = secret_url sso_client r (kcc_id k)" "realms_of w r = Some m" "m n = Some k" "identified m"
      "plain_realms (realms_of w)"
  proof -
    have k: "kcc_id k = client_ident n" "kcc_secret k = ''s-'' @ n"
      using that(4) realms_of_clients [OF that(3)] by (auto simp: clients_of_def client_record_def)
    have n: "plain_name n" using that(4,5) by (auto simp: identified_def)
    show ?thesis
      by (rule site [OF realms_http_GET(2) [OF that(1,3)]]) (use that k decode_secret [OF n] in simp_all)
  qed
  show "replies ?E ?st q w (\<lambda>s. s = 200)
      (\<lambda>b. \<exists>tok. Unmarshal decode_TokenResponse b = Inr tok \<and> tr_Error tok = '''' \<and> tr_AccessToken tok = cl_token sso_client)
      (realms_of w, lookup_object w, stored_dev w)"
    if "rq_Method q = ''POST''" "rq_URL q = token_url sso_client"
      "rq_Body q = Some (form_Encode [(''username'', ''admin''), (''password'', ''pw''), (''client_id'', ''admin-cli''), (''grant_type'', ''password'')])"
  proof (rule site [OF realms_http_POST(1) [OF that(1,2)]])
    have "plain_object [(''access_token'', ''t'')]" by code_simp
    then have "Unmarshal decode_TokenResponse (object_text [(''access_token'', ''t'')]) = Inr (zero_TokenResponse\<lparr>tr_AccessToken := ''t''\<rparr>)"
      by (simp add: decode_object decode_TokenResponse_def object_value_def store_struct_def TokenResponse_fields_def
          find_field_def store_string_def)
    then show "\<exists>tok. Unmarshal decode_TokenResponse (object_text [(''access_token'', cl_token sso_client)]) = Inr tok \<and>
        tr_Error tok = '''' \<and> tr_AccessToken tok = cl_token sso_client"
      by (simp add: sso_client_def zero_TokenResponse_def)
  qed (simp_all add: that(3) admin_login_def)
qed (simp_all add: cluster_def realms_site_def sample_vars_def realms_of_def lookup_object_def stored_dev_def fun_eq_iff update_dev_def)

subsection \<open>The property\<close>

text \<open>
  C6. On a server with Keycloak's behaviour, with the realm templates of the repository, one
  reconciliation of a stored RhpamDev in phase "accepted" provisions its realm: the operator logs in
  with the credentials of the SSO secret, and afterwards there is one new realm, named after the
  resource with a token of six letters, which has beside the server's own clients exactly
  rhpambc, rhpamks (bearer only) and rhpamks-direct (public) with the addresses of this
  installation; the two secrets of the namespace hold the address of the server, the realm, the
  client and the secret that the server made up for it; the stored resource is in phase "realm
  provisioned", names the realm, and another reconciliation is asked for. The resource must be
  provisionable: its name and its addresses need no escaping, and no realm of such a name and none
  of the two secrets is there yet.
\<close>

theorem accepted_realm_is_provisioned:
  fixes r :: ReconcileRhpamDev
  assumes server: "realm_provider E objs devs kc c builtin path admin pass sso_ns sso_name"
    and stored: "devs w (dev_key d) = Some d" "dev_Phase d = PhaseAccepted" "om_DeletionTimestamp (dev_ObjectMeta d) = None"
    and watched: "fst (env_LookupEnv E ''WATCH_NAMESPACE'' w) = Some (dev_Namespace d)"
    and credentials: "objs w (gvk_Secret, key_of sso_ns sso_name) = Some ob"
      "factory_of_secret ob = \<lparr>kf_AdminUser = admin, kf_AdminPassword = pass, kf_AdminUrl = cl_URL c\<rparr>"
    and able: "provisionable builtin d (kc w, objs w)"
  shows "\<exists>w' d' t. exec E (Dev_Reconcile r (dev_key d)) w = (Done ((\<lparr>rr_Requeue = True\<rparr>, None),
        r\<lparr>rd_phaseHandler := (rd_phaseHandler r)\<lparr>dph_keycloakFactory := factory_of_secret ob\<rparr>\<rparr>), w') \<and>
    devs w' (dev_key d) = Some d' \<and> same_install d d' \<and> dev_Phase d' = PhaseRealmProvisioned \<and>
    dev_Realm d' = dev_Name d @ ''-'' @ t \<and> length t = 6 \<and> set t \<subseteq> set letterRunes \<and>
    provisioned builtin ((rd_phaseHandler r)\<lparr>dph_keycloakFactory := factory_of_secret ob\<rparr>) d (dev_Realm d')
      (kc w, objs w) (kc w', objs w')"
  by (rule realm_provider.accepted_exec [OF assms])

lemma accepted_realm_is_provisioned_witness:
  "\<exists>r' w' d' m k. exec (cluster (realms_site sso_client)) (Dev_Reconcile \<lparr>rd_phaseHandler = Dev_NewPhaseHandler sample_scheme\<rparr> sample_request)
      (sample_world [sample_dev PhaseAccepted '''' [RhpamFinalizer] None] []) = (Done ((\<lparr>rr_Requeue = True\<rparr>, None), r'), w') \<and>
    stored_dev w' sample_request = Some d' \<and> dev_Phase d' = PhaseRealmProvisioned \<and>
    realms_of w' (dev_Realm d') = Some m \<and> m ''rhpamks'' = Some k \<and> m ''account'' \<noteq> None \<and>
    kac_RedirectUris (kcc_settings k) = [''https://rhpam-kieserver-ns.example.com/*'']"
proof -
  let ?d = "sample_dev PhaseAccepted '''' [RhpamFinalizer] None"
  let ?w = "sample_world [?d] []" and ?b = "clients_of server_clients"
  have names: "plain_name ''rhpam''" "plain_name ''account''" by code_simp+
  have urls: "list_all plain_char (client_root_url ?d BusinessCentralDeployment)" "list_all plain_char (client_root_url ?d KieServerDeployment)"
    by code_simp+
  have key: "dev_key ?d = sample_request" by (simp add: dev_key_def key_of_def sample_defs)
  have ident: "identified ?b"
    using names(2) by (auto simp: identified_def clients_of_def server_clients_def split: if_split_asm)
  have fresh: "realms_of ?w = Map.empty" by (simp add: realms_of_def sample_world_def fun_eq_iff)
  have none: "lookup_object ?w (gvk_Secret, key_of (dev_Namespace ?d) name) = None" for name
    by (simp add: lookup_object_def sample_world_def store_key_def object_key_def key_of_def sample_secret_def sample_dev_def sample_meta_def
        empty_ObjectMeta_def)
  have builtins: "?b ''rhpambc'' = None" "?b ''rhpamks'' = None" "?b ''rhpamks-direct'' = None"
    by (simp_all add: clients_of_def server_clients_def)
  have "dev_Name ?d = ''rhpam''" by (simp add: sample_dev_def sample_meta_def)
  then have able: "provisionable ?b ?d (realms_of ?w, lookup_object ?w)"
    using names(1) urls ident builtins none by (simp add: provisionable_def fresh plain_realms_def)
  have stored: "stored_dev ?w (dev_key ?d) = Some ?d" "dev_Phase ?d = PhaseAccepted" "om_DeletionTimestamp (dev_ObjectMeta ?d) = None"
    by (simp_all add: stored_dev_def sample_world_def sample_defs)
  have watched: "fst (env_LookupEnv (cluster (realms_site sso_client)) ''WATCH_NAMESPACE'' ?w) = Some (dev_Namespace ?d)"
    by (simp add: cluster_def realms_site_def sample_vars_def sample_defs)
  have admin: "lookup_object ?w (gvk_Secret, key_of ''sso'' ''credential'') = Some sample_secret"
    "factory_of_secret sample_secret = \<lparr>kf_AdminUser = ''admin'', kf_AdminPassword = ''pw'', kf_AdminUrl = cl_URL sso_client\<rparr>"
    by (simp_all add: lookup_object_def sample_world_def store_key_def object_key_def key_of_def sample_secret_def empty_ObjectMeta_def
        factory_of_secret_def sso_client_def)
  from accepted_realm_is_provisioned [OF realm_keycloak.realm_provider_axioms stored watched admin able,
      of "\<lparr>rd_phaseHandler = Dev_NewPhaseHandler sample_scheme\<rparr>"]
  obtain r' w' d' ph where run: "exec (cluster (realms_site sso_client))
      (Dev_Reconcile \<lparr>rd_phaseHandler = Dev_NewPhaseHandler sample_scheme\<rparr> sample_request) ?w = (Done ((\<lparr>rr_Requeue = True\<rparr>, None), r'), w')"
    "stored_dev w' sample_request = Some d'" "dev_Phase d' = PhaseRealmProvisioned"
    "provisioned ?b ph ?d (dev_Realm d') (realms_of ?w, lookup_object ?w) (realms_of w', lookup_object w')"
    unfolding key by blast
  have url: "client_root_url ?d KieServerDeployment = ''https://rhpam-kieserver-ns.example.com''" by code_simp
  have "?b ''account'' \<noteq> None" by (simp add: clients_of_def server_clients_def)
  with run(4) url obtain m k where "realms_of w' (dev_Realm d') = Some m" "m ''rhpamks'' = Some k" "m ''account'' \<noteq> None"
    "kac_RedirectUris (kcc_settings k) = [''https://rhpam-kieserver-ns.example.com/*'']"
    by (auto simp: provisioned_def client_of_def Let_def)
  with run(1-3) show ?thesis by blast
qed

end
