(* ===== verification/Acceptance.thy ===== *)
theory Acceptance
  imports RealmReconcile RhpamuserProperties
begin

text \<open>
  The acceptance of an RhpamUser: which RhpamDev resources it moves on, for every run, and what
  the realm holds afterwards on a server that behaves like Keycloak.
\<close>

subsection \<open>What an acceptance is to write\<close>

definition to_prepare :: "RhpamDev list \<Rightarrow> RhpamDev list" where
  "to_prepare devs = map (set_dev_phase PhasePrepare) (filter (\<lambda>d. dev_Phase d = PhaseRealmProvisioned) devs)"

text \<open>The user resource takes the realm of the last resource that is provisioned or complete.\<close>

definition with_realm :: "RhpamDev list \<Rightarrow> RhpamDev list" where
  "with_realm devs = filter (\<lambda>d. dev_Phase d = PhaseRealmProvisioned \<or> dev_Phase d = PhaseComplete) devs"

definition adopted :: "RhpamDev list \<Rightarrow> RhpamUser \<Rightarrow> RhpamUser" where
  "adopted devs u = (if with_realm devs = [] then u else adopt_realm (last (with_realm devs)) u)"

lemma to_prepare_simps [simp]:
  "to_prepare [] = []"
  "to_prepare (d # devs) = (if dev_Phase d = PhaseRealmProvisioned then set_dev_phase PhasePrepare d # to_prepare devs else to_prepare devs)"
  by (simp_all add: to_prepare_def)

lemma adopt_realm_twice [simp]: "adopt_realm d (adopt_realm d' u) = adopt_realm d u"
  by (simp add: adopt_realm_def setter_defs)

lemma adopted_Nil [simp]: "adopted [] u = u"
  by (simp add: adopted_def with_realm_def)

lemma adopted_Cons:
  "adopted (d # devs) u =
     adopted devs (if dev_Phase d = PhaseRealmProvisioned \<or> dev_Phase d = PhaseComplete then adopt_realm d u else u)"
  by (simp add: adopted_def with_realm_def)

lemma provisioned_not_complete: "PhaseRealmProvisioned \<noteq> PhaseComplete"
  by (simp add: phase_consts)

subsection \<open>Every run\<close>

text \<open>
  A prefix of what is to be written is written; all of it exactly when the acceptance succeeds.
\<close>

definition prepares :: "RhpamDev list \<Rightarrow> RhpamUser \<Rightarrow> event list \<Rightarrow> (RhpamUser result \<times> UserPhaseHandler) outcome \<Rightarrow> bool" where
  "prepares devs u tr out \<longleftrightarrow> starts_with (dev_writes tr) (to_prepare devs) \<and>
     (if dev_writes tr = to_prepare devs then \<exists>h. out = Done (Inr (adopted devs u), h) else \<forall>u' h. out \<noteq> Done (Inr u', h))"

lemma accept_devs_prepares:
  assumes "runs (accept_devs ph devs v) tr out"
  shows "prepares devs v tr out"
  using assms
proof (induction devs arbitrary: ph v tr)
  case Nil
  then show ?case by (simp add: prepares_def)
next
  case (Cons d devs)
  show ?case
  proof (cases "dev_Phase d = PhaseRealmProvisioned")
    case False
    with Cons.prems Cons.IH show ?thesis by (auto simp: Let_def prepares_def adopted_Cons)
  next
    case True
    note this [simp]
    have stop: "prepares (d # devs) v tr out" if "dev_writes tr = []" "\<forall>u' h. out \<noteq> Done (Inr u', h)"
      using that by (simp add: prepares_def)
    from Cons.prems have
      "runs (bind (User_authenticatedClient ph) (\<lambda>(r, ph). case r of
          Inl err \<Rightarrow> Return (Inl err, ph)
        | Inr kc \<Rightarrow> bind (create_defaults kc (dev_Realm d)) (\<lambda>x. case x of
            Inl err \<Rightarrow> Return (Inl err, ph)
          | Inr _ \<Rightarrow> UpdateRhpamDev (set_dev_phase PhasePrepare d) (\<lambda>_. accept_devs ph devs (adopt_realm d v))))) tr out"
      by (simp add: Let_def provisioned_not_complete)
    then show ?thesis
    proof (cases rule: login_runs)
      case (ok kc h a b)
      note q = runs_list_all [OF sends_harmlessD [OF keycloak_rest.create_defaults_nothing [OF ok(2)]]]
      have none: "dev_writes tr = []" if "runs (create_defaults kc (dev_Realm d)) b x" for x
        using ok(1,4) q [OF that] by simp
      from ok(3) consider
          (panic) s where "runs (create_defaults kc (dev_Realm d)) b (Panicked s)" "out = Panicked s"
        | (failed) e where "runs (create_defaults kc (dev_Realm d)) b (Done (Inl e))" "out = Done (Inl e, h)"
        | (go) c u t where "runs (create_defaults kc (dev_Realm d)) c (Done (Inr ()))"
            "b = c @ EUpdateRhpamDev (set_dev_phase PhasePrepare d) u # t" "runs (accept_devs h devs (adopt_realm d v)) t out"
        by (auto simp: runs_bind_iff runs_branch_iff)
      then show ?thesis
      proof cases
        case go
        have "dev_writes tr = set_dev_phase PhasePrepare d # dev_writes t"
          using ok(1,4) go(2) q [OF go(1)] by simp
        with Cons.IH [OF go(3)] show ?thesis by (simp add: prepares_def adopted_Cons)
      next
        case panic
        then show ?thesis by (intro stop none) auto
      next
        case failed
        then show ?thesis by (intro stop none) auto
      qed
    qed (use stop in auto)
  qed
qed

text \<open>
  C11. Accepting a user resource moves on exactly the RhpamDev resources of its namespace that are
  provisioned. Of the resources listed, those in phase "realm provisioned" are written in the
  order of the list, in phase "prepare provisioning" and otherwise as listed, and nothing else:
  all of them exactly when the acceptance succeeds, the first ones when it fails. Before each of
  these writes the default roles and users were created in the realm of the resource, without an
  error. A successful acceptance gives the user resource the realm of the last resource listed that is
  provisioned or complete, and phase "reconcile"; when there is none it is unchanged. Nothing is
  written when the list cannot be had.
\<close>

theorem acceptance_prepares_realms:
  assumes "runs (User_Accepted ph u) tr out"
  shows "(\<forall>t1 w a t2. tr = t1 @ EUpdateRhpamDev w a # t2 \<longrightarrow> defaults_created (dev_Realm w) t1) \<and>
    ((\<exists>e h. tr = [EListRhpamDev (ru_Namespace u) (Inl e)] \<and> out = Done (Inl e, h)) \<or>
     (\<exists>devs t. tr = EListRhpamDev (ru_Namespace u) (Inr devs) # t \<and> starts_with (dev_writes t) (to_prepare devs) \<and>
        (if dev_writes t = to_prepare devs then \<exists>h. out = Done (Inr (adopted devs u), h) else \<forall>u' h. out \<noteq> Done (Inr u', h))))"
  using assms
proof (cases rule: User_Accepted_runs)
  case (listed devs t)
  have "defaults_created (dev_Realm w) t1" if split: "tr = t1 @ EUpdateRhpamDev w a # t2" for t1 w a t2
  proof -
    from split listed(1) obtain s where s: "t1 = EListRhpamDev (ru_Namespace u) (Inr devs) # s" "t = s @ EUpdateRhpamDev w a # t2"
      by (cases t1) auto
    have "defaults_created (dev_Realm w) s" by (rule accept_devs_defaults [OF listed(4) s(2)])
    then show ?thesis
      using defaults_created_prefix [of _ s "[EListRhpamDev (ru_Namespace u) (Inr devs)]"] s(1) by simp
  qed
  with listed(1) accept_devs_prepares [OF listed(4)] show ?thesis unfolding prepares_def by blast
qed (auto simp: Cons_eq_append_conv)

subsection \<open>The defaults on a server\<close>

text \<open>A user that is there keeps what it holds and is given the roles; a new one has the roles of new accounts besides.\<close>

definition granted :: "string set \<Rightarrow> (string \<Rightarrow> string set option) \<Rightarrow> User \<Rightarrow> string set" where
  "granted J D u = (case D (user_Username u) of None \<Rightarrow> J | Some R \<Rightarrow> R) \<union> set (user_Roles u)"

context realm_reconciler
begin

lemma default_roles_exec:
  assumes "\<forall>n \<in> set ns. plain_name n" and "plain_directory (dir w)"
  shows "\<exists>w'. exec E (for_each ns (createRole (client_interface c) realm)) w = (Done (Inr ()), w') \<and>
    plain_directory (dir w') \<and> role_names_of (dir w') = role_names_of (dir w) \<union> set ns \<and> held (dir w') = held (dir w)"
  using assms
proof (induction ns arbitrary: w)
  case (Cons n ns)
  then have n: "plain_name n" by simp
  obtain w1 where 1: "exec E (createRole (client_interface c) realm n) w = (Done (Inr ()), w1)"
    "if n \<in> role_names_of (dir w) then dir w1 = dir w else role_added n (dir w) (dir w1)"
    using role_reconciler.createRole_exec [OF roles_reconciled n, of w] by blast
  have new: "plain_directory (dir w1) \<and> role_names_of (dir w1) = insert n (role_names_of (dir w)) \<and> held (dir w1) = held (dir w)"
  proof (cases "n \<in> role_names_of (dir w)")
    case True
    with 1(2) Cons.prems(2) show ?thesis by (simp add: insert_absorb)
  next
    case False
    with 1(2) have a: "role_added n (dir w) (dir w1)" by simp
    with plain_role_added [OF a Cons.prems(2)] show ?thesis by (auto simp: role_added_def role_names_of_def)
  qed
  with Cons.IH [of w1] Cons.prems(1) obtain w2 where "exec E (for_each ns (createRole (client_interface c) realm)) w1 = (Done (Inr ()), w2)"
    "plain_directory (dir w2)" "role_names_of (dir w2) = role_names_of (dir w1) \<union> set ns" "held (dir w2) = held (dir w1)" by auto
  with 1(1) new show ?case by (auto simp: exec_check_err)
qed simp

lemma default_user_exec:
  assumes good: "plain_directory (dir w)" and one: "unambiguous matches (dir w) (user_Username u)"
    and u: "account_name (user_Username u)" "list_all plain_char (user_Password u)" "set (user_Roles u) \<subseteq> role_names_of (dir w)"
  shows "\<exists>w'. exec E (createUserWithRealmRoles (client_interface c) realm u) w = (Done (Inr ()), w') \<and>
    becomes (dir w) (user_Username u) (Some (granted (initial \<inter> role_names_of (dir w)) (held (dir w)) u)) (dir w')"
proof (cases "held (dir w) (user_Username u)")
  case None
  with user_reconciler.createUserWithRealmRoles_exec [OF users_reconciled good one None u(1,2)] u(3) show ?thesis
    by (simp add: granted_def role_names_of_def del: held_None)
next
  case (Some R)
  then obtain a where a: "dr_accounts (dir w) (user_Username u) = Some a" by (auto simp: held_def)
  obtain x w1 where 1: "exec E (kc_FindUserByUsername (client_interface c) (user_Username u) realm) w = (Done (Inr x), w1)" "dir w1 = dir w"
    using FindUser_cases(1) [OF good one a] by auto
  have "\<exists>w'. exec E (for_each (user_Roles u) (createUserRealmRole (client_interface c) realm (user_Username u))) w1 = (Done (Inr ()), w') \<and>
    becomes (dir w1) (user_Username u) (Some (R \<union> set (user_Roles u))) (dir w')"
    by (rule user_reconciler.add_roles [OF users_reconciled]) (use good one Some u(3) 1(2) in \<open>simp_all add: role_names_of_def\<close>)
  with 1 Some show ?thesis
    by (auto simp: createUserWithRealmRoles_def createUser_def exec_check_err exec_bind granted_def)
qed

lemma default_users_exec:
  assumes "distinct (map user_Username us)" and "user_Username ` set us \<subseteq> N" and "dom (held (dir w)) \<subseteq> N"
    and "\<forall>n \<in> N. \<forall>m \<in> N. matches n m \<longrightarrow> m = n" and "plain_directory (dir w)" and "dr_roles (dir w) = R"
    and "\<forall>u \<in> set us. account_name (user_Username u) \<and> list_all plain_char (user_Password u) \<and> set (user_Roles u) \<subseteq> dom R"
  shows "\<exists>w'. exec E (for_each us (createUserWithRealmRoles (client_interface c) realm)) w = (Done (Inr ()), w') \<and>
    plain_directory (dir w') \<and> dr_roles (dir w') = R \<and>
    held (dir w') = (\<lambda>n. case map_of (map (\<lambda>u. (user_Username u, u)) us) n of None \<Rightarrow> held (dir w) n
      | Some u \<Rightarrow> Some (granted (initial \<inter> dom R) (held (dir w)) u))"
  using assms
proof (induction us arbitrary: w)
  case (Cons u us)
  have one: "unambiguous matches (dir w) (user_Username u)"
    using Cons.prems(2-4) by (auto simp: unambiguous_def dom_held subset_iff)
  obtain w1 where 1: "exec E (createUserWithRealmRoles (client_interface c) realm u) w = (Done (Inr ()), w1)"
    "plain_directory (dir w1)" "dr_roles (dir w1) = R"
    "held (dir w1) = (held (dir w))(user_Username u \<mapsto> granted (initial \<inter> dom R) (held (dir w)) u)"
    using default_user_exec [OF Cons.prems(5) one] Cons.prems(6,7) by (auto simp: becomes_def role_names_of_def)
  let ?users = "\<lambda>us. map_of (map (\<lambda>u. (user_Username u, u)) us)"
  have "\<exists>w'. exec E (for_each us (createUserWithRealmRoles (client_interface c) realm)) w1 = (Done (Inr ()), w') \<and>
    plain_directory (dir w') \<and> dr_roles (dir w') = R \<and>
    held (dir w') = (\<lambda>n. case ?users us n of None \<Rightarrow> held (dir w1) n | Some u \<Rightarrow> Some (granted (initial \<inter> dom R) (held (dir w1)) u))"
  proof (rule Cons.IH)
    show "dom (held (dir w1)) \<subseteq> N" using Cons.prems(2,3) unfolding 1(4) by auto
  qed (use Cons.prems 1 in auto)
  then obtain w2 where 2: "exec E (for_each us (createUserWithRealmRoles (client_interface c) realm)) w1 = (Done (Inr ()), w2)"
    "plain_directory (dir w2)" "dr_roles (dir w2) = R"
    "held (dir w2) = (\<lambda>n. case ?users us n of None \<Rightarrow> held (dir w1) n | Some u \<Rightarrow> Some (granted (initial \<inter> dom R) (held (dir w1)) u))" by blast
  have "held (dir w2) n = (case ?users (u # us) n of None \<Rightarrow> held (dir w) n | Some u \<Rightarrow> Some (granted (initial \<inter> dom R) (held (dir w)) u))" for n
  proof (cases "n = user_Username u")
    case True
    have "?users us (user_Username u) = None" using Cons.prems(1) by (auto simp: map_of_eq_None_iff)
    with True show ?thesis unfolding 2(4) 1(4) by simp
  next
    case False
    show ?thesis
    proof (cases "?users us n")
      case None
      with False show ?thesis unfolding 2(4) 1(4) by simp
    next
      case (Some v)
      then have "user_Username v = n" by (auto dest: map_of_SomeD)
      with False Some show ?thesis unfolding 2(4) 1(4) by (simp add: granted_def)
    qed
  qed
  with 1(1) 2(1-3) show ?case by (auto simp: exec_check_err)
qed simp

lemma create_defaults_exec:
  assumes good: "plain_directory (dir w)"
    and names: "\<forall>n \<in> dom (held (dir w)) \<union> user_Username ` set defaultUsers.
        \<forall>m \<in> dom (held (dir w)) \<union> user_Username ` set defaultUsers. matches n m \<longrightarrow> m = n"
  shows "\<exists>w'. exec E (create_defaults (client_interface c) realm) w = (Done (Inr ()), w') \<and>
    role_names_of (dir w') = role_names_of (dir w) \<union> set defaultRoles \<and>
    held (dir w') = (\<lambda>n. case asked_for defaultUsers n of None \<Rightarrow> held (dir w) n
      | Some u \<Rightarrow> Some (granted (initial \<inter> role_names_of (dir w')) (held (dir w)) u))"
proof -
  have ok: "list_all plain_name defaultRoles" "distinct (map user_Username defaultUsers)"
    "list_all (\<lambda>u. account_name (user_Username u) \<and> list_all plain_char (user_Password u) \<and> list_all (\<lambda>r. r \<in> set defaultRoles) (user_Roles u)) defaultUsers"
    by code_simp+
  have roles: "\<forall>n \<in> set defaultRoles. plain_name n" using ok(1) by (simp add: list_all_iff)
  obtain w1 where 1: "exec E (for_each defaultRoles (createRole (client_interface c) realm)) w = (Done (Inr ()), w1)"
    "plain_directory (dir w1)" "role_names_of (dir w1) = role_names_of (dir w) \<union> set defaultRoles" "held (dir w1) = held (dir w)"
    using default_roles_exec [OF roles good] by blast
  let ?N = "dom (held (dir w)) \<union> user_Username ` set defaultUsers"
  have "\<exists>w'. exec E (for_each defaultUsers (createUserWithRealmRoles (client_interface c) realm)) w1 = (Done (Inr ()), w') \<and>
    plain_directory (dir w') \<and> dr_roles (dir w') = dr_roles (dir w1) \<and>
    held (dir w') = (\<lambda>n. case map_of (map (\<lambda>u. (user_Username u, u)) defaultUsers) n of None \<Rightarrow> held (dir w1) n
      | Some u \<Rightarrow> Some (granted (initial \<inter> dom (dr_roles (dir w1))) (held (dir w1)) u))"
  proof (rule default_users_exec [OF ok(2), where N = ?N])
    show "\<forall>u \<in> set defaultUsers. account_name (user_Username u) \<and> list_all plain_char (user_Password u) \<and> set (user_Roles u) \<subseteq> dom (dr_roles (dir w1))"
      using ok(3) 1(3) by (auto simp: list_all_iff role_names_of_def)
  qed (use names 1 in auto)
  then obtain w' where 2: "exec E (for_each defaultUsers (createUserWithRealmRoles (client_interface c) realm)) w1 = (Done (Inr ()), w')"
    "dr_roles (dir w') = dr_roles (dir w1)"
    "held (dir w') = (\<lambda>n. case map_of (map (\<lambda>u. (user_Username u, u)) defaultUsers) n of None \<Rightarrow> held (dir w1) n
      | Some u \<Rightarrow> Some (granted (initial \<inter> dom (dr_roles (dir w1))) (held (dir w1)) u))" by blast
  have users: "map_of (map (\<lambda>u. (user_Username u, u)) defaultUsers) = asked_for defaultUsers"
    unfolding asked_for_def
    by (rule map_of_inject_set [THEN iffD2]) (use ok(2) in \<open>simp_all add: comp_def flip: rev_map\<close>)
  have roles': "dom (dr_roles (dir w1)) = role_names_of (dir w')" "role_names_of (dir w') = role_names_of (dir w) \<union> set defaultRoles"
    using 1(3) by (simp_all add: 2(2) role_names_of_def)
  have "create_defaults (client_interface c) realm =
      check (for_each defaultRoles (createRole (client_interface c) realm)) (\<lambda>_. for_each defaultUsers (createUserWithRealmRoles (client_interface c) realm))"
    by (simp add: create_defaults_def createUserWithRealmRoles_def [abs_def])
  then have "exec E (create_defaults (client_interface c) realm) w = (Done (Inr ()), w')"
    using 1(1) 2(1) by (simp add: exec_check_err)
  with roles'(2) 2(3) [unfolded users roles'(1) 1(4)] show ?thesis by blast
qed

text \<open>A list with one provisioned resource, whose realm is the one of the directory.\<close>

lemma accept_devs_none:
  "filter (\<lambda>d. dev_Phase d = PhaseRealmProvisioned) devs = [] \<Longrightarrow> accept_devs ph devs u = Return (Inr (adopted devs u), ph)"
  by (induction devs arbitrary: u) (auto simp: Let_def adopted_Cons split: if_split_asm)

lemma accept_devs_one:
  assumes "filter (\<lambda>d. dev_Phase d = PhaseRealmProvisioned) devs = [d]" and "dev_Realm d = realm"
    and login: "exec E (User_authenticatedClient ph) w = (Done (Inr (client_interface c), ph'), w1)"
    and created: "exec E (create_defaults (client_interface c) realm) w1 = (Done (Inr ()), w2)"
  shows "exec E (accept_devs ph devs u) w = (Done (Inr (adopted devs u), ph'), snd (env_UpdateRhpamDev E (set_dev_phase PhasePrepare d) w2))"
  using assms(1)
proof (induction devs arbitrary: u)
  case (Cons x devs)
  show ?case
  proof (cases "dev_Phase x = PhaseRealmProvisioned")
    case True
    with Cons.prems have x: "x = d" "filter (\<lambda>d. dev_Phase d = PhaseRealmProvisioned) devs = []" by simp_all
    obtain y w3 where "env_UpdateRhpamDev E (set_dev_phase PhasePrepare d) w2 = (y, w3)" by fastforce
    with True x assms(2) login created show ?thesis
      by (simp add: Let_def exec_bind adopted_Cons provisioned_not_complete accept_devs_none)
  next
    case False
    with Cons show ?thesis by (simp add: Let_def adopted_Cons)
  qed
qed simp

lemma User_Accepted_exec:
  assumes list: "env_ListRhpamDev E (ru_Namespace u) w = (Inr devs, w1)"
    and one: "filter (\<lambda>d. dev_Phase d = PhaseRealmProvisioned) devs = [d]" "dev_Realm d = realm"
    and login: "exec E (User_authenticatedClient ph) w1 = (Done (Inr (client_interface c), ph'), w2)"
    and good: "plain_directory (dir w2)"
    and names: "\<forall>n \<in> dom (held (dir w2)) \<union> user_Username ` set defaultUsers.
        \<forall>m \<in> dom (held (dir w2)) \<union> user_Username ` set defaultUsers. matches n m \<longrightarrow> m = n"
  shows "\<exists>w3. exec E (User_Accepted ph u) w =
      (Done (Inr (adopted devs u), ph'), snd (env_UpdateRhpamDev E (set_dev_phase PhasePrepare d) w3)) \<and>
    role_names_of (dir w3) = role_names_of (dir w2) \<union> set defaultRoles \<and>
    held (dir w3) = (\<lambda>n. case asked_for defaultUsers n of None \<Rightarrow> held (dir w2) n
      | Some v \<Rightarrow> Some ((case held (dir w2) n of None \<Rightarrow> initial \<inter> role_names_of (dir w3) | Some R \<Rightarrow> R) \<union> set (user_Roles v)))"
proof -
  obtain w3 where 3: "exec E (create_defaults (client_interface c) realm) w2 = (Done (Inr ()), w3)"
    "role_names_of (dir w3) = role_names_of (dir w2) \<union> set defaultRoles"
    "held (dir w3) = (\<lambda>n. case asked_for defaultUsers n of None \<Rightarrow> held (dir w2) n
      | Some u \<Rightarrow> Some (granted (initial \<inter> role_names_of (dir w3)) (held (dir w2)) u))"
    using create_defaults_exec [OF good names] by blast
  have "user_Username v = n" if "asked_for defaultUsers n = Some v" for n v
    using that by (auto simp: asked_for_def dest: map_of_SomeD)
  then have "held (dir w3) n = (case asked_for defaultUsers n of None \<Rightarrow> held (dir w2) n
      | Some v \<Rightarrow> Some ((case held (dir w2) n of None \<Rightarrow> initial \<inter> role_names_of (dir w3) | Some R \<Rightarrow> R) \<union> set (user_Roles v)))" for n
    by (subst 3(3)) (simp add: granted_def split: option.split)
  with 3(2) accept_devs_one [OF one login 3(1)] list show ?thesis
    by (intro exI [of _ w3] conjI) (simp_all add: User_Accepted_def fun_eq_iff)
qed

end

subsection \<open>The acceptance on a server\<close>


text \<open>The examples: a realm with the account kim and one provisioned resource.\<close>

definition accept_world :: world where
  "accept_world = (sample_world [sample_dev PhaseRealmProvisioned ''r1'' [] None] [])\<lparr>w_roles := [''admin''],
     w_accounts := [(''adminuser'', []), (''kim'', [''admin''])]\<rparr>"

definition accept_dev :: RhpamDev where
  "accept_dev = sample_dev PhaseRealmProvisioned ''r1'' [] None"

definition accept_user :: RhpamUser where
  "accept_user = sample_user PhaseAccepted '''' [] None"

lemma accept_list:
  "env_ListRhpamDev (cluster (users_site realm_client ''r1'' [])) (ru_Namespace accept_user) accept_world = (Inr [accept_dev], accept_world)"
  "filter (\<lambda>d. dev_Phase d = PhaseRealmProvisioned) [accept_dev] = [accept_dev]" "dev_Realm accept_dev = ''r1''"
  by (simp_all add: cluster_def accept_world_def accept_user_def accept_dev_def sample_world_def sample_dev_def sample_user_def
      sample_meta_def)

lemma accept_logs_in:
  "\<exists>ph' b. exec (cluster (users_site realm_client realm init)) (User_authenticatedClient ph) accept_world =
     (Done (Inr (client_interface realm_client), ph'), accept_world\<lparr>w_body := b\<rparr>)"
proof -
  have "plain_object [(''access_token'', ''t'')]" by code_simp
  then have "Unmarshal decode_TokenResponse (object_text [(''access_token'', ''t'')]) = Inr (zero_TokenResponse\<lparr>tr_AccessToken := ''t''\<rparr>)"
    by (simp add: decode_object decode_TokenResponse_def object_value_def store_struct_def TokenResponse_fields_def
        find_field_def store_string_def)
  then show ?thesis
    by (simp add: User_authenticatedClient_def authenticatedClient_def readSSOSecret_def ReadSSOSecret_def Getenv_def
        AuthenticatedClient_def login_def exec_bind exec_check_err cluster_def users_site_def sample_vars_def accept_world_def
        sample_world_def sample_secret_def lookup_object_def store_key_def object_key_def key_of_def answer_def factory_of_secret_def
        users_http_def token_url_def realm_client_def empty_ObjectMeta_def Let_def zero_TokenResponse_def)
qed

lemma accept_ready:
  shows "plain_directory (dir_of accept_world)"
    and "\<forall>n \<in> dom (held (dir_of accept_world)) \<union> user_Username ` set defaultUsers.
        \<forall>m \<in> dom (held (dir_of accept_world)) \<union> user_Username ` set defaultUsers. contains n m \<longrightarrow> m = n"
    and "held (dir_of accept_world) ''kim'' = Some {''admin''}" "held (dir_of accept_world) ''adminuser'' = Some {}"
    and "held (dir_of accept_world) ''executionuser'' = None"
proof -
  have w: "w_roles accept_world = [''admin'']" "w_accounts accept_world = [(''adminuser'', []), (''kim'', [''admin''])]"
    by (simp_all add: accept_world_def)
  have plain: "list_all plain_name [''admin'', ''adminuser'', ''kim'', ''r-admin'', ''u-adminuser'', ''u-kim'']" by code_simp
  then show "plain_directory (dir_of accept_world)"
    by (auto simp: w plain_directory_def realm_role_id_def account_id_def split: if_split_asm)
  have "dom (held (dir_of accept_world)) = {''adminuser'', ''kim''}" by (auto simp: w held_def dom_def split: if_split_asm)
  then show "\<forall>n \<in> dom (held (dir_of accept_world)) \<union> user_Username ` set defaultUsers.
        \<forall>m \<in> dom (held (dir_of accept_world)) \<union> user_Username ` set defaultUsers. contains n m \<longrightarrow> m = n"
    by (simp add: defaultUsers_def)
qed (simp_all add: held_def accept_world_def)


lemma acceptance_prepares_realms_witness:
  "\<exists>t h. runs (User_Accepted User_NewPhaseHandler accept_user) (EListRhpamDev ''ns'' (Inr [accept_dev]) # t)
      (Done (Inr (sample_user PhaseReconcile ''r1'' [] None), h)) \<and>
    dev_writes t = [sample_dev PhasePrepare ''r1'' [] None]"
proof -
  let ?E = "cluster (users_site realm_client ''r1'' [])" and ?m = "User_Accepted User_NewPhaseHandler accept_user"
  obtain ph' b where login: "exec ?E (User_authenticatedClient User_NewPhaseHandler) accept_world =
     (Done (Inr (client_interface realm_client), ph'), accept_world\<lparr>w_body := b\<rparr>)"
    using accept_logs_in by blast
  have "\<exists>w'. exec ?E ?m accept_world = (Done (Inr (adopted [accept_dev] accept_user), ph'), w')"
    using realm_loop.User_Accepted_exec [OF accept_list login] accept_ready(1,2) unfolding dir_of_update by blast
  then have run: "runs ?m (trace_of ?E ?m accept_world) (Done (Inr (adopted [accept_dev] accept_user), ph'))"
    using exec_runs [of ?m ?E accept_world] by auto
  have "\<exists>t. trace_of ?E ?m accept_world = EListRhpamDev (ru_Namespace accept_user) (Inr [accept_dev]) # t"
    by (simp add: User_Accepted_def accept_list(1))
  then obtain t where t: "trace_of ?E ?m accept_world = EListRhpamDev (ru_Namespace accept_user) (Inr [accept_dev]) # t" ..
  have "dev_writes t = to_prepare [accept_dev]"
    using acceptance_prepares_realms [OF run, THEN conjunct2] unfolding t by (auto split: if_split_asm)
  moreover have "to_prepare [accept_dev] = [sample_dev PhasePrepare ''r1'' [] None]"
    "adopted [accept_dev] accept_user = sample_user PhaseReconcile ''r1'' [] None" "ru_Namespace accept_user = ''ns''"
    by (simp_all add: adopted_Cons accept_dev_def accept_user_def adopt_realm_def setter_defs sample_dev_def sample_user_def sample_meta_def)
  ultimately show ?thesis using run t by auto
qed

end
