(* ===== verification/Spec2Isabelle.thy ===== *)
theory Spec2Isabelle
  imports Lifecycle RhpamdevProvision RhpamdevProperties RhpamuserProperties RoleServer
    KeycloakProperties TemplateFiles Histories Startup ResourceTemplates RealmTemplates Convergence DroppedErrors WorkBounds
    InstallationLive DeepCopies ProvisionedRealm Acceptance
begin

text \<open>
  The RHPAM development operator: a Kubernetes operator that installs Red Hat Process Automation
  Manager for developers and manages its users in Keycloak (SSO).

  THE PROGRAM. The process (cmd/manager/main.go) registers two controllers with a manager.
  The RhpamDev controller (pkg/controller/rhpamdev) takes an RhpamDev resource from phase to
  phase: it makes a realm with a user and two clients in Keycloak, waits until the realm is
  prepared, then installs the database, Business Central and the Kie server from YAML
  templates; when the resource is deleted it deletes the realm and what it installed. The
  RhpamUser controller (pkg/controller/rhpamuser) prepares the realms of new RhpamDev resources
  with default roles and users, and brings roles, users and role mappings of a realm in line
  with an RhpamUser resource. Both talk to Keycloak through pkg/keycloak, a REST client whose
  request bodies are made from JSON templates. The controllers meet in two places: the API
  server that stores the resources (the RhpamUser controller moves an RhpamDev from "realm
  provisioned" to "prepare provisioning") and the realm in Keycloak.

  HOW THE CODE IS MODELLED. A function without effects is a HOL function. A function that reads
  the environment, a file, the clock or the random source, visits a Go map, sends an HTTP
  request or calls the Kubernetes client is a value of the type \<^theory_text>\<open>'a io\<close> of
  theory Effects: a tree of calls with one subtree for every answer. Nothing is assumed of the
  answers there: \<^theory_text>\<open>runs m t out\<close> says that m can make exactly the calls and get exactly
  the answers of the trace t and end with the outcome out (returned, or panicked), and the
  properties of single reconciliations quantify over all runs. Against an environment with a
  state the same tree is executed by \<^theory_text>\<open>exec\<close>; the properties about what is achieved
  (installation, reconciliation of a realm) hold for each environment that keeps a stated
  contract. Errors are values (\<^theory_text>\<open>'a result\<close>, the left injection is a non-nil
  error), a nil pointer that is dereferenced is a panic, and a handler whose error the source
  drops goes on in the model as well.

  THE THEORIES, bottom up.
    Prelude: simplification collections, decimal formatting, association lists as Go maps.
    GoError, ApiTypes: error values; the structs of pkg/apis/rhpam/v1alpha1, one record each,
      and the phases as the strings they are in the source.
    Effects, Traces: calls, runs and executions; what a trace wrote, deleted and sent.
    Common: pkg/controller/common/utils.go, and the vendored functions on plain data that the
      handlers depend on (the controller reference, the watch namespace, sorted sets).
    GoJson, GoTemplate: encoding/json and text/template as far as the client and the
      templates use them, with their quirks (case folding of keys, null, panics of embedded
      nil pointers; no escaping).
    KeycloakTypes, KeycloakTemplates, KeycloakClient: pkg/keycloak, file by file;
      KeycloakContract states the interface KeycloakInterface as a locale with one law per
      method and shows that the Client keeps it; KeycloakProperties has the client's properties.
    SsoLogin: readSSOSecret and authenticatedClient, which both handlers share.
    RhpamdevConfig, RhpamdevHandler, RhpamdevController: pkg/controller/rhpamdev
      (constants, templateHelper.go, resourceHelper.go, initConfigmap*.go; phaseHandler.go;
      Reconcile). RhpamdevCalls has the lemma of each operation about its calls, RhpamdevInstall
      those about installing from templates, RhpamdevPhases the path of phases.
    RhpamuserHandler, RhpamuserController, RhpamuserCalls: pkg/controller/rhpamuser likewise.
    Startup: main.go, the scheme and the registration of both controllers.
    Cluster, Samples: the contract of the API server as an object store, a reference environment
      that keeps it, and concrete resources for the examples.
    TemplateFiles, ResourceTemplates, RealmTemplates: the templates of the repository, character
      by character: those of roles and users, of the resources, of realms and clients.
    RestExec, JsonTexts, RoleReconcile, RoleServer, UserReconcile, UserServer: a REST server with
      a state, what its answers mean to the client, and the reconciliation of roles and users on
      a server that behaves like Keycloak. RealmReconcile puts both together on one directory,
      the phase Reconcile as a whole; Convergence repeats it. Acceptance is about the phase
      Accepted: what it writes in every run, and what it leaves in a realm on such a server.
    DroppedErrors, WorkBounds: errors that the code loses; the number of calls that one
      reconciliation can make.
    MemoryCopies, DeepCopies: a memory of typed cells, and every method of the generated file
      zz_generated.deepcopy.go on it.
    Lifecycle, Histories: the abstract machine of an RhpamDev, and the interleavings of both
      controllers that it is refined by. InstallationLive: the installation comes to its end.
    RealmProvisioning, ProvisionedRealm: the phase "accepted" on a server that behaves like
      Keycloak, and a reference server that keeps realms and clients in the world of Cluster.

  WHAT IS SHOWN.
    One reconciliation (RhpamdevProperties, RhpamuserProperties, over every run): the phases
      written are a prefix of the path of the phase found, the whole of it on success; what a
      deletion requires before the finalizer is given up; the finalizer and the spec survive
      every other write; which objects, roles and users are never deleted; what errors leave
      behind.
    Provisioning and installing (RhpamdevProvision): the requests and secrets of a realm; the
      contract of createResource; installing is idempotent.
    Both controllers together (Lifecycle, Histories): every stored version of a resource is a
      step of the abstract machine from the version before, for every interleaving, with stale
      reads and crashes; the installation is in order.
    Liveness (InstallationLive): with an API server that keeps the contract of \<^theory_text>\<open>dev_store\<close>,
      readable templates and a database that gets ready, the operator reaches "complete" and
      everything is installed.
    Provisioning on a server (ProvisionedRealm): one reconciliation leaves the realm, its
      three clients and both secrets, and the secrets are those of the clients of this realm.
    Exactness (RoleServer, UserServer, RealmReconcile, Convergence): the reconciliation leaves
      exactly the roles and users asked for, and the defaults; repeating it settles after two
      rounds. The contract \<^theory_text>\<open>rest_users\<close> promises no more than Keycloak documents: a
      list asked for without a maximum is complete when the realm has at most 100 accounts, and
      an account has the name it was created with when the name is in lower case and plain.
      Outside these limits the code is not exact: accounts that are not listed are not removed,
      and a user with a capital in its name is deleted by the next round under its stored name.
    Acceptance (Acceptance): exactly the provisioned resources are moved on, each after the
      defaults were created in its realm, and the defaults are there on a server.
    Bounds (WorkBounds): how many writes, objects, deletions and requests one reconciliation can
      make.
    Copies (DeepCopies): a deep copy reads as the original and shares no memory with it, and
      what Reconcile changes in the copy is the update of the value that the rest of the model
      uses; this is why everywhere else a resource is a value and a copy of it is itself.
    The client and the templates (KeycloakProperties, TemplateFiles, ResourceTemplates): which
      answers are accepted, round trips of the form and of the JSON templates and their
      limits, what each resource template declares.
    Start-up (Startup): which calls main makes in which order, and what its exits leave.
  Each property stands after a text with its number; an example run follows it where it has
  hypotheses.

  INTERFACES. \<^theory_text>\<open>keycloak_rest\<close> (the methods of the client, as the handlers use
  them), \<^theory_text>\<open>object_store\<close> and \<^theory_text>\<open>dev_store\<close> (the API server), \<^theory_text>\<open>rest_server\<close>,
  \<^theory_text>\<open>rest_roles\<close>, \<^theory_text>\<open>rest_users\<close> (Keycloak's REST resources), \<^theory_text>\<open>keycloak_roles\<close>,
  \<^theory_text>\<open>keycloak_users\<close> (what the methods do to a realm; derived from the REST contracts by
  sublocale), \<^theory_text>\<open>rest_realm\<close> (both on one directory, which gives the other two),
  \<^theory_text>\<open>realm_provider\<close> (login, realms, clients and their secrets, beside \<^theory_text>\<open>dev_store\<close>),
  \<^theory_text>\<open>cell_kind\<close>, \<^theory_text>\<open>readable\<close> and \<^theory_text>\<open>deep_copy\<close> (what a copy of one Go type promises,
  interpreted for every type), the contracts of the template files, and \<^theory_text>\<open>installation\<close>. Each is interpreted on
  the model's own client or on the reference environment.

  BOUNDS AND FUEL. No definition of the model of the program has fuel: its loops run over lists.
  The JSON scanner and parser and the template parser step over one character or token. The
  requeueing of a controller is iterated by \<^theory_text>\<open>rounds\<close> in theory InstallationLive, and the
  number of rounds is part of what is proved to exist. int32 replica counts are integers, as
  they are only compared; durations are not modelled, only whether a request is repeated.

  NOT MODELLED. Logging, command line flags, TLS settings and the HTTP transport; the work
  queue of controller-runtime beyond "reconciliations of one controller follow one another";
  the SQL scripts of resources/ (their content passes through the config map unread);
  YAML parsing (an answer of the environment) apart from the lines that name an object; vendored
  libraries except the functions named above; of the metadata of a resource the fields that the
  operator never touches.
\<close>

end
